(* ===== verification/Prelude.thy ===== *)
theory Prelude
  imports Main "HOL-Library.Word"
begin

text \<open>
  Shared vocabulary of the development: the machine integers of the Rust program, the
  three-way outcome of a Rust computation (a value, an error return, a panic), checked
  and saturating arithmetic on machine words, and the little-endian byte encoding the
  account layouts and the instruction data use.

  The crate is built with \<^verbatim>\<open>overflow-checks = true\<close> (workspace \<^verbatim>\<open>Cargo.toml\<close>), so a plain
  \<^verbatim>\<open>+\<close>, \<^verbatim>\<open>-\<close> or \<^verbatim>\<open>*\<close> that overflows is a panic, exactly as \<^verbatim>\<open>unwrap()\<close> of a checked
  operation that returned \<^verbatim>\<open>None\<close>.
\<close>

section \<open>Machine integers\<close>

type_synonym u8 = "8 word"
type_synonym u16 = "16 word"
type_synonym u32 = "32 word"
type_synonym u64 = "64 word"
type_synonym u128 = "128 word"
type_synonym u256 = "256 word"
type_synonym bytes = "u8 list"

text \<open>
  A \<^verbatim>\<open>Pubkey\<close> is an array of 32 bytes; it is represented by the 256-bit number whose
  little-endian bytes are the array (a bijection, see \<open>le_bytes_inverse\<close> below).
\<close>

type_synonym pubkey = "256 word"

abbreviation default_pubkey :: pubkey where
  "default_pubkey \<equiv> 0"

named_theorems word_arith \<open>characterisations of checked arithmetic on natural numbers\<close>
named_theorems codec \<open>lengths and round trips of byte encodings\<close>
named_theorems outcome \<open>inversion of successful outcomes\<close>

section \<open>Outcomes\<close>

datatype ('e, 'a) outcome = Ok 'a | Err 'e | Panic

primrec rbind :: "('e, 'a) outcome \<Rightarrow> ('a \<Rightarrow> ('e, 'b) outcome) \<Rightarrow> ('e, 'b) outcome" where
  "rbind (Ok x) f = f x"
| "rbind (Err e) f = Err e"
| "rbind Panic f = Panic"

primrec map_err :: "('e \<Rightarrow> 'f) \<Rightarrow> ('e, 'a) outcome \<Rightarrow> ('f, 'a) outcome" where
  "map_err g (Ok x) = Ok x"
| "map_err g (Err e) = Err (g e)"
| "map_err g Panic = Panic"

definition unwrap :: "'a option \<Rightarrow> ('e, 'a) outcome" where
  "unwrap x = (case x of None \<Rightarrow> Panic | Some y \<Rightarrow> Ok y)"

definition ok_or :: "'e \<Rightarrow> 'a option \<Rightarrow> ('e, 'a) outcome" where
  "ok_or e x = (case x of None \<Rightarrow> Err e | Some y \<Rightarrow> Ok y)"

text \<open>\<^verbatim>\<open>unwrap()\<close> of a \<^verbatim>\<open>Result\<close>, and indexing of a slice, which panics out of range.\<close>

primrec unwrap_res :: "('e, 'a) outcome \<Rightarrow> ('f, 'a) outcome" where
  "unwrap_res (Ok x) = Ok x"
| "unwrap_res (Err e) = Panic"
| "unwrap_res Panic = Panic"

definition index_at :: "'a list \<Rightarrow> nat \<Rightarrow> ('e, 'a) outcome" where
  "index_at xs i = (if i < length xs then Ok (xs ! i) else Panic)"

text \<open>A loop whose body may return early or panic: the body run over a list, left to right.\<close>

primrec fold_outcome :: "('x \<Rightarrow> 's \<Rightarrow> ('e, 's) outcome) \<Rightarrow> 'x list \<Rightarrow> 's \<Rightarrow> ('e, 's) outcome" where
  "fold_outcome f [] s = Ok s"
| "fold_outcome f (x # xs) s = rbind (f x s) (fold_outcome f xs)"

definition is_ok :: "('e, 'a) outcome \<Rightarrow> bool" where
  "is_ok r = (case r of Ok _ \<Rightarrow> True | _ \<Rightarrow> False)"

lemma is_ok_simps [simp]: "is_ok (Ok x)" "\<not> is_ok (Err e)" "\<not> is_ok Panic"
  by (simp_all add: is_ok_def)

lemma is_ok_iff: "is_ok r \<longleftrightarrow> (\<exists>x. r = Ok x)"
  by (cases r) auto

lemma rbind_Ok_iff [outcome]: "rbind m f = Ok y \<longleftrightarrow> (\<exists>x. m = Ok x \<and> f x = Ok y)"
  by (cases m) auto

lemma rbind_assoc: "rbind (rbind m f) g = rbind m (\<lambda>x. rbind (f x) g)"
  by (cases m) auto

lemma map_err_Ok_iff [outcome]: "map_err g m = Ok y \<longleftrightarrow> m = Ok y"
  by (cases m) auto

lemma unwrap_Ok_iff [outcome]: "unwrap x = Ok y \<longleftrightarrow> x = Some y"
  by (cases x) (auto simp: unwrap_def)

lemma ok_or_Ok_iff [outcome]: "ok_or e x = Ok y \<longleftrightarrow> x = Some y"
  by (cases x) (auto simp: ok_or_def)

lemma unwrap_res_Ok_iff [outcome]: "unwrap_res m = Ok y \<longleftrightarrow> m = Ok y"
  by (cases m) auto

lemma index_at_Ok_iff [outcome]: "index_at xs i = Ok y \<longleftrightarrow> i < length xs \<and> y = xs ! i"
  by (auto simp: index_at_def)

lemma fold_outcome_append:
  "fold_outcome f (xs @ ys) s = rbind (fold_outcome f xs s) (fold_outcome f ys)"
proof (induction xs arbitrary: s)
  case (Cons x xs)
  then show ?case by (cases "f x s") simp_all
qed simp

lemma unwrap_simps [simp]: "unwrap (Some x) = Ok x" "unwrap None = Panic"
  by (simp_all add: unwrap_def)

lemma ok_or_simps [simp]: "ok_or e (Some x) = Ok x" "ok_or e None = Err e"
  by (simp_all add: ok_or_def)

lemma if_Err_Ok_iff [outcome]: "(if b then Err e else m) = Ok y \<longleftrightarrow> \<not> b \<and> m = Ok y"
  by auto

lemma if_Panic_Ok_iff [outcome]: "(if b then Panic else m) = Ok y \<longleftrightarrow> \<not> b \<and> m = Ok y"
  by auto

lemma Ok_if_Err_iff [outcome]: "(if b then m else Err e) = Ok y \<longleftrightarrow> b \<and> m = Ok y"
  by auto

lemma rbind_not_ok: "(\<And>x. m = Ok x \<Longrightarrow> \<not> is_ok (f x)) \<Longrightarrow> \<not> is_ok (rbind m f)"
  by (cases m) auto

section \<open>Checked arithmetic on machine words\<close>

definition checked_add :: "'a::len word \<Rightarrow> 'a word \<Rightarrow> 'a word option" where
  "checked_add a b = (if unat a + unat b < 2 ^ LENGTH('a) then Some (a + b) else None)"

definition checked_sub :: "'a::len word \<Rightarrow> 'a word \<Rightarrow> 'a word option" where
  "checked_sub a b = (if b \<le> a then Some (a - b) else None)"

definition checked_mul :: "'a::len word \<Rightarrow> 'a word \<Rightarrow> 'a word option" where
  "checked_mul a b = (if unat a * unat b < 2 ^ LENGTH('a) then Some (a * b) else None)"

definition checked_div :: "'a::len word \<Rightarrow> 'a word \<Rightarrow> 'a word option" where
  "checked_div a b = (if b = 0 then None else Some (a div b))"

definition checked_rem :: "'a::len word \<Rightarrow> 'a word \<Rightarrow> 'a word option" where
  "checked_rem a b = (if b = 0 then None else Some (a mod b))"

definition checked_pow :: "'a::len word \<Rightarrow> nat \<Rightarrow> 'a word option" where
  "checked_pow a n = (if unat a ^ n < 2 ^ LENGTH('a) then Some (a ^ n) else None)"

definition saturating_add :: "'a::len word \<Rightarrow> 'a word \<Rightarrow> 'a word" where
  "saturating_add a b = (if unat a + unat b < 2 ^ LENGTH('a) then a + b else - 1)"

definition saturating_sub :: "'a::len word \<Rightarrow> 'a word \<Rightarrow> 'a word" where
  "saturating_sub a b = (if b \<le> a then a - b else 0)"

text \<open>\<^verbatim>\<open>try_into\<close> to a narrower type and the panicking \<^verbatim>\<open>as_u64\<close> of \<^verbatim>\<open>construct_uint!\<close>.\<close>

definition try_narrow :: "'a::len word \<Rightarrow> 'b::len word option" where
  "try_narrow x = (if unat x < 2 ^ LENGTH('b) then Some (ucast x) else None)"

lemma unat_lt [simp, intro]: "unat (x :: 'a::len word) < 2 ^ LENGTH('a)"
  by simp

lemma u64_lt: "unat (x :: u64) < 2 ^ 64"
  using unsigned_less [of x] by simp

lemma u128_lt: "unat (x :: u128) < 2 ^ 128"
  using unsigned_less [of x] by simp

lemma checked_add_Some_iff [word_arith]:
  "checked_add a b = Some (c :: 'a::len word) \<longleftrightarrow> unat c = unat a + unat b"
proof
  assume "checked_add a b = Some c"
  then show "unat c = unat a + unat b"
    by (auto simp: checked_add_def unat_word_ariths split: if_splits)
next
  assume c: "unat c = unat a + unat b"
  moreover have "unat c < 2 ^ LENGTH('a)" by simp
  ultimately have lt: "unat a + unat b < 2 ^ LENGTH('a)" by simp
  then have "unat (a + b) = unat c" using c by (simp add: unat_word_ariths)
  then have "a + b = c" by (rule unsigned_word_eqI)
  with lt show "checked_add a b = Some c" by (simp add: checked_add_def)
qed

lemma checked_add_value: "checked_add a b = Some c \<Longrightarrow> c = a + b \<and> unat (a + b) = unat a + unat b"
proof -
  assume a: "checked_add a b = Some c"
  then have "c = a + b" by (simp add: checked_add_def split: if_splits)
  with a show ?thesis by (simp add: checked_add_Some_iff)
qed

lemma checked_sub_Some_iff [word_arith]:
  "checked_sub a b = Some (c :: 'a::len word) \<longleftrightarrow> unat a = unat c + unat b"
proof
  assume "checked_sub a b = Some c"
  then have le: "b \<le> a" and c: "c = a - b" by (auto simp: checked_sub_def split: if_splits)
  from le have "unat b \<le> unat a" by (simp add: word_le_nat_alt)
  then show "unat a = unat c + unat b"
    using c le by (simp add: unat_sub)
next
  assume c: "unat a = unat c + unat b"
  then have le: "b \<le> a" by (simp add: word_le_nat_alt)
  then have "unat (a - b) = unat c" using c by (simp add: unat_sub)
  then have "a - b = c" by (rule unsigned_word_eqI)
  with le show "checked_sub a b = Some c" by (simp add: checked_sub_def)
qed

lemma checked_mul_Some_iff [word_arith]:
  "checked_mul a b = Some (c :: 'a::len word) \<longleftrightarrow> unat c = unat a * unat b"
proof
  assume "checked_mul a b = Some c"
  then show "unat c = unat a * unat b"
    by (auto simp: checked_mul_def unat_word_ariths split: if_splits)
next
  assume c: "unat c = unat a * unat b"
  moreover have "unat c < 2 ^ LENGTH('a)" by simp
  ultimately have lt: "unat a * unat b < 2 ^ LENGTH('a)" by simp
  then have "unat (a * b) = unat c" using c by (simp add: unat_word_ariths)
  then have "a * b = c" by (rule unsigned_word_eqI)
  with lt show "checked_mul a b = Some c" by (simp add: checked_mul_def)
qed

lemma unat_eq_0_iff [simp]: "unat (b :: 'a::len word) = 0 \<longleftrightarrow> b = 0"
  by (simp add: unat_eq_zero)

lemma unat_pos_iff [simp]: "0 < unat (b :: 'a::len word) \<longleftrightarrow> b \<noteq> 0"
  by (rule unat_gt_0)

lemma checked_div_Some_iff [word_arith]:
  "checked_div a b = Some (c :: 'a::len word) \<longleftrightarrow> unat b \<noteq> 0 \<and> unat c = unat a div unat b"
  by (auto simp: checked_div_def unat_div_distrib intro: word_unat_eq_iff [THEN iffD2])

lemma checked_rem_Some_iff [word_arith]:
  "checked_rem a b = Some (c :: 'a::len word) \<longleftrightarrow> unat b \<noteq> 0 \<and> unat c = unat a mod unat b"
  by (auto simp: checked_rem_def unat_mod_distrib intro: word_unat_eq_iff [THEN iffD2])

lemma checked_div_ex:
  "unat b \<noteq> 0 \<Longrightarrow> \<exists>c. checked_div a b = Some c \<and> unat c = unat a div unat (b :: 'a::len word)"
  by (simp add: checked_div_def unat_div_distrib)

lemma checked_rem_ex:
  "unat b \<noteq> 0 \<Longrightarrow> \<exists>c. checked_rem a b = Some c \<and> unat c = unat a mod unat (b :: 'a::len word)"
  by (simp add: checked_rem_def unat_mod_distrib)

lemma unat_power_small:
  fixes a :: "'a::len word"
  assumes "unat a ^ n < 2 ^ LENGTH('a)"
  shows "unat (a ^ n) = unat a ^ n"
proof -
  have "unat (a ^ n) = unat (word_of_nat (unat a ^ n) :: 'a word)"
    by (simp only: of_nat_power of_nat_unat ucast_id)
  also have "\<dots> = unat a ^ n"
    using assms by (simp only: unat_of_nat mod_less)
  finally show ?thesis .
qed

lemma checked_pow_Some_iff [word_arith]:
  "checked_pow a n = Some (c :: 'a::len word) \<longleftrightarrow> unat c = unat a ^ n"
proof
  assume "checked_pow a n = Some c"
  then show "unat c = unat a ^ n"
    by (auto simp: checked_pow_def unat_power_small split: if_splits)
next
  assume c: "unat c = unat a ^ n"
  moreover have "unat c < 2 ^ LENGTH('a)" by simp
  ultimately have lt: "unat a ^ n < 2 ^ LENGTH('a)" by simp
  then have "unat (a ^ n) = unat c" using c by (simp add: unat_power_small)
  then have "a ^ n = c" by (rule unsigned_word_eqI)
  with lt show "checked_pow a n = Some c" by (simp add: checked_pow_def)
qed

lemma unat_saturating_add:
  "unat (saturating_add a (b :: 'a::len word)) = min (unat a + unat b) (2 ^ LENGTH('a) - 1)"
  by (auto simp: saturating_add_def unat_word_ariths unsigned_minus_1_eq_mask mask_eq_exp_minus_1)

lemma unat_saturating_sub:
  "unat (saturating_sub a (b :: 'a::len word)) = unat a - unat b"
  by (auto simp: saturating_sub_def unat_sub word_le_nat_alt)

lemma try_narrow_Some_iff [word_arith]:
  "try_narrow (x :: 'a::len word) = Some (y :: 'b::len word) \<longleftrightarrow> unat y = unat x"
proof
  assume "try_narrow x = Some y"
  then show "unat y = unat x"
    by (auto simp: try_narrow_def unsigned_ucast_eq take_bit_nat_eq_self split: if_splits)
next
  assume y: "unat y = unat x"
  moreover have "unat y < 2 ^ LENGTH('b)" by simp
  ultimately have lt: "unat x < 2 ^ LENGTH('b)" by simp
  then have "unat (ucast x :: 'b word) = unat y"
    using y by (simp add: unsigned_ucast_eq take_bit_nat_eq_self)
  then have "ucast x = y" by (rule unsigned_word_eqI)
  with lt show "try_narrow x = Some y" by (simp add: try_narrow_def)
qed

text \<open>Widening casts (\<^verbatim>\<open>From\<close>, \<^verbatim>\<open>as\<close> to a wider type) keep the value.\<close>

lemma unat_widen [simp]:
  "unat (ucast (b :: 8 word) :: 64 word) = unat b"
  "unat (ucast (b :: 8 word) :: 128 word) = unat b"
  "unat (ucast (x :: 64 word) :: 128 word) = unat x"
  "unat (ucast (x :: 64 word) :: 256 word) = unat x"
  by (simp_all add: unsigned_ucast_eq take_bit_nat_eq_self less_le_trans [OF unsigned_less])

section \<open>Little-endian bytes\<close>

primrec nat_bytes :: "nat \<Rightarrow> nat \<Rightarrow> bytes" where
  "nat_bytes 0 x = []"
| "nat_bytes (Suc n) x = word_of_nat x # nat_bytes n (x div 256)"

primrec bytes_nat :: "bytes \<Rightarrow> nat" where
  "bytes_nat [] = 0"
| "bytes_nat (b # bs) = unat b + 256 * bytes_nat bs"

definition le_bytes :: "nat \<Rightarrow> 'a::len word \<Rightarrow> bytes" where
  "le_bytes n w = nat_bytes n (unat w)"

definition from_le_bytes :: "bytes \<Rightarrow> 'a::len word" where
  "from_le_bytes bs = word_of_nat (bytes_nat bs)"

lemma length_nat_bytes [simp, codec]: "length (nat_bytes n x) = n"
  by (induction n arbitrary: x) auto

lemma length_le_bytes [simp, codec]: "length (le_bytes n w) = n"
  by (simp add: le_bytes_def)

lemma bytes_nat_nat_bytes: "bytes_nat (nat_bytes n x) = x mod 256 ^ n"
proof (induction n arbitrary: x)
  case 0
  then show ?case by simp
next
  case (Suc n)
  have "unat (word_of_nat x :: u8) = x mod 256" by (simp add: unat_of_nat)
  then show ?case using Suc by (simp add: mod_mult2_eq)
qed

lemma bytes_nat_lt: "bytes_nat bs < 256 ^ length bs"
proof (induction bs)
  case Nil
  then show ?case by simp
next
  case (Cons b bs)
  have "unat b < 256" using unsigned_less [of b] by simp
  with Cons show ?case by simp
qed

lemma nat_bytes_bytes_nat: "nat_bytes (length bs) (bytes_nat bs) = bs"
proof (induction bs)
  case Nil
  then show ?case by simp
next
  case (Cons b bs)
  have b: "unat b < 256" using unsigned_less [of b] by simp
  then have "(unat b + 256 * bytes_nat bs) div 256 = bytes_nat bs" by simp
  moreover have "word_of_nat (unat b + 256 * bytes_nat bs) = b"
  proof -
    have "(256 :: u8) = 0" by simp
    then show ?thesis by (simp only: of_nat_add of_nat_mult of_nat_numeral of_nat_unat) simp
  qed
  ultimately show ?case using Cons by simp
qed

lemma from_le_bytes_inverse [codec]:
  assumes "LENGTH('a) \<le> 8 * n"
  shows "from_le_bytes (le_bytes n (w :: 'a::len word)) = w"
proof -
  have "unat w < 2 ^ LENGTH('a)" by simp
  also have "\<dots> \<le> (2::nat) ^ (8 * n)" using assms by (rule power_increasing) simp
  also have "\<dots> = 256 ^ n" by (simp add: power_mult)
  finally show ?thesis
    by (simp add: from_le_bytes_def le_bytes_def bytes_nat_nat_bytes)
qed

lemma le_bytes_inverse [codec]:
  assumes "length bs = n" and "8 * n \<le> LENGTH('a)"
  shows "le_bytes n (from_le_bytes bs :: 'a::len word) = bs"
proof -
  have "bytes_nat bs < 256 ^ n" using bytes_nat_lt [of bs] assms(1) by simp
  also have "(256::nat) ^ n = 2 ^ (8 * n)" by (simp add: power_mult)
  also have "\<dots> \<le> 2 ^ LENGTH('a)" using assms(2) by (rule power_increasing) simp
  finally have "unat (from_le_bytes bs :: 'a word) = bytes_nat bs"
    by (simp add: from_le_bytes_def unat_of_nat)
  then show ?thesis
    using assms(1) nat_bytes_bytes_nat [of bs] by (simp add: le_bytes_def)
qed

section \<open>Lists\<close>

lemma nth_append_length_Cons [simp]: "(xs @ y # ys) ! length xs = y"
  by (simp add: nth_append)

lemma take_Suc_nth: "i < length xs \<Longrightarrow> take (Suc i) xs = take i xs @ [xs ! i]"
  by (rule take_Suc_conv_app_nth)

lemma sorted_wrt_insort_map:
  "sorted_wrt (\<lambda>a b. f a \<le> f b) (sort_key (f :: 'a \<Rightarrow> 'b::linorder) xs)"
  using sorted_sort_key [of f xs] by (simp add: sorted_map)

end
