(* ===== verification/Errors.thy ===== *)
theory Errors
  imports Prelude
begin

text \<open>
  The error values of the program: \<^verbatim>\<open>AmmError\<close> of \<^verbatim>\<open>src/error.rs\<close> with its numeric codes, its
  conversion into the runtime's \<^verbatim>\<open>ProgramError\<close>, and the messages of \<^verbatim>\<open>AmmError::print\<close>.
  The constructors of \<open>program_error\<close> are those of the runtime's enum the program returns
  or compares; \<open>PE_Other\<close> stands for an error of another program.
\<close>

section \<open>AmmError\<close>

datatype amm_error =
    AlreadyInUse
  | InvalidProgramAddress
  | ExpectedMint
  | ExpectedAccount
  | InvalidCoinVault
  | InvalidPCVault
  | InvalidTokenLP
  | InvalidDestTokenCoin
  | InvalidDestTokenPC
  | InvalidPoolMint
  | InvalidOpenOrders
  | InvalidMarket
  | InvalidMarketProgram
  | InvalidTargetOrders
  | AccountNeedWriteable
  | AccountNeedReadOnly
  | InvalidCoinMint
  | InvalidPCMint
  | InvalidOwner
  | InvalidSupply
  | InvalidDelegate
  | InvalidSignAccount
  | InvalidStatus
  | InvalidInstruction
  | WrongAccountsNumber
  | InvalidTargetAccountOwner
  | InvalidTargetOwner
  | InvalidAmmAccountOwner
  | InvalidParamsSet
  | InvalidInput
  | ExceededSlippage
  | CalculationExRateFailure
  | CheckedSubOverflow
  | CheckedAddOverflow
  | CheckedMulOverflow
  | CheckedDivOverflow
  | CheckedEmptyFunds
  | CalcPnlError
  | InvalidSplTokenProgram
  | TakePnlError
  | InsufficientFunds
  | ConversionFailure
  | InvalidUserToken
  | InvalidSrmMint
  | InvalidSrmToken
  | TooManyOpenOrders
  | OrderAtSlotIsPlaced
  | InvalidSysProgramAddress
  | InvalidFee
  | RepeatCreateAmm
  | NotAllowZeroLP
  | InvalidCloseAuthority
  | InvalidFreezeAuthority
  | InvalidReferPCMint
  | InvalidConfigAccount
  | RepeatCreateConfigAccount
  | MarketLotSizeIsTooLarge
  | InitLpAmountTooLess
  | UnknownAmmError
  | TransferHookNotWhitelisted
  | WhitelistFull
  | TransferHookError
  | InvalidWhitelistAccount
  | InvalidSystemProgram
  | HookMetaListNotFound
  | HookMetaListInvalid
  | HookMetaListAutoInitFailed
  | HookProgramNotSupportedForAutoInit

definition amm_errors :: "amm_error list" where
  "amm_errors =
    [AlreadyInUse,
     InvalidProgramAddress,
     ExpectedMint,
     ExpectedAccount,
     InvalidCoinVault,
     InvalidPCVault,
     InvalidTokenLP,
     InvalidDestTokenCoin,
     InvalidDestTokenPC,
     InvalidPoolMint,
     InvalidOpenOrders,
     InvalidMarket,
     InvalidMarketProgram,
     InvalidTargetOrders,
     AccountNeedWriteable,
     AccountNeedReadOnly,
     InvalidCoinMint,
     InvalidPCMint,
     InvalidOwner,
     InvalidSupply,
     InvalidDelegate,
     InvalidSignAccount,
     InvalidStatus,
     InvalidInstruction,
     WrongAccountsNumber,
     InvalidTargetAccountOwner,
     InvalidTargetOwner,
     InvalidAmmAccountOwner,
     InvalidParamsSet,
     InvalidInput,
     ExceededSlippage,
     CalculationExRateFailure,
     CheckedSubOverflow,
     CheckedAddOverflow,
     CheckedMulOverflow,
     CheckedDivOverflow,
     CheckedEmptyFunds,
     CalcPnlError,
     InvalidSplTokenProgram,
     TakePnlError,
     InsufficientFunds,
     ConversionFailure,
     InvalidUserToken,
     InvalidSrmMint,
     InvalidSrmToken,
     TooManyOpenOrders,
     OrderAtSlotIsPlaced,
     InvalidSysProgramAddress,
     InvalidFee,
     RepeatCreateAmm,
     NotAllowZeroLP,
     InvalidCloseAuthority,
     InvalidFreezeAuthority,
     InvalidReferPCMint,
     InvalidConfigAccount,
     RepeatCreateConfigAccount,
     MarketLotSizeIsTooLarge,
     InitLpAmountTooLess,
     UnknownAmmError,
     TransferHookNotWhitelisted,
     WhitelistFull,
     TransferHookError,
     InvalidWhitelistAccount,
     InvalidSystemProgram,
     HookMetaListNotFound,
     HookMetaListInvalid,
     HookMetaListAutoInitFailed,
     HookProgramNotSupportedForAutoInit]"

text \<open>The discriminants: \<^verbatim>\<open>e as u32\<close>, counted from 0 in declaration order.\<close>

primrec amm_error_code :: "amm_error \<Rightarrow> nat" where
  "amm_error_code AlreadyInUse = 0"
| "amm_error_code InvalidProgramAddress = 1"
| "amm_error_code ExpectedMint = 2"
| "amm_error_code ExpectedAccount = 3"
| "amm_error_code InvalidCoinVault = 4"
| "amm_error_code InvalidPCVault = 5"
| "amm_error_code InvalidTokenLP = 6"
| "amm_error_code InvalidDestTokenCoin = 7"
| "amm_error_code InvalidDestTokenPC = 8"
| "amm_error_code InvalidPoolMint = 9"
| "amm_error_code InvalidOpenOrders = 10"
| "amm_error_code InvalidMarket = 11"
| "amm_error_code InvalidMarketProgram = 12"
| "amm_error_code InvalidTargetOrders = 13"
| "amm_error_code AccountNeedWriteable = 14"
| "amm_error_code AccountNeedReadOnly = 15"
| "amm_error_code InvalidCoinMint = 16"
| "amm_error_code InvalidPCMint = 17"
| "amm_error_code InvalidOwner = 18"
| "amm_error_code InvalidSupply = 19"
| "amm_error_code InvalidDelegate = 20"
| "amm_error_code InvalidSignAccount = 21"
| "amm_error_code InvalidStatus = 22"
| "amm_error_code InvalidInstruction = 23"
| "amm_error_code WrongAccountsNumber = 24"
| "amm_error_code InvalidTargetAccountOwner = 25"
| "amm_error_code InvalidTargetOwner = 26"
| "amm_error_code InvalidAmmAccountOwner = 27"
| "amm_error_code InvalidParamsSet = 28"
| "amm_error_code InvalidInput = 29"
| "amm_error_code ExceededSlippage = 30"
| "amm_error_code CalculationExRateFailure = 31"
| "amm_error_code CheckedSubOverflow = 32"
| "amm_error_code CheckedAddOverflow = 33"
| "amm_error_code CheckedMulOverflow = 34"
| "amm_error_code CheckedDivOverflow = 35"
| "amm_error_code CheckedEmptyFunds = 36"
| "amm_error_code CalcPnlError = 37"
| "amm_error_code InvalidSplTokenProgram = 38"
| "amm_error_code TakePnlError = 39"
| "amm_error_code InsufficientFunds = 40"
| "amm_error_code ConversionFailure = 41"
| "amm_error_code InvalidUserToken = 42"
| "amm_error_code InvalidSrmMint = 43"
| "amm_error_code InvalidSrmToken = 44"
| "amm_error_code TooManyOpenOrders = 45"
| "amm_error_code OrderAtSlotIsPlaced = 46"
| "amm_error_code InvalidSysProgramAddress = 47"
| "amm_error_code InvalidFee = 48"
| "amm_error_code RepeatCreateAmm = 49"
| "amm_error_code NotAllowZeroLP = 50"
| "amm_error_code InvalidCloseAuthority = 51"
| "amm_error_code InvalidFreezeAuthority = 52"
| "amm_error_code InvalidReferPCMint = 53"
| "amm_error_code InvalidConfigAccount = 54"
| "amm_error_code RepeatCreateConfigAccount = 55"
| "amm_error_code MarketLotSizeIsTooLarge = 56"
| "amm_error_code InitLpAmountTooLess = 57"
| "amm_error_code UnknownAmmError = 58"
| "amm_error_code TransferHookNotWhitelisted = 59"
| "amm_error_code WhitelistFull = 60"
| "amm_error_code TransferHookError = 61"
| "amm_error_code InvalidWhitelistAccount = 62"
| "amm_error_code InvalidSystemProgram = 63"
| "amm_error_code HookMetaListNotFound = 64"
| "amm_error_code HookMetaListInvalid = 65"
| "amm_error_code HookMetaListAutoInitFailed = 66"
| "amm_error_code HookProgramNotSupportedForAutoInit = 67"

text \<open>\<^verbatim>\<open>#[derive(FromPrimitive)]\<close>: the variant with a given discriminant.\<close>

definition amm_error_from_code :: "nat \<Rightarrow> amm_error option" where
  "amm_error_from_code n = (if n < length amm_errors then Some (amm_errors ! n) else None)"

text \<open>\<^verbatim>\<open>AmmError::print\<close>: the logged message.\<close>

primrec amm_error_message :: "amm_error \<Rightarrow> string" where
  "amm_error_message AlreadyInUse = ''Error: AlreadyInUse''"
| "amm_error_message InvalidProgramAddress = ''Error: InvalidProgramAddress''"
| "amm_error_message ExpectedMint = ''Error: ExpectedMint''"
| "amm_error_message ExpectedAccount = ''Error: ExpectedAccount''"
| "amm_error_message InvalidCoinVault = ''Error: InvalidCoinVault''"
| "amm_error_message InvalidPCVault = ''Error: InvalidPCVault''"
| "amm_error_message InvalidTokenLP = ''Error: InvalidTokenLP''"
| "amm_error_message InvalidDestTokenCoin = ''Error: InvalidDestTokenCoin''"
| "amm_error_message InvalidDestTokenPC = ''Error: InvalidDestTokenPC''"
| "amm_error_message InvalidPoolMint = ''Error: InvalidPoolMint''"
| "amm_error_message InvalidOpenOrders = ''Error: InvalidOpenOrders''"
| "amm_error_message InvalidMarket = ''Error: InvalidMarket''"
| "amm_error_message InvalidMarketProgram = ''Error: InvalidMarketProgram''"
| "amm_error_message InvalidTargetOrders = ''Error: InvalidTargetOrders''"
| "amm_error_message AccountNeedWriteable = ''Error: AccountNeedWriteable''"
| "amm_error_message AccountNeedReadOnly = ''Error: AccountNeedReadOnly''"
| "amm_error_message InvalidCoinMint = ''Error: InvalidCoinMint''"
| "amm_error_message InvalidPCMint = ''Error: InvalidPCMint''"
| "amm_error_message InvalidOwner = ''Error: InvalidOwner''"
| "amm_error_message InvalidSupply = ''Error: InvalidSupply''"
| "amm_error_message InvalidDelegate = ''Error: InvalidDelegate''"
| "amm_error_message InvalidSignAccount = ''Error: Invalid Sign Account''"
| "amm_error_message InvalidStatus = ''Error: InvalidStatus''"
| "amm_error_message InvalidInstruction = ''Error: InvalidInstruction''"
| "amm_error_message WrongAccountsNumber = ''Error: WrongAccountsNumber''"
| "amm_error_message InvalidTargetAccountOwner = ''Error: The target account owner is not match with this program''"
| "amm_error_message InvalidTargetOwner = ''Error: The owner saved in target is not match with this amm pool''"
| "amm_error_message InvalidAmmAccountOwner = ''Error: The amm account owner is not match with this program''"
| "amm_error_message InvalidParamsSet = ''Error: Params Set is Invalid''"
| "amm_error_message InvalidInput = ''Error: InvalidInput''"
| "amm_error_message ExceededSlippage = ''Error: exceeds desired slippage limit''"
| "amm_error_message CalculationExRateFailure = ''Error: CalculationExRateFailure''"
| "amm_error_message CheckedSubOverflow = ''Error: Checked_Sub Overflow''"
| "amm_error_message CheckedAddOverflow = ''Error: Checked_Add Overflow''"
| "amm_error_message CheckedMulOverflow = ''Error: Checked_Mul Overflow''"
| "amm_error_message CheckedDivOverflow = ''Error: Checked_Div Overflow''"
| "amm_error_message CheckedEmptyFunds = ''Error: CheckedEmptyFunds''"
| "amm_error_message CalcPnlError = ''Error: CalcPnlError''"
| "amm_error_message InvalidSplTokenProgram = ''Error: InvalidSplTokenProgram''"
| "amm_error_message TakePnlError = ''Error: TakePnlError''"
| "amm_error_message InsufficientFunds = ''Error: insufficient funds''"
| "amm_error_message ConversionFailure = ''Error: Conversion to or from u64 failed.''"
| "amm_error_message InvalidUserToken = ''Error: User token input does not match amm''"
| "amm_error_message InvalidSrmMint = ''Error: InvalidSrmMint''"
| "amm_error_message InvalidSrmToken = ''Error: InvalidSrmToken''"
| "amm_error_message TooManyOpenOrders = ''Error: TooManyOpenOrders''"
| "amm_error_message OrderAtSlotIsPlaced = ''Error: OrderAtSlotIsPlaced''"
| "amm_error_message InvalidSysProgramAddress = ''Error: InvalidSysProgramAddress''"
| "amm_error_message InvalidFee = ''Error: InvalidFee''"
| "amm_error_message RepeatCreateAmm = ''Error: RepeatCreateAmm''"
| "amm_error_message NotAllowZeroLP = ''Error: NotAllowZeroLP''"
| "amm_error_message InvalidCloseAuthority = ''Error: Token account has a close authority''"
| "amm_error_message InvalidFreezeAuthority = ''Error: Pool token mint has a freeze authority''"
| "amm_error_message InvalidReferPCMint = ''Error: InvalidReferPCMint''"
| "amm_error_message InvalidConfigAccount = ''Error: InvalidConfigAccount''"
| "amm_error_message RepeatCreateConfigAccount = ''Error: RepeatCreateConfigAccount''"
| "amm_error_message MarketLotSizeIsTooLarge = ''Error: Market lotSize is too large''"
| "amm_error_message InitLpAmountTooLess = ''Error: Init lp amount is too less(Because 10**lp_decimals amount lp will be locked)''"
| "amm_error_message UnknownAmmError = ''Error: UnknownAmmError''"
| "amm_error_message TransferHookNotWhitelisted = ''Error: Transfer hook program not whitelisted''"
| "amm_error_message WhitelistFull = ''Error: Whitelist is full (max 100 hooks)''"
| "amm_error_message TransferHookError = ''Error: Transfer hook error''"
| "amm_error_message InvalidWhitelistAccount = ''Error: Invalid whitelist account''"
| "amm_error_message InvalidSystemProgram = ''Error: Invalid system program''"
| "amm_error_message HookMetaListNotFound = ''Error: Hook meta list not found''"
| "amm_error_message HookMetaListInvalid = ''Error: Hook meta list invalid''"
| "amm_error_message HookMetaListAutoInitFailed = ''Error: Auto-initialization of hook meta list failed''"
| "amm_error_message HookProgramNotSupportedForAutoInit = ''Error: Hook program not supported for auto-initialization''"

section \<open>ProgramError\<close>

datatype program_error =
    PE_Custom u32
  | PE_InvalidArgument
  | PE_InvalidInstructionData
  | PE_InvalidAccountData
  | PE_NotEnoughAccountKeys
  | PE_MissingRequiredSignature
  | PE_AccountAlreadyInitialized
  | PE_UninitializedAccount
  | PE_AccountBorrowFailed
  | PE_InvalidSeeds
  | PE_InvalidAccountOwner
  | PE_Other nat

text \<open>\<^verbatim>\<open>impl From<AmmError> for ProgramError\<close>.\<close>

definition program_error_of :: "amm_error \<Rightarrow> program_error" where
  "program_error_of e = PE_Custom (word_of_nat (amm_error_code e))"

type_synonym 'a res = "(program_error, 'a) outcome"
type_synonym 'a amm_res = "(amm_error, 'a) outcome"

text \<open>\<^verbatim>\<open>?\<close> on a \<^verbatim>\<open>Result<_, AmmError>\<close> inside a function that returns \<^verbatim>\<open>ProgramError\<close>.\<close>

definition into_res :: "'a amm_res \<Rightarrow> 'a res" where
  "into_res m = map_err program_error_of m"

abbreviation AmmErr :: "amm_error \<Rightarrow> 'a res" where
  "AmmErr e \<equiv> Err (program_error_of e)"

section \<open>Codes determine errors\<close>

lemma amm_errors_nth [simp]: "amm_errors ! amm_error_code e = e"
  by (cases e) (simp_all add: amm_errors_def)

lemma amm_error_code_lt: "amm_error_code e < length amm_errors"
  by (cases e) (simp_all add: amm_errors_def)

lemma amm_error_code_inject [simp]: "amm_error_code e = amm_error_code e' \<longleftrightarrow> e = e'"
  by (metis amm_errors_nth)

lemma length_amm_errors: "length amm_errors = 68"
  by (simp add: amm_errors_def)

lemma program_error_of_inject [simp]: "program_error_of e = program_error_of e' \<longleftrightarrow> e = e'"
proof -
  have lt: "amm_error_code x < 2 ^ 32" for x
    using amm_error_code_lt [of x] by (simp add: length_amm_errors)
  have "amm_error_code e = amm_error_code e'" if "program_error_of e = program_error_of e'"
  proof -
    from that have "unat (word_of_nat (amm_error_code e) :: u32) = unat (word_of_nat (amm_error_code e') :: u32)"
      by (simp add: program_error_of_def)
    then show ?thesis using lt [of e] lt [of e'] by (simp add: unat_of_nat)
  qed
  then show ?thesis by auto
qed

lemma into_res_Ok_iff [outcome]: "into_res m = Ok y \<longleftrightarrow> m = Ok y"
  by (simp add: into_res_def map_err_Ok_iff)

lemma into_res_simps [simp]:
  "into_res (Ok x) = Ok x" "into_res (Err e) = AmmErr e" "into_res Panic = Panic"
  by (simp_all add: into_res_def)

text \<open>Errors are ordered by their codes, so that the library's ordered containers apply to them.\<close>

instantiation amm_error :: linorder
begin

definition less_eq_amm_error :: "amm_error \<Rightarrow> amm_error \<Rightarrow> bool" where
  "less_eq_amm_error e e' \<longleftrightarrow> amm_error_code e \<le> amm_error_code e'"

definition less_amm_error :: "amm_error \<Rightarrow> amm_error \<Rightarrow> bool" where
  "less_amm_error e e' \<longleftrightarrow> amm_error_code e < amm_error_code e'"

instance
  by standard (auto simp: less_eq_amm_error_def less_amm_error_def)

end

lemma sorted_amm_errors: "sorted_wrt (<) (map amm_error_code amm_errors)"
  by (simp add: amm_errors_def)

end
