(* ===== verification/Codec.thy ===== *)
theory Codec
  imports Errors
begin

text \<open>
  The byte-level interface: an encoder that appends bytes to a buffer and a decoder that
  reads a prefix of its input and returns the rest. The locale \<open>codec\<close> states the law the
  readers rely on; the integer readers of \<^verbatim>\<open>instruction.rs\<close> and the fixed-size arrays of
  \<^verbatim>\<open>state.rs\<close> are interpretations.
\<close>

section \<open>Reading many items\<close>

primrec dec_many :: "(bytes \<Rightarrow> ('e, 'a \<times> bytes) outcome) \<Rightarrow> nat \<Rightarrow> bytes \<Rightarrow> ('e, 'a list \<times> bytes) outcome" where
  "dec_many dec 0 bs = Ok ([], bs)"
| "dec_many dec (Suc n) bs =
     rbind (dec bs) (\<lambda>(x, rest). rbind (dec_many dec n rest) (\<lambda>(xs, rest'). Ok (x # xs, rest')))"

section \<open>The interface\<close>

locale codec =
  fixes enc :: "'a \<Rightarrow> bytes"
    and dec :: "bytes \<Rightarrow> ('e, 'a \<times> bytes) outcome"
  assumes dec_enc: "dec (enc x @ rest) = Ok (x, rest)"
begin

lemma dec_enc_nil: "dec (enc x) = Ok (x, [])"
  using dec_enc [of x "[]"] by simp

lemma enc_inject: "enc x = enc y \<longleftrightarrow> x = y"
proof
  assume "enc x = enc y"
  then have "Ok (x, []) = (Ok (y, []) :: ('e, 'a \<times> bytes) outcome)"
    by (simp only: dec_enc_nil [symmetric])
  then show "x = y" by simp
qed simp

lemma dec_many_concat:
  "dec_many dec (length xs) (concat (map enc xs) @ rest) = Ok (xs, rest)"
  by (induction xs) (simp_all add: dec_enc)

lemma enc_not_proper_prefix: "enc x @ bs = enc y \<Longrightarrow> bs = []"
  using dec_enc [of x bs] dec_enc_nil [of y] by simp

end

section \<open>Integers and addresses\<close>

text \<open>
  \<^verbatim>\<open>AmmInstruction::unpack_u8\<close>, \<^verbatim>\<open>unpack_u16\<close>, \<^verbatim>\<open>unpack_u32\<close> and \<^verbatim>\<open>unpack_u64\<close>: the length test,
  \<^verbatim>\<open>split_at\<close>, and \<^verbatim>\<open>from_le_bytes\<close> of the head; a short input is an error.
\<close>

definition unpack_u8 :: "bytes \<Rightarrow> (u8 \<times> bytes) res" where
  "unpack_u8 input =
     (if length input \<ge> 1 then Ok (from_le_bytes (take 1 input), drop 1 input)
      else Err PE_InvalidInstructionData)"

definition unpack_u16 :: "bytes \<Rightarrow> (u16 \<times> bytes) res" where
  "unpack_u16 input =
     (if length input \<ge> 2 then Ok (from_le_bytes (take 2 input), drop 2 input)
      else Err PE_InvalidInstructionData)"

definition unpack_u64 :: "bytes \<Rightarrow> (u64 \<times> bytes) res" where
  "unpack_u64 input =
     (if length input \<ge> 8 then Ok (from_le_bytes (take 8 input), drop 8 input)
      else Err PE_InvalidInstructionData)"

definition unpack_u32 :: "bytes \<Rightarrow> (u32 \<times> bytes) res" where
  "unpack_u32 input =
     (if length input \<ge> 4 then Ok (from_le_bytes (take 4 input), drop 4 input)
      else Err PE_InvalidInstructionData)"

text \<open>
  \<^verbatim>\<open>array_ref![input, at, n]\<close>: the slice of \<open>n\<close> bytes from \<open>at\<close>, a panic when the input is
  too short; and \<^verbatim>\<open>&input[n..]\<close>, a panic when \<open>n\<close> is past the end.
\<close>

definition array_ref :: "bytes \<Rightarrow> nat \<Rightarrow> nat \<Rightarrow> ('e, bytes) outcome" where
  "array_ref bs at n = (if at + n \<le> length bs then Ok (take n (drop at bs)) else Panic)"

definition slice_from :: "bytes \<Rightarrow> nat \<Rightarrow> ('e, bytes) outcome" where
  "slice_from bs n = (if n \<le> length bs then Ok (drop n bs) else Panic)"

text \<open>\<^verbatim>\<open>Pubkey::to_bytes\<close> and \<^verbatim>\<open>Pubkey::new_from_array\<close>.\<close>

definition pubkey_bytes :: "pubkey \<Rightarrow> bytes" where
  "pubkey_bytes k = le_bytes 32 k"

definition pubkey_of_bytes :: "bytes \<Rightarrow> pubkey" where
  "pubkey_of_bytes bs = from_le_bytes bs"

text \<open>An address read with \<^verbatim>\<open>array_ref!\<close> and the rest of the input after it.\<close>

definition read_pubkey :: "bytes \<Rightarrow> ('e, pubkey \<times> bytes) outcome" where
  "read_pubkey bs =
     rbind (array_ref bs 0 32) (\<lambda>a. rbind (slice_from bs 32) (\<lambda>rest. Ok (pubkey_of_bytes a, rest)))"

lemma length_pubkey_bytes [simp, codec]: "length (pubkey_bytes k) = 32"
  by (simp add: pubkey_bytes_def)

lemma pubkey_of_bytes_inverse [simp, codec]: "pubkey_of_bytes (pubkey_bytes k) = k"
  by (simp add: pubkey_of_bytes_def pubkey_bytes_def from_le_bytes_inverse)

lemma pubkey_bytes_inverse [codec]: "length bs = 32 \<Longrightarrow> pubkey_bytes (pubkey_of_bytes bs) = bs"
  by (simp add: pubkey_of_bytes_def pubkey_bytes_def le_bytes_inverse)

interpretation u8c: codec "le_bytes 1 :: u8 \<Rightarrow> bytes" unpack_u8
  by unfold_locales (simp add: unpack_u8_def from_le_bytes_inverse)

interpretation u16c: codec "le_bytes 2 :: u16 \<Rightarrow> bytes" unpack_u16
  by unfold_locales (simp add: unpack_u16_def from_le_bytes_inverse)

interpretation u32c: codec "le_bytes 4 :: u32 \<Rightarrow> bytes" unpack_u32
  by unfold_locales (simp add: unpack_u32_def from_le_bytes_inverse)

interpretation u64c: codec "le_bytes 8 :: u64 \<Rightarrow> bytes" unpack_u64
  by unfold_locales (simp add: unpack_u64_def from_le_bytes_inverse)

interpretation pkc: codec pubkey_bytes "read_pubkey :: bytes \<Rightarrow> (program_error, pubkey \<times> bytes) outcome"
  by unfold_locales (simp add: read_pubkey_def array_ref_def slice_from_def)

lemma le_bytes_u8 [simp]: "le_bytes (Suc 0) (b :: u8) = [b]"
  by (simp add: le_bytes_def)

lemma unpack_u8_Cons [simp]: "unpack_u8 (b # bs) = Ok (b, bs)"
  using u8c.dec_enc [of b bs] by simp

lemmas unpack_enc [simp] = u16c.dec_enc u32c.dec_enc u64c.dec_enc pkc.dec_enc
lemmas unpack_enc_nil [simp] = u16c.dec_enc_nil u32c.dec_enc_nil u64c.dec_enc_nil pkc.dec_enc_nil


section \<open>Arrays of equally long fields\<close>

lemma chunk_concat:
  "\<lbrakk>\<forall>x \<in> set xs. length x = k; i < length xs\<rbrakk> \<Longrightarrow> take k (drop (k * i) (concat xs)) = xs ! i"
proof (induction xs arbitrary: i)
  case (Cons x xs)
  then show ?case by (cases i) auto
qed simp

lemma concat_chunks:
  "length bs = k * n \<Longrightarrow> concat (map (\<lambda>i. take k (drop (k * i) bs)) [0..<n]) = bs"
proof (induction n arbitrary: bs)
  case (Suc n)
  have "map (\<lambda>i. take k (drop (k * i) bs)) [0..<Suc n]
    = take k bs # map (\<lambda>i. take k (drop (k * i) (drop k bs))) [0..<n]"
    by (simp add: map_upt_Suc add.commute del: upt_Suc)
  with Suc.IH [of "drop k bs"] Suc.prems show ?case by simp
qed simp

end
