(* ===== verification/Calculator.thy ===== *)
theory Calculator
  imports Codec "HOL-Library.Monad_Syntax"
begin

text \<open>
  The arithmetic of \<^verbatim>\<open>src/math.rs\<close> that does not read the pool's state: conversions between
  decimals and lot sizes, the ceiling division, the constant-product quotes and the
  exchange rates between the pool's tokens and its LP token. \<^verbatim>\<open>U128\<close> and \<^verbatim>\<open>U256\<close> (made by
  \<^verbatim>\<open>construct_uint!\<close>) are words of 128 and 256 bits; their operators panic on overflow.
\<close>

section \<open>Directions\<close>

datatype swap_direction = PC2Coin | Coin2PC

primrec swap_direction_u64 :: "swap_direction \<Rightarrow> u64" where
  "swap_direction_u64 PC2Coin = 1"
| "swap_direction_u64 Coin2PC = 2"

datatype round_direction = Floor | Ceiling

section \<open>Conversions\<close>

definition to_u128 :: "u64 \<Rightarrow> u128 amm_res" where
  "to_u128 val = Ok (ucast val)"

definition to_u64 :: "u128 \<Rightarrow> u64 amm_res" where
  "to_u64 val = ok_or ConversionFailure (try_narrow val)"

text \<open>\<^verbatim>\<open>U128::as_u64\<close> panics when the value does not fit.\<close>

definition as_u64 :: "u128 \<Rightarrow> ('e, u64) outcome" where
  "as_u64 x = unwrap (try_narrow x)"

definition calc_x_power :: "u256 \<Rightarrow> u256 \<Rightarrow> u256 \<Rightarrow> u256 \<Rightarrow> ('e, u256) outcome" where
  "calc_x_power last_x last_y current_x current_y =
     unwrap (do {
       a \<leftarrow> checked_mul last_x last_y;
       b \<leftarrow> checked_mul a current_x;
       checked_div b current_y
     })"

definition fibonacci_step :: "nat \<Rightarrow> u64 list \<Rightarrow> ('e, u64 list) outcome" where
  "fibonacci_step i fb =
     (if i = 0 then Ok (fb @ [0])
      else if i = 1 then Ok (fb @ [1])
      else if i = 2 then Ok (fb @ [2])
      else rbind (index_at fb (i - 1)) (\<lambda>a.
           rbind (index_at fb (i - 2)) (\<lambda>b.
           rbind (unwrap (checked_add a b)) (\<lambda>ret. Ok (fb @ [ret])))))"

definition fibonacci :: "u64 \<Rightarrow> ('e, u64 list) outcome" where
  "fibonacci order_num = fold_outcome fibonacci_step [0..<unat order_num] []"

section \<open>Decimals and lot sizes\<close>

definition pow10 :: "nat \<Rightarrow> ('e, u128) outcome" where
  "pow10 n = unwrap (checked_pow 10 n)"

definition normalize_decimal :: "u64 \<Rightarrow> u64 \<Rightarrow> u64 \<Rightarrow> ('e, u64) outcome" where
  "normalize_decimal val native_decimal sys_decimal_value =
     rbind (unwrap (checked_mul (ucast val :: u128) (ucast sys_decimal_value))) (\<lambda>ret_mut.
     rbind (pow10 (unat native_decimal)) (\<lambda>p.
     rbind (unwrap (checked_div ret_mut p)) (\<lambda>q.
     unwrap_res (to_u64 q))))"

definition restore_decimal :: "u128 \<Rightarrow> u64 \<Rightarrow> u64 \<Rightarrow> ('e, u128) outcome" where
  "restore_decimal val native_decimal sys_decimal_value =
     rbind (pow10 (unat native_decimal)) (\<lambda>p.
     rbind (unwrap (checked_mul val p)) (\<lambda>ret_mut.
     unwrap (checked_div ret_mut (ucast sys_decimal_value))))"

definition normalize_decimal_v2 :: "u64 \<Rightarrow> u64 \<Rightarrow> u64 \<Rightarrow> ('e, u128) outcome" where
  "normalize_decimal_v2 val native_decimal sys_decimal_value =
     rbind (unwrap (checked_mul (ucast val :: u128) (ucast sys_decimal_value))) (\<lambda>ret_mut.
     rbind (pow10 (unat native_decimal)) (\<lambda>p.
     unwrap (checked_div ret_mut p)))"

definition floor_lot :: "u64 \<Rightarrow> u64 \<Rightarrow> ('e, u64) outcome" where
  "floor_lot val lot_size =
     rbind (unwrap (checked_div val lot_size)) (\<lambda>unit. unwrap (checked_mul unit lot_size))"

text \<open>
  \<^verbatim>\<open>CheckedCeilDiv\<close>, the same code for \<^verbatim>\<open>u128\<close> and \<^verbatim>\<open>U128\<close>: a quotient of zero is rounded to
  the nearest of 0 and 1, any other quotient is rounded up; the second component is the
  divisor recomputed from the rounded quotient.
\<close>

definition checked_ceil_div :: "u128 \<Rightarrow> u128 \<Rightarrow> (u128 \<times> u128) option" where
  "checked_ceil_div self rhs = do {
     quotient \<leftarrow> checked_div self rhs;
     if quotient = 0 then do {
       twice \<leftarrow> checked_mul self 2;
       if twice \<ge> rhs then Some (1, 0) else Some (0, 0)
     } else do {
       remainder \<leftarrow> checked_rem self rhs;
       if remainder > 0 then do {
         q \<leftarrow> checked_add quotient 1;
         r \<leftarrow> checked_div self q;
         remainder' \<leftarrow> checked_rem self q;
         if remainder' > 0 then do {
           r' \<leftarrow> checked_add r 1;
           Some (q, r')
         } else Some (q, r)
       } else Some (quotient, rhs)
     }
   }"

definition ceil_lot :: "u64 \<Rightarrow> u64 \<Rightarrow> ('e, u64) outcome" where
  "ceil_lot val lot_size =
     rbind (unwrap (checked_ceil_div (ucast val :: u128) (ucast lot_size))) (\<lambda>(unit, _).
     rbind (unwrap_res (to_u64 unit)) (\<lambda>u.
     unwrap (checked_mul u lot_size)))"

definition convert_out_pc_lot_size :: "u8 \<Rightarrow> u8 \<Rightarrow> u64 \<Rightarrow> u64 \<Rightarrow> u64 \<Rightarrow> ('e, u64) outcome" where
  "convert_out_pc_lot_size pc_decimals coin_decimals pc_lot_size coin_lot_size sys_decimal_value =
     rbind (unwrap (checked_mul (ucast pc_lot_size :: u128) (ucast coin_lot_size))) (\<lambda>a.
     rbind (pow10 (unat pc_decimals)) (\<lambda>pd.
     rbind (unwrap (checked_mul a pd)) (\<lambda>num.
     rbind (pow10 (unat coin_decimals)) (\<lambda>cd.
     rbind (unwrap (checked_mul (ucast sys_decimal_value) cd)) (\<lambda>den.
     rbind (unwrap (checked_div num den)) (\<lambda>q.
     unwrap_res (to_u64 q)))))))"

definition convert_in_pc_lot_size :: "u8 \<Rightarrow> u8 \<Rightarrow> u64 \<Rightarrow> u64 \<Rightarrow> u64 \<Rightarrow> ('e, u64) outcome" where
  "convert_in_pc_lot_size pc_decimals coin_decimals pc_lot_size coin_lot_size sys_decimal_value =
     rbind (unwrap (checked_mul (ucast pc_lot_size :: u128) (ucast sys_decimal_value))) (\<lambda>a.
     rbind (pow10 (unat coin_decimals)) (\<lambda>cd.
     rbind (unwrap (checked_mul a cd)) (\<lambda>num.
     rbind (pow10 (unat pc_decimals)) (\<lambda>pd.
     rbind (unwrap (checked_mul (ucast coin_lot_size) pd)) (\<lambda>den.
     rbind (unwrap (checked_div num den)) (\<lambda>q.
     unwrap_res (to_u64 q)))))))"

definition convert_in_price :: "u64 \<Rightarrow> u64 \<Rightarrow> ('e, u64) outcome" where
  "convert_in_price val pc_lot_size = unwrap (checked_mul val pc_lot_size)"

definition convert_price_out :: "u64 \<Rightarrow> u64 \<Rightarrow> ('e, u64) outcome" where
  "convert_price_out val pc_lot_size = unwrap (checked_div val pc_lot_size)"

definition convert_in_vol :: "u64 \<Rightarrow> u64 \<Rightarrow> u64 \<Rightarrow> u64 \<Rightarrow> ('e, u64) outcome" where
  "convert_in_vol val coin_decimal coin_lot_size sys_decimal_value =
     rbind (unwrap (checked_mul (ucast val :: u128) (ucast coin_lot_size))) (\<lambda>a.
     rbind (unwrap (checked_mul a (ucast sys_decimal_value))) (\<lambda>b.
     rbind (pow10 (unat coin_decimal)) (\<lambda>p.
     rbind (unwrap (checked_div b p)) (\<lambda>volume.
     unwrap_res (to_u64 volume)))))"

definition convert_vol_out :: "u64 \<Rightarrow> u64 \<Rightarrow> u64 \<Rightarrow> u64 \<Rightarrow> ('e, u64) outcome" where
  "convert_vol_out val coin_decimal coin_lot_size sys_decimal_value =
     rbind (pow10 (unat coin_decimal)) (\<lambda>p.
     rbind (unwrap (checked_mul (ucast val :: u128) p)) (\<lambda>a.
     rbind (unwrap (checked_mul (ucast coin_lot_size) (ucast sys_decimal_value))) (\<lambda>b.
     rbind (unwrap (checked_div a b)) (\<lambda>volume.
     unwrap_res (to_u64 volume)))))"

section \<open>Constant-product quotes\<close>

definition swap_token_amount_base_in ::
  "u128 \<Rightarrow> u128 \<Rightarrow> u128 \<Rightarrow> swap_direction \<Rightarrow> ('e, u128) outcome" where
  "swap_token_amount_base_in amount_in total_pc total_coin dir =
     (case dir of
        Coin2PC \<Rightarrow>
          rbind (unwrap (checked_add total_coin amount_in)) (\<lambda>denominator.
          unwrap (do { m \<leftarrow> checked_mul total_pc amount_in; checked_div m denominator }))
      | PC2Coin \<Rightarrow>
          rbind (unwrap (checked_add total_pc amount_in)) (\<lambda>denominator.
          unwrap (do { m \<leftarrow> checked_mul total_coin amount_in; checked_div m denominator })))"

definition swap_token_amount_base_out ::
  "u128 \<Rightarrow> u128 \<Rightarrow> u128 \<Rightarrow> swap_direction \<Rightarrow> ('e, u128) outcome" where
  "swap_token_amount_base_out amount_out total_pc total_coin dir =
     (case dir of
        Coin2PC \<Rightarrow>
          rbind (unwrap (checked_sub total_pc amount_out)) (\<lambda>denominator.
          unwrap (do { m \<leftarrow> checked_mul total_coin amount_out;
                       qr \<leftarrow> checked_ceil_div m denominator; Some (fst qr) }))
      | PC2Coin \<Rightarrow>
          rbind (unwrap (checked_sub total_coin amount_out)) (\<lambda>denominator.
          unwrap (do { m \<leftarrow> checked_mul total_pc amount_out;
                       qr \<leftarrow> checked_ceil_div m denominator; Some (fst qr) })))"

section \<open>Exchange rates\<close>

record invariant_token =
  token_coin :: u64
  token_pc :: u64

record invariant_pool =
  token_input :: u64
  token_total :: u64

text \<open>
  The four exchange functions share one body: \<open>amount * mul / div\<close>, rounded as asked.
  They return \<^verbatim>\<open>Some\<close> on every path that returns.
\<close>

definition exchange :: "u64 \<Rightarrow> u64 \<Rightarrow> u64 \<Rightarrow> round_direction \<Rightarrow> ('e, u64 option) outcome" where
  "exchange amount mul dv round =
     (if round = Floor then
        rbind (unwrap (checked_mul (ucast amount :: u128) (ucast mul))) (\<lambda>m.
        rbind (unwrap (checked_div m (ucast dv))) (\<lambda>q.
        rbind (as_u64 q) (\<lambda>r. Ok (Some r))))
      else
        rbind (unwrap (checked_mul (ucast amount :: u128) (ucast mul))) (\<lambda>m.
        rbind (unwrap (checked_ceil_div m (ucast dv))) (\<lambda>(q, _).
        rbind (as_u64 q) (\<lambda>r. Ok (Some r)))))"

definition exchange_coin_to_pc :: "invariant_token \<Rightarrow> u64 \<Rightarrow> round_direction \<Rightarrow> ('e, u64 option) outcome" where
  "exchange_coin_to_pc self coin_amount round = exchange coin_amount (token_pc self) (token_coin self) round"

definition exchange_pc_to_coin :: "invariant_token \<Rightarrow> u64 \<Rightarrow> round_direction \<Rightarrow> ('e, u64 option) outcome" where
  "exchange_pc_to_coin self pc_amount round = exchange pc_amount (token_coin self) (token_pc self) round"

definition exchange_pool_to_token :: "invariant_pool \<Rightarrow> u64 \<Rightarrow> round_direction \<Rightarrow> ('e, u64 option) outcome" where
  "exchange_pool_to_token self token_total_amount round =
     exchange token_total_amount (token_input self) (token_total self) round"

definition exchange_token_to_pool :: "invariant_pool \<Rightarrow> u64 \<Rightarrow> round_direction \<Rightarrow> ('e, u64 option) outcome" where
  "exchange_token_to_pool self pool_total_amount round =
     exchange pool_total_amount (token_input self) (token_total self) round"


section \<open>The ceiling division\<close>

definition ceil_div_spec :: "nat \<Rightarrow> nat \<Rightarrow> nat" where
  "ceil_div_spec a b = (if a < b then (if b \<le> 2 * a then 1 else 0) else (a + b - 1) div b)"

lemma ceil_div_spec_mult: "0 < b \<Longrightarrow> b \<le> 2 * a \<Longrightarrow> a \<le> ceil_div_spec a b * b"
proof (cases "a < b")
  case True
  then show "b \<le> 2 * a \<Longrightarrow> a \<le> ceil_div_spec a b * b" by (simp add: ceil_div_spec_def)
next
  case False
  assume b: "0 < b"
  have "a + b - 1 = (a + b - 1) div b * b + (a + b - 1) mod b" by simp
  moreover have "(a + b - 1) mod b < b" using b by simp
  ultimately have "a \<le> (a + b - 1) div b * b" by linarith
  with False show ?thesis by (simp add: ceil_div_spec_def)
qed

lemma ceil_div_spec_lt: "0 < b \<Longrightarrow> b \<le> a \<Longrightarrow> ceil_div_spec a b * b < a + b"
proof -
  assume b: "0 < b" "b \<le> a"
  have "(a + b - 1) div b * b \<le> a + b - 1" by (rule div_times_less_eq_dividend)
  then have "(a + b - 1) div b * b < a + b" using b by linarith
  with b show ?thesis by (simp add: ceil_div_spec_def)
qed

lemma ceil_div_spec_eq_0: "0 < b \<Longrightarrow> ceil_div_spec a b = 0 \<longleftrightarrow> 2 * a < b"
  by (auto simp: ceil_div_spec_def div_eq_0_iff)

lemma ceil_div_quotient:
  assumes "0 < b" "b \<le> (a::nat)"
  shows "(a + b - 1) div b = (if a mod b = 0 then a div b else a div b + 1)"
proof (cases "a mod b = 0")
  case True
  then obtain k where a: "a = b * k" by (metis mod_0_imp_dvd dvdE)
  have "(a + b - 1) div b = k"
    by (rule div_nat_eqI) (use a assms in \<open>simp_all add: algebra_simps\<close>)
  moreover have "a div b = k" using a assms by simp
  ultimately show ?thesis using True by simp
next
  case False
  have a: "a = b * (a div b) + a mod b" by simp
  have m: "a mod b < b" using assms by simp
  have "(a + b - 1) div b = a div b + 1"
    by (rule div_nat_eqI) (use a m False in \<open>simp_all add: algebra_simps, linarith+\<close>)
  then show ?thesis using False by simp
qed

lemma unat_u128_2 [simp]: "unat (2 :: u128) = 2" by simp

lemma u128_le_iff: "(a :: u128) \<le> b \<longleftrightarrow> unat a \<le> unat b"
  by (rule word_le_nat_alt)

lemma u128_gt_0_iff: "(0 :: u128) < b \<longleftrightarrow> 0 < unat b"
  by (simp add: word_less_nat_alt)

lemma checked_ceil_div_small:
  assumes "unat b \<noteq> 0" "unat a < unat b"
  shows "checked_ceil_div a b =
    (if 2 * unat a < 2 ^ 128 then Some (if unat b \<le> 2 * unat a then (1, 0) else (0, 0)) else None)"
proof -
  have q: "checked_div a b = Some 0"
    using assms by (simp add: checked_div_Some_iff)
  show ?thesis
  proof (cases "2 * unat a < 2 ^ 128")
    case True
    then have "checked_mul a 2 = Some (a * 2)" by (simp add: checked_mul_def)
    moreover from this have "unat (a * 2) = 2 * unat a" by (simp add: checked_mul_Some_iff)
    ultimately show ?thesis using True
      by (simp add: checked_ceil_div_def q u128_le_iff)
  next
    case False
    then have "checked_mul a 2 = None" by (simp add: checked_mul_def)
    with False show ?thesis by (simp add: checked_ceil_div_def q)
  qed
qed

lemma checked_ceil_div_large:
  assumes "unat b \<noteq> 0" "unat b \<le> unat a"
  shows "\<exists>q r. checked_ceil_div a b = Some (q, r) \<and> unat q = (unat a + unat b - 1) div unat b"
proof -
  obtain k where k: "checked_div a b = Some k" and uk: "unat k = unat a div unat b"
    using checked_div_ex [OF assms(1)] by blast
  obtain m where m: "checked_rem a b = Some m" and um: "unat m = unat a mod unat b"
    using checked_rem_ex [OF assms(1)] by blast
  have "0 < unat b" using assms(1) by (simp only: neq0_conv)
  note quot = ceil_div_quotient [OF this assms(2)]
  have k0: "k \<noteq> 0"
    using uk assms by (metis div_eq_0_iff not_less unat_eq_0_iff)
  show ?thesis
  proof (cases "m > 0")
    case False
    then have "unat a mod unat b = 0" using um by (simp add: u128_gt_0_iff)
    then have "unat k = (unat a + unat b - 1) div unat b"
      using uk quot by simp
    then show ?thesis
      using False k m k0 by (simp add: checked_ceil_div_def)
  next
    case True
    then have mod0: "unat a mod unat b \<noteq> 0" using um by (simp add: u128_gt_0_iff)
    have "unat b \<noteq> 1" using mod0 by auto
    then have b2: "2 \<le> unat b" using assms(1) by linarith
    have lt: "unat a < 2 ^ 128" by (rule u128_lt)
    have kle: "unat k + 1 \<le> unat a"
    proof -
      have "unat a div unat b \<le> unat a div 2" using b2 by (rule div_le_mono2 [rotated]) simp
      then show ?thesis using uk assms b2 by linarith
    qed
    then have q: "checked_add k 1 = Some (k + 1)" using lt by (simp add: checked_add_def)
    then have uq: "unat (k + 1) = unat a div unat b + 1" by (simp add: checked_add_Some_iff uk)
    have nz: "unat (k + 1) \<noteq> 0" using uq by simp
    obtain r where r: "checked_div a (k + 1) = Some r" and ur: "unat r = unat a div unat (k + 1)"
      using checked_div_ex [OF nz] by blast
    obtain m' where m': "checked_rem a (k + 1) = Some m'"
      using checked_rem_ex [OF nz] by blast
    have "unat r + 1 < 2 ^ 128"
    proof -
      have "unat k \<noteq> 0" using k0 by simp
      then have "2 \<le> unat (k + 1)" using uq uk by linarith
      then have "unat a div unat (k + 1) \<le> unat a div 2" by (rule div_le_mono2 [rotated]) simp
      moreover have "unat a div 2 < 2 ^ 127" using lt by simp
      ultimately show ?thesis using ur by simp
    qed
    then have "checked_add r 1 = Some (r + 1)" by (simp add: checked_add_def)
    moreover have "unat (k + 1) = (unat a + unat b - 1) div unat b"
      using uq mod0 quot by simp
    ultimately show ?thesis
      using True k m k0 q r m' by (auto simp: checked_ceil_div_def)
  qed
qed

lemma checked_ceil_div_spec:
  assumes "checked_ceil_div a b = Some (q, r)"
  shows "unat b \<noteq> 0 \<and> unat q = ceil_div_spec (unat a) (unat b)"
proof -
  have b: "unat b \<noteq> 0"
    using assms by (auto simp: checked_ceil_div_def checked_div_def split: if_splits)
  then show ?thesis
    using assms checked_ceil_div_small [of b a] checked_ceil_div_large [of b a]
    by (cases "unat a < unat b") (auto simp: ceil_div_spec_def split: if_splits)
qed

lemma checked_ceil_div_total:
  assumes "unat b \<noteq> 0" "2 * unat a < 2 ^ 128"
  shows "\<exists>q r. checked_ceil_div a b = Some (q, r)"
  using assms checked_ceil_div_small [of b a] checked_ceil_div_large [of b a]
  by (cases "unat a < unat b") (auto split: if_splits)


section \<open>The pricing interface\<close>

text \<open>
  What the swap handlers rely on: a quoted trade of \<open>dx\<close> in for \<open>dy\<close> out of the reserves
  \<open>ri\<close>, \<open>ro\<close> never takes more than the reserve and never lowers the product of the reserves.
\<close>

locale trade_curve =
  fixes trade :: "u128 \<Rightarrow> u128 \<Rightarrow> u128 \<Rightarrow> u128 \<Rightarrow> bool"
  assumes trade_bound: "trade ri ro dx dy \<Longrightarrow> unat dy \<le> unat ro"
    and trade_product:
      "trade ri ro dx dy \<Longrightarrow> unat ri * unat ro \<le> (unat ri + unat dx) * (unat ro - unat dy)"
begin

lemma trade_product_fee:
  assumes "trade ri ro dx dy"
  shows "unat ri * unat ro \<le> (unat ri + unat dx + fee) * (unat ro - unat dy)"
proof -
  have "(unat ri + unat dx) * (unat ro - unat dy) \<le> (unat ri + unat dx + fee) * (unat ro - unat dy)"
    by (rule mult_right_mono) simp_all
  with trade_product [OF assms] show ?thesis by linarith
qed

lemma trade_nothing_for_nothing:
  assumes "trade ri ro 0 dy" "unat ri \<noteq> 0"
  shows "unat dy = 0"
proof -
  have "unat ri * unat ro \<le> unat ri * (unat ro - unat dy)"
    using trade_product [OF assms(1)] by simp
  then have "unat ro \<le> unat ro - unat dy" using assms(2) by simp
  then show ?thesis using trade_bound [OF assms(1)] by linarith
qed

lemma trade_not_all:
  assumes "trade ri ro dx dy" "unat ri \<noteq> 0" "unat ro \<noteq> 0"
  shows "unat dy < unat ro"
  using trade_product [OF assms(1)] trade_bound [OF assms(1)] assms(2,3)
  by (cases "unat dy = unat ro") auto

text \<open>Swapping and swapping the proceeds back never returns more than was put in.\<close>

lemma trade_round_trip:
  assumes t1: "trade ri ro dx dy"
    and t2: "trade ri' ro' dy dx'"
    and ri': "unat ri' = unat ro - unat dy" and ro': "unat ro' = unat ri + unat dx"
    and pos: "unat ri \<noteq> 0" "unat ro \<noteq> 0"
  shows "unat dx' \<le> unat dx"
proof (rule ccontr)
  assume "\<not> unat dx' \<le> unat dx"
  then have gt: "unat dx < unat dx'" by simp
  have dy: "unat dy \<le> unat ro" by (rule trade_bound [OF t1])
  have "unat ri * unat ro \<le> (unat ri + unat dx) * (unat ro - unat dy)"
    by (rule trade_product [OF t1])
  also have "\<dots> = unat ri' * unat ro'" by (simp add: ri' ro' mult.commute)
  also have "\<dots> \<le> (unat ri' + unat dy) * (unat ro' - unat dx')" by (rule trade_product [OF t2])
  also have "\<dots> = unat ro * (unat ri + unat dx - unat dx')" using dy by (simp add: ri' ro')
  finally have "unat ri * unat ro \<le> unat ro * (unat ri + unat dx - unat dx')" .
  then have "unat ri \<le> unat ri + unat dx - unat dx'" using pos by (simp add: mult.commute)
  with gt pos show False by linarith
qed

end

definition base_in_trade :: "swap_direction \<Rightarrow> u128 \<Rightarrow> u128 \<Rightarrow> u128 \<Rightarrow> u128 \<Rightarrow> bool" where
  "base_in_trade d ri ro dx dy =
     (case d of Coin2PC \<Rightarrow> (swap_token_amount_base_in dx ro ri Coin2PC :: u128 res) = Ok dy
              | PC2Coin \<Rightarrow> (swap_token_amount_base_in dx ri ro PC2Coin :: u128 res) = Ok dy)"

definition base_out_trade :: "swap_direction \<Rightarrow> u128 \<Rightarrow> u128 \<Rightarrow> u128 \<Rightarrow> u128 \<Rightarrow> bool" where
  "base_out_trade d ri ro dx dy =
     (dx \<noteq> 0 \<and>
      (case d of Coin2PC \<Rightarrow> (swap_token_amount_base_out dy ro ri Coin2PC :: u128 res) = Ok dx
               | PC2Coin \<Rightarrow> (swap_token_amount_base_out dy ri ro PC2Coin :: u128 res) = Ok dx))"

lemma bind_Some_iff: "Option.bind m f = Some y \<longleftrightarrow> (\<exists>x. m = Some x \<and> f x = Some y)"
  by (cases m) auto

lemma base_in_trade_value:
  assumes "base_in_trade d ri ro dx dy"
  shows "unat dy = unat ro * unat dx div (unat ri + unat dx) \<and> 0 < unat ri + unat dx"
  using assms
  by (auto simp: base_in_trade_def swap_token_amount_base_in_def outcome bind_Some_iff word_arith
      split: swap_direction.splits)

lemma base_out_trade_value:
  assumes "base_out_trade d ri ro dx dy"
  shows "unat dy \<le> unat ro \<and> 0 < unat ro - unat dy \<and>
    unat dx = ceil_div_spec (unat ri * unat dy) (unat ro - unat dy) \<and> unat dx \<noteq> 0"
proof -
  from assms obtain den m r where den: "checked_sub ro dy = Some den"
    and m: "checked_mul ri dy = Some m" and q: "checked_ceil_div m den = Some (dx, r)"
    and dx: "dx \<noteq> 0"
    by (auto simp: base_out_trade_def swap_token_amount_base_out_def outcome bind_Some_iff
        split: swap_direction.splits)
  have "unat ro = unat den + unat dy" using den by (simp add: checked_sub_Some_iff)
  moreover have "unat m = unat ri * unat dy" using m by (simp add: checked_mul_Some_iff)
  moreover have "unat dx \<noteq> 0" using dx by simp
  ultimately show ?thesis using checked_ceil_div_spec [OF q] by auto
qed

lemma base_in_product:
  fixes ri ro dx :: nat
  shows "ri * ro \<le> (ri + dx) * (ro - ro * dx div (ri + dx))"
proof -
  have "(ri + dx) * (ro * dx div (ri + dx)) \<le> ro * dx" by simp
  moreover have "(ri + dx) * ro = ri * ro + ro * dx" by (simp add: algebra_simps)
  ultimately show ?thesis by (simp only: diff_mult_distrib2)
qed

lemma base_out_product:
  fixes ri ro dx dy :: nat
  assumes "dy \<le> ro" "ri * dy \<le> dx * (ro - dy)"
  shows "ri * ro \<le> (ri + dx) * (ro - dy)"
proof -
  have "ri * ro = ri * (ro - dy) + ri * dy"
    using assms(1) by (simp add: diff_mult_distrib2)
  also have "\<dots> \<le> ri * (ro - dy) + dx * (ro - dy)" using assms(2) by simp
  finally show ?thesis by (simp add: distrib_right)
qed

interpretation base_in: trade_curve "base_in_trade d" for d
proof
  fix ri ro dx dy
  assume t: "base_in_trade d ri ro dx dy"
  note v = base_in_trade_value [OF t]
  have "unat ro * unat dx \<le> unat ro * (unat ri + unat dx)" by simp
  then have "unat ro * unat dx div (unat ri + unat dx) \<le> unat ro * (unat ri + unat dx) div (unat ri + unat dx)"
    by (rule div_le_mono)
  then show "unat dy \<le> unat ro" using v by (auto split: if_splits)
  show "unat ri * unat ro \<le> (unat ri + unat dx) * (unat ro - unat dy)"
    using v base_in_product by simp
qed

interpretation base_out: trade_curve "base_out_trade d" for d
proof
  fix ri ro dx dy
  assume t: "base_out_trade d ri ro dx dy"
  note v = base_out_trade_value [OF t]
  then show "unat dy \<le> unat ro" by blast
  have "\<not> 2 * (unat ri * unat dy) < unat ro - unat dy"
    using v ceil_div_spec_eq_0 [of "unat ro - unat dy" "unat ri * unat dy"] by metis
  then have "unat ri * unat dy \<le> unat dx * (unat ro - unat dy)"
    using v ceil_div_spec_mult [of "unat ro - unat dy" "unat ri * unat dy"] by simp
  then show "unat ri * unat ro \<le> (unat ri + unat dx) * (unat ro - unat dy)"
    using v by (intro base_out_product) simp_all
qed


section \<open>Exchange rates on natural numbers\<close>

lemma exchange_Floor_value:
  assumes "(exchange amount mul dv Floor :: ('e, u64 option) outcome) = Ok r"
  shows "\<exists>x. r = Some x \<and> unat dv \<noteq> 0 \<and> unat x = unat amount * unat mul div unat dv"
  using assms by (auto simp: exchange_def as_u64_def outcome word_arith)

lemma exchange_Ceiling_value:
  assumes "(exchange amount mul dv Ceiling :: ('e, u64 option) outcome) = Ok r"
  shows "\<exists>x. r = Some x \<and> unat dv \<noteq> 0 \<and> unat x = ceil_div_spec (unat amount * unat mul) (unat dv)"
proof -
  from assms obtain m q d x
    where m: "checked_mul (ucast amount :: u128) (ucast mul) = Some m"
      and q: "checked_ceil_div m (ucast dv) = Some (q, d)"
      and x: "(as_u64 q :: ('e, u64) outcome) = Ok x" and r: "r = Some x"
    by (auto simp: exchange_def outcome)
  have "unat x = unat q" using x by (simp add: as_u64_def outcome word_arith)
  moreover have "unat m = unat amount * unat mul" using m by (simp add: word_arith)
  ultimately show ?thesis using checked_ceil_div_spec [OF q] r by auto
qed

lemma u64_mult_lt: "unat (a :: u64) * unat (b :: u64) < 2 ^ 128"
proof -
  have "unat a * unat b \<le> (2 ^ 64 - 1) * (2 ^ 64 - 1)"
    using u64_lt [of a] u64_lt [of b] by (intro mult_le_mono) simp_all
  then show ?thesis by simp
qed

lemma exchange_Floor_total:
  assumes "unat dv \<noteq> 0" "unat amount * unat mul div unat dv < 2 ^ 64"
  shows "exchange amount mul dv Floor = Ok (Some (word_of_nat (unat amount * unat mul div unat dv)))"
proof -
  let ?m = "ucast amount * ucast mul :: u128"
  have m: "checked_mul (ucast amount :: u128) (ucast mul) = Some ?m"
    using u64_mult_lt [of amount mul] by (simp add: checked_mul_def)
  then have um: "unat ?m = unat amount * unat mul" by (simp add: checked_mul_Some_iff)
  obtain q where q: "checked_div ?m (ucast dv) = Some q" and uq: "unat q = unat ?m div unat dv"
    using checked_div_ex [of "ucast dv :: u128" ?m] assms(1) by (auto simp del: unat_eq_0_iff)
  have "try_narrow q = Some (word_of_nat (unat q) :: u64)"
    using assms(2) uq um by (simp add: try_narrow_Some_iff unat_of_nat)
  then show ?thesis using m q uq um by (simp add: exchange_def as_u64_def)
qed

text \<open>Flooring the minted share and flooring the redeemed amount loses at most the depositor's.\<close>

lemma share_round_trip_nat:
  fixes L R d :: nat
  assumes "0 < R" "0 < L"
  shows "(R + d) * (L * d div R) div (L + L * d div R) \<le> d"
proof -
  let ?m = "L * d div R"
  have "?m * R \<le> L * d" by simp
  then have "(R + d) * ?m \<le> d * (L + ?m)" by (simp add: algebra_simps)
  also have "\<dots> < (d + 1) * (L + ?m)" using assms by simp
  finally have "(R + d) * ?m div (L + ?m) < d + 1" by (simp add: less_mult_imp_div_less)
  then show ?thesis by simp
qed

lemma redeem_ratio_nat:
  fixes L R a :: nat
  assumes "0 < L" "a \<le> L"
  shows "R * (L - a) \<le> (R - R * a div L) * L"
proof -
  have "R * a div L * L \<le> R * a" by simp
  then show ?thesis
    by (simp only: diff_mult_distrib diff_mult_distrib2 diff_le_mono2)
qed

section \<open>The Fibonacci sequence\<close>

fun fib_spec :: "nat \<Rightarrow> nat" where
  "fib_spec 0 = 0"
| "fib_spec (Suc 0) = 1"
| "fib_spec (Suc (Suc 0)) = 2"
| "fib_spec (Suc (Suc (Suc n))) = fib_spec (Suc (Suc n)) + fib_spec (Suc n)"

primrec fib_pair :: "nat \<Rightarrow> nat \<times> nat" where
  "fib_pair 0 = (1, 2)"
| "fib_pair (Suc n) = (let (a, b) = fib_pair n in (b, a + b))"

lemma fib_pair_numeral:
  "fib_pair (numeral k) = (let (a, b) = fib_pair (pred_numeral k) in (b, a + b))"
  by (simp add: numeral_eq_Suc)

lemma fib_pair_spec: "fib_pair n = (fib_spec (Suc n), fib_spec (Suc (Suc n)))"
  by (induction n) auto

lemma fib_spec_Suc_mono: "fib_spec n \<le> fib_spec (Suc n)"
  by (induction n rule: fib_spec.induct) auto

lemma fib_spec_mono: "m \<le> n \<Longrightarrow> fib_spec m \<le> fib_spec n"
  by (rule lift_Suc_mono_le [of fib_spec, OF fib_spec_Suc_mono])

lemma fib_spec_92: "fib_spec 92 = 12200160415121876738"
proof -
  have "fib_pair 90 = (7540113804746346429, 12200160415121876738)" by (simp add: fib_pair_numeral)
  then show ?thesis by (simp add: fib_pair_spec del: fib_spec.simps)
qed

lemma fib_spec_lt: "n \<le> 92 \<Longrightarrow> fib_spec n < 2 ^ 64"
  using fib_spec_mono [of n 92] by (simp add: fib_spec_92)

lemma fib_spec_rec: "3 \<le> n \<Longrightarrow> fib_spec n = fib_spec (n - 1) + fib_spec (n - 2)"
proof -
  assume "3 \<le> n"
  then obtain k where "n = Suc (Suc (Suc k))" by (auto simp: le_iff_add eval_nat_numeral)
  then show ?thesis by simp
qed

lemma fibonacci_step_spec:
  assumes "i \<le> 92"
  shows "fibonacci_step i (map (\<lambda>k. word_of_nat (fib_spec k)) [0..<i])
    = Ok (map (\<lambda>k. word_of_nat (fib_spec k)) [0..<Suc i])"
proof (cases "i < 3")
  case True
  then have "i = 0 \<or> i = 1 \<or> i = 2" by linarith
  then show ?thesis by (elim disjE) (simp_all add: fibonacci_step_def eval_nat_numeral)
next
  case False
  let ?a = "word_of_nat (fib_spec (i - 1)) :: u64" and ?b = "word_of_nat (fib_spec (i - 2)) :: u64"
  have u: "unat (word_of_nat (fib_spec k) :: u64) = fib_spec k" if "k \<le> 92" for k
    using fib_spec_lt [OF that] by (simp add: unat_of_nat)
  have "unat (word_of_nat (fib_spec i) :: u64) = unat ?a + unat ?b"
    using u [of i] u [of "i - 1"] u [of "i - 2"] fib_spec_rec [of i] False assms by simp
  then have "checked_add ?a ?b = Some (word_of_nat (fib_spec i))"
    by (simp add: checked_add_Some_iff)
  then show ?thesis using False by (simp add: fibonacci_step_def index_at_def)
qed

lemma fibonacci_fold:
  "n \<le> 93 \<Longrightarrow> fold_outcome fibonacci_step [0..<n] [] = Ok (map (\<lambda>k. word_of_nat (fib_spec k)) [0..<n])"
proof (induction n)
  case (Suc n)
  have "[0..<Suc n] = [0..<n] @ [n]" by simp
  with Suc show ?case
    by (simp add: fold_outcome_append fibonacci_step_spec)
qed simp


section \<open>Properties\<close>

text \<open>The reserve a trade pays into and the one it is paid from.\<close>

definition reserve_in :: "swap_direction \<Rightarrow> 'a \<Rightarrow> 'a \<Rightarrow> 'a" where
  "reserve_in d pc coin = (case d of PC2Coin \<Rightarrow> pc | Coin2PC \<Rightarrow> coin)"

definition reserve_out :: "swap_direction \<Rightarrow> 'a \<Rightarrow> 'a \<Rightarrow> 'a" where
  "reserve_out d pc coin = (case d of PC2Coin \<Rightarrow> coin | Coin2PC \<Rightarrow> pc)"

lemmas reserve_defs = reserve_in_def reserve_out_def

lemma base_in_trade_iff:
  "base_in_trade d (reserve_in d pc coin) (reserve_out d pc coin) dx dy \<longleftrightarrow>
     (swap_token_amount_base_in dx pc coin d :: u128 res) = Ok dy"
  by (cases d) (simp_all add: base_in_trade_def reserve_defs)

lemma base_out_trade_iff:
  "base_out_trade d (reserve_in d pc coin) (reserve_out d pc coin) dx dy \<longleftrightarrow>
     dx \<noteq> 0 \<and> (swap_token_amount_base_out dy pc coin d :: u128 res) = Ok dx"
  by (cases d) (simp_all add: base_out_trade_def reserve_defs)

lemma reserve_ucast:
  "reserve_in d (ucast pc) (ucast coin) = (ucast (reserve_in d pc coin :: u64) :: u128)"
  "reserve_out d (ucast pc) (ucast coin) = (ucast (reserve_out d pc coin :: u64) :: u128)"
  by (cases d; simp add: reserve_defs)+

lemma swap_base_in_total:
  fixes a pc coin :: u64
  assumes "unat (reserve_in d pc coin) + unat a \<noteq> 0"
  shows "\<exists>out. (swap_token_amount_base_in (ucast a) (ucast pc) (ucast coin) d :: u128 res) = Ok out"
proof -
  let ?ri = "ucast (reserve_in d pc coin) :: u128" and ?ro = "ucast (reserve_out d pc coin) :: u128"
  let ?a = "ucast a :: u128"
  have "checked_add ?ri ?a = Some (?ri + ?a)"
    using u64_lt [of a] u64_lt [of "reserve_in d pc coin"] by (simp add: checked_add_def)
  moreover from this have "unat (?ri + ?a) = unat (reserve_in d pc coin) + unat a"
    by (simp add: checked_add_Some_iff)
  moreover have "checked_mul ?ro ?a = Some (?ro * ?a)"
    using u64_mult_lt [of "reserve_out d pc coin" a] by (simp add: checked_mul_def)
  moreover obtain q where "checked_div (?ro * ?a) (?ri + ?a) = Some q"
    using checked_div_ex [of "?ri + ?a" "?ro * ?a"] calculation(2) assms by auto
  ultimately show ?thesis
    by (cases d) (simp_all add: swap_token_amount_base_in_def reserve_defs)
qed

text \<open>
  C33. The base-in quote, in either direction and for every amount and reserves the handlers
  can pass (64-bit values, not both zero on the input side), returns: the amount out is
  \<open>floor (ro * a / (ri + a))\<close>, it never exceeds the reserve, it leaves something whenever
  both reserves are positive, and the product of the reserves does not decrease.
\<close>

theorem swap_base_in_quote:
  fixes a pc coin :: u64
  assumes "unat (reserve_in d pc coin) + unat a \<noteq> 0"
  shows "\<exists>out. (swap_token_amount_base_in (ucast a) (ucast pc) (ucast coin) d :: u128 res) = Ok out \<and>
    unat out = unat (reserve_out d pc coin) * unat a div (unat (reserve_in d pc coin) + unat a) \<and>
    unat out \<le> unat (reserve_out d pc coin) \<and>
    (reserve_in d pc coin \<noteq> 0 \<longrightarrow> reserve_out d pc coin \<noteq> 0 \<longrightarrow> unat out < unat (reserve_out d pc coin)) \<and>
    unat pc * unat coin \<le>
      (unat (reserve_in d pc coin) + unat a) * (unat (reserve_out d pc coin) - unat out)"
proof -
  obtain out where out: "(swap_token_amount_base_in (ucast a) (ucast pc) (ucast coin) d :: u128 res) = Ok out"
    using swap_base_in_total [OF assms] by blast
  then have t: "base_in_trade d (ucast (reserve_in d pc coin)) (ucast (reserve_out d pc coin)) (ucast a) out"
    using base_in_trade_iff [of d "ucast pc" "ucast coin" "ucast a" out] by (simp add: reserve_ucast)
  have "unat pc * unat coin = unat (reserve_in d pc coin) * unat (reserve_out d pc coin)"
    by (cases d) (simp_all add: reserve_defs)
  then show ?thesis
    using out base_in_trade_value [OF t] base_in.trade_bound [OF t] base_in.trade_product [OF t]
      base_in.trade_not_all [OF t] by simp
qed

theorem swap_base_in_quote_witness:
  "\<exists>out. (swap_token_amount_base_in (ucast (100 :: u64)) (ucast (5000 :: u64)) (ucast (900 :: u64)) Coin2PC
     :: u128 res) = Ok out \<and> unat out = 500"
  using swap_base_in_quote [of Coin2PC 5000 900 100] by (auto simp: reserve_defs)

text \<open>
  C34. A base-out quote that is returned covers the amount out: the reserve strictly exceeds
  the amount, the quote is the rounded-up \<open>ri * out / (ro - out)\<close> (with the implementation's
  rounding of quotients below one), and every non-zero quote keeps the product of the
  reserves from decreasing. Asking for the whole reserve or more never returns.
\<close>

theorem swap_base_out_quote:
  assumes "(swap_token_amount_base_out out pc coin d :: u128 res) = Ok a"
  shows "unat out < unat (reserve_out d pc coin) \<and>
    unat a = ceil_div_spec (unat (reserve_in d pc coin) * unat out) (unat (reserve_out d pc coin) - unat out) \<and>
    (a \<noteq> 0 \<longrightarrow> unat pc * unat coin \<le>
       (unat (reserve_in d pc coin) + unat a) * (unat (reserve_out d pc coin) - unat out))"
proof -
  have eq: "unat pc * unat coin = unat (reserve_in d pc coin) * unat (reserve_out d pc coin)"
    by (cases d) (simp_all add: reserve_defs)
  from assms obtain den m r where den: "checked_sub (reserve_out d pc coin) out = Some den"
    and m: "checked_mul (reserve_in d pc coin) out = Some m"
    and q: "checked_ceil_div m den = Some (a, r)"
    by (auto simp: swap_token_amount_base_out_def outcome bind_Some_iff reserve_defs
        split: swap_direction.splits)
  have "unat (reserve_out d pc coin) = unat den + unat out" using den by (simp add: checked_sub_Some_iff)
  moreover have "unat m = unat (reserve_in d pc coin) * unat out" using m by (simp add: checked_mul_Some_iff)
  ultimately have "unat out < unat (reserve_out d pc coin) \<and>
    unat a = ceil_div_spec (unat (reserve_in d pc coin) * unat out) (unat (reserve_out d pc coin) - unat out)"
    using checked_ceil_div_spec [OF q] by auto
  moreover have "a \<noteq> 0 \<Longrightarrow> base_out_trade d (reserve_in d pc coin) (reserve_out d pc coin) a out"
    using assms by (simp add: base_out_trade_iff)
  ultimately show ?thesis using base_out.trade_product [of d] eq by metis
qed

theorem swap_base_out_quote_witness:
  "unat (500 :: u128) < unat (reserve_out Coin2PC 5000 (900 :: u128)) \<and>
   unat (100 :: u128) = ceil_div_spec (900 * 500) 4500"
  using swap_base_out_quote [of 500 5000 900 Coin2PC 100]
  by (simp add: swap_token_amount_base_out_def checked_sub_def checked_mul_def checked_div_def
      checked_rem_def checked_ceil_div_def reserve_defs)

text \<open>
  Swapping \<open>dx\<close> and swapping the proceeds back against the resulting reserves never
  returns more than \<open>dx\<close>, in either direction: the rounding always favours the pool.
\<close>

theorem swap_round_trip:
  assumes "(swap_token_amount_base_in dx pc coin d :: u128 res) = Ok dy"
    and "(swap_token_amount_base_in dy pc' coin' d' :: u128 res) = Ok dx'"
    and "d' \<noteq> d"
    and "unat (reserve_in d pc' coin') = unat (reserve_in d pc coin) + unat dx"
    and "unat (reserve_out d pc' coin') + unat dy = unat (reserve_out d pc coin)"
    and "pc \<noteq> 0" "coin \<noteq> 0"
  shows "unat dx' \<le> unat dx"
proof -
  have sw: "reserve_in d' x y = reserve_out d x y" "reserve_out d' x y = reserve_in d x y" for x y :: u128
    using assms(3) by (cases d; cases d'; simp add: reserve_defs)+
  have t1: "base_in_trade d (reserve_in d pc coin) (reserve_out d pc coin) dx dy"
    using assms(1) by (simp only: base_in_trade_iff)
  have "base_in_trade d' (reserve_out d pc' coin') (reserve_in d pc' coin') dy dx'"
    using assms(2) base_in_trade_iff [of d' pc' coin'] by (simp add: sw)
  then have t2: "base_in_trade d (reserve_out d pc' coin') (reserve_in d pc' coin') dy dx'"
    using assms(3) by (cases d; cases d'; simp add: base_in_trade_def swap_token_amount_base_in_def)
  show ?thesis
    by (rule base_in.trade_round_trip [OF t1 t2])
      (use assms(4-7) in \<open>cases d; simp add: reserve_defs\<close>)+
qed

theorem swap_round_trip_witness: "unat (99 :: u128) \<le> unat (100 :: u128)"
  by (rule swap_round_trip [of 100 5003 900 Coin2PC 500 4503 1000 PC2Coin 99])
    (simp_all add: swap_token_amount_base_in_def checked_add_def checked_mul_def checked_div_def
      reserve_defs)

text \<open>
  C35. Rounding up: \<open>checked_ceil_div\<close> returns for every non-zero divisor and every dividend
  below \<open>2 ^ 127\<close>, and its quotient \<open>q\<close> is the rounded-up one when the divisor is at most the
  dividend, and otherwise 1 exactly when the dividend is at least half of the divisor and 0 when
  it is less. So a quotient that should round up to 1 can come out as 0.
\<close>

theorem checked_ceil_div_value:
  assumes "b \<noteq> 0" "2 * unat a < 2 ^ 128"
  shows "\<exists>q r. checked_ceil_div a b = Some (q, r) \<and>
    (unat b \<le> unat a \<longrightarrow> unat a \<le> unat q * unat b \<and> unat q * unat b < unat a + unat b) \<and>
    (unat a < unat b \<longrightarrow> (q = 1 \<longleftrightarrow> unat b \<le> 2 * unat a) \<and> (q = 0 \<longleftrightarrow> 2 * unat a < unat b))"
proof -
  have b: "unat b \<noteq> 0" and b': "0 < unat b" using assms(1) by simp_all
  obtain q r where q: "checked_ceil_div a b = Some (q, r)"
    using checked_ceil_div_total [OF b assms(2)] by blast
  have v: "unat q = ceil_div_spec (unat a) (unat b)" using checked_ceil_div_spec [OF q] by simp
  have "unat a < unat b \<Longrightarrow> (q = 1 \<longleftrightarrow> unat b \<le> 2 * unat a) \<and> (q = 0 \<longleftrightarrow> 2 * unat a < unat b)"
    using q checked_ceil_div_small [OF b, of a] assms(2) by (auto split: if_splits)
  then show ?thesis
    using q v ceil_div_spec_mult [OF b', of "unat a"] ceil_div_spec_lt [OF b', of "unat a"] by auto
qed

theorem checked_ceil_div_value_witness:
  "\<exists>q r. checked_ceil_div (199 * 25) 10000 = Some (q, r) \<and> q = 0"
  using checked_ceil_div_value [of 10000 "199 * 25"] by auto

text \<open>
  Depositing \<open>d\<close> of a reserve \<open>R\<close> for a floored share of the LP supply \<open>L\<close> and redeeming the
  minted LP tokens against the enlarged reserve never returns more than was deposited.
\<close>

theorem deposit_redeem_no_gain:
  assumes "(exchange_token_to_pool \<lparr>token_input = L, token_total = R\<rparr> d Floor :: u64 option res) = Ok (Some m)"
    and "L' = L + m" "unat L' = unat L + unat m" "unat R' = unat R + unat d" "L \<noteq> 0"
    and "(exchange_pool_to_token \<lparr>token_input = R', token_total = L'\<rparr> m Floor :: u64 option res) = Ok (Some back)"
  shows "unat back \<le> unat d"
proof -
  have m: "unat R \<noteq> 0 \<and> unat m = unat L * unat d div unat R"
    using exchange_Floor_value [OF assms(1) [unfolded exchange_token_to_pool_def]]
    by (auto simp: mult.commute)
  have bk: "unat back = (unat R + unat d) * unat m div (unat L + unat m)"
    using exchange_Floor_value [OF assms(6) [unfolded exchange_pool_to_token_def]] assms(3,4)
    by (auto simp: mult.commute)
  show ?thesis
    unfolding bk using m share_round_trip_nat [of "unat R" "unat L" "unat d"] assms(5)
    by (simp add: neq0_conv [symmetric] del: neq0_conv)
qed

theorem deposit_redeem_no_gain_witness: "unat (99 :: u64) \<le> unat (100 :: u64)"
  by (rule deposit_redeem_no_gain [of 10 30 100 33 43 130 99])
    (simp_all add: exchange_token_to_pool_def exchange_pool_to_token_def exchange_def as_u64_def
      checked_mul_def checked_div_def try_narrow_def)

text \<open>
  Redeeming LP tokens at the floored rate returns an amount and never dilutes the
  remaining holders: what is left of the reserve per remaining LP token is at least the rate
  before.
\<close>

theorem redeem_keeps_rate:
  fixes R L a :: u64
  assumes "L \<noteq> 0" "a \<le> L"
  shows "\<exists>x. (exchange_pool_to_token \<lparr>token_input = R, token_total = L\<rparr> a Floor :: u64 option res) = Ok (Some x) \<and>
    unat x = unat R * unat a div unat L \<and> unat x \<le> unat R \<and>
    unat R * (unat L - unat a) \<le> (unat R - unat x) * unat L"
proof -
  have L: "unat L \<noteq> 0" "0 < unat L" using assms by simp_all
  have a: "unat a \<le> unat L" using assms(2) by (simp add: word_le_nat_alt)
  have "unat a * unat R \<le> unat R * unat L" using a by (simp add: mult.commute)
  then have "unat a * unat R div unat L \<le> unat R * unat L div unat L" by (rule div_le_mono)
  then have le: "unat a * unat R div unat L \<le> unat R" using L by simp
  then have lt: "unat a * unat R div unat L < 2 ^ 64" using u64_lt [of R] by linarith
  let ?x = "word_of_nat (unat a * unat R div unat L) :: u64"
  have x: "unat ?x = unat R * unat a div unat L" using lt by (simp add: unat_of_nat mult.commute)
  show ?thesis
    using exchange_Floor_total [OF L(1) lt] x le redeem_ratio_nat [OF L(2) a, of "unat R"]
    by (intro exI [of _ ?x]) (simp add: exchange_pool_to_token_def mult.commute)
qed

theorem redeem_keeps_rate_witness:
  "\<exists>x. (exchange_pool_to_token \<lparr>token_input = 1000, token_total = 30\<rparr> 7 Floor :: u64 option res) = Ok (Some x)
     \<and> unat x = 233"
  using redeem_keeps_rate [of 30 7 1000] by auto

text \<open>
  \<open>fibonacci order_num\<close> returns the first \<open>order_num\<close> terms of the sequence 0, 1, 2, 3, 5, ...
  for every count up to 93, the largest for which no term overflows 64 bits; 94 terms panic.
\<close>

theorem fibonacci_returns:
  assumes "unat order_num \<le> 93"
  shows "(fibonacci order_num :: u64 list res) = Ok (map (\<lambda>k. word_of_nat (fib_spec k)) [0..<unat order_num]) \<and>
    (\<forall>k < unat order_num. unat (word_of_nat (fib_spec k) :: u64) = fib_spec k) \<and>
    (fibonacci 94 :: u64 list res) = Panic"
proof -
  have u: "unat (word_of_nat (fib_spec k) :: u64) = fib_spec k" if "k \<le> 92" for k
    using fib_spec_lt [OF that] by (simp add: unat_of_nat)
  have "fib_spec 93 = fib_spec 92 + fib_spec 91" using fib_spec_rec [of 93] by simp
  moreover have "fib_spec 91 = 7540113804746346429"
  proof -
    have "fib_pair 90 = (7540113804746346429, 12200160415121876738)" by (simp add: fib_pair_numeral)
    then show ?thesis by (simp add: fib_pair_spec del: fib_spec.simps)
  qed
  ultimately have "\<not> fib_spec 92 + fib_spec 91 < 2 ^ 64"
    using fib_spec_92 by simp
  then have ovf: "checked_add (word_of_nat (fib_spec 92)) (word_of_nat (fib_spec 91) :: u64) = None"
    using u [of 92] u [of 91] by (simp add: checked_add_def)
  have "[0..<94] = [0..<93] @ [93 :: nat]"
    using upt_Suc_append [of 0 93] by (simp add: numeral_eq_Suc)
  then have "(fold_outcome fibonacci_step [0..<94] [] :: u64 list res)
    = rbind (fold_outcome fibonacci_step [0..<93] []) (fold_outcome fibonacci_step [93])"
    by (simp only: fold_outcome_append)
  also have "\<dots> = rbind (Ok (map (\<lambda>k. word_of_nat (fib_spec k)) [0..<93])) (fold_outcome fibonacci_step [93])"
    by (simp only: fibonacci_fold [OF order_refl])
  also have "\<dots> = Panic"
    using ovf by (simp add: fibonacci_step_def index_at_def del: upt_rec_numeral)
  finally have "(fibonacci 94 :: u64 list res) = Panic" by (simp add: fibonacci_def)
  then show ?thesis
    using fibonacci_fold [OF assms] u assms by (simp add: fibonacci_def)
qed

theorem fibonacci_returns_witness:
  "(fibonacci 5 :: u64 list res) = Ok [0, 1, 2, 3, 5] \<and> (fibonacci 94 :: u64 list res) = Panic"
proof -
  have "fib_spec 2 = 2" "fib_spec 3 = 3" "fib_spec 4 = 5" "[0..<5] = [0, 1, 2, 3, 4 :: nat]"
    by (simp_all add: eval_nat_numeral)
  then show ?thesis using fibonacci_returns [of 5] by simp
qed

text \<open>
  Rounding to lots: \<open>floor_lot\<close> returns the largest multiple of a non-zero lot size not above
  the value, and panics on a zero lot size.
\<close>

theorem floor_lot_value:
  fixes val lot :: u64
  shows "(lot = 0 \<longrightarrow> (floor_lot val lot :: u64 res) = Panic) \<and>
    (lot \<noteq> 0 \<longrightarrow> (\<exists>x. (floor_lot val lot :: u64 res) = Ok x \<and> unat x = unat val div unat lot * unat lot \<and>
        unat lot dvd unat x \<and> unat x \<le> unat val \<and> unat val < unat x + unat lot))"
proof (cases "lot = 0")
  case True
  then show ?thesis by (simp add: floor_lot_def checked_div_def)
next
  case False
  then have "unat lot \<noteq> 0" by simp
  then obtain u where u: "checked_div val lot = Some u" and uu: "unat u = unat val div unat lot"
    using checked_div_ex by blast
  have le: "unat val div unat lot * unat lot \<le> unat val" by (rule div_times_less_eq_dividend)
  then have "unat u * unat lot < 2 ^ 64" unfolding uu using u64_lt [of val] by linarith
  then have "checked_mul u lot = Some (u * lot)" by (simp add: checked_mul_def)
  moreover from this have "unat (u * lot) = unat val div unat lot * unat lot"
    by (simp add: checked_mul_Some_iff uu)
  moreover have "unat val < unat val div unat lot * unat lot + unat lot"
  proof -
    have "unat val = unat val div unat lot * unat lot + unat val mod unat lot" by simp
    moreover have "unat val mod unat lot < unat lot" using \<open>unat lot \<noteq> 0\<close> by (simp only: mod_less_divisor neq0_conv)
    ultimately show ?thesis by linarith
  qed
  ultimately show ?thesis
    using u le False by (simp add: floor_lot_def)
qed

theorem floor_lot_value_witness:
  "\<exists>x. (floor_lot 1234 100 :: u64 res) = Ok x \<and> unat x = 1200"
  using floor_lot_value [of 100 1234] by auto

end
