(* ===== verification/AmmState.thy ===== *)
theory AmmState
  imports Calculator
begin

text \<open>
  The state types of \<^verbatim>\<open>src/state.rs\<close>: the enumerations kept as \<^verbatim>\<open>u64\<close> fields, the fees, the
  pool record \<^verbatim>\<open>AmmInfo\<close> with its initialisation, the target-order record, the
  configuration record. The loaders of these records from accounts are in \<open>Runtime\<close>, the
  transfer-hook whitelist is in \<open>Whitelist\<close>.
\<close>

definition TEN_THOUSAND :: u64 where "TEN_THOUSAND = 10000"

definition MAX_ORDER_LIMIT :: nat where "MAX_ORDER_LIMIT = 10"

section \<open>Enumerations stored as u64\<close>

datatype amm_status = Uninitialized | Initialized | Disabled | WithdrawOnly | LiquidityOnly
  | OrderBookOnly | SwapOnly | WaitingTrade

datatype amm_state = InvlidState | IdleState | CancelAllOrdersState | PlanOrdersState
  | CancelOrderState | PlaceOrdersState | PurgeOrderState

datatype amm_params = PStatus | PState | POrderNum | PDepth | PAmountWave | PMinPriceMultiplier
  | PMaxPriceMultiplier | PMinSize | PVolMaxCutRatio | PFees | PAmmOwner | PSetOpenTime
  | PLastOrderDistance | PInitOrderDepth | PSetSwitchTime | PClearOpenTime | PSeperate
  | PUpdateOpenOrder

datatype amm_reset_flag = ResetYes | ResetNo

datatype simulate_params = PoolInfo | SwapBaseInInfo | SwapBaseOutInfo | RunCrankInfo

text \<open>\<^verbatim>\<open>from_u64\<close>: an unlisted value reaches \<^verbatim>\<open>unreachable!()\<close>, a panic.\<close>

definition amm_status_from_u64 :: "u64 \<Rightarrow> ('e, amm_status) outcome" where
  "amm_status_from_u64 status =
     (if status = 0 then Ok Uninitialized else if status = 1 then Ok Initialized
      else if status = 2 then Ok Disabled else if status = 3 then Ok WithdrawOnly
      else if status = 4 then Ok LiquidityOnly else if status = 5 then Ok OrderBookOnly
      else if status = 6 then Ok SwapOnly else if status = 7 then Ok WaitingTrade
      else Panic)"

primrec amm_status_into_u64 :: "amm_status \<Rightarrow> u64" where
  "amm_status_into_u64 Uninitialized = 0"
| "amm_status_into_u64 Initialized = 1"
| "amm_status_into_u64 Disabled = 2"
| "amm_status_into_u64 WithdrawOnly = 3"
| "amm_status_into_u64 LiquidityOnly = 4"
| "amm_status_into_u64 OrderBookOnly = 5"
| "amm_status_into_u64 SwapOnly = 6"
| "amm_status_into_u64 WaitingTrade = 7"

definition valid_status :: "u64 \<Rightarrow> bool" where
  "valid_status status = (status \<in> {1, 2, 3, 4, 5, 6, 7})"

primrec deposit_permission :: "amm_status \<Rightarrow> bool" where
  "deposit_permission Uninitialized = False"
| "deposit_permission Initialized = True"
| "deposit_permission Disabled = False"
| "deposit_permission WithdrawOnly = False"
| "deposit_permission LiquidityOnly = True"
| "deposit_permission OrderBookOnly = True"
| "deposit_permission SwapOnly = True"
| "deposit_permission WaitingTrade = True"

primrec withdraw_permission :: "amm_status \<Rightarrow> bool" where
  "withdraw_permission Uninitialized = False"
| "withdraw_permission Initialized = True"
| "withdraw_permission Disabled = False"
| "withdraw_permission WithdrawOnly = True"
| "withdraw_permission LiquidityOnly = True"
| "withdraw_permission OrderBookOnly = True"
| "withdraw_permission SwapOnly = True"
| "withdraw_permission WaitingTrade = True"

primrec swap_permission :: "amm_status \<Rightarrow> bool" where
  "swap_permission Uninitialized = False"
| "swap_permission Initialized = True"
| "swap_permission Disabled = False"
| "swap_permission WithdrawOnly = False"
| "swap_permission LiquidityOnly = False"
| "swap_permission OrderBookOnly = False"
| "swap_permission SwapOnly = True"
| "swap_permission WaitingTrade = True"

primrec orderbook_permission :: "amm_status \<Rightarrow> bool" where
  "orderbook_permission Uninitialized = False"
| "orderbook_permission Initialized = True"
| "orderbook_permission Disabled = False"
| "orderbook_permission WithdrawOnly = False"
| "orderbook_permission LiquidityOnly = False"
| "orderbook_permission OrderBookOnly = True"
| "orderbook_permission SwapOnly = False"
| "orderbook_permission WaitingTrade = False"

definition amm_state_from_u64 :: "u64 \<Rightarrow> ('e, amm_state) outcome" where
  "amm_state_from_u64 state =
     (if state = 0 then Ok InvlidState else if state = 1 then Ok IdleState
      else if state = 2 then Ok CancelAllOrdersState else if state = 3 then Ok PlanOrdersState
      else if state = 4 then Ok CancelOrderState else if state = 5 then Ok PlaceOrdersState
      else if state = 6 then Ok PurgeOrderState else Panic)"

primrec amm_state_into_u64 :: "amm_state \<Rightarrow> u64" where
  "amm_state_into_u64 InvlidState = 0"
| "amm_state_into_u64 IdleState = 1"
| "amm_state_into_u64 CancelAllOrdersState = 2"
| "amm_state_into_u64 PlanOrdersState = 3"
| "amm_state_into_u64 CancelOrderState = 4"
| "amm_state_into_u64 PlaceOrdersState = 5"
| "amm_state_into_u64 PurgeOrderState = 6"

definition valid_state :: "u64 \<Rightarrow> bool" where
  "valid_state state = (state \<in> {0, 1, 2, 3, 4, 5, 6})"

definition amm_params_from_u64 :: "u64 \<Rightarrow> ('e, amm_params) outcome" where
  "amm_params_from_u64 state =
     (if state = 0 then Ok PStatus else if state = 1 then Ok PState
      else if state = 2 then Ok POrderNum else if state = 3 then Ok PDepth
      else if state = 4 then Ok PAmountWave else if state = 5 then Ok PMinPriceMultiplier
      else if state = 6 then Ok PMaxPriceMultiplier else if state = 7 then Ok PMinSize
      else if state = 8 then Ok PVolMaxCutRatio else if state = 9 then Ok PFees
      else if state = 10 then Ok PAmmOwner else if state = 11 then Ok PSetOpenTime
      else if state = 12 then Ok PLastOrderDistance else if state = 13 then Ok PInitOrderDepth
      else if state = 14 then Ok PSetSwitchTime else if state = 15 then Ok PClearOpenTime
      else if state = 16 then Ok PSeperate else if state = 17 then Ok PUpdateOpenOrder
      else Panic)"

primrec amm_params_into_u64 :: "amm_params \<Rightarrow> u64" where
  "amm_params_into_u64 PStatus = 0"
| "amm_params_into_u64 PState = 1"
| "amm_params_into_u64 POrderNum = 2"
| "amm_params_into_u64 PDepth = 3"
| "amm_params_into_u64 PAmountWave = 4"
| "amm_params_into_u64 PMinPriceMultiplier = 5"
| "amm_params_into_u64 PMaxPriceMultiplier = 6"
| "amm_params_into_u64 PMinSize = 7"
| "amm_params_into_u64 PVolMaxCutRatio = 8"
| "amm_params_into_u64 PFees = 9"
| "amm_params_into_u64 PAmmOwner = 10"
| "amm_params_into_u64 PSetOpenTime = 11"
| "amm_params_into_u64 PLastOrderDistance = 12"
| "amm_params_into_u64 PInitOrderDepth = 13"
| "amm_params_into_u64 PSetSwitchTime = 14"
| "amm_params_into_u64 PClearOpenTime = 15"
| "amm_params_into_u64 PSeperate = 16"
| "amm_params_into_u64 PUpdateOpenOrder = 17"

definition amm_reset_flag_from_u64 :: "u64 \<Rightarrow> ('e, amm_reset_flag) outcome" where
  "amm_reset_flag_from_u64 flag =
     (if flag = 0 then Ok ResetYes else if flag = 1 then Ok ResetNo else Panic)"

primrec amm_reset_flag_into_u64 :: "amm_reset_flag \<Rightarrow> u64" where
  "amm_reset_flag_into_u64 ResetYes = 0"
| "amm_reset_flag_into_u64 ResetNo = 1"

definition simulate_params_from_u64 :: "u64 \<Rightarrow> ('e, simulate_params) outcome" where
  "simulate_params_from_u64 flag =
     (if flag = 0 then Ok PoolInfo else if flag = 1 then Ok SwapBaseInInfo
      else if flag = 2 then Ok SwapBaseOutInfo else if flag = 3 then Ok RunCrankInfo
      else Panic)"

primrec simulate_params_into_u64 :: "simulate_params \<Rightarrow> u64" where
  "simulate_params_into_u64 PoolInfo = 0"
| "simulate_params_into_u64 SwapBaseInInfo = 1"
| "simulate_params_into_u64 SwapBaseOutInfo = 2"
| "simulate_params_into_u64 RunCrankInfo = 3"

text \<open>
  What the five enumerations share: decoding inverts encoding, and whatever decodes was an
  encoding.
\<close>

locale enum_codec =
  fixes from_u :: "u64 \<Rightarrow> (program_error, 'a) outcome" and into_u :: "'a \<Rightarrow> u64"
  assumes from_into: "from_u (into_u x) = Ok x"
    and into_from: "from_u n = Ok x \<Longrightarrow> into_u x = n"
    and from_no_err: "from_u n \<noteq> Err e"
begin

lemma into_inject: "into_u x = into_u y \<longleftrightarrow> x = y"
proof
  assume "into_u x = into_u y"
  then have "from_u (into_u x) = from_u (into_u y)" by simp
  then show "x = y" by (simp add: from_into)
qed simp

lemma from_Ok_iff: "from_u n = Ok x \<longleftrightarrow> n = into_u x"
  using from_into into_from by auto

lemma from_Panic_iff: "from_u n = Panic \<longleftrightarrow> n \<notin> range into_u"
proof -
  have "from_u n = Panic \<longleftrightarrow> (\<forall>x. from_u n \<noteq> Ok x)"
    using from_no_err by (cases "from_u n") auto
  then show ?thesis by (auto simp: from_Ok_iff)
qed

end

interpretation status_codec: enum_codec amm_status_from_u64 amm_status_into_u64
proof
  show "amm_status_from_u64 (amm_status_into_u64 x) = Ok x" for x
    by (cases x) (simp_all add: amm_status_from_u64_def)
qed (auto simp: amm_status_from_u64_def split: if_splits)

interpretation state_codec: enum_codec amm_state_from_u64 amm_state_into_u64
proof
  show "amm_state_from_u64 (amm_state_into_u64 x) = Ok x" for x
    by (cases x) (simp_all add: amm_state_from_u64_def)
qed (auto simp: amm_state_from_u64_def split: if_splits)

interpretation params_codec: enum_codec amm_params_from_u64 amm_params_into_u64
proof
  show "amm_params_from_u64 (amm_params_into_u64 x) = Ok x" for x
    by (cases x) (simp_all add: amm_params_from_u64_def)
qed (auto simp: amm_params_from_u64_def split: if_splits)

interpretation reset_codec: enum_codec amm_reset_flag_from_u64 amm_reset_flag_into_u64
proof
  show "amm_reset_flag_from_u64 (amm_reset_flag_into_u64 x) = Ok x" for x
    by (cases x) (simp_all add: amm_reset_flag_from_u64_def)
qed (auto simp: amm_reset_flag_from_u64_def split: if_splits)

interpretation simulate_codec: enum_codec simulate_params_from_u64 simulate_params_into_u64
proof
  show "simulate_params_from_u64 (simulate_params_into_u64 x) = Ok x" for x
    by (cases x) (simp_all add: simulate_params_from_u64_def)
qed (auto simp: simulate_params_from_u64_def split: if_splits)


section \<open>Fees\<close>

record fees =
  min_separate_numerator :: u64
  min_separate_denominator :: u64
  trade_fee_numerator :: u64
  trade_fee_denominator :: u64
  pnl_numerator :: u64
  pnl_denominator :: u64
  swap_fee_numerator :: u64
  swap_fee_denominator :: u64

definition validate_fraction :: "u64 \<Rightarrow> u64 \<Rightarrow> unit amm_res" where
  "validate_fraction numerator denominator =
     (if numerator \<ge> denominator \<or> denominator = 0 then Err InvalidFee else Ok ())"

definition fees_validate :: "fees \<Rightarrow> unit amm_res" where
  "fees_validate self =
     rbind (validate_fraction (min_separate_numerator self) (min_separate_denominator self)) (\<lambda>_.
     rbind (validate_fraction (trade_fee_numerator self) (trade_fee_denominator self)) (\<lambda>_.
     rbind (validate_fraction (pnl_numerator self) (pnl_denominator self)) (\<lambda>_.
     rbind (validate_fraction (swap_fee_numerator self) (swap_fee_denominator self)) (\<lambda>_.
     Ok ()))))"

text \<open>\<^verbatim>\<open>Fees::initialize\<close>: the record it leaves (every field is assigned).\<close>

definition fees_initialize :: "fees \<Rightarrow> fees" where
  "fees_initialize self =
     self\<lparr>min_separate_numerator := 5, min_separate_denominator := TEN_THOUSAND,
          trade_fee_numerator := 25, trade_fee_denominator := TEN_THOUSAND,
          pnl_numerator := 12, pnl_denominator := 100,
          swap_fee_numerator := 25, swap_fee_denominator := TEN_THOUSAND\<rparr>"

definition FEES_LEN :: nat where "FEES_LEN = 64"

definition fees_pack :: "fees \<Rightarrow> bytes" where
  "fees_pack self =
     le_bytes 8 (min_separate_numerator self) @ le_bytes 8 (min_separate_denominator self) @
     le_bytes 8 (trade_fee_numerator self) @ le_bytes 8 (trade_fee_denominator self) @
     le_bytes 8 (pnl_numerator self) @ le_bytes 8 (pnl_denominator self) @
     le_bytes 8 (swap_fee_numerator self) @ le_bytes 8 (swap_fee_denominator self)"

text \<open>
  \<^verbatim>\<open>unpack_from_slice\<close>: \<^verbatim>\<open>array_ref![input, 0, 64]\<close> panics on a shorter input; the field \<open>i\<close> is
  the bytes \<open>8 i .. 8 i + 7\<close>.
\<close>

definition u64_at :: "bytes \<Rightarrow> nat \<Rightarrow> u64" where
  "u64_at bs i = from_le_bytes (take 8 (drop (8 * i) bs))"

definition fees_unpack_from_slice :: "bytes \<Rightarrow> fees res" where
  "fees_unpack_from_slice input =
     rbind (array_ref input 0 FEES_LEN) (\<lambda>bs.
     Ok \<lparr>min_separate_numerator = u64_at bs 0, min_separate_denominator = u64_at bs 1,
         trade_fee_numerator = u64_at bs 2, trade_fee_denominator = u64_at bs 3,
         pnl_numerator = u64_at bs 4, pnl_denominator = u64_at bs 5,
         swap_fee_numerator = u64_at bs 6, swap_fee_denominator = u64_at bs 7\<rparr>)"

section \<open>StateData\<close>

record state_data =
  need_take_pnl_coin :: u64
  need_take_pnl_pc :: u64
  total_pnl_pc :: u64
  total_pnl_coin :: u64
  pool_open_time :: u64
  sd_padding :: "u64 list"
  orderbook_to_init_time :: u64
  swap_coin_in_amount :: u128
  swap_pc_out_amount :: u128
  swap_acc_pc_fee :: u64
  swap_pc_in_amount :: u128
  swap_coin_out_amount :: u128
  swap_acc_coin_fee :: u64

definition state_data_initialize :: "u64 \<Rightarrow> state_data \<Rightarrow> state_data" where
  "state_data_initialize open_time self =
     self\<lparr>need_take_pnl_coin := 0, need_take_pnl_pc := 0, total_pnl_pc := 0, total_pnl_coin := 0,
          pool_open_time := open_time, sd_padding := [0, 0], orderbook_to_init_time := 0,
          swap_coin_in_amount := 0, swap_pc_out_amount := 0, swap_acc_pc_fee := 0,
          swap_pc_in_amount := 0, swap_coin_out_amount := 0, swap_acc_coin_fee := 0\<rparr>"

section \<open>AmmInfo\<close>

record amm_info =
  status :: u64
  nonce :: u64
  order_num :: u64
  depth :: u64
  coin_decimals :: u64
  pc_decimals :: u64
  state :: u64
  reset_flag :: u64
  min_size :: u64
  vol_max_cut_ratio :: u64
  amount_wave :: u64
  coin_lot_size :: u64
  pc_lot_size :: u64
  min_price_multiplier :: u64
  max_price_multiplier :: u64
  sys_decimal_value :: u64
  amm_fees :: fees
  amm_state_data :: state_data
  coin_vault :: pubkey
  pc_vault :: pubkey
  coin_vault_mint :: pubkey
  pc_vault_mint :: pubkey
  lp_mint :: pubkey
  open_orders :: pubkey
  market :: pubkey
  market_program :: pubkey
  target_orders :: pubkey
  amm_padding1 :: "u64 list"
  amm_owner :: pubkey
  lp_amount :: u64
  client_order_id :: u64
  recent_epoch :: u64
  amm_padding2 :: u64

text \<open>\<^verbatim>\<open>size_of::<AmmInfo>()\<close> and the sizes of the other packed records, field by field.\<close>

definition fees_size :: nat where "fees_size = 8 * 8"
definition state_data_size :: nat where "state_data_size = 8 * 5 + 8 * 2 + 8 + 16 * 2 + 8 + 16 * 2 + 8"
definition amm_info_size :: nat where
  "amm_info_size = 8 * 16 + fees_size + state_data_size + 32 * 9 + 8 * 8 + 32 + 8 * 4"

text \<open>
  \<^verbatim>\<open>AmmInfo::initialize\<close>. \<^verbatim>\<open>get_recent_epoch\<close> reads the clock sysvar, which is the argument
  \<open>epoch\<close> (an error there is a panic, its result being unwrapped).
\<close>

definition init_sys_decimal_value :: "u8 \<Rightarrow> u8 \<Rightarrow> u64 \<Rightarrow> u64 \<Rightarrow> ('e, u64) outcome" where
  "init_sys_decimal_value coin_dec pc_dec coin_lot pc_lot =
     rbind (unwrap (checked_pow 10 (unat (if pc_dec > coin_dec then pc_dec else coin_dec)))) (\<lambda>sdv.
     rbind (pow10 (unat pc_dec)) (\<lambda>pc_pow.
     rbind (unwrap (checked_mul (ucast coin_lot :: u128) pc_pow)) (\<lambda>num.
     rbind (pow10 (unat coin_dec)) (\<lambda>coin_pow.
     rbind (unwrap (checked_mul (ucast pc_lot :: u128) coin_pow)) (\<lambda>den.
     rbind (unwrap (checked_div num den)) (\<lambda>q.
     if ucast (sdv :: u64) \<le> q then unwrap_res (to_u64 q) else Ok sdv))))))"

definition init_min_size :: "u8 \<Rightarrow> u64 \<Rightarrow> u64 \<Rightarrow> u64 amm_res" where
  "init_min_size coin_dec coin_lot sdv =
     rbind (unwrap (checked_mul (ucast coin_lot :: u128) (ucast sdv))) (\<lambda>a.
     rbind (pow10 (unat coin_dec)) (\<lambda>p.
     rbind (unwrap (checked_div a p)) (\<lambda>min_size.
     if min_size < ucast (- 1 :: u64) then to_u64 min_size else Ok 0)))"

definition amm_info_initialize ::
  "u64 res \<Rightarrow> u8 \<Rightarrow> u64 \<Rightarrow> u8 \<Rightarrow> u8 \<Rightarrow> u64 \<Rightarrow> u64 \<Rightarrow> amm_info \<Rightarrow> amm_info amm_res" where
  "amm_info_initialize epoch nonce' open_time coin_dec pc_dec coin_lot pc_lot self =
     rbind (init_sys_decimal_value coin_dec pc_dec coin_lot pc_lot) (\<lambda>sdv.
     rbind (init_min_size coin_dec coin_lot sdv) (\<lambda>min_sz.
     rbind (unwrap (do { a \<leftarrow> checked_mul sdv 5; checked_div a 1000 })) (\<lambda>wave.
     rbind (convert_in_pc_lot_size pc_dec coin_dec pc_lot coin_lot sdv) (\<lambda>pc_lot'.
     rbind (unwrap_res epoch) (\<lambda>ep.
     Ok (self\<lparr>
       amm_fees := fees_initialize (amm_fees self),
       amm_state_data := state_data_initialize open_time (amm_state_data self),
       status := amm_status_into_u64 Uninitialized,
       nonce := ucast nonce', order_num := 7, depth := 3,
       coin_decimals := ucast coin_dec, pc_decimals := ucast pc_dec,
       state := amm_state_into_u64 IdleState, reset_flag := amm_reset_flag_into_u64 ResetNo,
       sys_decimal_value := sdv, min_size := min_sz, vol_max_cut_ratio := 500,
       amount_wave := wave, coin_lot_size := coin_lot, pc_lot_size := pc_lot',
       min_price_multiplier := 1, max_price_multiplier := 1000000000, client_order_id := 0,
       amm_padding1 := replicate 8 0, recent_epoch := ep, amm_padding2 := 0\<rparr>))))))"

definition incr_client_order_id :: "amm_info \<Rightarrow> amm_info \<times> u64" where
  "incr_client_order_id self =
     (let c = client_order_id self + 1;
          c' = (if c = 0 then c + 1 else c)
      in (self\<lparr>client_order_id := c'\<rparr>, c'))"

section \<open>TargetOrders\<close>

record target_order =
  to_price :: u64
  to_vol :: u64

record target_orders_data =
  t_owner :: pubkey
  buy_orders :: "target_order list"
  t_padding1 :: "u64 list"
  target_x :: u128
  target_y :: u128
  plan_x_buy :: u128
  plan_y_buy :: u128
  plan_x_sell :: u128
  plan_y_sell :: u128
  placed_x :: u128
  placed_y :: u128
  calc_pnl_x :: u128
  calc_pnl_y :: u128
  sell_orders :: "target_order list"
  t_padding2 :: "u64 list"
  replace_buy_client_id :: "u64 list"
  replace_sell_client_id :: "u64 list"
  last_order_numerator :: u64
  last_order_denominator :: u64
  plan_orders_cur :: u64
  place_orders_cur :: u64
  valid_buy_order_num :: u64
  valid_sell_order_num :: u64
  t_padding3 :: "u64 list"
  free_slot_bits :: u128

definition target_orders_size :: nat where
  "target_orders_size = 32 + 50 * 16 + 8 * 8 + 16 * 10 + 50 * 16 + 6 * 8 + MAX_ORDER_LIMIT * 8
     + MAX_ORDER_LIMIT * 8 + 8 * 6 + 10 * 8 + 16"

definition target_orders_check_init ::
  "u128 \<Rightarrow> u128 \<Rightarrow> pubkey \<Rightarrow> target_orders_data \<Rightarrow> target_orders_data res" where
  "target_orders_check_init x y owner self =
     (if t_owner self \<noteq> default_pubkey then AmmErr AlreadyInUse
      else Ok (self\<lparr>t_owner := owner, last_order_numerator := 0, last_order_denominator := 0,
        plan_orders_cur := 0, place_orders_cur := 0, valid_buy_order_num := 0,
        valid_sell_order_num := 0, target_x := 0, target_y := 0, plan_x_buy := 0, plan_y_buy := 0,
        plan_x_sell := 0, plan_y_sell := 0, placed_x := 0, placed_y := 0,
        calc_pnl_x := x, calc_pnl_y := y, free_slot_bits := - 1\<rparr>))"

section \<open>AmmConfig and LastOrderDistance\<close>

record amm_config =
  pnl_owner :: pubkey
  cancel_owner :: pubkey
  pending_1 :: "u64 list"
  pending_2 :: "u64 list"
  create_pool_fee :: u64

definition amm_config_size :: nat where "amm_config_size = 32 + 32 + 28 * 8 + 31 * 8 + 8"

record last_order_distance =
  lod_numerator :: u64
  lod_denominator :: u64

section \<open>Simulation results\<close>

record run_crank_data =
  rcd_status :: u64
  rcd_state :: u64
  rcd_run_crank :: bool

record get_pool_data =
  gpd_status :: u64
  gpd_coin_decimals :: u64
  gpd_pc_decimals :: u64
  gpd_lp_decimals :: u64
  gpd_pool_pc_amount :: u64
  gpd_pool_coin_amount :: u64
  gpd_pnl_pc_amount :: u64
  gpd_pnl_coin_amount :: u64
  gpd_pool_lp_supply :: u64
  gpd_pool_open_time :: u64
  gpd_amm_id :: pubkey

record get_swap_base_in_data =
  gsbi_pool_data :: get_pool_data
  gsbi_amount_in :: u64
  gsbi_minimum_amount_out :: u64
  gsbi_price_impact :: u64

record get_swap_base_out_data =
  gsbo_pool_data :: get_pool_data
  gsbo_max_amount_in :: u64
  gsbo_amount_out :: u64
  gsbo_price_impact :: u64

section \<open>Zeroed accounts\<close>

text \<open>The records an account of zero bytes reads as (\<^verbatim>\<open>Zeroable::zeroed\<close>).\<close>

definition zero_fees :: fees where
  "zero_fees = \<lparr>min_separate_numerator = 0, min_separate_denominator = 0,
     trade_fee_numerator = 0, trade_fee_denominator = 0, pnl_numerator = 0, pnl_denominator = 0,
     swap_fee_numerator = 0, swap_fee_denominator = 0\<rparr>"

definition zero_state_data :: state_data where
  "zero_state_data = \<lparr>need_take_pnl_coin = 0, need_take_pnl_pc = 0, total_pnl_pc = 0,
     total_pnl_coin = 0, pool_open_time = 0, sd_padding = [0, 0], orderbook_to_init_time = 0,
     swap_coin_in_amount = 0, swap_pc_out_amount = 0, swap_acc_pc_fee = 0,
     swap_pc_in_amount = 0, swap_coin_out_amount = 0, swap_acc_coin_fee = 0\<rparr>"

definition zero_amm_info :: amm_info where
  "zero_amm_info = \<lparr>status = 0, nonce = 0, order_num = 0, depth = 0, coin_decimals = 0,
     pc_decimals = 0, state = 0, reset_flag = 0, min_size = 0, vol_max_cut_ratio = 0,
     amount_wave = 0, coin_lot_size = 0, pc_lot_size = 0, min_price_multiplier = 0,
     max_price_multiplier = 0, sys_decimal_value = 0, amm_fees = zero_fees,
     amm_state_data = zero_state_data, coin_vault = 0, pc_vault = 0, coin_vault_mint = 0,
     pc_vault_mint = 0, lp_mint = 0, open_orders = 0, market = 0, market_program = 0,
     target_orders = 0, amm_padding1 = replicate 8 0, amm_owner = 0, lp_amount = 0,
     client_order_id = 0, recent_epoch = 0, amm_padding2 = 0\<rparr>"

definition zero_target_orders :: target_orders_data where
  "zero_target_orders = \<lparr>t_owner = 0,
     buy_orders = replicate 50 \<lparr>to_price = 0, to_vol = 0\<rparr>, t_padding1 = replicate 8 0,
     target_x = 0, target_y = 0, plan_x_buy = 0, plan_y_buy = 0, plan_x_sell = 0,
     plan_y_sell = 0, placed_x = 0, placed_y = 0, calc_pnl_x = 0, calc_pnl_y = 0,
     sell_orders = replicate 50 \<lparr>to_price = 0, to_vol = 0\<rparr>, t_padding2 = replicate 6 0,
     replace_buy_client_id = replicate MAX_ORDER_LIMIT 0,
     replace_sell_client_id = replicate MAX_ORDER_LIMIT 0,
     last_order_numerator = 0, last_order_denominator = 0, plan_orders_cur = 0,
     place_orders_cur = 0, valid_buy_order_num = 0, valid_sell_order_num = 0,
     t_padding3 = replicate 10 0, free_slot_bits = 0\<rparr>"

definition zero_amm_config :: amm_config where
  "zero_amm_config = \<lparr>pnl_owner = 0, cancel_owner = 0, pending_1 = replicate 28 0,
     pending_2 = replicate 31 0, create_pool_fee = 0\<rparr>"

section \<open>Properties\<close>

lemma nat_le_7: "(k :: nat) \<le> 7 \<Longrightarrow> k \<in> {0, 1, 2, 3, 4, 5, 6, 7}"
  by (simp, arith)

lemma u64_le_7: "(n :: u64) \<le> 7 \<longleftrightarrow> n \<in> {0, 1, 2, 3, 4, 5, 6, 7}"
proof
  assume "n \<le> 7"
  then have "unat n \<in> {0, 1, 2, 3, 4, 5, 6, 7}"
    by (intro nat_le_7) (simp add: word_le_nat_alt)
  then have "word_of_nat (unat n) \<in> (word_of_nat :: nat \<Rightarrow> u64) ` {0, 1, 2, 3, 4, 5, 6, 7}"
    by (rule imageI)
  then show "n \<in> {0, 1, 2, 3, 4, 5, 6, 7}" by simp
qed auto

text \<open>
  A stored status decodes exactly when it is at most 7, to the status it encodes, and panics
  otherwise; \<open>valid_status\<close> accepts exactly the encodings of the statuses other than
  \<open>Uninitialized\<close>; and the permissions are nested: every status that may swap or place orders
  takes deposits, every status that takes deposits allows withdrawals, which are refused only
  to uninitialized and disabled pools.
\<close>

theorem status_codec_and_permissions:
  "((amm_status_from_u64 n :: amm_status res) = Ok s \<longleftrightarrow> n = amm_status_into_u64 s) \<and>
   ((amm_status_from_u64 n :: amm_status res) = Panic \<longleftrightarrow> 7 < n) \<and>
   (valid_status n \<longleftrightarrow> (\<exists>t. n = amm_status_into_u64 t \<and> t \<noteq> Uninitialized)) \<and>
   {t. swap_permission t} \<union> {t. orderbook_permission t} \<subseteq> {t. deposit_permission t} \<and>
   {t. deposit_permission t} \<subseteq> {t. withdraw_permission t} \<and>
   {t. withdraw_permission t} = - {Uninitialized, Disabled}"
proof -
  have ex: "(\<exists>t. P t) \<longleftrightarrow> P Uninitialized \<or> P Initialized \<or> P Disabled \<or> P WithdrawOnly \<or>
      P LiquidityOnly \<or> P OrderBookOnly \<or> P SwapOnly \<or> P WaitingTrade" for P
    by (metis amm_status.exhaust)
  have "(amm_status_from_u64 n :: amm_status res) = Panic \<longleftrightarrow> n \<notin> {0, 1, 2, 3, 4, 5, 6, 7}"
    by (auto simp: amm_status_from_u64_def split: if_splits)
  then have "(amm_status_from_u64 n :: amm_status res) = Panic \<longleftrightarrow> 7 < n"
    using u64_le_7 [of n] by (simp only: not_le [symmetric])
  moreover have "{t. swap_permission t} \<union> {t. orderbook_permission t} \<subseteq> {t. deposit_permission t}"
    "{t. deposit_permission t} \<subseteq> {t. withdraw_permission t}"
    "{t. withdraw_permission t} = - {Uninitialized, Disabled}"
    by (auto elim: amm_status.exhaust) (metis amm_status.exhaust deposit_permission.simps swap_permission.simps orderbook_permission.simps withdraw_permission.simps)+
  ultimately show ?thesis
    by (auto simp: status_codec.from_Ok_iff valid_status_def ex)
qed

text \<open>
  The fees validate exactly when each of the four fractions has its numerator strictly below
  its denominator, and the only error is \<open>InvalidFee\<close>; the fees a new pool gets validate.
\<close>

theorem fees_validate_iff:
  "(fees_validate f = Ok () \<longleftrightarrow>
      min_separate_numerator f < min_separate_denominator f \<and>
      trade_fee_numerator f < trade_fee_denominator f \<and>
      pnl_numerator f < pnl_denominator f \<and> swap_fee_numerator f < swap_fee_denominator f) \<and>
   (fees_validate f = Ok () \<or> fees_validate f = Err InvalidFee) \<and>
   fees_validate (fees_initialize f) = Ok ()"
  by (auto simp: fees_validate_def validate_fraction_def fees_initialize_def TEN_THOUSAND_def not_le
      word_gt_0)

lemma fees_validate_iff_init: "fees_validate (fees_initialize f) = Ok ()"
  by (simp add: fees_validate_def validate_fraction_def fees_initialize_def TEN_THOUSAND_def)

lemma fees_pack_concat:
  "fees_pack f = concat (map (le_bytes 8)
     [min_separate_numerator f, min_separate_denominator f, trade_fee_numerator f,
      trade_fee_denominator f, pnl_numerator f, pnl_denominator f,
      swap_fee_numerator f, swap_fee_denominator f])"
  by (simp add: fees_pack_def)

lemma u64_at_concat: "i < length ws \<Longrightarrow> u64_at (concat (map (le_bytes 8) ws)) i = ws ! i"
  using chunk_concat [of "map (le_bytes 8) ws" 8 i]
  by (simp add: u64_at_def from_le_bytes_inverse)

lemma u64_at_bytes: "8 * i + 8 \<le> length bs \<Longrightarrow> le_bytes 8 (u64_at bs i) = take 8 (drop (8 * i) bs)"
  unfolding u64_at_def by (intro le_bytes_inverse) simp_all

lemma length_fees_pack [simp]: "length (fees_pack f) = FEES_LEN"
  by (simp add: fees_pack_def FEES_LEN_def)

lemma fees_pack_unpack: "fees_unpack_from_slice (fees_pack f) = Ok f"
  unfolding fees_unpack_from_slice_def array_ref_def
  by (simp add: FEES_LEN_def) (simp only: fees_pack_concat u64_at_concat list.size, simp)

text \<open>
  The 64-byte encoding of the fees: unpacking what was packed, whatever follows it, gives the
  fees back; every input of at least 64 bytes unpacks, to fees whose encoding is the first 64
  bytes; a shorter input panics.
\<close>

theorem fees_pack_round_trip:
  "length (fees_pack f) = FEES_LEN \<and>
   fees_unpack_from_slice (fees_pack f @ rest) = Ok f \<and>
   (length bs < FEES_LEN \<longleftrightarrow> fees_unpack_from_slice bs = Panic) \<and>
   (fees_unpack_from_slice bs = Ok g \<longrightarrow> fees_pack g = take FEES_LEN bs)"
proof -
  have len: "length (fees_pack f) = FEES_LEN" by (simp add: fees_pack_def FEES_LEN_def)
  have "fees_unpack_from_slice (fees_pack f @ rest) = Ok f"
    using len unfolding fees_unpack_from_slice_def array_ref_def
    by (simp add: FEES_LEN_def) (simp only: fees_pack_concat u64_at_concat list.size, simp)
  moreover have "length bs < FEES_LEN \<longleftrightarrow> fees_unpack_from_slice bs = Panic"
    by (simp add: fees_unpack_from_slice_def array_ref_def FEES_LEN_def)
  moreover have "fees_pack g = take FEES_LEN bs" if "fees_unpack_from_slice bs = Ok g"
  proof -
    let ?t = "take FEES_LEN bs"
    have lt: "length ?t = 8 * 8"
      using that by (auto simp: fees_unpack_from_slice_def array_ref_def FEES_LEN_def split: if_splits)
    have "fees_pack g = concat (map (\<lambda>i. le_bytes 8 (u64_at ?t i)) [0, 1, 2, 3, 4, 5, 6, 7])"
      using that by (auto simp: fees_unpack_from_slice_def array_ref_def fees_pack_def
          split: if_splits)
    also have "[0, 1, 2, 3, 4, 5, 6, 7] = [0..<8 :: nat]" by (simp add: upt_rec)
    also have "concat (map (\<lambda>i. le_bytes 8 (u64_at ?t i)) [0..<8])
      = concat (map (\<lambda>i. take 8 (drop (8 * i) ?t)) [0..<8])"
      using lt by (intro arg_cong [where f = concat] map_cong refl u64_at_bytes) auto
    also have "\<dots> = ?t" using lt by (rule concat_chunks)
    finally show ?thesis .
  qed
  ultimately show ?thesis using len by blast
qed

theorem fees_pack_round_trip_witness:
  "fees_unpack_from_slice (fees_pack (fees_initialize zero_fees) @ [7]) = Ok (fees_initialize zero_fees)
   \<and> fees_unpack_from_slice [1, 2, 3] = Panic"
  using fees_pack_round_trip [of "fees_initialize zero_fees" "[7]" "[1, 2, 3]"]
  by (simp add: FEES_LEN_def)

text \<open>
  Order ids are fresh: the next id is returned and stored, is never 0 (0 marks an empty slot),
  differs from the previous one, is the previous plus one except at the wrap-around, where it is
  1, and nothing else of the pool changes.
\<close>

theorem incr_client_order_id_fresh:
  "let (a', c) = incr_client_order_id a in
     c \<noteq> 0 \<and> c \<noteq> client_order_id a \<and> client_order_id a' = c \<and>
     c = (if client_order_id a = - 1 then 1 else client_order_id a + 1) \<and>
     a'\<lparr>client_order_id := client_order_id a\<rparr> = a"
proof -
  have wrap: "client_order_id a + 1 = 0 \<longleftrightarrow> client_order_id a = - 1"
    by (metis add.commute add_eq_0_iff2 minus_minus)
  show ?thesis
    by (auto simp: incr_client_order_id_def Let_def wrap)
qed

lemma checked_pow10:
  assumes "n \<le> 38"
  shows "checked_pow (10 :: u128) n = Some (10 ^ n)"
proof -
  have "(10 :: nat) ^ n \<le> 10 ^ 38" using assms by (intro power_increasing) simp_all
  then have lt: "(10 :: nat) ^ n < 2 ^ 128" by (rule le_less_trans) simp
  have ten: "unat (10 :: u128) = 10" by simp
  show ?thesis using lt by (simp add: checked_pow_def)
qed

lemma pow10_ok: "n \<le> 38 \<Longrightarrow> pow10 n = Ok (10 ^ n)"
  by (simp add: pow10_def checked_pow10)

lemma unat_pow10: "n \<le> 38 \<Longrightarrow> unat (10 ^ n :: u128) = 10 ^ n"
  using checked_pow10 [of n] by (simp add: checked_pow_Some_iff)

lemma mul_pow_lt:
  assumes "n \<le> 19"
  shows "unat (x :: u64) * 10 ^ n < 2 ^ 128"
proof -
  have "(10 :: nat) ^ n \<le> 10 ^ 19" using assms by (intro power_increasing) simp_all
  then have "unat x * 10 ^ n \<le> (2 ^ 64 - 1) * 10 ^ 19"
    using u64_lt [of x] by (intro mult_le_mono) simp_all
  then show ?thesis by (rule le_less_trans) simp
qed

lemma checked_mul_ok:
  "unat a * unat b < 2 ^ LENGTH('a) \<Longrightarrow>
     checked_mul a b = Some (a * b) \<and> unat (a * b :: 'a::len word) = unat a * unat b"
  using checked_mul_Some_iff [of a b "a * b"] by (simp add: checked_mul_def)

lemma checked_mul_pow10:
  assumes "n \<le> 19"
  shows "checked_mul (ucast (x :: u64) :: u128) (10 ^ n) = Some (ucast x * 10 ^ n) \<and>
    unat (ucast x * 10 ^ n :: u128) = unat x * 10 ^ n"
proof -
  have u: "unat (10 ^ n :: u128) = 10 ^ n" using assms by (simp add: unat_pow10)
  have "unat (ucast x :: u128) * unat (10 ^ n :: u128) < 2 ^ LENGTH(128)"
    unfolding u using mul_pow_lt [OF assms, of x] by simp
  from checked_mul_ok [OF this] show ?thesis unfolding u by simp
qed

text \<open>The system decimal value of a new pool, over the natural numbers.\<close>

definition sys_decimal_spec :: "nat \<Rightarrow> nat \<Rightarrow> nat \<Rightarrow> nat \<Rightarrow> nat" where
  "sys_decimal_spec cd pd cl pl = max (10 ^ max cd pd) (cl * 10 ^ pd div (pl * 10 ^ cd))"

lemma init_sys_decimal_value_ok:
  fixes coin_lot pc_lot :: u64
  assumes "unat cd \<le> 19" "unat pd \<le> 19" "pc_lot \<noteq> 0"
    and "sys_decimal_spec (unat cd) (unat pd) (unat coin_lot) (unat pc_lot) < 2 ^ 64"
  shows "\<exists>sdv. (init_sys_decimal_value cd pd coin_lot pc_lot :: ('e, u64) outcome) = Ok sdv \<and>
    unat sdv = sys_decimal_spec (unat cd) (unat pd) (unat coin_lot) (unat pc_lot)"
proof -
  let ?m = "unat (if pd > cd then pd else cd)"
  let ?num = "ucast coin_lot * 10 ^ unat pd :: u128" and ?den = "ucast pc_lot * 10 ^ unat cd :: u128"
  have m: "?m = max (unat cd) (unat pd)" by (auto simp: word_less_nat_alt max_def)
  have "(10 :: nat) ^ ?m \<le> 10 ^ 19"
    unfolding m using assms by (intro power_increasing) simp_all
  then have lt: "(10 :: nat) ^ ?m < 2 ^ 64" by (rule le_less_trans) simp
  have "unat (10 :: u64) = 10" by simp
  then have p: "checked_pow (10 :: u64) ?m = Some (10 ^ ?m)"
    using lt by (simp add: checked_pow_def del: m)
  then have up: "unat (10 ^ ?m :: u64) = 10 ^ ?m" by (simp add: checked_pow_Some_iff)
  have pp: "(pow10 (unat pd) :: ('e, u128) outcome) = Ok (10 ^ unat pd)"
    and pc: "(pow10 (unat cd) :: ('e, u128) outcome) = Ok (10 ^ unat cd)"
    using assms by (simp_all add: pow10_ok)
  have n: "checked_mul (ucast coin_lot :: u128) (10 ^ unat pd) = Some ?num"
      "unat ?num = unat coin_lot * 10 ^ unat pd"
    and d: "checked_mul (ucast pc_lot :: u128) (10 ^ unat cd) = Some ?den"
      "unat ?den = unat pc_lot * 10 ^ unat cd"
    using checked_mul_pow10 assms by blast+
  have "unat ?den \<noteq> 0" using d(2) assms(3) by simp
  then obtain q where q: "checked_div ?num ?den = Some q" and uq: "unat q = unat ?num div unat ?den"
    using checked_div_ex [of ?den ?num] by blast
  have sp: "sys_decimal_spec (unat cd) (unat pd) (unat coin_lot) (unat pc_lot) = max (10 ^ ?m) (unat q)"
    by (simp add: sys_decimal_spec_def m uq n d)
  show ?thesis
  proof (cases "(ucast (10 ^ ?m :: u64) :: u128) \<le> q")
    case True
    then have "10 ^ ?m \<le> unat q" by (simp add: word_le_nat_alt up)
    then have s: "sys_decimal_spec (unat cd) (unat pd) (unat coin_lot) (unat pc_lot) = unat q"
      by (simp add: sp)
    then have "try_narrow q = Some (ucast q :: u64)" using assms(4) by (simp add: try_narrow_def)
    moreover from this have "unat (ucast q :: u64) = unat q" by (simp add: try_narrow_Some_iff)
    ultimately show ?thesis
      using True p n d q s assms pp pc by (simp add: init_sys_decimal_value_def to_u64_def)
  next
    case False
    then have "unat q < 10 ^ ?m" by (simp add: word_le_nat_alt up)
    then have s: "sys_decimal_spec (unat cd) (unat pd) (unat coin_lot) (unat pc_lot) = 10 ^ ?m"
      by (simp add: sp)
    show ?thesis
      using False p n d q s up assms pp pc by (simp add: init_sys_decimal_value_def)
  qed
qed

lemma init_min_size_ok:
  assumes "unat cd \<le> 19"
  shows "\<exists>m. init_min_size cd coin_lot sdv = Ok m \<and>
    unat m = (let q = unat coin_lot * unat sdv div 10 ^ unat cd in if q < 2 ^ 64 - 1 then q else 0)"
proof -
  let ?a = "ucast coin_lot * ucast sdv :: u128" and ?p = "10 ^ unat cd :: u128"
  have a: "checked_mul (ucast coin_lot :: u128) (ucast sdv) = Some ?a" "unat ?a = unat coin_lot * unat sdv"
    using checked_mul_ok [of "ucast coin_lot :: u128" "ucast sdv"] u64_mult_lt [of coin_lot sdv] by simp_all
  have up: "unat ?p = 10 ^ unat cd" using assms by (simp add: unat_pow10)
  then have "unat ?p \<noteq> 0" by simp
  then obtain q where q: "checked_div ?a ?p = Some q" and uq: "unat q = unat ?a div unat ?p"
    using checked_div_ex [of ?p ?a] by blast
  have lim: "q < ucast (- 1 :: u64) \<longleftrightarrow> unat q < 2 ^ 64 - 1"
    by (simp add: word_less_nat_alt unsigned_minus_1_eq_mask mask_eq_exp_minus_1)
  have "\<exists>m. (if q < ucast (- 1 :: u64) then to_u64 q else Ok 0) = Ok m \<and>
      unat m = (if unat q < 2 ^ 64 - 1 then unat q else 0)"
  proof (cases "unat q < 2 ^ 64 - 1")
    case True
    then have "try_narrow q = Some (ucast q :: u64)" by (simp add: try_narrow_def)
    moreover from this have "unat (ucast q :: u64) = unat q" by (simp add: try_narrow_Some_iff)
    ultimately show ?thesis using True by (simp add: lim to_u64_def)
  qed (simp add: lim)
  moreover have "init_min_size cd coin_lot sdv = (if q < ucast (- 1 :: u64) then to_u64 q else Ok 0)"
    using a q assms by (simp add: init_min_size_def pow10_ok)
  moreover have "unat q = unat coin_lot * unat sdv div 10 ^ unat cd" by (simp only: uq a up)
  ultimately show ?thesis by (simp only: Let_def)
qed

lemma convert_in_pc_lot_size_ok:
  assumes "unat cd \<le> 19" "unat pd \<le> 19" "coin_lot \<noteq> 0"
    and "unat pc_lot * unat sdv * 10 ^ unat cd < 2 ^ 128"
    and "unat pc_lot * unat sdv * 10 ^ unat cd div (unat coin_lot * 10 ^ unat pd) < 2 ^ 64"
  shows "\<exists>x. (convert_in_pc_lot_size pd cd pc_lot coin_lot sdv :: ('e, u64) outcome) = Ok x \<and>
    unat x = unat pc_lot * unat sdv * 10 ^ unat cd div (unat coin_lot * 10 ^ unat pd)"
proof -
  let ?a = "ucast pc_lot * ucast sdv :: u128"
  let ?n = "?a * 10 ^ unat cd" and ?d = "ucast coin_lot * 10 ^ unat pd :: u128"
  have a: "checked_mul (ucast pc_lot :: u128) (ucast sdv) = Some ?a" "unat ?a = unat pc_lot * unat sdv"
    using checked_mul_ok [of "ucast pc_lot :: u128" "ucast sdv"] u64_mult_lt [of pc_lot sdv] by simp_all
  have "unat ?a * unat (10 ^ unat cd :: u128) < 2 ^ LENGTH(128)"
    using assms(1,4) by (simp add: a(2) unat_pow10)
  from checked_mul_ok [OF this] have n: "checked_mul ?a (10 ^ unat cd) = Some ?n"
      "unat ?n = unat pc_lot * unat sdv * 10 ^ unat cd"
    using assms(1) a(2) by (simp_all add: unat_pow10)
  have d: "checked_mul (ucast coin_lot :: u128) (10 ^ unat pd) = Some ?d"
      "unat ?d = unat coin_lot * 10 ^ unat pd"
    using checked_mul_pow10 [of "unat pd" coin_lot] assms(2) by simp_all
  have "unat ?d \<noteq> 0" using d(2) assms(3) by simp
  then obtain q where q: "checked_div ?n ?d = Some q" and uq: "unat q = unat ?n div unat ?d"
    using checked_div_ex [of ?d ?n] by blast
  have "unat q < 2 ^ 64" using assms(5) by (simp only: uq n d)
  then have "try_narrow q = Some (ucast q :: u64)" by (simp add: try_narrow_def)
  moreover from this have "unat (ucast q :: u64) = unat q" by (simp add: try_narrow_Some_iff)
  ultimately show ?thesis
    using a n d q uq assms by (simp add: convert_in_pc_lot_size_def pow10_ok to_u64_def)
qed

lemma amount_wave_ok:
  "5 * unat (sdv :: u64) < 2 ^ 64 \<Longrightarrow>
     \<exists>w. Option.bind (checked_mul sdv 5) (\<lambda>a. checked_div a 1000) = Some w \<and> unat w = unat sdv * 5 div 1000"
proof -
  assume "5 * unat sdv < 2 ^ 64"
  then have "unat sdv * unat (5 :: u64) < 2 ^ LENGTH(64)" by simp
  from checked_mul_ok [OF this]
  have m: "checked_mul sdv 5 = Some (sdv * 5)" "unat (sdv * 5) = unat sdv * 5" by simp_all
  obtain w where "checked_div (sdv * 5) 1000 = Some w" "unat w = unat (sdv * 5) div unat (1000 :: u64)"
    using checked_div_ex [of "1000 :: u64" "sdv * 5"] by auto
  then show ?thesis using m by simp
qed

text \<open>
  Initialising a pool. For decimals up to 19 and non-zero lot sizes whose derived values fit
  their fields, \<open>initialize\<close> returns: the system decimal value is the larger of the two decimal
  scales, or the lot-size ratio when that is larger still; the minimum size, the wave and the
  internal lot size are derived from it as stated; the fees are valid; the pool starts idle with
  order count 7 and depth 3, with empty profit counters and the given opening time, and
  the account references, the owner and the LP amount are left as they were.
\<close>

theorem amm_info_initialize_returns:
  assumes "unat cd \<le> 19" "unat pd \<le> 19" "coin_lot \<noteq> 0" "pc_lot \<noteq> 0"
    and "S = sys_decimal_spec (unat cd) (unat pd) (unat coin_lot) (unat pc_lot)" "5 * S < 2 ^ 64"
    and "unat pc_lot * S * 10 ^ unat cd < 2 ^ 128"
    and "unat pc_lot * S * 10 ^ unat cd div (unat coin_lot * 10 ^ unat pd) < 2 ^ 64"
  shows "\<exists>a'. amm_info_initialize (Ok epoch) nc open_time cd pd coin_lot pc_lot a = Ok a' \<and>
    unat (sys_decimal_value a') = S \<and>
    unat (min_size a') = (let q = unat coin_lot * S div 10 ^ unat cd in if q < 2 ^ 64 - 1 then q else 0) \<and>
    unat (amount_wave a') = S * 5 div 1000 \<and>
    unat (pc_lot_size a') = unat pc_lot * S * 10 ^ unat cd div (unat coin_lot * 10 ^ unat pd) \<and>
    coin_lot_size a' = coin_lot \<and> fees_validate (amm_fees a') = Ok () \<and>
    status a' = 0 \<and> (amm_state_from_u64 (state a') :: amm_state res) = Ok IdleState \<and>
    (order_num a', depth a', client_order_id a', recent_epoch a') = (7, 3, 0, epoch) \<and>
    pool_open_time (amm_state_data a') = open_time \<and>
    need_take_pnl_pc (amm_state_data a') = 0 \<and> need_take_pnl_coin (amm_state_data a') = 0 \<and>
    (coin_vault a', pc_vault a', lp_mint a', market a', amm_owner a', lp_amount a') =
      (coin_vault a, pc_vault a, lp_mint a, market a, amm_owner a, lp_amount a)"
proof -
  have "S < 2 ^ 64" using assms(6) by linarith
  then obtain sdv where sdv: "(init_sys_decimal_value cd pd coin_lot pc_lot :: u64 amm_res) = Ok sdv"
      and us: "unat sdv = S"
    using init_sys_decimal_value_ok [of cd pd pc_lot coin_lot] assms(1,2,4,5) by blast
  obtain m where m: "init_min_size cd coin_lot sdv = Ok m"
      "unat m = (let q = unat coin_lot * S div 10 ^ unat cd in if q < 2 ^ 64 - 1 then q else 0)"
    using init_min_size_ok [OF assms(1), of coin_lot sdv] us by blast
  obtain w where w: "Option.bind (checked_mul sdv 5) (\<lambda>a. checked_div a 1000) = Some w"
      "unat w = S * 5 div 1000"
    using amount_wave_ok [of sdv] us assms(6) by blast
  obtain x where x: "(convert_in_pc_lot_size pd cd pc_lot coin_lot sdv :: u64 amm_res) = Ok x"
      "unat x = unat pc_lot * S * 10 ^ unat cd div (unat coin_lot * 10 ^ unat pd)"
    using convert_in_pc_lot_size_ok [OF assms(1,2,3), of pc_lot sdv] us assms(7,8) by blast
  show ?thesis
    using sdv us m w x
    by (simp add: amm_info_initialize_def state_data_initialize_def fees_validate_iff_init
        amm_state_from_u64_def)
qed

theorem amm_info_initialize_returns_witness:
  "\<exists>a'. amm_info_initialize (Ok 500) 254 1700000000 9 6 1000000 100 zero_amm_info = Ok a' \<and>
     unat (sys_decimal_value a') = 1000000000 \<and> unat (pc_lot_size a') = 100000000 \<and>
     unat (min_size a') = 1000000"
  using amm_info_initialize_returns [of 9 6 1000000 100 1000000000 500 254 1700000000 zero_amm_info]
  by (auto simp: sys_decimal_spec_def)

text \<open>
  The target-order record is initialised once: it is accepted exactly while its owner is the
  default address, it then belongs to the given owner with the given profit base and no planned
  or placed amounts, and a second initialisation (by a real owner) is refused.
\<close>

theorem target_orders_init_once:
  "(t_owner t \<noteq> 0 \<longrightarrow> target_orders_check_init x y ow t = AmmErr AlreadyInUse) \<and>
   (t_owner t = 0 \<longrightarrow> (\<exists>t'. target_orders_check_init x y ow t = Ok t' \<and> t_owner t' = ow \<and>
      calc_pnl_x t' = x \<and> calc_pnl_y t' = y \<and> target_x t' = 0 \<and> placed_x t' = 0 \<and> placed_y t' = 0 \<and>
      plan_orders_cur t' = 0 \<and> place_orders_cur t' = 0 \<and>
      (ow \<noteq> 0 \<longrightarrow> target_orders_check_init x' y' ow' t' = AmmErr AlreadyInUse)))"
  by (auto simp: target_orders_check_init_def)

theorem target_orders_init_once_witness:
  "target_orders_check_init 1 2 77 zero_target_orders \<noteq> AmmErr AlreadyInUse \<and>
   target_orders_check_init 1 2 78 (zero_target_orders\<lparr>t_owner := 77\<rparr>) = AmmErr AlreadyInUse"
  using target_orders_init_once [of zero_target_orders 1 2 77]
    target_orders_init_once [of "zero_target_orders\<lparr>t_owner := 77\<rparr>" 1 2 78]
  by (auto simp: zero_target_orders_def)

end
