(* ===== verification/PoolMath.thy ===== *)
theory PoolMath
  imports AmmState "HOL-Library.Multiset"
begin

text \<open>
  The parts of \<^verbatim>\<open>src/math.rs\<close> that read the pool record and the order book, and the
  order-book reading of \<^verbatim>\<open>process/helpers.rs\<close>. The dex's accounts are those of the external
  crate \<^verbatim>\<open>serum_dex\<close>: only the data this program reads from them is represented, and how
  they are parsed is a parameter (see \<open>Runtime\<close>).
\<close>

section \<open>What the program reads from the dex\<close>

datatype side = Bid | Ask

datatype event_view =
    Fill side bool u64 u64    \<comment> \<open>side, maker, native quantity paid, native quantity received\<close>
  | OutView

text \<open>An entry of the event queue; \<^verbatim>\<open>as_view()\<close> may fail.\<close>

record dex_event =
  ev_owner :: pubkey
  ev_view :: "event_view option"

record open_orders_data =
  oo_market :: pubkey
  oo_owner :: pubkey
  oo_native_coin_total :: u64
  oo_native_pc_total :: u64
  oo_free_slot_bits :: u128
  oo_is_bid_bits :: u128
  oo_orders :: "u128 list"

record market_state =
  ms_coin_mint :: pubkey
  ms_pc_mint :: pubkey

record leaf_node =
  leaf_client_order_id :: u64
  leaf_price :: u64

text \<open>A slab: \<^verbatim>\<open>find_by_key\<close> gives a handle, \<^verbatim>\<open>get\<close> and \<^verbatim>\<open>as_leaf\<close> its leaf.\<close>

record slab =
  slab_find :: "u128 \<Rightarrow> u32 option"
  slab_leaf :: "u32 \<Rightarrow> leaf_node option"

section \<open>The pool's balances at the dex\<close>

text \<open>
  One iteration of the loop over the event queue. The balances are changed with plain
  \<^verbatim>\<open>+=\<close> and \<^verbatim>\<open>-=\<close>, which panic on overflow.
\<close>

definition apply_event :: "pubkey \<Rightarrow> dex_event \<Rightarrow> u64 \<times> u64 \<Rightarrow> ('e, u64 \<times> u64) outcome" where
  "apply_event amm_open ev totals =
     (let (native_pc_total, native_coin_total) = totals in
      if ev_owner ev \<noteq> amm_open then Ok totals
      else rbind (unwrap (ev_view ev)) (\<lambda>view.
        case view of
          Fill side maker paid received \<Rightarrow>
            (if side = Bid \<and> maker then
               rbind (unwrap (checked_sub native_pc_total paid)) (\<lambda>pc.
               rbind (unwrap (checked_add native_coin_total received)) (\<lambda>coin. Ok (pc, coin)))
             else if side = Ask \<and> maker then
               rbind (unwrap (checked_sub native_coin_total paid)) (\<lambda>coin.
               rbind (unwrap (checked_add native_pc_total received)) (\<lambda>pc. Ok (pc, coin)))
             else Ok totals)
        | OutView \<Rightarrow> Ok totals))"

text \<open>\<open>event_q\<close> is what loading the event queue returned; a failure is unwrapped.\<close>

definition calc_exact_vault_in_serum ::
  "open_orders_data \<Rightarrow> dex_event list res \<Rightarrow> pubkey \<Rightarrow> (u64 \<times> u64) amm_res" where
  "calc_exact_vault_in_serum oo event_q amm_open =
     rbind (unwrap_res event_q) (\<lambda>events.
       fold_outcome (apply_event amm_open) events (oo_native_pc_total oo, oo_native_coin_total oo))"

definition calc_total_without_take_pnl ::
  "u64 \<Rightarrow> u64 \<Rightarrow> open_orders_data \<Rightarrow> amm_info \<Rightarrow> dex_event list res \<Rightarrow> pubkey \<Rightarrow> (u64 \<times> u64) amm_res" where
  "calc_total_without_take_pnl pc_amount coin_amount oo amm event_q amm_open =
     rbind (calc_exact_vault_in_serum oo event_q amm_open) (\<lambda>(pc_serum, coin_serum).
     rbind (ok_or CheckedAddOverflow (checked_add pc_amount pc_serum)) (\<lambda>pc.
     rbind (ok_or CheckedSubOverflow (checked_sub pc (need_take_pnl_pc (amm_state_data amm)))) (\<lambda>total_pc.
     rbind (ok_or CheckedAddOverflow (checked_add coin_amount coin_serum)) (\<lambda>coin.
     rbind (ok_or CheckedSubOverflow (checked_sub coin (need_take_pnl_coin (amm_state_data amm)))) (\<lambda>total_coin.
     Ok (total_pc, total_coin))))))"

definition calc_total_without_take_pnl_no_orderbook ::
  "u64 \<Rightarrow> u64 \<Rightarrow> amm_info \<Rightarrow> (u64 \<times> u64) amm_res" where
  "calc_total_without_take_pnl_no_orderbook pc_amount coin_amount amm =
     rbind (ok_or CheckedSubOverflow (checked_sub pc_amount (need_take_pnl_pc (amm_state_data amm)))) (\<lambda>total_pc.
     rbind (ok_or CheckedSubOverflow (checked_sub coin_amount (need_take_pnl_coin (amm_state_data amm)))) (\<lambda>total_coin.
     Ok (total_pc, total_coin)))"

section \<open>Sizes of planned orders\<close>

definition get_max_buy_size_at_price :: "u64 \<Rightarrow> u128 \<Rightarrow> u128 \<Rightarrow> amm_info \<Rightarrow> ('e, u64) outcome" where
  "get_max_buy_size_at_price price x y amm =
     rbind (unwrap (checked_add (trade_fee_denominator (amm_fees amm)) (trade_fee_numerator (amm_fees amm)))) (\<lambda>s.
     rbind (unwrap (checked_mul (ucast price :: u128) (ucast s))) (\<lambda>a.
     rbind (unwrap (checked_div a (ucast (trade_fee_denominator (amm_fees amm))))) (\<lambda>price_with_fee.
     rbind (unwrap (checked_mul x (ucast (sys_decimal_value amm)))) (\<lambda>b.
     rbind (unwrap (checked_div b price_with_fee)) (\<lambda>max_size.
     unwrap_res (to_u64 (saturating_sub max_size y)))))))"

definition get_max_sell_size_at_price :: "u64 \<Rightarrow> u128 \<Rightarrow> u128 \<Rightarrow> amm_info \<Rightarrow> ('e, u64) outcome" where
  "get_max_sell_size_at_price price x y amm =
     rbind (unwrap (checked_mul (ucast price :: u128) (ucast (trade_fee_denominator (amm_fees amm))))) (\<lambda>a.
     rbind (unwrap (checked_add (trade_fee_denominator (amm_fees amm)) (trade_fee_numerator (amm_fees amm)))) (\<lambda>s.
     rbind (unwrap (checked_div a (ucast s))) (\<lambda>price_with_fee.
     rbind (unwrap (checked_mul x (ucast (sys_decimal_value amm)))) (\<lambda>b.
     rbind (unwrap (checked_div b price_with_fee)) (\<lambda>second_part.
     unwrap_res (to_u64 (saturating_sub y second_part)))))))"

section \<open>The pool's resting orders\<close>

text \<open>\<^verbatim>\<open>helpers.rs: get_amm_orders\<close>: the occupied slots of the open-orders account, looked up.\<close>

definition lookup_order :: "slab \<Rightarrow> u128 \<Rightarrow> ('e, leaf_node list) outcome" where
  "lookup_order s key =
     (case slab_find s key of
        None \<Rightarrow> Ok []
      | Some h \<Rightarrow> rbind (unwrap (slab_leaf s h)) (\<lambda>l. Ok [l]))"

definition collect_slot ::
  "open_orders_data \<Rightarrow> slab \<Rightarrow> slab \<Rightarrow> nat \<Rightarrow> leaf_node list \<times> leaf_node list \<Rightarrow>
   ('e, leaf_node list \<times> leaf_node list) outcome" where
  "collect_slot oo bids asks i acc =
     (let (bs, as) = acc in
      if bit (oo_free_slot_bits oo) i then Ok acc
      else if bit (oo_is_bid_bits oo) i then
        rbind (index_at (oo_orders oo) i) (\<lambda>key.
        rbind (lookup_order bids key) (\<lambda>ls. Ok (bs @ ls, as)))
      else
        rbind (index_at (oo_orders oo) i) (\<lambda>key.
        rbind (lookup_order asks key) (\<lambda>ls. Ok (bs, as @ ls))))"

definition get_amm_orders ::
  "open_orders_data \<Rightarrow> slab \<Rightarrow> slab \<Rightarrow> ('e, leaf_node list \<times> leaf_node list) outcome" where
  "get_amm_orders oo bids asks =
     rbind (if oo_free_slot_bits oo = - 1 then Ok ([], [])
            else fold_outcome (collect_slot oo bids asks) [0..<128] ([], [])) (\<lambda>(bs, as).
     Ok (sort_key (\<lambda>l. - int (unat (leaf_price l))) bs, sort_key (\<lambda>l. unat (leaf_price l)) as))"

section \<open>Order ids in groups of eight\<close>

text \<open>
  The loops that fill \<^verbatim>\<open>order_ids: [u64; 8]\<close>: the finished groups, the group being filled and
  the count. Writing at \<^verbatim>\<open>order_ids[count]\<close> is a panic when the group is full.
\<close>

record id_batch =
  ib_done :: "u64 list list"
  ib_ids :: "u64 list"
  ib_count :: nat

definition ib_new :: id_batch where
  "ib_new = \<lparr>ib_done = [], ib_ids = replicate 8 0, ib_count = 0\<rparr>"

definition ib_push :: "u64 \<Rightarrow> id_batch \<Rightarrow> ('e, id_batch) outcome" where
  "ib_push i b =
     (if ib_count b < length (ib_ids b)
      then Ok (b\<lparr>ib_ids := (ib_ids b)[ib_count b := i], ib_count := ib_count b + 1\<rparr>)
      else Panic)"

definition ib_flush :: "id_batch \<Rightarrow> id_batch" where
  "ib_flush b =
     (if ib_count b = 8
      then \<lparr>ib_done = ib_done b @ [ib_ids b], ib_ids = replicate 8 0, ib_count = 0\<rparr> else b)"

definition ib_finish :: "id_batch \<Rightarrow> u64 list list" where
  "ib_finish b = (if ib_count b \<noteq> 0 then ib_done b @ [ib_ids b] else ib_done b)"

text \<open>The one-sided loop of the swaps, the migration and the admin cancellation.\<close>

definition batch_ids :: "leaf_node list \<Rightarrow> ('e, u64 list list) outcome" where
  "batch_ids orders =
     rbind (fold_outcome (\<lambda>l b. rbind (ib_push (leaf_client_order_id l) b) (\<lambda>b. Ok (ib_flush b)))
       orders ib_new) (\<lambda>b. Ok (ib_finish b))"

text \<open>The two-sided loop of the withdrawal and of \<^verbatim>\<open>cancel_amm_orders_and_settle\<close>.\<close>

definition batch_both_step ::
  "leaf_node list \<Rightarrow> leaf_node list \<Rightarrow> nat \<Rightarrow> id_batch \<Rightarrow> ('e, id_batch) outcome" where
  "batch_both_step bids asks i b =
     rbind (if i < length bids then ib_push (leaf_client_order_id (bids ! i)) b else Ok b) (\<lambda>b1.
     rbind (if i < length asks then ib_push (leaf_client_order_id (asks ! i)) b1 else Ok b1) (\<lambda>b2.
     Ok (ib_flush b2)))"

definition batch_both_ids :: "leaf_node list \<Rightarrow> leaf_node list \<Rightarrow> ('e, u64 list list) outcome" where
  "batch_both_ids bids asks =
     rbind (fold_outcome (batch_both_step bids asks) [0..<max (length bids) (length asks)] ib_new)
       (\<lambda>b. Ok (ib_finish b))"

section \<open>Event flows\<close>

definition paid :: "side \<Rightarrow> pubkey \<Rightarrow> dex_event \<Rightarrow> nat" where
  "paid s me ev = (case ev_view ev of
     Some (Fill s' maker p r) \<Rightarrow> if ev_owner ev = me \<and> maker \<and> s' = s then unat p else 0 | _ \<Rightarrow> 0)"

definition got :: "side \<Rightarrow> pubkey \<Rightarrow> dex_event \<Rightarrow> nat" where
  "got s me ev = (case ev_view ev of
     Some (Fill s' maker p r) \<Rightarrow> if ev_owner ev = me \<and> maker \<and> s' = s then unat r else 0 | _ \<Rightarrow> 0)"

definition total_of :: "(dex_event \<Rightarrow> nat) \<Rightarrow> dex_event list \<Rightarrow> nat" where
  "total_of f evs = sum_list (map f evs)"

lemma total_of_simps [simp]: "total_of f [] = 0" "total_of f (e # es) = f e + total_of f es"
  by (simp_all add: total_of_def)

lemmas flow_defs = paid_def got_def

lemma apply_event_value:
  assumes "apply_event me ev (pc, coin) = Ok (pc', coin')"
  shows "unat pc' + paid Bid me ev = unat pc + got Ask me ev \<and>
    unat coin' + paid Ask me ev = unat coin + got Bid me ev"
proof (cases "ev_view ev")
  case None
  then show ?thesis using assms by (auto simp: apply_event_def flow_defs split: if_splits)
next
  case (Some view)
  then show ?thesis
  proof (cases view)
    case (Fill s maker p r)
    with Some assms show ?thesis
      by (cases s; cases maker) (auto simp: apply_event_def flow_defs outcome word_arith split: if_splits)
  next
    case OutView
    with Some assms show ?thesis by (auto simp: apply_event_def flow_defs split: if_splits)
  qed
qed

lemma apply_event_ok:
  assumes "ev_owner ev = me \<Longrightarrow> ev_view ev \<noteq> None"
    and "paid Bid me ev \<le> unat pc" "unat pc + got Ask me ev < 2 ^ 64"
    and "paid Ask me ev \<le> unat coin" "unat coin + got Bid me ev < 2 ^ 64"
  shows "\<exists>r. apply_event me ev (pc, coin) = Ok r"
  using assms
  by (auto simp: apply_event_def flow_defs checked_sub_def checked_add_def word_le_nat_alt
      split: event_view.splits option.splits side.splits)

lemma fold_events_value:
  "(fold_outcome (apply_event me) evs (pc, coin) :: ('e, u64 \<times> u64) outcome) = Ok (pc', coin') \<Longrightarrow>
     unat pc' + total_of (paid Bid me) evs = unat pc + total_of (got Ask me) evs \<and>
     unat coin' + total_of (paid Ask me) evs = unat coin + total_of (got Bid me) evs"
proof (induction evs arbitrary: pc coin)
  case (Cons ev evs)
  then obtain p1 c1 where s: "(apply_event me ev (pc, coin) :: ('e, u64 \<times> u64) outcome) = Ok (p1, c1)"
    and r: "(fold_outcome (apply_event me) evs (p1, c1) :: ('e, u64 \<times> u64) outcome) = Ok (pc', coin')"
    by (auto simp: outcome)
  show ?case using apply_event_value [OF s] Cons.IH [OF r] by simp
qed simp

lemma fold_events_ok:
  assumes "\<forall>ev \<in> set evs. ev_owner ev = me \<longrightarrow> ev_view ev \<noteq> None"
    and "total_of (paid Bid me) evs \<le> unat pc" "unat pc + total_of (got Ask me) evs < 2 ^ 64"
    and "total_of (paid Ask me) evs \<le> unat coin" "unat coin + total_of (got Bid me) evs < 2 ^ 64"
  shows "\<exists>r. (fold_outcome (apply_event me) evs (pc, coin) :: ('e, u64 \<times> u64) outcome) = Ok r"
  using assms
proof (induction evs arbitrary: pc coin)
  case (Cons ev evs)
  then obtain p1 c1 where s: "(apply_event me ev (pc, coin) :: ('e, u64 \<times> u64) outcome) = Ok (p1, c1)"
    using apply_event_ok [of ev me pc coin] by auto
  note v = apply_event_value [OF s]
  have "\<exists>r. (fold_outcome (apply_event me) evs (p1, c1) :: ('e, u64 \<times> u64) outcome) = Ok r"
    by (rule Cons.IH) (use Cons.prems v in auto)
  then show ?case using s by simp
qed simp

text \<open>
  C36. The pool's balances at the dex: when every event of the pool can be viewed and the amounts
  its maker orders paid and received fit, the reading returns, and each balance is the
  open-orders total minus what maker fills paid plus what they received; fills of other owners,
  taker fills and out events change nothing.
\<close>

theorem exact_vault_value:
  assumes "\<forall>ev \<in> set evs. ev_owner ev = me \<longrightarrow> ev_view ev \<noteq> None"
    and "total_of (paid Bid me) evs \<le> unat (oo_native_pc_total oo)"
    and "unat (oo_native_pc_total oo) + total_of (got Ask me) evs < 2 ^ 64"
    and "total_of (paid Ask me) evs \<le> unat (oo_native_coin_total oo)"
    and "unat (oo_native_coin_total oo) + total_of (got Bid me) evs < 2 ^ 64"
  shows "\<exists>pc coin. calc_exact_vault_in_serum oo (Ok evs) me = Ok (pc, coin) \<and>
    unat pc = unat (oo_native_pc_total oo) + total_of (got Ask me) evs - total_of (paid Bid me) evs \<and>
    unat coin = unat (oo_native_coin_total oo) + total_of (got Bid me) evs - total_of (paid Ask me) evs"
proof -
  obtain pc coin where r: "fold_outcome (apply_event me) evs
      (oo_native_pc_total oo, oo_native_coin_total oo) = (Ok (pc, coin) :: (u64 \<times> u64) amm_res)"
    using fold_events_ok [of evs me "oo_native_pc_total oo" "oo_native_coin_total oo"] assms by auto
  show ?thesis
    using r fold_events_value [OF r] by (simp add: calc_exact_vault_in_serum_def) linarith
qed

theorem exact_vault_value_witness:
  "\<exists>pc coin. calc_exact_vault_in_serum
     \<lparr>oo_market = 1, oo_owner = 2, oo_native_coin_total = 500, oo_native_pc_total = 900,
      oo_free_slot_bits = 0, oo_is_bid_bits = 0, oo_orders = []\<rparr>
     (Ok [\<lparr>ev_owner = 7, ev_view = Some (Fill Bid True 100 40)\<rparr>, \<lparr>ev_owner = 8, ev_view = None\<rparr>,
          \<lparr>ev_owner = 7, ev_view = Some (Fill Ask False 100 40)\<rparr>]) 7 = Ok (pc, coin) \<and>
     unat pc = 800 \<and> unat coin = 540"
  using exact_vault_value [of "[\<lparr>ev_owner = 7, ev_view = Some (Fill Bid True 100 40)\<rparr>,
      \<lparr>ev_owner = 8, ev_view = None\<rparr>, \<lparr>ev_owner = 7, ev_view = Some (Fill Ask False 100 40)\<rparr>]" 7
      "\<lparr>oo_market = 1, oo_owner = 2, oo_native_coin_total = 500, oo_native_pc_total = 900,
        oo_free_slot_bits = 0, oo_is_bid_bits = 0, oo_orders = []\<rparr>"]
  by (simp add: flow_defs)

section \<open>Batches cover every order\<close>

definition ib_inv :: "u64 list \<Rightarrow> id_batch \<Rightarrow> bool" where
  "ib_inv xs b \<longleftrightarrow> length (ib_ids b) = 8 \<and> ib_count b \<le> 8 \<and> (\<forall>g \<in> set (ib_done b). length g = 8) \<and>
     concat (ib_done b) @ take (ib_count b) (ib_ids b) = xs \<and>
     drop (ib_count b) (ib_ids b) = replicate (8 - ib_count b) 0"

lemma ib_new_inv: "ib_inv [] ib_new"
  by (simp add: ib_inv_def ib_new_def)

lemma ib_push_inv:
  assumes "ib_inv xs b" "ib_count b < 8"
  shows "\<exists>b'. ib_push i b = Ok b' \<and> ib_inv (xs @ [i]) b' \<and> ib_count b' = Suc (ib_count b)"
proof -
  have "drop (Suc (ib_count b)) (ib_ids b) = tl (drop (ib_count b) (ib_ids b))"
    by (simp add: drop_Suc tl_drop)
  then show ?thesis
    using assms by (auto simp: ib_push_def ib_inv_def take_Suc_conv_app_nth)
qed

lemma ib_flush_inv:
  assumes "ib_inv xs b"
  shows "ib_inv xs (ib_flush b) \<and> ib_count (ib_flush b) = ib_count b mod 8 \<and> ib_count (ib_flush b) < 8"
  using assms by (auto simp: ib_flush_def ib_inv_def)

lemma ib_finish_spec:
  assumes "ib_inv xs b" "ib_count b < 8"
  shows "\<exists>k < 8. concat (ib_finish b) = xs @ replicate k 0 \<and> (\<forall>g \<in> set (ib_finish b). length g = 8)"
proof (cases "ib_count b = 0")
  case True
  then show ?thesis using assms by (intro exI [of _ 0]) (auto simp: ib_finish_def ib_inv_def)
next
  case False
  have "ib_ids b = take (ib_count b) (ib_ids b) @ replicate (8 - ib_count b) 0"
    using assms(1) by (metis append_take_drop_id ib_inv_def)
  then have "concat (ib_finish b) = xs @ replicate (8 - ib_count b) 0"
    using assms(1) False by (simp add: ib_finish_def ib_inv_def) (metis append.assoc)
  then show ?thesis
    using assms False by (intro exI [of _ "8 - ib_count b"]) (auto simp: ib_finish_def ib_inv_def)
qed

lemma batch_ids_fold:
  "ib_inv xs b \<Longrightarrow> ib_count b < 8 \<Longrightarrow>
   \<exists>b'. (fold_outcome (\<lambda>l b. rbind (ib_push (leaf_client_order_id l) b) (\<lambda>b. Ok (ib_flush b))) orders b
      :: ('e, id_batch) outcome) = Ok b' \<and> ib_inv (xs @ map leaf_client_order_id orders) b' \<and> ib_count b' < 8"
proof (induction orders arbitrary: xs b)
  case (Cons l ls)
  obtain b1 where b1: "(ib_push (leaf_client_order_id l) b :: ('e, id_batch) outcome) = Ok b1"
      "ib_inv (xs @ [leaf_client_order_id l]) b1"
    using ib_push_inv [OF Cons.prems] by blast
  show ?case
    using Cons.IH [of "xs @ [leaf_client_order_id l]" "ib_flush b1"] ib_flush_inv [OF b1(2)] b1(1) by auto
qed auto

lemma batch_ids_spec:
  "\<exists>gs k. (batch_ids orders :: ('e, u64 list list) outcome) = Ok gs \<and> k < 8 \<and> (\<forall>g \<in> set gs. length g = 8) \<and>
     concat gs = map leaf_client_order_id orders @ replicate k 0"
proof -
  obtain b where "(fold_outcome (\<lambda>l b. rbind (ib_push (leaf_client_order_id l) b) (\<lambda>b. Ok (ib_flush b)))
      orders ib_new :: ('e, id_batch) outcome) = Ok b" "ib_inv (map leaf_client_order_id orders) b" "ib_count b < 8"
    using batch_ids_fold [OF ib_new_inv] by (auto simp: ib_new_def)
  then show ?thesis using ib_finish_spec [of _ b] by (auto simp: batch_ids_def)
qed

text \<open>The order in which the two-sided loop takes the ids.\<close>

definition take_at :: "nat \<Rightarrow> leaf_node list \<Rightarrow> u64 list" where
  "take_at i ls = (if i < length ls then [leaf_client_order_id (ls ! i)] else [])"

definition interleaved :: "leaf_node list \<Rightarrow> leaf_node list \<Rightarrow> nat \<Rightarrow> u64 list" where
  "interleaved bids asks n = concat (map (\<lambda>i. take_at i bids @ take_at i asks) [0..<n])"

lemma length_interleaved_both:
  "n \<le> length bids \<Longrightarrow> n \<le> length asks \<Longrightarrow> length (interleaved bids asks n) = 2 * n"
  by (induction n) (auto simp: interleaved_def take_at_def)

lemma interleaved_Suc:
  "interleaved bids asks (Suc n) = interleaved bids asks n @ take_at n bids @ take_at n asks"
  by (simp add: interleaved_def)

lemma concat_take_at: "length ls \<le> n \<Longrightarrow> concat (map (\<lambda>i. take_at i ls) [0..<n]) = map leaf_client_order_id ls"
proof -
  have take: "concat (map (\<lambda>i. take_at i ls) [0..<n]) = take n (map leaf_client_order_id ls)" for n
    by (induction n) (auto simp: take_at_def take_Suc_conv_app_nth)
  show "length ls \<le> n \<Longrightarrow> ?thesis" by (simp add: take)
qed

lemma mset_interleaved:
  assumes "length bids \<le> n" "length asks \<le> n"
  shows "mset (interleaved bids asks n) =
    mset (map leaf_client_order_id bids) + mset (map leaf_client_order_id asks)"
proof -
  have "mset (concat (map (\<lambda>i. f i @ g i) [0..<n])) =
      mset (concat (map f [0..<n])) + mset (concat (map g [0..<n]))" for f g :: "nat \<Rightarrow> u64 list"
    by (induction n) auto
  then show ?thesis
    using assms by (simp add: interleaved_def concat_take_at)
qed

lemma batch_both_step_inv:
  assumes "ib_inv (interleaved bids asks i) b" "ib_count b = length (interleaved bids asks i) mod 8"
  shows "\<exists>b'. (batch_both_step bids asks i b :: ('e, id_batch) outcome) = Ok b' \<and> ib_inv (interleaved bids asks (Suc i)) b' \<and>
    ib_count b' = length (interleaved bids asks (Suc i)) mod 8"
proof -
  have c: "ib_count b < 8" using assms(2) by simp
  consider (both) "i < length bids" "i < length asks" | (bid) "i < length bids" "\<not> i < length asks"
    | (ask) "\<not> i < length bids" "i < length asks" | (none) "\<not> i < length bids" "\<not> i < length asks"
    by blast
  then show ?thesis
  proof cases
    case both
    have ev: "ib_count b = 2 * i mod 8"
      using assms(2) both by (simp add: length_interleaved_both)
    obtain b1 where b1: "(ib_push (leaf_client_order_id (bids ! i)) b :: ('e, id_batch) outcome) = Ok b1"
        "ib_inv (interleaved bids asks i @ [leaf_client_order_id (bids ! i)]) b1" "ib_count b1 = Suc (ib_count b)"
      using ib_push_inv [OF assms(1) c] by blast
    have "ib_count b1 < 8" using b1(3) c ev by presburger
    then obtain b2 where b2: "(ib_push (leaf_client_order_id (asks ! i)) b1 :: ('e, id_batch) outcome) = Ok b2"
        "ib_inv ((interleaved bids asks i @ [leaf_client_order_id (bids ! i)]) @ [leaf_client_order_id (asks ! i)]) b2"
        "ib_count b2 = Suc (ib_count b1)"
      using ib_push_inv [OF b1(2)] by blast
    have "ib_count (ib_flush b2) = length (interleaved bids asks (Suc i)) mod 8"
      using ib_flush_inv [OF b2(2)] b2(3) b1(3) assms(2) both
      by (simp add: interleaved_Suc take_at_def mod_Suc_eq mod_Suc_Suc_eq)
    then show ?thesis
      using ib_flush_inv [OF b2(2)] b1(1) b2(1) both
      by (auto simp: batch_both_step_def interleaved_Suc take_at_def)
  next
    case bid
    obtain b1 where b1: "(ib_push (leaf_client_order_id (bids ! i)) b :: ('e, id_batch) outcome) = Ok b1"
        "ib_inv (interleaved bids asks i @ [leaf_client_order_id (bids ! i)]) b1" "ib_count b1 = Suc (ib_count b)"
      using ib_push_inv [OF assms(1) c] by blast
    then show ?thesis
      using ib_flush_inv [OF b1(2)] assms(2) bid
      by (auto simp: batch_both_step_def interleaved_Suc take_at_def mod_Suc_eq)
  next
    case ask
    obtain b1 where b1: "(ib_push (leaf_client_order_id (asks ! i)) b :: ('e, id_batch) outcome) = Ok b1"
        "ib_inv (interleaved bids asks i @ [leaf_client_order_id (asks ! i)]) b1" "ib_count b1 = Suc (ib_count b)"
      using ib_push_inv [OF assms(1) c] by blast
    then show ?thesis
      using ib_flush_inv [OF b1(2)] assms(2) ask
      by (auto simp: batch_both_step_def interleaved_Suc take_at_def mod_Suc_eq)
  next
    case none
    then show ?thesis
      using ib_flush_inv [OF assms(1)] assms(2)
      by (auto simp: batch_both_step_def interleaved_Suc take_at_def)
  qed
qed

lemma batch_both_fold:
  "\<exists>b. (fold_outcome (batch_both_step bids asks) [0..<n] ib_new :: ('e, id_batch) outcome) = Ok b \<and>
     ib_inv (interleaved bids asks n) b \<and> ib_count b = length (interleaved bids asks n) mod 8"
proof (induction n)
  case 0
  have "interleaved bids asks 0 = []" by (simp add: interleaved_def)
  then show ?case using ib_new_inv by (simp add: ib_new_def)
next
  case (Suc n)
  then obtain b where "(fold_outcome (batch_both_step bids asks) [0..<n] ib_new :: ('e, id_batch) outcome) = Ok b"
      "ib_inv (interleaved bids asks n) b" "ib_count b = length (interleaved bids asks n) mod 8"
    by blast
  moreover from this obtain b' where "(batch_both_step bids asks n b :: ('e, id_batch) outcome) = Ok b'"
      "ib_inv (interleaved bids asks (Suc n)) b'"
      "ib_count b' = length (interleaved bids asks (Suc n)) mod 8"
    using batch_both_step_inv by blast
  ultimately show ?case by (simp add: fold_outcome_append)
qed

lemma batch_both_ids_spec:
  "\<exists>gs k. (batch_both_ids bids asks :: u64 list list res) = Ok gs \<and> k < 8 \<and> set (map length gs) \<subseteq> {8} \<and>
      mset (concat gs) = mset (map leaf_client_order_id bids) + mset (map leaf_client_order_id asks)
        + replicate_mset k 0"
proof -
  let ?n = "max (length bids) (length asks)"
  obtain b where b: "fold_outcome (batch_both_step bids asks) [0..<?n] ib_new = (Ok b :: id_batch res)"
      "ib_inv (interleaved bids asks ?n) b" "ib_count b = length (interleaved bids asks ?n) mod 8"
    using batch_both_fold by blast
  then obtain k where "k < 8" "concat (ib_finish b) = interleaved bids asks ?n @ replicate k 0"
      "\<forall>g \<in> set (ib_finish b). length g = 8"
    using ib_finish_spec [of _ b] by auto
  then show ?thesis
    using b(1) mset_interleaved [of bids ?n asks]
    by (intro exI [of _ "ib_finish b"] exI [of _ k]) (auto simp: batch_both_ids_def simp del: mset_concat)
qed

text \<open>
  Cancelling in groups of eight: neither loop that fills the fixed array of eight ids ever
  writes past its end, every group has eight ids, and the groups together hold exactly the
  client ids of the orders (in order, for the one-sided loop; each once, for the two-sided one)
  followed by fewer than eight zeros of padding.
\<close>

theorem id_groups_cover_orders:
  "(\<exists>gs k. (batch_ids orders :: u64 list list res) = Ok gs \<and> k < 8 \<and> set (map length gs) \<subseteq> {8} \<and>
      concat gs = map leaf_client_order_id orders @ replicate k 0) \<and>
   (\<exists>gs k. (batch_both_ids bids asks :: u64 list list res) = Ok gs \<and> k < 8 \<and> set (map length gs) \<subseteq> {8} \<and>
      mset (concat gs) = mset (map leaf_client_order_id bids) + mset (map leaf_client_order_id asks)
        + replicate_mset k 0)"
  using batch_ids_spec [of orders] batch_both_ids_spec [of bids asks] by auto

end
