(* ===== verification/Whitelist.thy ===== *)
theory Whitelist
  imports Errors Codec
begin

text \<open>
  The transfer-hook whitelist of \<^verbatim>\<open>src/state.rs\<close> (\<^verbatim>\<open>HookWhitelist\<close>): its operations, its byte
  layout, and the contract of a bounded set that the whitelist handlers rely on.
\<close>

section \<open>The record and its operations\<close>

definition MAX_HOOKS :: nat where "MAX_HOOKS = 32"

definition HOOK_WHITELIST_LEN :: nat where "HOOK_WHITELIST_LEN = 32 + 4 + 32 * MAX_HOOKS"

record hook_whitelist =
  wl_authority :: pubkey
  hook_count :: u32
  hooks :: "pubkey list"

definition whitelist_new :: "pubkey \<Rightarrow> hook_whitelist" where
  "whitelist_new authority =
     \<lparr>wl_authority = authority, hook_count = 0, hooks = replicate MAX_HOOKS default_pubkey\<rparr>"

text \<open>\<^verbatim>\<open>for i in 0..hook_count\<close>: the entries from \<open>i\<close> on; an index past the array panics.\<close>

fun contains_from :: "pubkey \<Rightarrow> pubkey list \<Rightarrow> nat list \<Rightarrow> ('e, bool) outcome" where
  "contains_from h hs [] = Ok False"
| "contains_from h hs (i # is) =
     rbind (index_at hs i) (\<lambda>x. if x = h then Ok True else contains_from h hs is)"

definition contains_hook :: "hook_whitelist \<Rightarrow> pubkey \<Rightarrow> ('e, bool) outcome" where
  "contains_hook self h = contains_from h (hooks self) [0..<unat (hook_count self)]"

definition add_hook :: "pubkey \<Rightarrow> hook_whitelist \<Rightarrow> hook_whitelist amm_res" where
  "add_hook h self =
     rbind (contains_hook self h) (\<lambda>found.
     if found then Err InvalidWhitelistAccount
     else if unat (hook_count self) \<ge> MAX_HOOKS then Err WhitelistFull
     else if unat (hook_count self) \<ge> length (hooks self) then Panic
     else rbind (unwrap (checked_add (hook_count self) 1)) (\<lambda>n.
       Ok (self\<lparr>hooks := (hooks self)[unat (hook_count self) := h], hook_count := n\<rparr>)))"

text \<open>The search of \<^verbatim>\<open>remove_hook\<close> over the enumerated array, and its shift to the left.\<close>

fun find_hook :: "pubkey \<Rightarrow> nat \<Rightarrow> nat \<Rightarrow> pubkey list \<Rightarrow> nat option" where
  "find_hook h count i [] = None"
| "find_hook h count i (x # xs) =
     (if i \<ge> count then None else if x = h then Some i else find_hook h count (i + 1) xs)"

definition shift_step :: "nat \<Rightarrow> pubkey list \<Rightarrow> ('e, pubkey list) outcome" where
  "shift_step i hs =
     rbind (index_at hs (i + 1)) (\<lambda>x. if i < length hs then Ok (hs[i := x]) else Panic)"

definition remove_hook :: "pubkey \<Rightarrow> hook_whitelist \<Rightarrow> hook_whitelist amm_res" where
  "remove_hook h self =
     (let count = unat (hook_count self) in
      rbind (ok_or TransferHookNotWhitelisted (find_hook h count 0 (hooks self))) (\<lambda>index.
      if count = 0 then Panic
      else rbind (fold_outcome shift_step [index..<count - 1] (hooks self)) (\<lambda>hs.
        if count - 1 \<ge> length hs then Panic
        else rbind (unwrap (checked_sub (hook_count self) 1)) (\<lambda>n.
          Ok (self\<lparr>hooks := hs[count - 1 := default_pubkey], hook_count := n\<rparr>)))))"

definition get_active_hooks :: "hook_whitelist \<Rightarrow> ('e, pubkey list) outcome" where
  "get_active_hooks self =
     (if unat (hook_count self) \<le> length (hooks self)
      then Ok (take (unat (hook_count self)) (hooks self)) else Panic)"

definition is_full :: "hook_whitelist \<Rightarrow> bool" where
  "is_full self \<longleftrightarrow> unat (hook_count self) \<ge> MAX_HOOKS"

definition available_slots :: "hook_whitelist \<Rightarrow> ('e, nat) outcome" where
  "available_slots self =
     (if unat (hook_count self) \<le> MAX_HOOKS then Ok (MAX_HOOKS - unat (hook_count self)) else Panic)"

definition whitelist_is_initialized :: "hook_whitelist \<Rightarrow> bool" where
  "whitelist_is_initialized self \<longleftrightarrow> wl_authority self \<noteq> default_pubkey"

section \<open>The account layout\<close>

definition whitelist_pack :: "hook_whitelist \<Rightarrow> bytes" where
  "whitelist_pack self =
     pubkey_bytes (wl_authority self) @ le_bytes 4 (hook_count self) @
     concat (map pubkey_bytes (hooks self))"

definition whitelist_unpack_from_slice :: "bytes \<Rightarrow> hook_whitelist res" where
  "whitelist_unpack_from_slice src =
     rbind (array_ref src 0 HOOK_WHITELIST_LEN) (\<lambda>bs.
       let authority = pubkey_of_bytes (take 32 bs);
           count = (from_le_bytes (take 4 (drop 32 bs)) :: u32);
           hooks_data = drop 36 bs
       in if unat count > MAX_HOOKS then Err PE_InvalidAccountData
          else Ok \<lparr>wl_authority = authority, hook_count = count,
                   hooks = map (\<lambda>i. pubkey_of_bytes (take 32 (drop (32 * i) hooks_data))) [0..<MAX_HOOKS]\<rparr>)"

text \<open>
  \<^verbatim>\<open>Pack::unpack\<close>, the provided method of the trait: the length must be \<^verbatim>\<open>LEN\<close> and the record
  initialized.
\<close>

definition whitelist_unpack :: "bytes \<Rightarrow> hook_whitelist res" where
  "whitelist_unpack input =
     (if length input \<noteq> HOOK_WHITELIST_LEN then Err PE_InvalidAccountData
      else rbind (whitelist_unpack_from_slice input) (\<lambda>w.
        if whitelist_is_initialized w then Ok w else Err PE_UninitializedAccount))"

section \<open>The contract of a bounded set\<close>

text \<open>
  What the handlers rely on: a representation \<open>inv\<close> of a set \<open>abs\<close> of at most \<open>cap\<close> members,
  whose insertion refuses members and a full set and whose deletion refuses non-members.
\<close>

locale bounded_set =
  fixes inv :: "'r \<Rightarrow> bool" and abs :: "'r \<Rightarrow> 'a set" and cap :: nat
    and mem :: "'r \<Rightarrow> 'a \<Rightarrow> (amm_error, bool) outcome"
    and ins :: "'a \<Rightarrow> 'r \<Rightarrow> (amm_error, 'r) outcome"
    and del :: "'a \<Rightarrow> 'r \<Rightarrow> (amm_error, 'r) outcome"
  assumes finite_abs: "inv r \<Longrightarrow> finite (abs r) \<and> card (abs r) \<le> cap"
    and mem_abs: "inv r \<Longrightarrow> mem r x = Ok (x \<in> abs r)"
    and ins_new: "inv r \<Longrightarrow> x \<notin> abs r \<Longrightarrow> card (abs r) < cap \<Longrightarrow>
        \<exists>r'. ins x r = Ok r' \<and> inv r' \<and> abs r' = insert x (abs r)"
    and ins_old: "inv r \<Longrightarrow> x \<in> abs r \<Longrightarrow> ins x r = Err InvalidWhitelistAccount"
    and ins_full: "inv r \<Longrightarrow> x \<notin> abs r \<Longrightarrow> card (abs r) = cap \<Longrightarrow> ins x r = Err WhitelistFull"
    and del_old: "inv r \<Longrightarrow> x \<in> abs r \<Longrightarrow> \<exists>r'. del x r = Ok r' \<and> inv r' \<and> abs r' = abs r - {x}"
    and del_new: "inv r \<Longrightarrow> x \<notin> abs r \<Longrightarrow> del x r = Err TransferHookNotWhitelisted"
begin

lemma ins_Ok: "inv r \<Longrightarrow> ins x r = Ok r' \<Longrightarrow> inv r' \<and> abs r' = insert x (abs r) \<and> x \<notin> abs r"
  using ins_new ins_old ins_full finite_abs by (metis le_neq_implies_less outcome.distinct(1) outcome.inject(1))

lemma del_Ok: "inv r \<Longrightarrow> del x r = Ok r' \<Longrightarrow> inv r' \<and> abs r' = abs r - {x} \<and> x \<in> abs r"
  using del_old del_new by (metis outcome.distinct(1) outcome.inject(1))

lemma ins_total: "inv r \<Longrightarrow> ins x r \<noteq> Panic"
  using ins_new ins_old ins_full finite_abs by (metis le_neq_implies_less outcome.distinct(3,5))

lemma del_total: "inv r \<Longrightarrow> del x r \<noteq> Panic"
  using del_old del_new by (metis outcome.distinct(3,5))

lemma mem_after_ins:
  "inv r \<Longrightarrow> ins x r = Ok r' \<Longrightarrow> mem r' y = Ok (y = x \<or> y \<in> abs r)"
  using ins_Ok mem_abs by fastforce

lemma mem_after_del:
  "inv r \<Longrightarrow> del x r = Ok r' \<Longrightarrow> mem r' y = Ok (y \<noteq> x \<and> y \<in> abs r)"
  using del_Ok mem_abs by fastforce

lemma del_ins_abs:
  assumes "inv r" "ins x r = Ok r1" "del x r1 = Ok r2"
  shows "abs r2 = abs r"
  using ins_Ok [OF assms(1,2)] del_Ok [of r1 x r2] assms(3) by auto

lemma del_then_ins_ok:
  assumes "inv r" "del x r = Ok r1" "y \<notin> abs r1"
  shows "\<exists>r2. ins y r1 = Ok r2"
proof -
  note d = del_Ok [OF assms(1,2)]
  have "card (abs r1) < card (abs r)" using d finite_abs [OF assms(1)] card_Diff1_less [of "abs r" x] by metis
  then have "card (abs r1) < cap" using finite_abs [OF assms(1)] by simp
  then show ?thesis using d ins_new [of r1 y] assms(3) by blast
qed

end

section \<open>The representation\<close>

definition active :: "hook_whitelist \<Rightarrow> pubkey list" where
  "active w = take (unat (hook_count w)) (hooks w)"

definition wl_inv :: "hook_whitelist \<Rightarrow> bool" where
  "wl_inv w \<longleftrightarrow> length (hooks w) = MAX_HOOKS \<and> unat (hook_count w) \<le> MAX_HOOKS \<and>
     distinct (active w) \<and> drop (unat (hook_count w)) (hooks w) = replicate (MAX_HOOKS - unat (hook_count w)) 0"

definition wl_set :: "hook_whitelist \<Rightarrow> pubkey set" where
  "wl_set w = set (active w)"

lemma wl_hooks: "wl_inv w \<Longrightarrow> hooks w = active w @ replicate (MAX_HOOKS - length (active w)) 0"
  by (simp add: wl_inv_def active_def) (metis append_take_drop_id min.absorb2)

lemma length_active: "wl_inv w \<Longrightarrow> length (active w) = unat (hook_count w)"
  by (simp add: wl_inv_def active_def)

lemma contains_from_spec:
  "\<forall>i \<in> set is. i < length hs \<Longrightarrow> contains_from h hs is = Ok (h \<in> (!) hs ` set is)"
  by (induction "is") (auto simp: index_at_def)

lemma contains_hook_spec: "wl_inv w \<Longrightarrow> contains_hook w h = Ok (h \<in> wl_set w)"
proof -
  assume w: "wl_inv w"
  have "(!) (hooks w) ` {0..<unat (hook_count w)} = set (active w)"
    using w by (auto simp: active_def wl_inv_def nth_image)
  then show ?thesis
    using w contains_from_spec [of "[0..<unat (hook_count w)]" "hooks w" h]
    by (simp add: contains_hook_def wl_set_def wl_inv_def)
qed

lemma find_hook_spec:
  "find_hook h (i + length xs) i (xs @ ys) =
     (if h \<in> set xs then Some (i + length (takeWhile (\<lambda>x. x \<noteq> h) xs)) else None)"
proof (induction xs arbitrary: i)
  case Nil
  then show ?case by (cases ys) auto
next
  case (Cons x xs)
  show ?case using Cons.IH [of "Suc i"] by simp
qed

lemma shift_spec:
  "(fold_outcome shift_step [length xs..<length xs + length ys] (xs @ x # ys @ zs) ::
     ('e, pubkey list) outcome) = Ok (xs @ ys @ (if ys = [] then x else last ys) # zs)"
proof (induction ys arbitrary: xs x)
  case (Cons y ys)
  have "(shift_step (length xs) (xs @ x # (y # ys) @ zs) :: ('e, pubkey list) outcome) =
      Ok ((xs @ [y]) @ y # ys @ zs)"
    by (simp add: shift_step_def index_at_def nth_append list_update_append)
  moreover have "[length xs..<length xs + length (y # ys)] =
      length xs # [length (xs @ [y])..<length (xs @ [y]) + length ys]"
    by (simp add: upt_conv_Cons del: upt_Suc)
  ultimately show ?case using Cons.IH [of "xs @ [y]" y] by (simp del: upt_Suc)
qed simp


lemma add_hook_spec:
  assumes "wl_inv w" "h \<notin> wl_set w" "unat (hook_count w) < MAX_HOOKS"
  shows "\<exists>w'. add_hook h w = Ok w' \<and> wl_inv w' \<and> active w' = active w @ [h] \<and>
    wl_authority w' = wl_authority w \<and> unat (hook_count w') = Suc (unat (hook_count w))"
proof -
  let ?n = "unat (hook_count w)"
  have len: "length (hooks w) = MAX_HOOKS" and d: "distinct (active w)" using assms(1) by (simp_all add: wl_inv_def)
  have lt: "?n + 1 < 2 ^ 32" using assms(3) by (simp add: MAX_HOOKS_def)
  then have n: "checked_add (hook_count w) 1 = Some (hook_count w + 1)" by (simp add: checked_add_def)
  then have un: "unat (hook_count w + 1) = Suc ?n" by (simp add: checked_add_Some_iff)
  let ?w = "w\<lparr>hooks := (hooks w)[?n := h], hook_count := hook_count w + 1\<rparr>"
  have add: "add_hook h w = Ok ?w"
    using assms n len by (simp add: add_hook_def contains_hook_spec)
  have act: "active ?w = active w @ [h]"
    using len assms(3) by (simp add: active_def un take_Suc_conv_app_nth)
  have "drop (Suc ?n) (hooks w) = tl (drop ?n (hooks w))" by (simp add: drop_Suc tl_drop)
  also have "\<dots> = replicate (MAX_HOOKS - Suc ?n) 0"
    using assms(1,3) by (simp add: wl_inv_def tl_replicate)
  finally have "wl_inv ?w"
    using len assms(2,3) d act by (simp add: wl_inv_def un wl_set_def)
  with add act un show ?thesis by auto
qed

lemma remove_hook_spec:
  assumes "wl_inv w" "h \<in> wl_set w"
  shows "\<exists>w'. remove_hook h w = Ok w' \<and> wl_inv w' \<and> active w' = remove1 h (active w) \<and>
    wl_authority w' = wl_authority w \<and> Suc (unat (hook_count w')) = unat (hook_count w)"
proof -
  let ?n = "unat (hook_count w)"
  obtain xs ys where act: "active w = xs @ h # ys" and nin: "h \<notin> set xs"
    using assms(2) split_list_first [of h "active w"] by (auto simp: wl_set_def)
  let ?zs = "replicate (MAX_HOOKS - ?n) (0 :: pubkey)"
  have hk: "hooks w = xs @ h # ys @ ?zs"
    using wl_hooks [OF assms(1)] length_active [OF assms(1)] act by simp
  have n: "?n = Suc (length xs + length ys)" using length_active [OF assms(1)] act by simp
  have le: "?n \<le> MAX_HOOKS" using assms(1) by (simp add: wl_inv_def)
  have tw: "takeWhile (\<lambda>x. x \<noteq> h) (xs @ h # ys) = xs"
    using nin by (induction xs) auto
  have f: "find_hook h ?n 0 (hooks w) = Some (length xs)"
    using find_hook_spec [of h 0 "xs @ h # ys" ?zs] tw by (simp add: hk n)
  have sh: "fold_outcome shift_step [length xs..<?n - 1] (hooks w) =
      (Ok (xs @ ys @ (if ys = [] then h else last ys) # ?zs) :: pubkey list amm_res)"
    using shift_spec [of xs ys h ?zs] by (simp add: hk n)
  have s: "checked_sub (hook_count w) 1 = Some (hook_count w - 1)"
    using n by (simp add: checked_sub_def word_le_nat_alt)
  then have un: "Suc (unat (hook_count w - 1)) = ?n" by (simp add: checked_sub_Some_iff)
  let ?w = "w\<lparr>hooks := xs @ ys @ 0 # ?zs, hook_count := hook_count w - 1\<rparr>"
  have upd: "(xs @ ys @ (if ys = [] then h else last ys) # ?zs)[?n - 1 := 0] = xs @ ys @ 0 # ?zs"
    by (simp add: n list_update_append)
  have rem: "remove_hook h w = Ok ?w"
    using f sh s n upd by (simp add: remove_hook_def)
  have m: "unat (hook_count w - 1) = length xs + length ys" using un n by simp
  have act': "active ?w = remove1 h (active w)"
    using nin by (simp add: active_def [of ?w] m act remove1_append)
  have "replicate (MAX_HOOKS - unat (hook_count w - 1)) (0 :: pubkey) = 0 # ?zs"
    using le n m by (simp add: Suc_diff_Suc [symmetric] flip: replicate_Suc)
  then have "wl_inv ?w"
    using assms(1) act' le n by (simp add: wl_inv_def m MAX_HOOKS_def distinct_remove1)
  with rem act' un show ?thesis by auto
qed

lemma wl_card: "wl_inv w \<Longrightarrow> card (wl_set w) = unat (hook_count w)"
  using length_active [of w] by (simp add: wl_set_def wl_inv_def distinct_card)

interpretation wl: bounded_set wl_inv wl_set MAX_HOOKS contains_hook add_hook remove_hook
proof
  fix r :: hook_whitelist and x :: pubkey
  assume r: "wl_inv r"
  show "finite (wl_set r) \<and> card (wl_set r) \<le> MAX_HOOKS"
    using r wl_card [OF r] by (simp add: wl_set_def wl_inv_def)
  show c: "contains_hook r x = Ok (x \<in> wl_set r)" using r by (rule contains_hook_spec)
  show "x \<notin> wl_set r \<Longrightarrow> card (wl_set r) < MAX_HOOKS \<Longrightarrow>
      \<exists>r'. add_hook x r = Ok r' \<and> wl_inv r' \<and> wl_set r' = insert x (wl_set r)"
    using add_hook_spec [OF r, of x] wl_card [OF r] by (auto simp: wl_set_def)
  show "x \<in> wl_set r \<Longrightarrow> add_hook x r = Err InvalidWhitelistAccount"
    using r by (simp add: add_hook_def contains_hook_spec)
  show "x \<notin> wl_set r \<Longrightarrow> card (wl_set r) = MAX_HOOKS \<Longrightarrow> add_hook x r = Err WhitelistFull"
    using r wl_card [OF r] by (simp add: add_hook_def contains_hook_spec)
  show "x \<in> wl_set r \<Longrightarrow> \<exists>r'. remove_hook x r = Ok r' \<and> wl_inv r' \<and> wl_set r' = wl_set r - {x}"
    using remove_hook_spec [OF r, of x] r by (auto simp: wl_set_def wl_inv_def)
  show "x \<notin> wl_set r \<Longrightarrow> remove_hook x r = Err TransferHookNotWhitelisted"
    using find_hook_spec [of x 0 "active r" "replicate (MAX_HOOKS - length (active r)) 0"]
      wl_hooks [OF r] length_active [OF r]
    by (simp add: remove_hook_def wl_set_def)
qed

section \<open>The layout round trip\<close>

lemma length_whitelist_pack: "wl_inv w \<Longrightarrow> length (whitelist_pack w) = HOOK_WHITELIST_LEN"
proof -
  assume "wl_inv w"
  moreover have "length (concat (map pubkey_bytes hs)) = 32 * length hs" for hs
    by (induction hs) simp_all
  ultimately show ?thesis by (simp add: whitelist_pack_def HOOK_WHITELIST_LEN_def wl_inv_def)
qed

lemma unpack_pack:
  assumes "wl_inv w"
  shows "whitelist_unpack_from_slice (whitelist_pack w @ rest) = Ok w"
proof -
  let ?bs = "whitelist_pack w"
  have len: "length ?bs = HOOK_WHITELIST_LEN" by (rule length_whitelist_pack [OF assms])
  have hk: "map (\<lambda>i. pubkey_of_bytes (take 32 (drop (32 * i) (concat (map pubkey_bytes (hooks w)))))) [0..<MAX_HOOKS]
      = hooks w"
  proof (rule nth_equalityI)
    show "length (map (\<lambda>i. pubkey_of_bytes (take 32 (drop (32 * i) (concat (map pubkey_bytes (hooks w)))))) [0..<MAX_HOOKS])
      = length (hooks w)" using assms by (simp add: wl_inv_def)
    fix i assume "i < length (map (\<lambda>i. pubkey_of_bytes (take 32 (drop (32 * i) (concat (map pubkey_bytes (hooks w)))))) [0..<MAX_HOOKS])"
    then have i: "i < length (map pubkey_bytes (hooks w))" using assms by (simp add: wl_inv_def)
    then have "take 32 (drop (32 * i) (concat (map pubkey_bytes (hooks w)))) = pubkey_bytes (hooks w ! i)"
      using chunk_concat [of "map pubkey_bytes (hooks w)" 32 i] by simp
    then show "map (\<lambda>i. pubkey_of_bytes (take 32 (drop (32 * i) (concat (map pubkey_bytes (hooks w)))))) [0..<MAX_HOOKS] ! i
      = hooks w ! i" using i assms by (simp add: wl_inv_def)
  qed
  have "take HOOK_WHITELIST_LEN (?bs @ rest) = ?bs" using len by simp
  then show ?thesis
    using len hk assms unfolding whitelist_unpack_from_slice_def array_ref_def
    by (simp add: whitelist_pack_def from_le_bytes_inverse Let_def wl_inv_def)
qed

lemma whitelist_unpack_pack [simp]:
  "wl_inv w \<Longrightarrow> wl_authority w \<noteq> 0 \<Longrightarrow> whitelist_unpack (whitelist_pack w) = Ok w"
  using unpack_pack [of w "[]"] length_whitelist_pack [of w]
  by (simp add: whitelist_unpack_def whitelist_is_initialized_def)

section \<open>Properties\<close>

text \<open>
  C21. On a well-formed whitelist the three operations are those of a set of at most 32 hook
  programs: the membership test decides membership; adding appends a new hook, keeps the
  authority, and refuses a member (\<open>InvalidWhitelistAccount\<close>) and a full list
  (\<open>WhitelistFull\<close>); removing deletes exactly that hook, keeps the order of the others, and
  refuses a non-member (\<open>TransferHookNotWhitelisted\<close>). No operation panics.
\<close>

theorem whitelist_is_a_set:
  assumes "wl_inv w"
  shows "contains_hook w h = (Ok (h \<in> wl_set w) :: bool amm_res) \<and>
    (case add_hook h w of
       Ok w' \<Rightarrow> h \<notin> wl_set w \<and> wl_inv w' \<and> active w' = active w @ [h] \<and> wl_authority w' = wl_authority w
     | Err e \<Rightarrow> (e = InvalidWhitelistAccount \<and> h \<in> wl_set w) \<or> (e = WhitelistFull \<and> is_full w)
     | Panic \<Rightarrow> False) \<and>
    (case remove_hook h w of
       Ok w' \<Rightarrow> h \<in> wl_set w \<and> wl_inv w' \<and> active w' = remove1 h (active w) \<and> wl_authority w' = wl_authority w
     | Err e \<Rightarrow> e = TransferHookNotWhitelisted \<and> h \<notin> wl_set w
     | Panic \<Rightarrow> False)"
proof -
  have "unat (hook_count w) \<le> MAX_HOOKS" using assms by (simp add: wl_inv_def)
  then have "h \<in> wl_set w \<or> (h \<notin> wl_set w \<and> unat (hook_count w) < MAX_HOOKS) \<or> (h \<notin> wl_set w \<and> is_full w)"
    by (auto simp: is_full_def)
  then have "case add_hook h w of
       Ok w' \<Rightarrow> h \<notin> wl_set w \<and> wl_inv w' \<and> active w' = active w @ [h] \<and> wl_authority w' = wl_authority w
     | Err e \<Rightarrow> (e = InvalidWhitelistAccount \<and> h \<in> wl_set w) \<or> (e = WhitelistFull \<and> is_full w)
     | Panic \<Rightarrow> False"
    using add_hook_spec [OF assms, of h] wl.ins_old [OF assms, of h] wl.ins_full [OF assms, of h]
      wl_card [OF assms] wl.finite_abs [OF assms]
    by (auto simp: is_full_def)
  then show ?thesis
    using assms remove_hook_spec [OF assms, of h] wl.del_new [OF assms, of h]
    by (cases "h \<in> wl_set w") (auto simp: contains_hook_spec)
qed

lemma wl_inv_new: "wl_inv (whitelist_new a)"
  by (simp add: wl_inv_def whitelist_new_def active_def)

theorem whitelist_is_a_set_witness:
  "contains_hook (whitelist_new 5) 9 = (Ok False :: bool amm_res)"
  using whitelist_is_a_set [OF wl_inv_new, of 5 9]
  by (simp add: whitelist_new_def wl_set_def active_def)

text \<open>
  Storing a well-formed whitelist and reading it back gives it unchanged, whatever bytes
  follow it; its encoding has exactly the account length 1060; a shorter input panics in
  \<open>unpack_from_slice\<close>, is \<open>InvalidAccountData\<close> for \<open>unpack\<close>, and so is a stored count above 32.
\<close>

theorem whitelist_pack_round_trip:
  assumes "wl_inv w" "length bs < HOOK_WHITELIST_LEN"
  shows "length (whitelist_pack w) = 1060 \<and>
    whitelist_unpack_from_slice (whitelist_pack w @ rest) = Ok w \<and>
    (whitelist_unpack (whitelist_pack w) = (if wl_authority w = 0 then Err PE_UninitializedAccount else Ok w)) \<and>
    whitelist_unpack_from_slice bs = Panic \<and> whitelist_unpack bs = Err PE_InvalidAccountData"
  using length_whitelist_pack [OF assms(1)] unpack_pack [OF assms(1)] unpack_pack [OF assms(1), of "[]"] assms(2)
  by (simp add: whitelist_unpack_def whitelist_is_initialized_def whitelist_unpack_from_slice_def
      array_ref_def HOOK_WHITELIST_LEN_def MAX_HOOKS_def)

theorem whitelist_pack_round_trip_witness:
  "whitelist_unpack_from_slice (whitelist_pack (whitelist_new 7) @ [1]) = Ok (whitelist_new 7) \<and>
   whitelist_unpack [] = Err PE_InvalidAccountData"
  using whitelist_pack_round_trip [OF wl_inv_new, of "[]" 7 "[1]"]
  by (simp add: HOOK_WHITELIST_LEN_def MAX_HOOKS_def)

end
