(* ===== verification/Instruction.thy ===== *)
theory Instruction
  imports AmmState
begin

text \<open>
  The instruction set of \<^verbatim>\<open>src/instruction.rs\<close>: the instruction types, the decoder \<^verbatim>\<open>unpack\<close>
  and the encoder \<^verbatim>\<open>pack\<close>. Strings are their UTF-8 bytes.

  Two things come from outside the repository and are the record \<open>codec_env\<close>:
  \<^verbatim>\<open>size_of::<ExtraAccountMeta>()\<close> of the crate \<^verbatim>\<open>spl_tlv_account_resolution\<close> (\<^verbatim>\<open>bytemuck::from_bytes\<close>
  panics when the slice has another size), and \<^verbatim>\<open>String::from_utf8_lossy\<close>.
\<close>

record codec_env =
  ce_meta_size :: nat
  ce_lossy :: "bytes \<Rightarrow> bytes"

section \<open>Instruction types\<close>

record initialize_instruction =
  i1_nonce :: u8
  i1_open_time :: u64

record initialize_instruction2 =
  i2_nonce :: u8
  i2_open_time :: u64
  i2_init_pc_amount :: u64
  i2_init_coin_amount :: u64

record monitor_step_instruction =
  plan_order_limit :: u16
  place_order_limit :: u16
  cancel_order_limit :: u16

record deposit_instruction =
  max_coin_amount :: u64
  max_pc_amount :: u64
  base_side :: u64
  other_amount_min :: "u64 option"

record withdraw_instruction =
  w_amount :: u64
  min_coin_amount :: "u64 option"
  min_pc_amount :: "u64 option"

record set_params_instruction =
  sp_param :: u8
  sp_value :: "u64 option"
  sp_new_pubkey :: "pubkey option"
  sp_fees :: "fees option"
  sp_last_order_distance :: "last_order_distance option"

record swap_base_in_instruction =
  amount_in :: u64
  minimum_amount_out :: u64

record swap_base_out_instruction =
  max_amount_in :: u64
  amount_out :: u64

record simulate_instruction =
  sim_param :: u8
  swap_base_in_value :: "swap_base_in_instruction option"
  swap_base_out_value :: "swap_base_out_instruction option"

record config_args =
  ca_param :: u8
  ca_owner :: "pubkey option"
  ca_create_pool_fee :: "u64 option"

record create_mint_instruction =
  cm_decimals :: u8
  cm_mint_authority :: pubkey
  cm_freeze_authority :: "pubkey option"
  cm_transfer_hook_program_id :: "pubkey option"
  cm_name :: bytes
  cm_symbol :: bytes
  cm_uri :: bytes

datatype whitelist_action = HookAdd | HookRemove

record update_whitelist_instruction =
  uw_hook_program_id :: pubkey
  uw_action :: whitelist_action

text \<open>An \<^verbatim>\<open>ExtraAccountMeta\<close> is its bytes.\<close>

type_synonym extra_meta = bytes

datatype amm_instruction =
    Initialize initialize_instruction
  | Initialize2 initialize_instruction2
  | MonitorStep monitor_step_instruction
  | Deposit deposit_instruction
  | Withdraw withdraw_instruction
  | MigrateToOpenBook
  | SetParams set_params_instruction
  | WithdrawPnl
  | WithdrawSrm u64
  | SwapBaseIn swap_base_in_instruction
  | PreInitialize u8
  | SwapBaseOut swap_base_out_instruction
  | SimulateInfo simulate_instruction
  | AdminCancelOrders u16
  | CreateConfigAccount
  | UpdateConfigAccount config_args
  | CreateToken2022Mint create_mint_instruction
  | InitializeExtraAccountMetaList "extra_meta list"
  | InitializeHookWhitelist pubkey
  | UpdateHookWhitelist update_whitelist_instruction
  | UpdateWhitelistAuthority pubkey

section \<open>Decoding\<close>

definition unpack_initialize :: "bytes \<Rightarrow> amm_instruction res" where
  "unpack_initialize rest =
     rbind (unpack_u8 rest) (\<lambda>(n, rest).
     rbind (unpack_u64 rest) (\<lambda>(t, rest).
     Ok (Initialize \<lparr>i1_nonce = n, i1_open_time = t\<rparr>)))"

definition unpack_initialize2 :: "bytes \<Rightarrow> amm_instruction res" where
  "unpack_initialize2 rest =
     rbind (unpack_u8 rest) (\<lambda>(n, rest).
     rbind (unpack_u64 rest) (\<lambda>(t, rest).
     rbind (unpack_u64 rest) (\<lambda>(pc, rest).
     rbind (unpack_u64 rest) (\<lambda>(coin, rest).
     Ok (Initialize2 \<lparr>i2_nonce = n, i2_open_time = t, i2_init_pc_amount = pc,
       i2_init_coin_amount = coin\<rparr>)))))"

definition unpack_monitor_step :: "bytes \<Rightarrow> amm_instruction res" where
  "unpack_monitor_step rest =
     rbind (unpack_u16 rest) (\<lambda>(plan, rest).
     rbind (unpack_u16 rest) (\<lambda>(place, rest).
     rbind (unpack_u16 rest) (\<lambda>(cancel, rest).
     Ok (MonitorStep \<lparr>plan_order_limit = plan, place_order_limit = place,
       cancel_order_limit = cancel\<rparr>))))"

definition unpack_deposit :: "bytes \<Rightarrow> amm_instruction res" where
  "unpack_deposit rest =
     rbind (unpack_u64 rest) (\<lambda>(coin, rest).
     rbind (unpack_u64 rest) (\<lambda>(pc, rest).
     rbind (unpack_u64 rest) (\<lambda>(side, rest).
     rbind (if length rest \<ge> 8
            then rbind (unpack_u64 rest) (\<lambda>(m, rest). Ok (Some m)) else Ok None) (\<lambda>other.
     Ok (Deposit \<lparr>max_coin_amount = coin, max_pc_amount = pc, base_side = side,
       other_amount_min = other\<rparr>)))))"

definition unpack_withdraw :: "bytes \<Rightarrow> amm_instruction res" where
  "unpack_withdraw rest =
     rbind (unpack_u64 rest) (\<lambda>(a, rest).
     rbind (if length rest \<ge> 16
            then rbind (unpack_u64 rest) (\<lambda>(c, rest).
                 rbind (unpack_u64 rest) (\<lambda>(p, rest). Ok (Some c, Some p)))
            else Ok (None, None)) (\<lambda>(c, p).
     Ok (Withdraw \<lparr>w_amount = a, min_coin_amount = c, min_pc_amount = p\<rparr>)))"

definition unpack_set_params :: "bytes \<Rightarrow> amm_instruction res" where
  "unpack_set_params rest =
     rbind (unpack_u8 rest) (\<lambda>(param, rest).
     rbind (amm_params_from_u64 (ucast param)) (\<lambda>p.
       if p = PAmmOwner then
         (if length rest \<ge> 32 then
            rbind (array_ref rest 0 32) (\<lambda>k.
            Ok (SetParams \<lparr>sp_param = param, sp_value = None,
              sp_new_pubkey = Some (pubkey_of_bytes k), sp_fees = None, sp_last_order_distance = None\<rparr>))
          else Err PE_InvalidInstructionData)
       else if p = PFees then
         (if length rest \<ge> FEES_LEN then
            rbind (fees_unpack_from_slice (take FEES_LEN rest)) (\<lambda>f.
            Ok (SetParams \<lparr>sp_param = param, sp_value = None, sp_new_pubkey = None,
              sp_fees = Some f, sp_last_order_distance = None\<rparr>))
          else Err PE_InvalidInstructionData)
       else if p = PLastOrderDistance then
         (if length rest \<ge> 16 then
            rbind (unpack_u64 rest) (\<lambda>(n, rest).
            rbind (unpack_u64 rest) (\<lambda>(d, rest).
            Ok (SetParams \<lparr>sp_param = param, sp_value = None, sp_new_pubkey = None, sp_fees = None,
              sp_last_order_distance = Some \<lparr>lod_numerator = n, lod_denominator = d\<rparr>\<rparr>)))
          else Err PE_InvalidInstructionData)
       else
         (if length rest \<ge> 8 then
            rbind (unpack_u64 rest) (\<lambda>(v, rest).
            Ok (SetParams \<lparr>sp_param = param, sp_value = Some v, sp_new_pubkey = None,
              sp_fees = None, sp_last_order_distance = None\<rparr>))
          else Err PE_InvalidInstructionData)))"

definition unpack_swap_in :: "bytes \<Rightarrow> swap_base_in_instruction res" where
  "unpack_swap_in rest =
     rbind (unpack_u64 rest) (\<lambda>(a, rest).
     rbind (unpack_u64 rest) (\<lambda>(m, rest).
     Ok \<lparr>amount_in = a, minimum_amount_out = m\<rparr>))"

definition unpack_swap_out :: "bytes \<Rightarrow> swap_base_out_instruction res" where
  "unpack_swap_out rest =
     rbind (unpack_u64 rest) (\<lambda>(m, rest).
     rbind (unpack_u64 rest) (\<lambda>(a, rest).
     Ok \<lparr>max_amount_in = m, amount_out = a\<rparr>))"

definition unpack_simulate :: "bytes \<Rightarrow> amm_instruction res" where
  "unpack_simulate rest =
     rbind (unpack_u8 rest) (\<lambda>(param, rest).
     rbind (simulate_params_from_u64 (ucast param)) (\<lambda>p.
       case p of
         SwapBaseInInfo \<Rightarrow> rbind (unpack_swap_in rest) (\<lambda>s.
           Ok (SimulateInfo \<lparr>sim_param = param, swap_base_in_value = Some s, swap_base_out_value = None\<rparr>))
       | SwapBaseOutInfo \<Rightarrow> rbind (unpack_swap_out rest) (\<lambda>s.
           Ok (SimulateInfo \<lparr>sim_param = param, swap_base_in_value = None, swap_base_out_value = Some s\<rparr>))
       | _ \<Rightarrow> Ok (SimulateInfo \<lparr>sim_param = param, swap_base_in_value = None, swap_base_out_value = None\<rparr>)))"

definition unpack_update_config :: "bytes \<Rightarrow> amm_instruction res" where
  "unpack_update_config rest =
     rbind (unpack_u8 rest) (\<lambda>(param, rest).
       if param = 0 \<or> param = 1 then
         rbind (array_ref rest 0 32) (\<lambda>k.
         Ok (UpdateConfigAccount \<lparr>ca_param = param, ca_owner = Some (pubkey_of_bytes k),
           ca_create_pool_fee = None\<rparr>))
       else if param = 2 then
         rbind (unpack_u64 rest) (\<lambda>(fee, rest).
         Ok (UpdateConfigAccount \<lparr>ca_param = param, ca_owner = None, ca_create_pool_fee = Some fee\<rparr>))
       else Err PE_InvalidInstructionData)"

text \<open>
  An optional address of \<^verbatim>\<open>CreateToken2022Mint\<close>: 32 zero bytes mean none. The branch for a
  short rest is the code's; the slice \<^verbatim>\<open>&rest[32..]\<close> that follows panics there.
\<close>

definition unpack_opt_pubkey :: "bytes \<Rightarrow> (pubkey option \<times> bytes) res" where
  "unpack_opt_pubkey rest =
     rbind (if length rest \<ge> 32 then
              rbind (array_ref rest 0 32) (\<lambda>k.
              Ok (if list_all (\<lambda>b. b = 0) k then None else Some (pubkey_of_bytes k)))
            else Ok None) (\<lambda>ko.
     rbind (slice_from rest 32) (\<lambda>rest. Ok (ko, rest)))"

definition unpack_string :: "codec_env \<Rightarrow> bytes \<Rightarrow> (bytes \<times> bytes) res" where
  "unpack_string ce rest =
     rbind (unpack_u8 rest) (\<lambda>(n, rest).
       if length rest < unat n then Err PE_InvalidInstructionData
       else Ok (ce_lossy ce (take (unat n) rest), drop (unat n) rest))"

definition unpack_create_mint :: "codec_env \<Rightarrow> bytes \<Rightarrow> amm_instruction res" where
  "unpack_create_mint ce rest =
     rbind (unpack_u8 rest) (\<lambda>(dec, rest).
     rbind (read_pubkey rest) (\<lambda>(mint_auth, rest).
     rbind (unpack_opt_pubkey rest) (\<lambda>(freeze, rest).
     rbind (unpack_opt_pubkey rest) (\<lambda>(hook, rest).
     rbind (unpack_string ce rest) (\<lambda>(nm, rest).
     rbind (unpack_string ce rest) (\<lambda>(sy, rest).
     rbind (unpack_string ce rest) (\<lambda>(ur, rest).
     Ok (CreateToken2022Mint \<lparr>cm_decimals = dec, cm_mint_authority = mint_auth,
       cm_freeze_authority = freeze, cm_transfer_hook_program_id = hook,
       cm_name = nm, cm_symbol = sy, cm_uri = ur\<rparr>))))))))"

definition unpack_update_whitelist :: "bytes \<Rightarrow> amm_instruction res" where
  "unpack_update_whitelist rest =
     rbind (read_pubkey rest) (\<lambda>(h, rest).
       if length rest > 0 then
         (if hd rest = 0 then
            Ok (UpdateHookWhitelist \<lparr>uw_hook_program_id = h, uw_action = HookAdd\<rparr>)
          else if hd rest = 1 then
            Ok (UpdateHookWhitelist \<lparr>uw_hook_program_id = h, uw_action = HookRemove\<rparr>)
          else Err PE_InvalidInstructionData)
       else Err PE_InvalidInstructionData)"

text \<open>\<^verbatim>\<open>for _ in 0..length\<close>: 34 bytes per item, cast to an \<^verbatim>\<open>ExtraAccountMeta\<close>.\<close>

fun unpack_metas :: "codec_env \<Rightarrow> nat \<Rightarrow> bytes \<Rightarrow> extra_meta list res" where
  "unpack_metas ce 0 rest = Ok []"
| "unpack_metas ce (Suc n) rest =
     (if length rest < 34 then Err PE_InvalidInstructionData
      else rbind (array_ref rest 0 34) (\<lambda>m.
        if length m \<noteq> ce_meta_size ce then Panic
        else rbind (slice_from rest 34) (\<lambda>rest.
          rbind (unpack_metas ce n rest) (\<lambda>ms. Ok (m # ms)))))"

definition unpack_init_metas :: "codec_env \<Rightarrow> bytes \<Rightarrow> amm_instruction res" where
  "unpack_init_metas ce rest =
     (if length rest < 4 then Err PE_InvalidInstructionData
      else rbind (array_ref rest 0 4) (\<lambda>n.
        rbind (slice_from rest 4) (\<lambda>rest.
        rbind (unpack_metas ce (unat (from_le_bytes n :: u32)) rest) (\<lambda>ms.
        Ok (InitializeExtraAccountMetaList ms)))))"

definition unpack_address :: "(pubkey \<Rightarrow> amm_instruction) \<Rightarrow> bytes \<Rightarrow> amm_instruction res" where
  "unpack_address c rest =
     (if length rest < 32 then Err PE_InvalidInstructionData
      else rbind (array_ref rest 0 32) (\<lambda>k. Ok (c (pubkey_of_bytes k))))"

definition unpack :: "codec_env \<Rightarrow> bytes \<Rightarrow> amm_instruction res" where
  "unpack ce input =
     (case input of
        [] \<Rightarrow> Err PE_InvalidInstructionData
      | tag # rest \<Rightarrow>
          if tag = 0 then unpack_initialize rest
          else if tag = 1 then unpack_initialize2 rest
          else if tag = 2 then unpack_monitor_step rest
          else if tag = 3 then unpack_deposit rest
          else if tag = 4 then unpack_withdraw rest
          else if tag = 5 then Ok MigrateToOpenBook
          else if tag = 6 then unpack_set_params rest
          else if tag = 7 then Ok WithdrawPnl
          else if tag = 8 then rbind (unpack_u64 rest) (\<lambda>(a, rest). Ok (WithdrawSrm a))
          else if tag = 9 then rbind (unpack_swap_in rest) (\<lambda>s. Ok (SwapBaseIn s))
          else if tag = 10 then rbind (unpack_u8 rest) (\<lambda>(n, rest). Ok (PreInitialize n))
          else if tag = 11 then rbind (unpack_swap_out rest) (\<lambda>s. Ok (SwapBaseOut s))
          else if tag = 12 then unpack_simulate rest
          else if tag = 13 then rbind (unpack_u16 rest) (\<lambda>(l, rest). Ok (AdminCancelOrders l))
          else if tag = 14 then Ok CreateConfigAccount
          else if tag = 15 then unpack_update_config rest
          else if tag = 16 then unpack_create_mint ce rest
          else if tag = 17 then unpack_update_whitelist rest
          else if tag = 18 then unpack_init_metas ce rest
          else if tag = 19 then unpack_address InitializeHookWhitelist rest
          else if tag = 20 then unpack_address UpdateWhitelistAuthority rest
          else Err PE_InvalidInstructionData)"

section \<open>Encoding\<close>

definition pack_set_params :: "set_params_instruction \<Rightarrow> bytes res" where
  "pack_set_params s =
     rbind (amm_params_from_u64 (ucast (sp_param s))) (\<lambda>p.
       if p = PAmmOwner then
         (case sp_new_pubkey s of Some k \<Rightarrow> Ok (pubkey_bytes k) | None \<Rightarrow> Err PE_InvalidInstructionData)
       else if p = PFees then
         (case sp_fees s of Some f \<Rightarrow> Ok (fees_pack f) | None \<Rightarrow> Err PE_InvalidInstructionData)
       else if p = PLastOrderDistance then
         (case sp_last_order_distance s of
            Some d \<Rightarrow> Ok (le_bytes 8 (lod_numerator d) @ le_bytes 8 (lod_denominator d))
          | None \<Rightarrow> Err PE_InvalidInstructionData)
       else
         (case sp_value s of Some v \<Rightarrow> Ok (le_bytes 8 v) | None \<Rightarrow> Err PE_InvalidInstructionData))"

definition pack_simulate :: "simulate_instruction \<Rightarrow> bytes res" where
  "pack_simulate s =
     rbind (simulate_params_from_u64 (ucast (sim_param s))) (\<lambda>p.
       case p of
         SwapBaseInInfo \<Rightarrow>
           (case swap_base_in_value s of
              Some a \<Rightarrow> Ok (le_bytes 8 (amount_in a) @ le_bytes 8 (minimum_amount_out a))
            | None \<Rightarrow> Err PE_InvalidInstructionData)
       | SwapBaseOutInfo \<Rightarrow>
           (case swap_base_out_value s of
              Some a \<Rightarrow> Ok (le_bytes 8 (max_amount_in a) @ le_bytes 8 (amount_out a))
            | None \<Rightarrow> Err PE_InvalidInstructionData)
       | _ \<Rightarrow> Ok [])"

definition pack_update_config :: "config_args \<Rightarrow> bytes res" where
  "pack_update_config c =
     (if ca_param c = 0 \<or> ca_param c = 1 then
        (case ca_owner c of
           Some k \<Rightarrow> if k = default_pubkey then Err PE_InvalidInstructionData else Ok (pubkey_bytes k)
         | None \<Rightarrow> Err PE_InvalidInstructionData)
      else if ca_param c = 2 then
        (case ca_create_pool_fee c of Some f \<Rightarrow> Ok (le_bytes 8 f) | None \<Rightarrow> Err PE_InvalidInstructionData)
      else Err PE_InvalidInstructionData)"

text \<open>\<^verbatim>\<open>name.len() as u8\<close> truncates the length.\<close>

definition pack_string :: "bytes \<Rightarrow> bytes" where
  "pack_string s = word_of_nat (length s) # s"

definition pack_opt_pubkey :: "pubkey option \<Rightarrow> bytes" where
  "pack_opt_pubkey ko = (case ko of Some k \<Rightarrow> pubkey_bytes k | None \<Rightarrow> replicate 32 0)"

definition pack_create_mint :: "create_mint_instruction \<Rightarrow> bytes" where
  "pack_create_mint c =
     cm_decimals c # pubkey_bytes (cm_mint_authority c) @
     pack_opt_pubkey (cm_freeze_authority c) @ pack_opt_pubkey (cm_transfer_hook_program_id c) @
     pack_string (cm_name c) @ pack_string (cm_symbol c) @ pack_string (cm_uri c)"

primrec action_byte :: "whitelist_action \<Rightarrow> u8" where
  "action_byte HookAdd = 0"
| "action_byte HookRemove = 1"

fun pack :: "amm_instruction \<Rightarrow> bytes res" where
  "pack (Initialize i) = Ok (0 # i1_nonce i # le_bytes 8 (i1_open_time i))"
| "pack (Initialize2 i) = Ok (1 # i2_nonce i # le_bytes 8 (i2_open_time i) @
     le_bytes 8 (i2_init_pc_amount i) @ le_bytes 8 (i2_init_coin_amount i))"
| "pack (MonitorStep m) = Ok (2 # le_bytes 2 (plan_order_limit m) @
     le_bytes 2 (place_order_limit m) @ le_bytes 2 (cancel_order_limit m))"
| "pack (Deposit d) = Ok (3 # le_bytes 8 (max_coin_amount d) @ le_bytes 8 (max_pc_amount d) @
     le_bytes 8 (base_side d) @
     (case other_amount_min d of Some m \<Rightarrow> le_bytes 8 m | None \<Rightarrow> []))"
| "pack (Withdraw w) = Ok (4 # le_bytes 8 (w_amount w) @
     (case (min_coin_amount w, min_pc_amount w) of
        (Some c, Some p) \<Rightarrow> le_bytes 8 c @ le_bytes 8 p | _ \<Rightarrow> []))"
| "pack MigrateToOpenBook = Ok [5]"
| "pack (SetParams s) = rbind (pack_set_params s) (\<lambda>bs. Ok (6 # sp_param s # bs))"
| "pack WithdrawPnl = Ok [7]"
| "pack (WithdrawSrm a) = Ok (8 # le_bytes 8 a)"
| "pack (SwapBaseIn s) = Ok (9 # le_bytes 8 (amount_in s) @ le_bytes 8 (minimum_amount_out s))"
| "pack (PreInitialize n) = Ok [10, n]"
| "pack (SwapBaseOut s) = Ok (11 # le_bytes 8 (max_amount_in s) @ le_bytes 8 (amount_out s))"
| "pack (SimulateInfo s) = rbind (pack_simulate s) (\<lambda>bs. Ok (12 # sim_param s # bs))"
| "pack (AdminCancelOrders l) = Ok (13 # le_bytes 2 l)"
| "pack CreateConfigAccount = Ok [14]"
| "pack (UpdateConfigAccount c) = rbind (pack_update_config c) (\<lambda>bs. Ok (15 # ca_param c # bs))"
| "pack (CreateToken2022Mint c) = Ok (16 # pack_create_mint c)"
| "pack (UpdateHookWhitelist u) = Ok (17 # pubkey_bytes (uw_hook_program_id u) @ [action_byte (uw_action u)])"
| "pack (InitializeExtraAccountMetaList ms) =
     Ok (18 # le_bytes 4 (word_of_nat (length ms) :: u32) @ concat ms)"
| "pack (InitializeHookWhitelist k) = Ok (19 # pubkey_bytes k)"
| "pack (UpdateWhitelistAuthority k) = Ok (20 # pubkey_bytes k)"

section \<open>Round trip\<close>

text \<open>
  The instructions with one encoding: only the fields the parameter selects are present, both
  withdrawal minima or none, no explicit default address where zero bytes mean absence, strings
  short enough for their length byte, and as many metas as the length field can count.
\<close>

definition canonical_set_params :: "set_params_instruction \<Rightarrow> bool" where
  "canonical_set_params s \<longleftrightarrow> unat (sp_param s) \<le> 17 \<and>
     (sp_new_pubkey s \<noteq> None \<longleftrightarrow> sp_param s = 10) \<and> (sp_fees s \<noteq> None \<longleftrightarrow> sp_param s = 9) \<and>
     (sp_last_order_distance s \<noteq> None \<longleftrightarrow> sp_param s = 12) \<and>
     (sp_value s \<noteq> None \<longleftrightarrow> sp_param s \<notin> {9, 10, 12})"

definition canonical_simulate :: "simulate_instruction \<Rightarrow> bool" where
  "canonical_simulate s \<longleftrightarrow> unat (sim_param s) \<le> 3 \<and>
     (swap_base_in_value s \<noteq> None \<longleftrightarrow> sim_param s = 1) \<and>
     (swap_base_out_value s \<noteq> None \<longleftrightarrow> sim_param s = 2)"

definition canonical_config :: "config_args \<Rightarrow> bool" where
  "canonical_config c \<longleftrightarrow> ca_param c \<in> {0, 1, 2} \<and>
     (ca_owner c \<noteq> None \<longleftrightarrow> ca_param c \<noteq> 2) \<and> ca_owner c \<noteq> Some default_pubkey \<and>
     (ca_create_pool_fee c \<noteq> None \<longleftrightarrow> ca_param c = 2)"

definition short_string :: "codec_env \<Rightarrow> bytes \<Rightarrow> bool" where
  "short_string ce s \<longleftrightarrow> length s < 256 \<and> ce_lossy ce s = s"

definition canonical_create_mint :: "codec_env \<Rightarrow> create_mint_instruction \<Rightarrow> bool" where
  "canonical_create_mint ce c \<longleftrightarrow>
     cm_freeze_authority c \<noteq> Some default_pubkey \<and> cm_transfer_hook_program_id c \<noteq> Some default_pubkey \<and>
     short_string ce (cm_name c) \<and> short_string ce (cm_symbol c) \<and> short_string ce (cm_uri c)"

definition canonical_metas :: "codec_env \<Rightarrow> extra_meta list \<Rightarrow> bool" where
  "canonical_metas ce ms \<longleftrightarrow> length ms < 2 ^ 32 \<and> (\<forall>m \<in> set ms. length m = 34 \<and> ce_meta_size ce = 34)"

fun canonical :: "codec_env \<Rightarrow> amm_instruction \<Rightarrow> bool" where
  "canonical ce (Withdraw w) = ((min_coin_amount w = None) = (min_pc_amount w = None))"
| "canonical ce (SetParams s) = canonical_set_params s"
| "canonical ce (SimulateInfo s) = canonical_simulate s"
| "canonical ce (UpdateConfigAccount c) = canonical_config c"
| "canonical ce (CreateToken2022Mint c) = canonical_create_mint ce c"
| "canonical ce (InitializeExtraAccountMetaList ms) = canonical_metas ce ms"
| "canonical ce _ = True"

lemma array_ref_pubkey [simp]: "array_ref (pubkey_bytes k @ rest) 0 32 = Ok (pubkey_bytes k)"
  by (simp add: array_ref_def)

lemma array_ref_pubkey_nil [simp]: "array_ref (pubkey_bytes k) 0 32 = Ok (pubkey_bytes k)"
  using array_ref_pubkey [of k "[]"] by simp

lemma slice_from_pubkey [simp]: "slice_from (pubkey_bytes k @ rest) 32 = Ok rest"
  by (simp add: slice_from_def)

lemma nat_bytes_0: "nat_bytes n 0 = replicate n 0"
  by (induction n) auto

lemma pubkey_bytes_0: "pubkey_bytes 0 = replicate 32 0"
  by (simp add: pubkey_bytes_def le_bytes_def nat_bytes_0)

lemma pubkey_bytes_zero_iff: "list_all (\<lambda>b. b = 0) (pubkey_bytes k) \<longleftrightarrow> k = 0"
proof
  assume "list_all (\<lambda>b. b = 0) (pubkey_bytes k)"
  then have "pubkey_bytes k = replicate 32 0"
    by (intro replicate_eqI) (auto simp: list_all_iff)
  then have "pubkey_of_bytes (pubkey_bytes k) = pubkey_of_bytes (pubkey_bytes 0)"
    by (simp only: pubkey_bytes_0)
  then show "k = 0" by simp
qed (simp add: pubkey_bytes_0 list_all_iff)

lemma unpack_opt_pubkey_pack:
  "ko \<noteq> Some 0 \<Longrightarrow> unpack_opt_pubkey (pack_opt_pubkey ko @ rest) = Ok (ko, rest)"
proof (cases ko)
  case None
  then have "pack_opt_pubkey ko = pubkey_bytes 0" by (simp add: pack_opt_pubkey_def pubkey_bytes_0)
  then show ?thesis using None by (simp add: unpack_opt_pubkey_def pubkey_bytes_zero_iff)
next
  case (Some k)
  assume "ko \<noteq> Some 0"
  then show ?thesis using Some
    by (simp add: unpack_opt_pubkey_def pack_opt_pubkey_def pubkey_bytes_zero_iff)
qed

lemma unpack_string_pack:
  "short_string ce s \<Longrightarrow> unpack_string ce (pack_string s @ rest) = Ok (s, rest)"
proof -
  assume s: "short_string ce s"
  then have "unat (word_of_nat (length s) :: u8) = length s"
    by (simp add: short_string_def unat_of_nat)
  then show ?thesis using s by (simp add: unpack_string_def pack_string_def short_string_def)
qed

lemma unpack_string_pack_nil: "short_string ce s \<Longrightarrow> unpack_string ce (pack_string s) = Ok (s, [])"
  using unpack_string_pack [of ce s "[]"] by simp

lemma unpack_metas_pack:
  "\<forall>m \<in> set ms. length m = 34 \<and> ce_meta_size ce = 34 \<Longrightarrow>
     unpack_metas ce (length ms) (concat ms) = Ok ms"
proof (induction ms)
  case (Cons m ms)
  then show ?case by (simp add: array_ref_def slice_from_def)
qed simp

lemma u8_cases_le:
  assumes "unat (b :: u8) \<le> n"
  shows "\<exists>k \<le> n. b = word_of_nat k"
  using assms by (intro exI [of _ "unat b"]) simp

lemma amm_params_u8:
  assumes "unat (b :: u8) \<le> 17"
  obtains p where "amm_params_from_u64 (ucast b) = Ok p" "(p = PFees) = (b = 9)"
    "(p = PAmmOwner) = (b = 10)" "(p = PLastOrderDistance) = (b = 12)"
proof -
  have "\<exists>k \<le> 17. b = word_of_nat k" using assms by (rule u8_cases_le)
  then have "\<exists>k \<in> {0..17}. b = word_of_nat k" by auto
  moreover have "{0..17} = {0, 1, 2, 3, 4, 5, 6, 7, 8, 9, 10, 11, 12, 13, 14, 15, 16, 17 :: nat}"
    by (simp add: atLeastAtMost_insertL [symmetric] set_upt [symmetric] upt_rec) auto
  ultimately have "b \<in> {0, 1, 2, 3, 4, 5, 6, 7, 8, 9, 10, 11, 12, 13, 14, 15, 16, 17}" by auto
  then show ?thesis
    by (elim insertE emptyE) (auto intro!: that simp: amm_params_from_u64_def)
qed

lemma round_trip_set_params:
  assumes "canonical_set_params s"
  shows "\<exists>bs. pack_set_params s = Ok bs \<and> unpack_set_params (sp_param s # bs) = Ok (SetParams s)"
proof -
  obtain pa v k f d where s: "s = \<lparr>sp_param = pa, sp_value = v, sp_new_pubkey = k, sp_fees = f,
      sp_last_order_distance = d\<rparr>" by (cases s)
  have le: "unat pa \<le> 17" and k: "(k \<noteq> None) = (pa = 10)" and f: "(f \<noteq> None) = (pa = 9)"
    and d: "(d \<noteq> None) = (pa = 12)" and v: "(v \<noteq> None) = (pa \<notin> {9, 10, 12})"
    using assms by (simp_all add: canonical_set_params_def s)
  obtain p where p: "(amm_params_from_u64 (ucast pa) :: amm_params res) = Ok p"
    and pf: "(p = PFees) = (pa = 9)" and po: "(p = PAmmOwner) = (pa = 10)"
    and pl: "(p = PLastOrderDistance) = (pa = 12)"
    using amm_params_u8 [OF le] by blast
  consider "pa = 9" | "pa = 10" | "pa = 12" | "pa \<noteq> 9" "pa \<noteq> 10" "pa \<noteq> 12" by blast
  then show ?thesis
  proof cases
    case 1
    then obtain f' where f': "f = Some f'" using f by auto
    have n: "k = None" "d = None" "v = None" "p = PFees" using 1 k d v pf by auto
    show ?thesis
      using p by (simp add: s f' n pack_set_params_def unpack_set_params_def fees_pack_unpack)
  next
    case 2
    then obtain k' where k': "k = Some k'" using k by auto
    have n: "f = None" "d = None" "v = None" "p = PAmmOwner" using 2 f d v po by auto
    show ?thesis using p by (simp add: s k' n pack_set_params_def unpack_set_params_def)
  next
    case 3
    then obtain d' where d': "d = Some d'" using d by auto
    have n: "f = None" "k = None" "v = None" "p = PLastOrderDistance" using 3 f k v pl by auto
    show ?thesis using p by (cases d') (simp add: s d' n pack_set_params_def unpack_set_params_def)
  next
    case 4
    then obtain v' where v': "v = Some v'" using v by auto
    have n: "f = None" "k = None" "d = None" "p \<noteq> PFees" "p \<noteq> PAmmOwner" "p \<noteq> PLastOrderDistance"
      using 4 f k d pf po pl by auto
    show ?thesis using p n(4-6) by (simp add: s v' n(1-3) pack_set_params_def unpack_set_params_def)
  qed
qed

lemma round_trip_simulate:
  assumes "canonical_simulate s"
  shows "\<exists>bs. pack_simulate s = Ok bs \<and> unpack_simulate (sim_param s # bs) = Ok (SimulateInfo s)"
proof -
  obtain pa i ou where s: "s = \<lparr>sim_param = pa, swap_base_in_value = i, swap_base_out_value = ou\<rparr>"
    by (cases s)
  have "\<exists>k \<le> 3. sim_param s = word_of_nat k"
    using assms by (intro u8_cases_le) (simp add: canonical_simulate_def)
  then obtain k where "k \<le> 3" "sim_param s = word_of_nat k" by blast
  moreover have "k = 0 \<or> k = 1 \<or> k = 2 \<or> k = 3" using \<open>k \<le> 3\<close> by arith
  ultimately have "sim_param s \<in> {0, 1, 2, 3}" by auto
  then show ?thesis
    using assms s
    by (elim insertE emptyE) (auto simp: pack_simulate_def unpack_simulate_def canonical_simulate_def
        simulate_params_from_u64_def unpack_swap_in_def unpack_swap_out_def)
qed

lemma round_trip_config:
  assumes "canonical_config c"
  shows "\<exists>bs. pack_update_config c = Ok bs \<and> unpack_update_config (ca_param c # bs) = Ok (UpdateConfigAccount c)"
proof -
  obtain pa k f where c: "c = \<lparr>ca_param = pa, ca_owner = k, ca_create_pool_fee = f\<rparr>" by (cases c)
  show ?thesis
    using assms c
    by (auto simp: canonical_config_def pack_update_config_def unpack_update_config_def)
qed

lemma round_trip_create_mint:
  assumes "canonical_create_mint ce c"
  shows "unpack_create_mint ce (pack_create_mint c) = Ok (CreateToken2022Mint c)"
  using assms
  by (cases c) (simp add: canonical_create_mint_def pack_create_mint_def unpack_create_mint_def
      unpack_opt_pubkey_pack unpack_string_pack unpack_string_pack_nil)

lemma round_trip_metas:
  assumes "canonical_metas ce ms"
  shows "unpack_init_metas ce (le_bytes 4 (word_of_nat (length ms) :: u32) @ concat ms)
    = Ok (InitializeExtraAccountMetaList ms)"
proof -
  have "unat (word_of_nat (length ms) :: u32) = length ms"
    using assms by (simp add: canonical_metas_def unat_of_nat)
  then show ?thesis
    using assms by (simp add: unpack_init_metas_def canonical_metas_def array_ref_def slice_from_def
        from_le_bytes_inverse unpack_metas_pack)
qed

lemma instruction_unpack_pack:
  assumes "canonical ce ix"
  shows "\<exists>bs. pack ix = Ok bs \<and> unpack ce bs = Ok ix"
proof (cases ix)
  case (Withdraw w)
  obtain a c p where w: "w = \<lparr>w_amount = a, min_coin_amount = c, min_pc_amount = p\<rparr>" by (cases w)
  then show ?thesis using assms Withdraw
    by (cases c; cases p) (auto simp: unpack_def unpack_withdraw_def)
next
  case (Deposit d)
  obtain c p b m where d: "d = \<lparr>max_coin_amount = c, max_pc_amount = p, base_side = b, other_amount_min = m\<rparr>"
    by (cases d)
  then show ?thesis using Deposit by (cases m) (auto simp: unpack_def unpack_deposit_def)
next
  case (UpdateHookWhitelist u)
  obtain h a where u: "u = \<lparr>uw_hook_program_id = h, uw_action = a\<rparr>" by (cases u)
  then show ?thesis using UpdateHookWhitelist
    by (cases a) (auto simp: unpack_def unpack_update_whitelist_def)
next
  case (SetParams s)
  then show ?thesis using round_trip_set_params [of s] assms by (auto simp: unpack_def)
next
  case (SimulateInfo s)
  then show ?thesis using round_trip_simulate [of s] assms by (auto simp: unpack_def)
next
  case (UpdateConfigAccount c)
  then show ?thesis using round_trip_config [of c] assms by (auto simp: unpack_def)
next
  case (CreateToken2022Mint c)
  then show ?thesis using round_trip_create_mint [of ce c] assms by (auto simp: unpack_def)
next
  case (InitializeExtraAccountMetaList ms)
  then show ?thesis using round_trip_metas [of ce ms] assms by (auto simp: unpack_def)
qed (auto simp: unpack_def unpack_initialize_def unpack_initialize2_def unpack_monitor_step_def
      unpack_swap_in_def unpack_swap_out_def unpack_address_def)

text \<open>
  C31. Encoding and decoding instructions: every canonical instruction is encoded, and decoding its
  bytes gives the instruction back, for all 21 instruction kinds.
\<close>

theorem instruction_round_trip:
  assumes "canonical ce ix"
  shows "\<exists>bs. pack ix = Ok bs \<and> unpack ce bs = Ok ix"
  using assms by (rule instruction_unpack_pack)

theorem instruction_round_trip_witness:
  "\<exists>bs. pack (Withdraw \<lparr>w_amount = 5, min_coin_amount = Some 1, min_pc_amount = Some 2\<rparr>) = Ok bs \<and>
     unpack \<lparr>ce_meta_size = 34, ce_lossy = (\<lambda>s. s)\<rparr> bs =
       Ok (Withdraw \<lparr>w_amount = 5, min_coin_amount = Some 1, min_pc_amount = Some 2\<rparr>)"
  by (rule instruction_round_trip) simp

section \<open>Panics of the decoder\<close>

lemma unpack_u8_Panic: "unpack_u8 bs \<noteq> (Panic :: (u8 \<times> bytes) res)"
  by (simp add: unpack_u8_def)

lemma unpack_u16_Panic: "unpack_u16 bs \<noteq> (Panic :: (u16 \<times> bytes) res)"
  by (simp add: unpack_u16_def)

lemma unpack_u64_Panic: "unpack_u64 bs \<noteq> (Panic :: (u64 \<times> bytes) res)"
  by (simp add: unpack_u64_def)

lemma rbind_Panic_iff: "rbind m f = Panic \<longleftrightarrow> m = Panic \<or> (\<exists>x. m = Ok x \<and> f x = Panic)"
  by (cases m) auto

lemma unpack_string_Panic: "unpack_string ce bs \<noteq> Panic"
  by (auto simp: unpack_string_def rbind_Panic_iff unpack_u8_Panic split: if_splits)

lemma read_pubkey_Panic: "(read_pubkey bs :: (pubkey \<times> bytes) res) = Panic \<longleftrightarrow> length bs < 32"
  by (auto simp: read_pubkey_def array_ref_def slice_from_def)

lemma unpack_opt_pubkey_Panic: "unpack_opt_pubkey bs = Panic \<longleftrightarrow> length bs < 32"
  by (auto simp: unpack_opt_pubkey_def array_ref_def slice_from_def)

lemma unpack_opt_pubkey_rest: "unpack_opt_pubkey bs = Ok (k, rest) \<Longrightarrow> length bs = 32 + length rest"
  by (auto simp: unpack_opt_pubkey_def array_ref_def slice_from_def split: if_splits)

lemma read_pubkey_rest: "(read_pubkey bs :: (pubkey \<times> bytes) res) = Ok (k, rest) \<Longrightarrow> length bs = 32 + length rest"
  by (auto simp: read_pubkey_def array_ref_def slice_from_def split: if_splits)

lemma unpack_metas_Panic:
  "unpack_metas ce n rest = Panic \<longleftrightarrow> 0 < n \<and> 34 \<le> length rest \<and> ce_meta_size ce \<noteq> 34"
proof (induction n arbitrary: rest)
  case (Suc n)
  show ?case
    using Suc.IH [of "drop 34 rest"]
    by (auto simp: array_ref_def slice_from_def rbind_Panic_iff)
qed simp

lemma unpack_create_mint_Panic:
  "unpack_create_mint ce rest = Panic \<longleftrightarrow> rest \<noteq> [] \<and> length rest < 97"
proof (cases rest)
  case Nil
  then show ?thesis by (simp add: unpack_create_mint_def unpack_u8_def)
next
  case (Cons d bs)
  have "unpack_create_mint ce rest = Panic \<longleftrightarrow>
      length bs < 32 \<or> (\<exists>k r. (read_pubkey bs :: (pubkey \<times> bytes) res) = Ok (k, r) \<and> (length r < 32 \<or>
        (\<exists>k' r'. unpack_opt_pubkey r = Ok (k', r') \<and> length r' < 32)))"
    using Cons by (auto simp: unpack_create_mint_def rbind_Panic_iff read_pubkey_Panic
        unpack_opt_pubkey_Panic unpack_string_Panic)
  also have "\<dots> \<longleftrightarrow> length bs < 96"
  proof
    assume "length bs < 32 \<or> (\<exists>k r. (read_pubkey bs :: (pubkey \<times> bytes) res) = Ok (k, r) \<and> (length r < 32 \<or>
        (\<exists>k' r'. unpack_opt_pubkey r = Ok (k', r') \<and> length r' < 32)))"
    then show "length bs < 96" by (auto dest!: read_pubkey_rest unpack_opt_pubkey_rest)
  next
    assume lt: "length bs < 96"
    show "length bs < 32 \<or> (\<exists>k r. (read_pubkey bs :: (pubkey \<times> bytes) res) = Ok (k, r) \<and> (length r < 32 \<or>
        (\<exists>k' r'. unpack_opt_pubkey r = Ok (k', r') \<and> length r' < 32)))"
      using lt by (auto simp: read_pubkey_def unpack_opt_pubkey_def array_ref_def slice_from_def)
  qed
  finally show ?thesis using Cons by auto
qed

lemma unpack_set_params_Panic:
  "unpack_set_params rest = Panic \<longleftrightarrow> rest \<noteq> [] \<and> 17 < unat (hd rest)"
proof (cases rest)
  case Nil
  then show ?thesis by (simp add: unpack_set_params_def unpack_u8_def)
next
  case (Cons b bs)
  show ?thesis
  proof (cases "unat b \<le> 17")
    case True
    obtain p where p: "(amm_params_from_u64 (ucast b) :: amm_params res) = Ok p"
      using amm_params_u8 [OF True] by blast
    have "length bs \<ge> FEES_LEN \<Longrightarrow> fees_unpack_from_slice (take FEES_LEN bs) \<noteq> Panic"
      by (simp add: fees_unpack_from_slice_def array_ref_def)
    then show ?thesis
      using True Cons p by (auto simp: unpack_set_params_def rbind_Panic_iff unpack_u64_Panic array_ref_def)
  next
    case False
    have "ucast b \<noteq> (word_of_nat k :: u64)" if "k \<le> 17" for k
    proof
      assume "ucast b = (word_of_nat k :: u64)"
      then have "unat (ucast b :: u64) = unat (word_of_nat k :: u64)" by simp
      then show False using that False by (simp add: unat_of_nat)
    qed
    note ne = this [of 0] this [of 1] this [of 2] this [of 3] this [of 4] this [of 5] this [of 6]
      this [of 7] this [of 8] this [of 9] this [of 10] this [of 11] this [of 12] this [of 13]
      this [of 14] this [of 15] this [of 16] this [of 17]
    have "(amm_params_from_u64 (ucast b) :: amm_params res) = Panic"
      using ne by (simp add: amm_params_from_u64_def)
    then show ?thesis using False Cons by (simp add: unpack_set_params_def)
  qed
qed

lemma gt_3: "(3 :: nat) < k \<longleftrightarrow> k \<noteq> 0 \<and> k \<noteq> 1 \<and> k \<noteq> 2 \<and> k \<noteq> 3"
  by arith

lemma unpack_simulate_Panic:
  "unpack_simulate rest = Panic \<longleftrightarrow> rest \<noteq> [] \<and> 3 < unat (hd rest)"
proof (cases rest)
  case Nil
  then show ?thesis by (simp add: unpack_simulate_def unpack_u8_def)
next
  case (Cons b bs)
  have iff: "(ucast b = (word_of_nat k :: u64)) = (unat b = k)" if "k \<le> 3" for k
  proof -
    have "(ucast b = (word_of_nat k :: u64)) = (unat (ucast b :: u64) = unat (word_of_nat k :: u64))"
      by (simp only: word_unat_eq_iff)
    then show ?thesis using that by (simp add: unat_of_nat)
  qed
  have "(simulate_params_from_u64 (ucast b) :: simulate_params res) = Panic \<longleftrightarrow> 3 < unat b"
    using iff [of 0] iff [of 1] iff [of 2] iff [of 3] gt_3 [of "unat b"]
    unfolding simulate_params_from_u64_def by (auto split: if_splits)
  moreover have "unpack_simulate rest = Panic \<longleftrightarrow>
      (simulate_params_from_u64 (ucast b) :: simulate_params res) = Panic"
    using Cons by (cases "simulate_params_from_u64 (ucast b) :: simulate_params res")
      (auto simp: unpack_simulate_def rbind_Panic_iff unpack_swap_in_def unpack_swap_out_def
        unpack_u64_Panic split: simulate_params.splits)
  ultimately show ?thesis using Cons by simp
qed

text \<open>
  C32. Exactly which inputs make the decoder panic instead of returning \<open>InvalidInstructionData\<close>:
  an unlisted parameter of \<open>SetParams\<close> or \<open>SimulateInfo\<close>, a truncated address of
  \<open>UpdateConfigAccount\<close>, \<open>CreateToken2022Mint\<close> or \<open>UpdateHookWhitelist\<close>, and any non-empty meta
  list when \<open>ExtraAccountMeta\<close> does not have the 34 bytes the decoder assumes.
\<close>

theorem unpack_panics_iff:
  "unpack ce (tag # rest) = Panic \<longleftrightarrow>
     (tag = 6 \<and> rest \<noteq> [] \<and> 17 < unat (hd rest)) \<or>
     (tag = 12 \<and> rest \<noteq> [] \<and> 3 < unat (hd rest)) \<or>
     (tag = 15 \<and> rest \<noteq> [] \<and> hd rest \<in> {0, 1} \<and> length rest < 33) \<or>
     (tag = 16 \<and> rest \<noteq> [] \<and> length rest < 97) \<or>
     (tag = 17 \<and> length rest < 32) \<or>
     (tag = 18 \<and> 38 \<le> length rest \<and> from_le_bytes (take 4 rest) \<noteq> (0 :: u32) \<and> ce_meta_size ce \<noteq> 34)"
proof -
  have a: "unpack_update_config rest = Panic \<longleftrightarrow> rest \<noteq> [] \<and> hd rest \<in> {0, 1} \<and> length rest < 33"
  proof (cases rest)
    case Nil
    then show ?thesis by (simp add: unpack_update_config_def unpack_u8_def)
  next
    case (Cons b bs)
    then show ?thesis
      by (auto simp: unpack_update_config_def rbind_Panic_iff unpack_u64_Panic array_ref_def)
  qed
  have b: "unpack_update_whitelist rest = Panic \<longleftrightarrow> length rest < 32"
    by (auto simp: unpack_update_whitelist_def rbind_Panic_iff read_pubkey_Panic split: if_splits)
  have c: "unpack_init_metas ce rest = Panic \<longleftrightarrow>
      38 \<le> length rest \<and> from_le_bytes (take 4 rest) \<noteq> (0 :: u32) \<and> ce_meta_size ce \<noteq> 34"
    by (auto simp: unpack_init_metas_def rbind_Panic_iff array_ref_def slice_from_def unpack_metas_Panic
        split: if_splits)
  have d: "unpack_address f rest \<noteq> Panic" for f
    by (simp add: unpack_address_def array_ref_def)
  have e: "unpack_initialize rest \<noteq> Panic" "unpack_initialize2 rest \<noteq> Panic"
      "unpack_monitor_step rest \<noteq> Panic" "unpack_deposit rest \<noteq> Panic" "unpack_withdraw rest \<noteq> Panic"
      "unpack_swap_in rest \<noteq> Panic" "unpack_swap_out rest \<noteq> Panic"
    by (auto simp: unpack_initialize_def unpack_initialize2_def unpack_monitor_step_def
        unpack_deposit_def unpack_withdraw_def unpack_swap_in_def unpack_swap_out_def
        rbind_Panic_iff unpack_u8_Panic unpack_u16_Panic unpack_u64_Panic split: if_splits)
  show ?thesis
    unfolding unpack_def
    by (auto simp: a b c d e unpack_create_mint_Panic unpack_set_params_Panic unpack_simulate_Panic
        rbind_Panic_iff unpack_u8_Panic unpack_u16_Panic unpack_u64_Panic)
qed

end
