(* ===== verification/Layout.thy ===== *)
theory Layout
  imports AmmState
begin

text \<open>
  The memory of the account records of \<^verbatim>\<open>src/state.rs\<close>. They are \<^verbatim>\<open>repr(C, packed)\<close> and cast to and from the
  data of an account by \<^verbatim>\<open>bytemuck\<close>, so a record is the concatenation of its fields in the order of
  their declaration, little-endian and without gaps. The locale \<open>layout\<close> says what that is good for:
  writing and reading are inverse to each other, in both directions, on memory of exactly the
  record's size. The layouts are those the two layout tests of the file write out.
\<close>

section \<open>Arrays of words\<close>

definition words_bytes :: "nat \<Rightarrow> 'a::len word list \<Rightarrow> bytes" where
  "words_bytes w xs = concat (map (le_bytes w) xs)"

definition words_of :: "nat \<Rightarrow> nat \<Rightarrow> bytes \<Rightarrow> 'a::len word list" where
  "words_of w n bs = map (\<lambda>i. from_le_bytes (take w (drop (w * i) bs))) [0..<n]"

lemma length_words_of [simp]: "length (words_of w n bs) = n"
  by (simp add: words_of_def)

lemma length_words_bytes [simp]: "length (words_bytes w xs) = w * length xs"
  by (induction xs) (simp_all add: words_bytes_def)

lemma words_of_take [simp]: "w * n \<le> m \<Longrightarrow> words_of w n (take m bs) = words_of w n bs"
proof -
  assume m: "w * n \<le> m"
  have "take w (drop (w * i) (take m bs)) = take w (drop (w * i) bs)" if "i < n" for i
  proof -
    have "w * i + w \<le> m" using mult_le_mono2 [of "Suc i" n w] that m by simp
    then have "w \<le> m - w * i" by simp
    then show ?thesis by (simp add: drop_take)
  qed
  then show ?thesis by (simp add: words_of_def)
qed

lemma words_of_bytes:
  fixes xs :: "'a::len word list"
  assumes "LENGTH('a) \<le> 8 * w" "length xs = n"
  shows "words_of w n (words_bytes w xs @ rest) = xs"
proof (rule nth_equalityI)
  fix i assume "i < length (words_of w n (words_bytes w xs @ rest) :: 'a word list)"
  then have i: "i < n" by simp
  then have "w * i + w \<le> w * n" using mult_le_mono2 [of "Suc i" n w] by simp
  then have "take w (drop (w * i) (words_bytes w xs @ rest)) = take w (drop (w * i) (concat (map (le_bytes w) xs)))"
    using assms(2) by (simp add: words_bytes_def [symmetric])
  also have "\<dots> = le_bytes w (xs ! i)"
    using chunk_concat [of "map (le_bytes w) xs" w i] i assms(2) by simp
  finally show "words_of w n (words_bytes w xs @ rest) ! i = xs ! i"
    using i assms(1) by (simp add: words_of_def from_le_bytes_inverse)
qed (use assms in simp)

lemma words_bytes_of:
  assumes "LENGTH('a::len) = 8 * w" "length bs = w * n"
  shows "words_bytes w (words_of w n bs :: 'a word list) = bs"
proof -
  have "le_bytes w (from_le_bytes (take w (drop (w * i) bs)) :: 'a word) = take w (drop (w * i) bs)" if "i < n" for i
  proof -
    have "w * i + w \<le> w * n" using mult_le_mono2 [of "Suc i" n w] that by simp
    then show ?thesis using assms by (intro le_bytes_inverse) simp_all
  qed
  then have "map (le_bytes w) (words_of w n bs :: 'a word list) = map (\<lambda>i. take w (drop (w * i) bs)) [0..<n]"
    by (simp add: words_of_def)
  then show ?thesis using concat_chunks [OF assms(2)] by (simp add: words_bytes_def)
qed

section \<open>The interface\<close>

locale layout =
  fixes to_bytes :: "'a \<Rightarrow> bytes" and of_bytes :: "bytes \<Rightarrow> 'a" and size_of :: nat and wf :: "'a \<Rightarrow> bool"
  assumes length_to: "wf x \<Longrightarrow> length (to_bytes x) = size_of"
    and of_to: "wf x \<Longrightarrow> of_bytes (to_bytes x) = x"
    and wf_of: "length bs = size_of \<Longrightarrow> wf (of_bytes bs)"
    and to_of: "length bs = size_of \<Longrightarrow> to_bytes (of_bytes bs) = bs"
begin

lemma bijection: "bij_betw to_bytes {x. wf x} {bs. length bs = size_of}"
  by (rule bij_betw_byWitness [of _ of_bytes]) (auto simp: length_to of_to wf_of to_of)

lemma inject: "wf x \<Longrightarrow> wf y \<Longrightarrow> to_bytes x = to_bytes y \<longleftrightarrow> x = y"
  using of_to by metis

lemma of_inject: "length bs = size_of \<Longrightarrow> length cs = size_of \<Longrightarrow> of_bytes bs = of_bytes cs \<longleftrightarrow> bs = cs"
  using to_of by metis

end
text \<open>The entries of an array read one by one.\<close>

lemma entries_2: "length xs = 2 \<Longrightarrow> [xs ! 0, xs ! Suc 0] = xs"
  by (auto simp: eval_nat_numeral length_Suc_conv)

lemma entries_4: "length xs = 4 \<Longrightarrow> [xs ! 0, xs ! Suc 0, xs ! 2, xs ! 3] = xs"
  by (auto simp: eval_nat_numeral length_Suc_conv)

lemma entries_5: "length xs = 5 \<Longrightarrow> [xs ! 0, xs ! Suc 0, xs ! 2, xs ! 3, xs ! 4] = xs"
  by (auto simp: eval_nat_numeral length_Suc_conv)

lemma entries_6: "length xs = 6 \<Longrightarrow> [xs ! 0, xs ! Suc 0, xs ! 2, xs ! 3, xs ! 4, xs ! 5] = xs"
  by (auto simp: eval_nat_numeral length_Suc_conv)

lemma entries_8: "length xs = 8 \<Longrightarrow> [xs ! 0, xs ! Suc 0, xs ! 2, xs ! 3, xs ! 4, xs ! 5, xs ! 6, xs ! 7] = xs"
  by (auto simp: eval_nat_numeral length_Suc_conv)

lemma entries_9: "length xs = 9 \<Longrightarrow> [xs ! 0, xs ! Suc 0, xs ! 2, xs ! 3, xs ! 4, xs ! 5, xs ! 6, xs ! 7, xs ! 8] = xs"
  by (auto simp: eval_nat_numeral length_Suc_conv)

lemma entries_10: "length xs = 10 \<Longrightarrow> [xs ! 0, xs ! Suc 0, xs ! 2, xs ! 3, xs ! 4, xs ! 5, xs ! 6, xs ! 7, xs ! 8, xs ! 9] = xs"
  by (auto simp: eval_nat_numeral length_Suc_conv)

lemma entries_16: "length xs = 16 \<Longrightarrow> [xs ! 0, xs ! Suc 0, xs ! 2, xs ! 3, xs ! 4, xs ! 5, xs ! 6, xs ! 7, xs ! 8, xs ! 9, xs ! 10, xs ! 11, xs ! 12, xs ! 13, xs ! 14, xs ! 15] = xs"
  by (auto simp: eval_nat_numeral length_Suc_conv)

lemmas entries = entries_2 entries_4 entries_5 entries_6 entries_8 entries_9 entries_10 entries_16

text \<open>Consecutive pieces of the memory, and an array that is read from the front of it.\<close>

lemma pieces: "m = n + k \<Longrightarrow> take n (drop k bs) @ drop m bs = drop k bs"
  by (metis add.commute append_take_drop_id drop_drop)

lemma first_piece: "take n bs @ drop n bs = bs"
  by (rule append_take_drop_id)

lemma words_bytes_front:
  assumes "LENGTH('a::len) = 8 * w" "w * n \<le> length bs"
  shows "words_bytes w (words_of w n bs :: 'a word list) = take (w * n) bs"
  using words_bytes_of [OF assms(1), of "take (w * n) bs" n] assms(2) by simp

lemma le_bytes_front:
  "LENGTH('a::len) = 8 * w \<Longrightarrow> w \<le> length bs \<Longrightarrow> le_bytes w (from_le_bytes (take w bs) :: 'a word) = take w bs"
  by (rule le_bytes_inverse) simp_all

lemmas write_read =
  words_bytes_front [where 'a = 64 and w = 8, simplified] words_bytes_front [where 'a = 128 and w = 16, simplified]
  words_bytes_front [where 'a = 256 and w = 32, simplified] le_bytes_front [where 'a = 64 and w = 8, simplified]
  le_bytes_front [where 'a = 128 and w = 16, simplified] le_bytes_front [where 'a = 256 and w = 32, simplified]

lemmas read_write =
  words_of_bytes [where 'a = 64 and w = 8, simplified] words_of_bytes [where 'a = 128 and w = 16, simplified]
  words_of_bytes [where 'a = 256 and w = 32, simplified]
  words_of_bytes [where 'a = 64 and w = 8 and rest = "[]", simplified]
  words_of_bytes [where 'a = 128 and w = 16 and rest = "[]", simplified]
  words_of_bytes [where 'a = 256 and w = 32 and rest = "[]", simplified]
  from_le_bytes_inverse le_bytes_inverse

section \<open>The records\<close>

text \<open>\<^verbatim>\<open>Fees\<close>: as its \<^verbatim>\<open>Pack\<close> implementation lays it out.\<close>

definition fees_of_bytes :: "bytes \<Rightarrow> fees" where
  "fees_of_bytes bs =
     (let f = words_of 8 8 bs in
      \<lparr>min_separate_numerator = f ! 0, min_separate_denominator = f ! 1,
       trade_fee_numerator = f ! 2, trade_fee_denominator = f ! 3,
       pnl_numerator = f ! 4, pnl_denominator = f ! 5,
       swap_fee_numerator = f ! 6, swap_fee_denominator = f ! 7\<rparr>)"

lemma fees_pack_words: "fees_pack f = words_bytes 8 [min_separate_numerator f, min_separate_denominator f,
    trade_fee_numerator f, trade_fee_denominator f, pnl_numerator f, pnl_denominator f, swap_fee_numerator f,
    swap_fee_denominator f]"
  by (simp add: fees_pack_def words_bytes_def)

interpretation fees_layout: layout fees_pack fees_of_bytes fees_size "\<lambda>_. True"
  by unfold_locales (simp_all add: fees_size_def fees_pack_words fees_of_bytes_def Let_def entries read_write write_read)

definition state_data_bytes :: "state_data \<Rightarrow> bytes" where
  "state_data_bytes s =
     words_bytes 8 [need_take_pnl_coin s, need_take_pnl_pc s, total_pnl_pc s, total_pnl_coin s, pool_open_time s] @
     words_bytes 8 (sd_padding s) @ le_bytes 8 (orderbook_to_init_time s) @
     words_bytes 16 [swap_coin_in_amount s, swap_pc_out_amount s] @ le_bytes 8 (swap_acc_pc_fee s) @
     words_bytes 16 [swap_pc_in_amount s, swap_coin_out_amount s] @ le_bytes 8 (swap_acc_coin_fee s)"

definition state_data_of_bytes :: "bytes \<Rightarrow> state_data" where
  "state_data_of_bytes bs =
     (let u = words_of 8 5 bs; coin2pc = words_of 16 2 (drop 64 bs); pc2coin = words_of 16 2 (drop 104 bs) in
      \<lparr>need_take_pnl_coin = u ! 0, need_take_pnl_pc = u ! 1, total_pnl_pc = u ! 2, total_pnl_coin = u ! 3,
       pool_open_time = u ! 4, sd_padding = words_of 8 2 (drop 40 bs),
       orderbook_to_init_time = from_le_bytes (take 8 (drop 56 bs)),
       swap_coin_in_amount = coin2pc ! 0, swap_pc_out_amount = coin2pc ! 1,
       swap_acc_pc_fee = from_le_bytes (take 8 (drop 96 bs)),
       swap_pc_in_amount = pc2coin ! 0, swap_coin_out_amount = pc2coin ! 1,
       swap_acc_coin_fee = from_le_bytes (take 8 (drop 136 bs))\<rparr>)"

definition state_data_wf :: "state_data \<Rightarrow> bool" where
  "state_data_wf s \<longleftrightarrow> length (sd_padding s) = 2"

interpretation state_data_layout: layout state_data_bytes state_data_of_bytes state_data_size state_data_wf
  by unfold_locales (simp_all add: state_data_size_def state_data_wf_def state_data_bytes_def state_data_of_bytes_def
      Let_def entries read_write write_read pieces first_piece)

definition amm_info_bytes :: "amm_info \<Rightarrow> bytes" where
  "amm_info_bytes a =
     words_bytes 8 [status a, nonce a, order_num a, depth a, coin_decimals a, pc_decimals a, state a, reset_flag a,
       min_size a, vol_max_cut_ratio a, amount_wave a, coin_lot_size a, pc_lot_size a, min_price_multiplier a,
       max_price_multiplier a, sys_decimal_value a] @
     fees_pack (amm_fees a) @ state_data_bytes (amm_state_data a) @
     words_bytes 32 [coin_vault a, pc_vault a, coin_vault_mint a, pc_vault_mint a, lp_mint a, open_orders a, market a,
       market_program a, target_orders a] @
     words_bytes 8 (amm_padding1 a) @ le_bytes 32 (amm_owner a) @
     words_bytes 8 [lp_amount a, client_order_id a, recent_epoch a, amm_padding2 a]"

definition amm_info_of_bytes :: "bytes \<Rightarrow> amm_info" where
  "amm_info_of_bytes bs =
     (let u = words_of 8 16 bs; k = words_of 32 9 (drop 336 bs); e = words_of 8 4 (drop 720 bs) in
      \<lparr>status = u ! 0, nonce = u ! 1, order_num = u ! 2, depth = u ! 3, coin_decimals = u ! 4, pc_decimals = u ! 5,
       state = u ! 6, reset_flag = u ! 7, min_size = u ! 8, vol_max_cut_ratio = u ! 9, amount_wave = u ! 10,
       coin_lot_size = u ! 11, pc_lot_size = u ! 12, min_price_multiplier = u ! 13, max_price_multiplier = u ! 14,
       sys_decimal_value = u ! 15,
       amm_fees = fees_of_bytes (take 64 (drop 128 bs)), amm_state_data = state_data_of_bytes (take 144 (drop 192 bs)),
       coin_vault = k ! 0, pc_vault = k ! 1, coin_vault_mint = k ! 2, pc_vault_mint = k ! 3, lp_mint = k ! 4,
       open_orders = k ! 5, market = k ! 6, market_program = k ! 7, target_orders = k ! 8,
       amm_padding1 = words_of 8 8 (drop 624 bs), amm_owner = from_le_bytes (take 32 (drop 688 bs)),
       lp_amount = e ! 0, client_order_id = e ! 1, recent_epoch = e ! 2, amm_padding2 = e ! 3\<rparr>)"

definition amm_info_wf :: "amm_info \<Rightarrow> bool" where
  "amm_info_wf a \<longleftrightarrow> length (amm_padding1 a) = 8 \<and> state_data_wf (amm_state_data a)"

lemma amm_info_parts [simp]:
  "length (fees_pack f) = 64" "state_data_wf s \<Longrightarrow> length (state_data_bytes s) = 144"
  "length bs = 64 \<Longrightarrow> fees_pack (fees_of_bytes bs) = bs" "length bs = 144 \<Longrightarrow> state_data_bytes (state_data_of_bytes bs) = bs"
  "fees_of_bytes (fees_pack f) = f" "state_data_wf s \<Longrightarrow> state_data_of_bytes (state_data_bytes s) = s"
  "length bs = 144 \<Longrightarrow> state_data_wf (state_data_of_bytes bs)"
  using fees_layout.length_to [of f] state_data_layout.length_to [of s] fees_layout.to_of [of bs] state_data_layout.to_of [of bs]
    fees_layout.of_to [of f] state_data_layout.of_to [of s] state_data_layout.wf_of [of bs]
  by (simp_all add: fees_size_def state_data_size_def)

interpretation amm_info_layout: layout amm_info_bytes amm_info_of_bytes amm_info_size amm_info_wf
  by unfold_locales (simp_all add: FEES_LEN_def amm_info_size_def fees_size_def state_data_size_def amm_info_wf_def amm_info_bytes_def
      amm_info_of_bytes_def Let_def entries read_write write_read pieces first_piece)

definition amm_config_bytes :: "amm_config \<Rightarrow> bytes" where
  "amm_config_bytes c =
     words_bytes 32 [pnl_owner c, cancel_owner c] @ words_bytes 8 (pending_1 c) @ words_bytes 8 (pending_2 c) @
     le_bytes 8 (create_pool_fee c)"

definition amm_config_of_bytes :: "bytes \<Rightarrow> amm_config" where
  "amm_config_of_bytes bs =
     (let k = words_of 32 2 bs in
      \<lparr>pnl_owner = k ! 0, cancel_owner = k ! 1, pending_1 = words_of 8 28 (drop 64 bs),
       pending_2 = words_of 8 31 (drop 288 bs), create_pool_fee = from_le_bytes (take 8 (drop 536 bs))\<rparr>)"

definition amm_config_wf :: "amm_config \<Rightarrow> bool" where
  "amm_config_wf c \<longleftrightarrow> length (pending_1 c) = 28 \<and> length (pending_2 c) = 31"

interpretation amm_config_layout: layout amm_config_bytes amm_config_of_bytes amm_config_size amm_config_wf
  by unfold_locales (simp_all add: amm_config_size_def amm_config_wf_def amm_config_bytes_def amm_config_of_bytes_def
      Let_def entries read_write write_read pieces first_piece)

text \<open>
  \<^verbatim>\<open>TargetOrders\<close>. An order is its price and its volume; the owner, four words in the source, is the
  address they make.
\<close>

definition orders_bytes :: "target_order list \<Rightarrow> bytes" where
  "orders_bytes os = concat (map (\<lambda>o'. words_bytes 8 [to_price o', to_vol o']) os)"

definition orders_of :: "nat \<Rightarrow> bytes \<Rightarrow> target_order list" where
  "orders_of n bs = map (\<lambda>i. let u = words_of 8 2 (drop (16 * i) bs) in \<lparr>to_price = u ! 0, to_vol = u ! 1\<rparr>) [0..<n]"

lemma length_orders [simp]: "length (orders_of n bs) = n" "length (orders_bytes os) = 16 * length os"
  by (simp add: orders_of_def) (induction os; simp add: orders_bytes_def)

lemma orders_of_bytes: "length os = n \<Longrightarrow> orders_of n (orders_bytes os @ rest) = os"
proof (induction os arbitrary: n)
  case (Cons ord os)
  have "orders_of (Suc (length os)) (orders_bytes (ord # os) @ rest) =
      (let u = words_of 8 2 (orders_bytes (ord # os) @ rest) in \<lparr>to_price = u ! 0, to_vol = u ! 1\<rparr>) # orders_of (length os) (orders_bytes os @ rest)"
    by (simp add: orders_of_def map_upt_Suc orders_bytes_def del: upt_Suc) 
  then show ?case using Cons by (auto simp: orders_bytes_def read_write Let_def)
qed (simp add: orders_of_def)

lemma orders_bytes_of: "length bs = 16 * n \<Longrightarrow> orders_bytes (orders_of n bs) = bs"
proof -
  assume n: "length bs = 16 * n"
  have "words_bytes 8 [to_price ord, to_vol ord] = take 16 (drop (16 * i) bs)"
    if "i < n" "ord = (let u = words_of 8 2 (drop (16 * i) bs) in \<lparr>to_price = u ! 0, to_vol = u ! 1\<rparr>)" for i ord
    using that n by (simp add: Let_def entries write_read)
  then have "orders_bytes (orders_of n bs) = concat (map (\<lambda>i. take 16 (drop (16 * i) bs)) [0..<n])"
    by (auto simp: orders_bytes_def orders_of_def intro!: arg_cong [of _ _ concat])
  then show ?thesis using concat_chunks [OF n] by simp
qed

lemma orders_front: "16 * n \<le> length bs \<Longrightarrow> orders_bytes (orders_of n bs) = take (16 * n) bs"
proof -
  assume n: "16 * n \<le> length bs"
  have "orders_of n bs = orders_of n (take (16 * n) bs)"
    by (auto simp: orders_of_def drop_take Let_def)
  with orders_bytes_of [of "take (16 * n) bs" n] n show ?thesis by simp
qed

definition target_orders_bytes :: "target_orders_data \<Rightarrow> bytes" where
  "target_orders_bytes t =
     le_bytes 32 (t_owner t) @ orders_bytes (buy_orders t) @ words_bytes 8 (t_padding1 t) @
     words_bytes 16 [target_x t, target_y t, plan_x_buy t, plan_y_buy t, plan_x_sell t, plan_y_sell t, placed_x t,
       placed_y t, calc_pnl_x t, calc_pnl_y t] @
     orders_bytes (sell_orders t) @ words_bytes 8 (t_padding2 t) @
     words_bytes 8 (replace_buy_client_id t) @ words_bytes 8 (replace_sell_client_id t) @
     words_bytes 8 [last_order_numerator t, last_order_denominator t, plan_orders_cur t, place_orders_cur t,
       valid_buy_order_num t, valid_sell_order_num t] @
     words_bytes 8 (t_padding3 t) @ le_bytes 16 (free_slot_bits t)"

definition target_orders_of_bytes :: "bytes \<Rightarrow> target_orders_data" where
  "target_orders_of_bytes bs =
     (let x = words_of 16 10 (drop 896 bs); u = words_of 8 6 (drop 2064 bs) in
      \<lparr>t_owner = from_le_bytes (take 32 bs), buy_orders = orders_of 50 (drop 32 bs), t_padding1 = words_of 8 8 (drop 832 bs),
       target_x = x ! 0, target_y = x ! 1, plan_x_buy = x ! 2, plan_y_buy = x ! 3, plan_x_sell = x ! 4,
       plan_y_sell = x ! 5, placed_x = x ! 6, placed_y = x ! 7, calc_pnl_x = x ! 8, calc_pnl_y = x ! 9,
       sell_orders = orders_of 50 (drop 1056 bs), t_padding2 = words_of 8 6 (drop 1856 bs),
       replace_buy_client_id = words_of 8 MAX_ORDER_LIMIT (drop 1904 bs),
       replace_sell_client_id = words_of 8 MAX_ORDER_LIMIT (drop 1984 bs),
       last_order_numerator = u ! 0, last_order_denominator = u ! 1, plan_orders_cur = u ! 2, place_orders_cur = u ! 3,
       valid_buy_order_num = u ! 4, valid_sell_order_num = u ! 5,
       t_padding3 = words_of 8 10 (drop 2112 bs), free_slot_bits = from_le_bytes (take 16 (drop 2192 bs))\<rparr>)"

definition target_orders_wf :: "target_orders_data \<Rightarrow> bool" where
  "target_orders_wf t \<longleftrightarrow> length (buy_orders t) = 50 \<and> length (t_padding1 t) = 8 \<and> length (sell_orders t) = 50 \<and>
     length (t_padding2 t) = 6 \<and> length (replace_buy_client_id t) = MAX_ORDER_LIMIT \<and>
     length (replace_sell_client_id t) = MAX_ORDER_LIMIT \<and> length (t_padding3 t) = 10"

interpretation target_orders_layout: layout target_orders_bytes target_orders_of_bytes target_orders_size target_orders_wf
  by unfold_locales (simp_all add: target_orders_size_def MAX_ORDER_LIMIT_def target_orders_wf_def target_orders_bytes_def
      target_orders_of_bytes_def Let_def entries read_write write_read pieces first_piece orders_of_bytes orders_front)

section \<open>The memory of the records\<close>

text \<open>
  C18. Memory and records are the same thing. On exactly the sizes the loaders compare with (752 bytes
  for a pool, 2208 for target orders, 544 for a configuration) writing a record and reading it
  back gives the record, and reading any memory and writing it back gives the memory: the layouts
  have neither gaps nor overlaps, and no memory of the right size is malformed. A field is found at
  the sum of the sizes of those before it, e.g. the address of the coin vault at 336 and that of the
  pool's owner at 688.
\<close>

theorem memory_is_record:
  "(\<forall>bs. length bs = 752 \<longrightarrow> amm_info_wf (amm_info_of_bytes bs) \<and> amm_info_bytes (amm_info_of_bytes bs) = bs \<and>
      coin_vault (amm_info_of_bytes bs) = pubkey_of_bytes (take 32 (drop 336 bs)) \<and>
      amm_owner (amm_info_of_bytes bs) = pubkey_of_bytes (take 32 (drop 688 bs))) \<and>
   (\<forall>bs. length bs = 2208 \<longrightarrow> target_orders_wf (target_orders_of_bytes bs) \<and> target_orders_bytes (target_orders_of_bytes bs) = bs) \<and>
   (\<forall>bs. length bs = 544 \<longrightarrow> amm_config_wf (amm_config_of_bytes bs) \<and> amm_config_bytes (amm_config_of_bytes bs) = bs) \<and>
   (\<forall>a. amm_info_wf a \<longrightarrow> length (amm_info_bytes a) = 752 \<and> amm_info_of_bytes (amm_info_bytes a) = a) \<and>
   (\<forall>t. target_orders_wf t \<longrightarrow> length (target_orders_bytes t) = 2208 \<and> target_orders_of_bytes (target_orders_bytes t) = t) \<and>
   (\<forall>c. amm_config_wf c \<longrightarrow> length (amm_config_bytes c) = 544 \<and> amm_config_of_bytes (amm_config_bytes c) = c)"
proof -
  have "amm_info_size = 752" "target_orders_size = 2208" "amm_config_size = 544"
    by (simp_all add: amm_info_size_def fees_size_def state_data_size_def target_orders_size_def amm_config_size_def
        MAX_ORDER_LIMIT_def)
  then show ?thesis
    using amm_info_layout.layout_axioms target_orders_layout.layout_axioms amm_config_layout.layout_axioms
    by (auto simp: layout_def amm_info_of_bytes_def words_of_def pubkey_of_bytes_def Let_def)
qed

theorem memory_is_record_witness:
  "amm_info_bytes (amm_info_of_bytes (replicate 752 7)) = replicate 752 7 \<and>
   amm_config_of_bytes (amm_config_bytes zero_amm_config) = zero_amm_config"
  using memory_is_record by (simp add: amm_config_wf_def zero_amm_config_def)

end
