(* ===== verification/Runtime.thy ===== *)
theory Runtime
  imports PoolMath Whitelist Instruction Layout
begin

text \<open>
  The execution environment of the handlers. An instruction runs over a \<open>world\<close>: the accounts,
  the data cells it holds mutably borrowed (a \<^verbatim>\<open>RefMut\<close> that is alive), and the calls it has
  issued to other programs so far. A handler returns the world it leaves, an error (the
  transaction is then rolled back) or a panic.

  Everything the code calls that is not in this repository is a field of the record \<open>env\<close>: the
  address derivation and the sysvars of the Solana runtime, the unpackers of SPL token accounts
  and mints, the loaders of the dex's accounts, the builders of instructions for other programs
  and the effect of invoking them.

  The data of an account is either one of this program's records, stored as such, or bytes; read as
  another kind it is the memory that \<open>Layout\<close> gives the record. The borrows that matter are the mutable ones: the only shared borrows
  that outlive a statement are those of the simulations, which borrow nothing mutably.
\<close>

section \<open>Accounts\<close>

datatype account_data =
    AmmData amm_info
  | TargetData target_orders_data
  | ConfigData amm_config
  | RawData bytes

record account =
  acc_owner :: pubkey
  acc_data :: account_data

record account_info =
  ai_key :: pubkey
  ai_is_signer :: bool
  ai_is_writable :: bool

primrec data_len :: "account_data \<Rightarrow> nat" where
  "data_len (AmmData _) = amm_info_size"
| "data_len (TargetData _) = target_orders_size"
| "data_len (ConfigData _) = amm_config_size"
| "data_len (RawData bs) = length bs"

primrec data_bytes :: "account_data \<Rightarrow> bytes" where
  "data_bytes (AmmData a) = amm_info_bytes a"
| "data_bytes (TargetData t) = target_orders_bytes t"
| "data_bytes (ConfigData c) = amm_config_bytes c"
| "data_bytes (RawData bs) = bs"

record token_account =
  ta_mint :: pubkey
  ta_owner :: pubkey
  ta_amount :: u64

record mint_account =
  mint_supply :: u64
  mint_decimals :: u8

record clock =
  clock_unix_timestamp :: u64
  clock_epoch :: u64

section \<open>Calls to other programs\<close>

record account_meta =
  am_key :: pubkey
  am_is_signer :: bool
  am_is_writable :: bool

text \<open>
  An instruction for another program: the builder of its crate with the arguments it is called
  with (\<^verbatim>\<open>spl_token::instruction::transfer\<close>, ...), or an \<^verbatim>\<open>Instruction\<close> value written out here.
\<close>

datatype ix =
    SplTransfer pubkey pubkey pubkey pubkey u64
      \<comment> \<open>token program, source, destination, authority, amount\<close>
  | SplBurn pubkey pubkey pubkey pubkey u64
      \<comment> \<open>token program, account, mint, authority, amount\<close>
  | SplCloseAccount pubkey pubkey pubkey pubkey
      \<comment> \<open>token program, account, destination, owner\<close>
  | SplMintTo pubkey pubkey pubkey pubkey u64
      \<comment> \<open>token program, mint, destination, authority, amount\<close>
  | Spl22TransferChecked pubkey pubkey pubkey pubkey pubkey u64 u8
      \<comment> \<open>token program, source, mint, destination, authority, amount, decimals\<close>
  | AtaCreate pubkey pubkey pubkey pubkey
      \<comment> \<open>funding account, wallet, mint, token program\<close>
  | SysCreateAccount pubkey pubkey nat pubkey
      \<comment> \<open>payer, new account, space, owner; the lamports are the rent for the space\<close>
  | DexInitOpenOrders pubkey pubkey pubkey pubkey
      \<comment> \<open>program, open orders, owner, market\<close>
  | DexCloseOpenOrders pubkey pubkey pubkey pubkey pubkey
      \<comment> \<open>program, open orders, owner, destination, market\<close>
  | DexNewOrder "pubkey list" "pubkey option" pubkey side u64 u64 u8 u64 u16 u64
      \<comment> \<open>accounts, referral, program, side, limit price, max coin, type, client id, limit, max pc\<close>
  | DexCancelOrder "pubkey list" side u128
      \<comment> \<open>program, market, bids, asks, open orders, owner, event queue; side; order id\<close>
  | DexCancelByClientIds "pubkey list" "u64 list"
      \<comment> \<open>program, market, bids, asks, open orders, owner, event queue; client ids\<close>
  | DexSettleFunds "pubkey list" "pubkey option"
      \<comment> \<open>program, market, token program, open orders, owner, coin vault, coin wallet, pc vault,
          pc wallet, vault signer; referrer\<close>
  | T22InitMetadataPointer pubkey pubkey pubkey
      \<comment> \<open>mint, authority, metadata account\<close>
  | T22InitTransferHook pubkey pubkey pubkey
      \<comment> \<open>mint, authority, hook program\<close>
  | T22InitMint pubkey pubkey "pubkey option" u8
      \<comment> \<open>mint, mint authority, freeze authority, decimals\<close>
  | T22InitMetadata pubkey pubkey pubkey pubkey bytes bytes bytes
      \<comment> \<open>metadata, update authority, mint, mint authority, name, symbol, uri\<close>
  | HookInitExtraMetas pubkey pubkey pubkey pubkey "extra_meta list"
      \<comment> \<open>program, meta list, mint, authority, metas\<close>
  | RawIx pubkey "account_meta list" bytes
      \<comment> \<open>program, accounts, data\<close>

text \<open>The accounts the built instruction names (besides the program it is for).\<close>

fun ix_keys :: "ix \<Rightarrow> pubkey list" where
  "ix_keys (SplTransfer _ s d a _) = [s, d, a]"
| "ix_keys (SplBurn _ b m a _) = [b, m, a]"
| "ix_keys (SplCloseAccount _ b d a) = [b, d, a]"
| "ix_keys (SplMintTo _ m d a _) = [m, d, a]"
| "ix_keys (Spl22TransferChecked _ s m d a _ _) = [s, m, d, a]"
| "ix_keys (AtaCreate f w m t) = [f, w, m, t]"
| "ix_keys (SysCreateAccount f t _ _) = [f, t]"
| "ix_keys (DexInitOpenOrders _ oo ow m) = [oo, ow, m]"
| "ix_keys (DexCloseOpenOrders _ oo ow d m) = [oo, ow, d, m]"
| "ix_keys (DexNewOrder ks r _ _ _ _ _ _ _ _) = ks @ (case r of Some k \<Rightarrow> [k] | None \<Rightarrow> [])"
| "ix_keys (DexCancelOrder ks _ _) = tl ks"
| "ix_keys (DexCancelByClientIds ks _) = tl ks"
| "ix_keys (DexSettleFunds ks r) = tl ks @ (case r of Some k \<Rightarrow> [k] | None \<Rightarrow> [])"
| "ix_keys (T22InitMetadataPointer m _ _) = [m]"
| "ix_keys (T22InitTransferHook m _ _) = [m]"
| "ix_keys (T22InitMint m _ _ _) = [m]"
| "ix_keys (T22InitMetadata md ua m a _ _ _) = [md, ua, m, a]"
| "ix_keys (HookInitExtraMetas _ l m a _) = [l, m, a]"
| "ix_keys (RawIx _ ms _) = map am_key ms"

record cpi =
  cpi_ix :: ix
  cpi_infos :: "account_info list"
  cpi_seeds :: "bytes list list"

section \<open>The world and the environment\<close>

record world =
  accts :: "pubkey \<Rightarrow> account"
  borrowed :: "pubkey list"
  calls :: "cpi list"

text \<open>What parsing the extra-account-metas of a transfer hook gives.\<close>

datatype tlv_view = TlvBad | TlvNoList | TlvList "extra_meta list"

record env =
  \<comment> \<open>the Solana runtime\<close>
  env_create_pda :: "bytes list \<Rightarrow> pubkey \<Rightarrow> pubkey option"
  env_find_pda :: "bytes list \<Rightarrow> pubkey \<Rightarrow> pubkey \<times> u8"
  env_clock :: "clock res"
  env_rent :: "unit res"
  env_system_program :: pubkey
  env_rent_sysvar :: pubkey
  env_clock_sysvar :: pubkey
  \<comment> \<open>the token programs\<close>
  env_spl_token :: pubkey
  env_spl_token_2022 :: pubkey
  env_unpack_token :: "account_data \<Rightarrow> token_account option"
  env_unpack_mint :: "account_data \<Rightarrow> mint_account option"
  env_mint22_decimals :: "account_data \<Rightarrow> u8 res"
  env_mint22_space :: "bool \<Rightarrow> bool \<Rightarrow> nat option"
  \<comment> \<open>transfer hooks\<close>
  env_mint_hook :: "account_data \<Rightarrow> pubkey option"
  env_set_transferring :: "bool \<Rightarrow> account_data \<Rightarrow> account_data option"
  env_hook_data :: "u64 \<Rightarrow> bytes"
  env_tlv :: "account_data \<Rightarrow> tlv_view"
  env_default_meta :: "extra_meta res"
  env_meta_list_size :: "nat \<Rightarrow> nat res"
  env_meta_list_init :: "extra_meta list \<Rightarrow> account_data \<Rightarrow> account_data res"
  env_resolve_meta :: "extra_meta \<Rightarrow> bytes \<Rightarrow> pubkey \<Rightarrow> (nat \<Rightarrow> (pubkey \<times> bool) option) \<Rightarrow> account_meta option"
  \<comment> \<open>the dex\<close>
  env_market :: "world \<Rightarrow> pubkey \<Rightarrow> pubkey \<Rightarrow> bool \<Rightarrow> market_state res"
  env_open_orders :: "world \<Rightarrow> pubkey \<Rightarrow> pubkey \<Rightarrow> pubkey \<Rightarrow> pubkey \<Rightarrow> open_orders_data res"
  env_slab :: "side \<Rightarrow> world \<Rightarrow> pubkey \<Rightarrow> pubkey \<Rightarrow> slab res"
  env_events :: "world \<Rightarrow> pubkey \<Rightarrow> pubkey \<Rightarrow> dex_event list res"
  \<comment> \<open>building and invoking instructions\<close>
  env_build :: "ix \<Rightarrow> unit res"
  env_invoke :: "cpi \<Rightarrow> (pubkey \<Rightarrow> account) \<Rightarrow> (pubkey \<Rightarrow> account) res"

section \<open>Reading accounts\<close>

definition account_of :: "world \<Rightarrow> account_info \<Rightarrow> account" where
  "account_of w ai = accts w (ai_key ai)"

definition owner_of :: "world \<Rightarrow> account_info \<Rightarrow> pubkey" where
  "owner_of w ai = acc_owner (account_of w ai)"

definition data_of :: "world \<Rightarrow> account_info \<Rightarrow> account_data" where
  "data_of w ai = acc_data (account_of w ai)"

definition is_borrowed :: "world \<Rightarrow> account_info \<Rightarrow> bool" where
  "is_borrowed w ai = (ai_key ai \<in> set (borrowed w))"

text \<open>\<^verbatim>\<open>account.data.borrow()\<close> panics while a mutable borrow is alive, \<^verbatim>\<open>try_borrow_data()\<close> fails.\<close>

definition borrow_data :: "world \<Rightarrow> account_info \<Rightarrow> ('e, account_data) outcome" where
  "borrow_data w ai = (if is_borrowed w ai then Panic else Ok (data_of w ai))"

definition try_borrow_data :: "world \<Rightarrow> account_info \<Rightarrow> account_data res" where
  "try_borrow_data w ai = (if is_borrowed w ai then Err PE_AccountBorrowFailed else Ok (data_of w ai))"

definition set_data :: "account_info \<Rightarrow> account_data \<Rightarrow> world \<Rightarrow> world" where
  "set_data ai d w = w\<lparr>accts := (accts w)(ai_key ai := (account_of w ai)\<lparr>acc_data := d\<rparr>)\<rparr>"

definition hold :: "account_info \<Rightarrow> world \<Rightarrow> world" where
  "hold ai w = w\<lparr>borrowed := ai_key ai # borrowed w\<rparr>"

text \<open>\<open>n\<close> calls of \<^verbatim>\<open>next_account_info\<close> in a row.\<close>

definition next_accounts :: "nat \<Rightarrow> account_info list \<Rightarrow> account_info list res" where
  "next_accounts n accounts =
     (if length accounts < n then Err PE_NotEnoughAccountKeys else Ok (take n accounts))"

section \<open>Loading the program's records\<close>

text \<open>
  \<^verbatim>\<open>from_bytes\<close> on data of the right size: the record is the memory. Data that was stored as a record of
  the same kind reads as that record (\<open>amm_info_layout.of_to\<close>).
\<close>

definition amm_view :: "account_data \<Rightarrow> amm_info" where
  "amm_view d = (case d of AmmData a \<Rightarrow> a | _ \<Rightarrow> amm_info_of_bytes (data_bytes d))"

definition target_view :: "account_data \<Rightarrow> target_orders_data" where
  "target_view d = (case d of TargetData t \<Rightarrow> t | _ \<Rightarrow> target_orders_of_bytes (data_bytes d))"

definition config_view :: "account_data \<Rightarrow> amm_config" where
  "config_view d = (case d of ConfigData c \<Rightarrow> c | _ \<Rightarrow> amm_config_of_bytes (data_bytes d))"

text \<open>
  \<^verbatim>\<open>data_len()\<close> borrows the data, so it panics while the account is mutably borrowed; the
  \<^verbatim>\<open>try_borrow\<close> after it then succeeds. \<open>load_mut\<close> keeps the borrow alive.
\<close>

definition amm_load_checked :: "env \<Rightarrow> pubkey \<Rightarrow> account_info \<Rightarrow> world \<Rightarrow> amm_info res" where
  "amm_load_checked env program_id ai w =
     (if owner_of w ai \<noteq> program_id then AmmErr InvalidAmmAccountOwner
      else rbind (borrow_data w ai) (\<lambda>d.
        if data_len d \<noteq> amm_info_size then AmmErr ExpectedAccount
        else let amm = amm_view d in
          if status amm = amm_status_into_u64 Uninitialized then AmmErr InvalidStatus else Ok amm))"

definition amm_load_mut_checked :: "env \<Rightarrow> pubkey \<Rightarrow> account_info \<Rightarrow> world \<Rightarrow> (amm_info \<times> world) res" where
  "amm_load_mut_checked env program_id ai w =
     (if owner_of w ai \<noteq> program_id then AmmErr InvalidAmmAccountOwner
      else rbind (borrow_data w ai) (\<lambda>d.
        if data_len d \<noteq> amm_info_size then AmmErr ExpectedAccount
        else let amm = amm_view d in
          if status amm = amm_status_into_u64 Uninitialized then AmmErr InvalidStatus
          else Ok (amm, hold ai w)))"

definition target_load_mut_checked ::
  "env \<Rightarrow> pubkey \<Rightarrow> pubkey \<Rightarrow> account_info \<Rightarrow> world \<Rightarrow> (target_orders_data \<times> world) res" where
  "target_load_mut_checked env program_id owner ai w =
     (if owner_of w ai \<noteq> program_id then AmmErr InvalidTargetAccountOwner
      else rbind (borrow_data w ai) (\<lambda>d.
        if data_len d \<noteq> target_orders_size then AmmErr ExpectedAccount
        else let t = target_view d in
          if t_owner t \<noteq> owner then AmmErr InvalidTargetOwner else Ok (t, hold ai w)))"

definition target_load_checked ::
  "env \<Rightarrow> pubkey \<Rightarrow> pubkey \<Rightarrow> account_info \<Rightarrow> world \<Rightarrow> target_orders_data res" where
  "target_load_checked env program_id owner ai w =
     (if owner_of w ai \<noteq> program_id then AmmErr InvalidTargetAccountOwner
      else rbind (borrow_data w ai) (\<lambda>d.
        if data_len d \<noteq> target_orders_size then AmmErr ExpectedAccount
        else let t = target_view d in
          if t_owner t \<noteq> owner then AmmErr InvalidTargetOwner else Ok t))"

definition config_load_mut_checked :: "env \<Rightarrow> pubkey \<Rightarrow> account_info \<Rightarrow> world \<Rightarrow> (amm_config \<times> world) res" where
  "config_load_mut_checked env program_id ai w =
     (if owner_of w ai \<noteq> program_id then AmmErr InvalidOwner
      else rbind (borrow_data w ai) (\<lambda>d.
        if data_len d \<noteq> amm_config_size then AmmErr ExpectedAccount
        else Ok (config_view d, hold ai w)))"

definition config_load_checked :: "env \<Rightarrow> pubkey \<Rightarrow> account_info \<Rightarrow> world \<Rightarrow> amm_config res" where
  "config_load_checked env program_id ai w =
     (if owner_of w ai \<noteq> program_id then AmmErr InvalidOwner
      else rbind (borrow_data w ai) (\<lambda>d.
        if data_len d \<noteq> amm_config_size then AmmErr ExpectedAccount
        else Ok (config_view d)))"

text \<open>
  The handlers change the loaded records in place; as nothing else can touch a mutably borrowed
  account, the model changes a copy and stores it when the handler returns.
\<close>

definition store_amm :: "account_info \<Rightarrow> amm_info \<Rightarrow> world \<Rightarrow> world" where
  "store_amm ai amm = set_data ai (AmmData amm)"

definition store_target :: "account_info \<Rightarrow> target_orders_data \<Rightarrow> world \<Rightarrow> world" where
  "store_target ai t = set_data ai (TargetData t)"

definition store_config :: "account_info \<Rightarrow> amm_config \<Rightarrow> world \<Rightarrow> world" where
  "store_config ai c = set_data ai (ConfigData c)"

section \<open>Invoking another program\<close>

text \<open>
  \<^verbatim>\<open>invoke_signed\<close>: the builder may refuse; the call fails when an account the instruction
  names is among the passed ones and still mutably borrowed; otherwise it is logged and has the
  effect the environment gives.
\<close>

definition invoke_signed ::
  "env \<Rightarrow> ix \<Rightarrow> account_info list \<Rightarrow> bytes list list \<Rightarrow> world \<Rightarrow> world res" where
  "invoke_signed env i infos seeds w =
     rbind (env_build env i) (\<lambda>_.
       if list_ex (\<lambda>k. k \<in> ai_key ` set infos \<and> k \<in> set (borrowed w)) (ix_keys i)
       then Err PE_AccountBorrowFailed
       else let c = \<lparr>cpi_ix = i, cpi_infos = infos, cpi_seeds = seeds\<rparr> in
         rbind (env_invoke env c (accts w)) (\<lambda>l.
         Ok (w\<lparr>accts := l, calls := calls w @ [c]\<rparr>)))"

definition invoke :: "env \<Rightarrow> ix \<Rightarrow> account_info list \<Rightarrow> world \<Rightarrow> world res" where
  "invoke env i infos w = invoke_signed env i infos [] w"

section \<open>Seeds and derived addresses\<close>

definition ascii :: "string \<Rightarrow> bytes" where
  "ascii s = map (\<lambda>c. word_of_nat (of_char c)) s"

definition AUTHORITY_AMM :: bytes where "AUTHORITY_AMM = ascii ''amm authority''"
definition AMM_ASSOCIATED_SEED :: bytes where "AMM_ASSOCIATED_SEED = ascii ''amm_associated_seed''"
definition TARGET_ASSOCIATED_SEED :: bytes where "TARGET_ASSOCIATED_SEED = ascii ''target_associated_seed''"
definition OPEN_ORDER_ASSOCIATED_SEED :: bytes where
  "OPEN_ORDER_ASSOCIATED_SEED = ascii ''open_order_associated_seed''"
definition COIN_VAULT_ASSOCIATED_SEED :: bytes where
  "COIN_VAULT_ASSOCIATED_SEED = ascii ''coin_vault_associated_seed''"
definition PC_VAULT_ASSOCIATED_SEED :: bytes where
  "PC_VAULT_ASSOCIATED_SEED = ascii ''pc_vault_associated_seed''"
definition LP_MINT_ASSOCIATED_SEED :: bytes where
  "LP_MINT_ASSOCIATED_SEED = ascii ''lp_mint_associated_seed''"
definition AMM_CONFIG_SEED :: bytes where "AMM_CONFIG_SEED = ascii ''amm_config_account_seed''"

definition authority_id :: "env \<Rightarrow> pubkey \<Rightarrow> bytes \<Rightarrow> u8 \<Rightarrow> pubkey amm_res" where
  "authority_id env program_id amm_seed nonce' =
     ok_or InvalidProgramAddress (env_create_pda env [amm_seed, [nonce']] program_id)"

definition get_associated_address_and_bump_seed ::
  "env \<Rightarrow> pubkey \<Rightarrow> pubkey \<Rightarrow> bytes \<Rightarrow> pubkey \<Rightarrow> pubkey \<times> u8" where
  "get_associated_address_and_bump_seed env info_id market_address associated_seed program_id =
     env_find_pda env [pubkey_bytes info_id, pubkey_bytes market_address, associated_seed] program_id"

definition find_whitelist_pda :: "env \<Rightarrow> pubkey \<Rightarrow> pubkey \<times> u8" where
  "find_whitelist_pda env program_id = env_find_pda env [ascii ''hook_whitelist''] program_id"

section \<open>Facts about loading and storing\<close>

text \<open>A record and its memory are interchangeable.\<close>

lemma views_of_memory:
  "amm_info_wf a \<Longrightarrow> amm_view (RawData (amm_info_bytes a)) = amm_view (AmmData a)"
  "target_orders_wf t \<Longrightarrow> target_view (RawData (target_orders_bytes t)) = target_view (TargetData t)"
  "amm_config_wf c \<Longrightarrow> config_view (RawData (amm_config_bytes c)) = config_view (ConfigData c)"
  by (simp_all add: amm_view_def target_view_def config_view_def amm_info_layout.of_to target_orders_layout.of_to
      amm_config_layout.of_to)

lemma data_len_memory:
  "amm_info_wf a \<Longrightarrow> data_len (AmmData a) = length (data_bytes (AmmData a))"
  "target_orders_wf t \<Longrightarrow> data_len (TargetData t) = length (data_bytes (TargetData t))"
  "amm_config_wf c \<Longrightarrow> data_len (ConfigData c) = length (data_bytes (ConfigData c))"
  by (simp_all add: amm_info_layout.length_to target_orders_layout.length_to amm_config_layout.length_to)

lemma amm_load_mut_Ok:
  "amm_load_mut_checked env pid ai w = Ok (amm, w') \<longleftrightarrow>
     owner_of w ai = pid \<and> \<not> is_borrowed w ai \<and> data_len (data_of w ai) = amm_info_size \<and>
     amm = amm_view (data_of w ai) \<and> status amm \<noteq> amm_status_into_u64 Uninitialized \<and> w' = hold ai w"
  by (auto simp: amm_load_mut_checked_def outcome borrow_data_def Let_def split: if_splits)

lemma calls_store [simp]: "calls (set_data ai d w) = calls w" "calls (store_amm ai a w) = calls w"
  "calls (store_target ai t w) = calls w" "calls (store_config ai cf w) = calls w" "calls (hold ai w) = calls w"
  by (simp_all add: set_data_def store_amm_def store_target_def store_config_def hold_def)

lemma target_load_mut_Ok:
  "target_load_mut_checked env pid ow ai w = Ok (t, w') \<longleftrightarrow>
     owner_of w ai = pid \<and> \<not> is_borrowed w ai \<and> data_len (data_of w ai) = target_orders_size \<and>
     t = target_view (data_of w ai) \<and> t_owner t = ow \<and> w' = hold ai w"
  by (auto simp: target_load_mut_checked_def outcome borrow_data_def Let_def split: if_splits)

lemma data_of_store_target_other [simp]:
  "ai_key a \<noteq> ai_key b \<Longrightarrow> data_of (store_target b t w) a = data_of w a"
  by (simp add: data_of_def store_target_def set_data_def account_of_def)

lemma data_of_store_target [simp]: "data_of (store_target ai t w) ai = TargetData t"
  by (simp add: data_of_def store_target_def set_data_def account_of_def)

lemma data_of_store_amm [simp]: "data_of (store_amm ai a w) ai = AmmData a"
  by (simp add: data_of_def store_amm_def set_data_def account_of_def)

lemma data_of_store_config [simp]: "data_of (store_config ai c w) ai = ConfigData c"
  by (simp add: data_of_def store_config_def set_data_def account_of_def)

end
