(* ===== verification/Helpers.thy ===== *)
theory Helpers
  imports Runtime
begin

text \<open>
  \<^verbatim>\<open>process/helpers.rs\<close>: unpacking accounts, loading the dex market, taking profit, the
  withdrawal checks; and the whitelist queries of \<^verbatim>\<open>process/whitelist.rs\<close>.
\<close>

section \<open>Unpacking accounts\<close>

definition unpack_token_account ::
  "env \<Rightarrow> account_info \<Rightarrow> pubkey \<Rightarrow> world \<Rightarrow> token_account amm_res" where
  "unpack_token_account env ai token_program_id w =
     (if owner_of w ai \<noteq> token_program_id then Err InvalidSplTokenProgram
      else rbind (borrow_data w ai) (\<lambda>d. ok_or ExpectedAccount (env_unpack_token env d)))"

definition unpack_mint :: "env \<Rightarrow> account_info \<Rightarrow> pubkey \<Rightarrow> world \<Rightarrow> mint_account amm_res" where
  "unpack_mint env ai token_program_id w =
     (if owner_of w ai \<noteq> token_program_id then Err InvalidSplTokenProgram
      else rbind (borrow_data w ai) (\<lambda>d. ok_or ExpectedMint (env_unpack_mint env d)))"

definition load_serum_market_order ::
  "env \<Rightarrow> account_info \<Rightarrow> account_info \<Rightarrow> account_info \<Rightarrow> amm_info \<Rightarrow> bool \<Rightarrow> world \<Rightarrow>
   (market_state \<times> open_orders_data) res" where
  "load_serum_market_order env market_acc open_orders_acc authority_acc amm allow_disabled w =
     rbind (env_market env w (ai_key market_acc) (market_program amm) allow_disabled) (\<lambda>ms.
     rbind (env_open_orders env w (ai_key open_orders_acc) (ai_key market_acc)
              (ai_key authority_acc) (market_program amm)) (\<lambda>oo.
       if oo_market oo \<noteq> ai_key market_acc then AmmErr InvalidMarket
       else if oo_owner oo \<noteq> ai_key authority_acc then AmmErr InvalidOwner
       else if ai_key open_orders_acc \<noteq> open_orders amm then AmmErr InvalidOpenOrders
       else Ok (ms, oo)))"

definition check_account_readonly :: "account_info \<Rightarrow> unit res" where
  "check_account_readonly ai = (if ai_is_writable ai then AmmErr InvalidSignAccount else Ok ())"

section \<open>Profit\<close>

text \<open>
  The pool record, the two totals and the deltas after \<^verbatim>\<open>calc_take_pnl\<close>. \<^verbatim>\<open>as u64\<close> truncates.
\<close>

definition calc_take_pnl ::
  "target_orders_data \<Rightarrow> amm_info \<Rightarrow> u64 \<Rightarrow> u64 \<Rightarrow> amm_info \<times> u64 \<times> u64 \<times> u128 \<times> u128" where
  "calc_take_pnl target amm total_pc total_coin =
     (let delta_x = calc_pnl_x target; delta_y = calc_pnl_y target; sd = amm_state_data amm in
      (amm\<lparr>amm_state_data := sd\<lparr>
         total_pnl_pc := saturating_add (total_pnl_pc sd) (ucast delta_x),
         total_pnl_coin := saturating_add (total_pnl_coin sd) (ucast delta_y)\<rparr>\<rparr>,
       saturating_sub total_pc (ucast delta_x), saturating_sub total_coin (ucast delta_y),
       delta_x, delta_y))"

definition update_target_orders_pnl ::
  "u128 \<Rightarrow> u128 \<Rightarrow> u128 \<Rightarrow> u128 \<Rightarrow> target_orders_data \<Rightarrow> target_orders_data" where
  "update_target_orders_pnl x1 y1 delta_x delta_y t =
     t\<lparr>calc_pnl_x := delta_x, calc_pnl_y := delta_y, target_x := x1, target_y := y1\<rparr>"

section \<open>Withdrawal checks\<close>

definition validate_withdraw_slippage :: "withdraw_instruction \<Rightarrow> u64 \<Rightarrow> u64 \<Rightarrow> unit amm_res" where
  "validate_withdraw_slippage withdraw coin_amount pc_amount =
     (case (min_coin_amount withdraw, min_pc_amount withdraw) of
        (Some c, Some p) \<Rightarrow>
          if c > coin_amount \<or> p > pc_amount then Err ExceededSlippage else Ok ()
      | _ \<Rightarrow> Ok ())"

definition validate_withdraw_permissions ::
  "env \<Rightarrow> amm_info \<Rightarrow> account_info \<Rightarrow> account_info \<Rightarrow> pubkey \<Rightarrow> unit amm_res" where
  "validate_withdraw_permissions env amm authority_ai lp_owner_ai program_id =
     rbind (amm_status_from_u64 (status amm)) (\<lambda>st.
       if \<not> withdraw_permission st then Err InvalidStatus
       else rbind (authority_id env program_id AUTHORITY_AMM (ucast (nonce amm))) (\<lambda>authority.
         if ai_key authority_ai \<noteq> authority then Err InvalidProgramAddress
         else if \<not> ai_is_signer lp_owner_ai then Err InvalidSignAccount
         else Ok ()))"

definition validate_withdraw_vaults ::
  "amm_info \<Rightarrow> account_info \<Rightarrow> account_info \<Rightarrow> account_info \<Rightarrow> account_info \<Rightarrow> unit amm_res" where
  "validate_withdraw_vaults amm coin_vault_ai pc_vault_ai dest_coin_ai dest_pc_ai =
     (if ai_key coin_vault_ai \<noteq> coin_vault amm \<or> ai_key dest_coin_ai = coin_vault amm
      then Err InvalidCoinVault
      else if ai_key pc_vault_ai \<noteq> pc_vault amm \<or> ai_key dest_pc_ai = pc_vault amm
      then Err InvalidPCVault
      else Ok ())"

definition validate_lp_withdrawal :: "u64 \<Rightarrow> u64 \<Rightarrow> u64 \<Rightarrow> u64 \<Rightarrow> unit amm_res" where
  "validate_lp_withdrawal withdraw_amount user_lp_amount lp_mint_supply amm_lp_amount =
     (if withdraw_amount > user_lp_amount then Err InsufficientFunds
      else if withdraw_amount > lp_mint_supply \<or> withdraw_amount \<ge> amm_lp_amount
      then Err NotAllowZeroLP
      else Ok ())"

definition calculate_withdrawal_amounts :: "u64 \<Rightarrow> u64 \<Rightarrow> u64 \<Rightarrow> u64 \<Rightarrow> (u64 \<times> u64) amm_res" where
  "calculate_withdrawal_amounts withdraw_amount amm_lp_amount total_coin total_pc =
     (let invariant = \<lparr>token_input = withdraw_amount, token_total = amm_lp_amount\<rparr> in
      rbind (exchange_pool_to_token invariant total_coin Floor) (\<lambda>c.
      rbind (ok_or CalculationExRateFailure c) (\<lambda>coin_amount.
      rbind (exchange_pool_to_token invariant total_pc Floor) (\<lambda>p.
      rbind (ok_or CalculationExRateFailure p) (\<lambda>pc_amount.
      Ok (coin_amount, pc_amount))))))"

section \<open>The whitelist account\<close>

definition data_is_empty :: "world \<Rightarrow> account_info \<Rightarrow> ('e, bool) outcome" where
  "data_is_empty w ai = rbind (borrow_data w ai) (\<lambda>d. Ok (data_len d = 0))"

text \<open>
  \<^verbatim>\<open>HookWhitelist::unpack\<close> on the bytes of the account. A record of another kind has another
  length, so it fails the length check.
\<close>

definition whitelist_of_data :: "account_data \<Rightarrow> hook_whitelist res" where
  "whitelist_of_data d = (case d of RawData bs \<Rightarrow> whitelist_unpack bs | _ \<Rightarrow> Err PE_InvalidAccountData)"

definition is_hook_whitelisted :: "env \<Rightarrow> pubkey \<Rightarrow> account_info \<Rightarrow> pubkey \<Rightarrow> world \<Rightarrow> bool res" where
  "is_hook_whitelisted env program_id whitelist_ai hook w =
     (if ai_key whitelist_ai \<noteq> fst (find_whitelist_pda env program_id) then Err PE_InvalidSeeds
      else rbind (data_is_empty w whitelist_ai) (\<lambda>empty.
        if empty then Ok False
        else rbind (try_borrow_data w whitelist_ai) (\<lambda>d.
          rbind (whitelist_of_data d) (\<lambda>wl. contains_hook wl hook))))"

definition get_whitelisted_hooks :: "env \<Rightarrow> pubkey \<Rightarrow> account_info \<Rightarrow> world \<Rightarrow> pubkey list res" where
  "get_whitelisted_hooks env program_id whitelist_ai w =
     (if ai_key whitelist_ai \<noteq> fst (find_whitelist_pda env program_id) then Err PE_InvalidSeeds
      else rbind (data_is_empty w whitelist_ai) (\<lambda>empty.
        if empty then Ok []
        else rbind (try_borrow_data w whitelist_ai) (\<lambda>d.
          rbind (whitelist_of_data d) (\<lambda>wl. get_active_hooks wl))))"

text \<open>Taking the profit changes only the two profit counters of the record.\<close>

lemma calc_take_pnl_eq:
  "calc_take_pnl t amm pc coin = (amm', pc', coin', dx, dy) \<longleftrightarrow>
     dx = calc_pnl_x t \<and> dy = calc_pnl_y t \<and>
     pc' = saturating_sub pc (ucast dx) \<and> coin' = saturating_sub coin (ucast dy) \<and>
     amm' = amm\<lparr>amm_state_data := (amm_state_data amm)
       \<lparr>total_pnl_pc := saturating_add (total_pnl_pc (amm_state_data amm)) (ucast dx),
        total_pnl_coin := saturating_add (total_pnl_coin (amm_state_data amm)) (ucast dy)\<rparr>\<rparr>"
  by (auto simp: calc_take_pnl_def Let_def)

end
