(* ===== verification/Invokers.thy ===== *)
theory Invokers
  imports Helpers
begin

text \<open>
  \<^verbatim>\<open>src/invokers.rs\<close>: the calls to the token programs and the dex, and the execution of
  transfer hooks for Token-2022 mints.
\<close>

section \<open>Transfer hooks\<close>

definition get_transfer_hook_program_id :: "env \<Rightarrow> account_info \<Rightarrow> world \<Rightarrow> pubkey option res" where
  "get_transfer_hook_program_id env mint w = rbind (borrow_data w mint) (\<lambda>d. Ok (env_mint_hook env d))"

text \<open>
  Setting and clearing the transferring flag. Every call site discards the result, so an
  account that cannot be unpacked is left as it is.
\<close>

definition try_set_transferring :: "env \<Rightarrow> bool \<Rightarrow> account_info \<Rightarrow> world \<Rightarrow> world res" where
  "try_set_transferring env flag account w =
     rbind (borrow_data w account) (\<lambda>d.
       case env_set_transferring env flag d of
         Some d' \<Rightarrow> Ok (set_data account d' w) | None \<Rightarrow> Ok w)"

text \<open>The array of supported hooks is empty.\<close>

definition supported_hooks :: "pubkey list" where "supported_hooks = []"

definition is_hook_supported_for_auto_init :: "pubkey \<Rightarrow> bool" where
  "is_hook_supported_for_auto_init hook = (hook \<in> set supported_hooks)"

definition get_default_extra_account_metas :: "env \<Rightarrow> extra_meta list res" where
  "get_default_extra_account_metas env = rbind (env_default_meta env) (\<lambda>m. Ok [m])"

definition auto_initialize_meta_list :: "env \<Rightarrow> pubkey \<Rightarrow> account_info \<Rightarrow> world \<Rightarrow> world res" where
  "auto_initialize_meta_list env hook meta_list w =
     (if \<not> is_hook_supported_for_auto_init hook then AmmErr HookProgramNotSupportedForAutoInit
      else rbind (get_default_extra_account_metas env) (\<lambda>metas.
        rbind (env_meta_list_size env (length metas)) (\<lambda>size.
        rbind (try_borrow_data w meta_list) (\<lambda>d.
          if data_len d < size then AmmErr HookMetaListAutoInitFailed
          else rbind (env_meta_list_init env metas d) (\<lambda>d'. Ok (set_data meta_list d' w))))))"

definition is_meta_list_valid :: "env \<Rightarrow> account_info \<Rightarrow> world \<Rightarrow> bool res" where
  "is_meta_list_valid env meta_list w =
     rbind (try_borrow_data w meta_list) (\<lambda>d.
       if data_len d = 0 then Ok False
       else case env_tlv env d of TlvBad \<Rightarrow> Ok False | TlvNoList \<Rightarrow> Ok False | TlvList _ \<Rightarrow> Ok True)"

text \<open>
  The loop over the extra metas: each is resolved against the accounts collected so far, and
  the account at the same position of the remaining accounts is appended.
\<close>

fun resolve_metas ::
  "env \<Rightarrow> bytes \<Rightarrow> pubkey \<Rightarrow> account_info list \<Rightarrow> extra_meta list \<Rightarrow>
   account_meta list \<times> account_info list \<Rightarrow> (account_meta list \<times> account_info list) res" where
  "resolve_metas env ix_data hook rest [] acc = Ok acc"
| "resolve_metas env ix_data hook rest (m # ms) acc =
     (case rest of
        [] \<Rightarrow> Err PE_NotEnoughAccountKeys
      | ai # rest' \<Rightarrow>
          (case env_resolve_meta env m ix_data hook
                  (\<lambda>i. if i < length (snd acc)
                       then Some (ai_key (snd acc ! i), ai_is_writable (snd acc ! i)) else None) of
             None \<Rightarrow> Err PE_InvalidAccountData
           | Some am \<Rightarrow> resolve_metas env ix_data hook rest' ms (fst acc @ [am], snd acc @ [ai])))"

definition hook_base_metas ::
  "account_info \<Rightarrow> account_info \<Rightarrow> account_info \<Rightarrow> account_info \<Rightarrow> pubkey \<Rightarrow> account_meta list" where
  "hook_base_metas source mint destination authority pda =
     [\<lparr>am_key = ai_key source, am_is_signer = False, am_is_writable = True\<rparr>,
      \<lparr>am_key = ai_key mint, am_is_signer = False, am_is_writable = False\<rparr>,
      \<lparr>am_key = ai_key destination, am_is_signer = False, am_is_writable = True\<rparr>,
      \<lparr>am_key = ai_key authority, am_is_signer = False, am_is_writable = False\<rparr>,
      \<lparr>am_key = pda, am_is_signer = False, am_is_writable = False\<rparr>]"

text \<open>From the validity check of the meta list to the end of the hook's execution.\<close>

definition run_transfer_hook ::
  "env \<Rightarrow> pubkey \<Rightarrow> account_info \<Rightarrow> account_info \<Rightarrow> account_info \<Rightarrow> account_info \<Rightarrow> u64 \<Rightarrow>
   account_info \<Rightarrow> account_info list \<Rightarrow> world \<Rightarrow> world res" where
  "run_transfer_hook env hook source mint destination authority amount meta_list extra w =
     (let ix_data = env_hook_data env amount;
          base_infos = [source, mint, destination, authority, meta_list] in
      rbind (is_meta_list_valid env meta_list w) (\<lambda>valid.
      rbind (if valid then Ok w else auto_initialize_meta_list env hook meta_list w) (\<lambda>w.
      let metas = hook_base_metas source mint destination authority (ai_key meta_list) in
      rbind (map_err (\<lambda>_. PE_InvalidAccountData) (try_borrow_data w meta_list)) (\<lambda>d.
      case env_tlv env d of
        TlvBad \<Rightarrow> Err PE_InvalidAccountData
      | TlvNoList \<Rightarrow>
          rbind (invoke env (RawIx hook metas ix_data) base_infos w) (try_set_transferring env False source)
      | TlvList ms \<Rightarrow>
          rbind (resolve_metas env ix_data hook extra ms (metas, base_infos)) (\<lambda>(ams, infos).
          rbind (invoke env (RawIx hook ams ix_data) infos w) (try_set_transferring env False source))))))"

definition execute_transfer_hook ::
  "env \<Rightarrow> pubkey \<Rightarrow> account_info \<Rightarrow> account_info \<Rightarrow> account_info \<Rightarrow> account_info \<Rightarrow> u64 \<Rightarrow>
   account_info list \<Rightarrow> world \<Rightarrow> world res" where
  "execute_transfer_hook env program_id source mint destination authority amount remaining w =
     rbind (get_transfer_hook_program_id env mint w) (\<lambda>hook_opt.
     case hook_opt of
       None \<Rightarrow> Ok w
     | Some hook \<Rightarrow>
         if length remaining < 2 then Err PE_NotEnoughAccountKeys
         else
           rbind (is_hook_whitelisted env program_id (remaining ! 0) hook w) (\<lambda>listed.
           if \<not> listed then AmmErr TransferHookNotWhitelisted
           else
             rbind (try_set_transferring env True source w) (\<lambda>w.
             if ai_key (remaining ! 1)
                  \<noteq> fst (env_find_pda env [ascii ''extra-account-metas'', pubkey_bytes (ai_key mint)] hook)
             then Err PE_InvalidAccountData
             else run_transfer_hook env hook source mint destination authority amount
                    (remaining ! 1) (drop 2 remaining) w)))"

section \<open>Token programs\<close>

definition authority_seeds :: "bytes \<Rightarrow> u8 \<Rightarrow> bytes list list" where
  "authority_seeds amm_seed nonce' = [[amm_seed, [nonce']]]"

definition create_ata_spl_token ::
  "env \<Rightarrow> account_info \<Rightarrow> account_info \<Rightarrow> account_info \<Rightarrow> account_info \<Rightarrow> account_info \<Rightarrow>
   account_info \<Rightarrow> account_info \<Rightarrow> world \<Rightarrow> world res" where
  "create_ata_spl_token env associated funding wallet token_mint token_program ata_program system_program w =
     invoke_signed env (AtaCreate (ai_key funding) (ai_key wallet) (ai_key token_mint) (ai_key token_program))
       [associated, funding, wallet, token_mint, token_program, ata_program, system_program] [] w"

definition token_burn ::
  "env \<Rightarrow> account_info \<Rightarrow> account_info \<Rightarrow> account_info \<Rightarrow> account_info \<Rightarrow> u64 \<Rightarrow> world \<Rightarrow> world res" where
  "token_burn env token_program burn_account mint owner amount w =
     invoke_signed env
       (SplBurn (ai_key token_program) (ai_key burn_account) (ai_key mint) (ai_key owner) amount)
       [burn_account, mint, owner, token_program] [] w"

definition token_close_with_authority ::
  "env \<Rightarrow> account_info \<Rightarrow> account_info \<Rightarrow> account_info \<Rightarrow> account_info \<Rightarrow> bytes \<Rightarrow> u8 \<Rightarrow> world \<Rightarrow> world res" where
  "token_close_with_authority env token_program close_account destination authority amm_seed nonce' w =
     invoke_signed env
       (SplCloseAccount (ai_key token_program) (ai_key close_account) (ai_key destination) (ai_key authority))
       [close_account, destination, authority, token_program] (authority_seeds amm_seed nonce') w"

definition token_burn_with_authority ::
  "env \<Rightarrow> account_info \<Rightarrow> account_info \<Rightarrow> account_info \<Rightarrow> account_info \<Rightarrow> bytes \<Rightarrow> u8 \<Rightarrow> u64 \<Rightarrow>
   world \<Rightarrow> world res" where
  "token_burn_with_authority env token_program burn_account mint authority amm_seed nonce' amount w =
     invoke_signed env
       (SplBurn (ai_key token_program) (ai_key burn_account) (ai_key mint) (ai_key authority) amount)
       [burn_account, mint, authority, token_program] (authority_seeds amm_seed nonce') w"

definition token_mint_to ::
  "env \<Rightarrow> account_info \<Rightarrow> account_info \<Rightarrow> account_info \<Rightarrow> account_info \<Rightarrow> bytes \<Rightarrow> u8 \<Rightarrow> u64 \<Rightarrow>
   world \<Rightarrow> world res" where
  "token_mint_to env token_program mint destination authority amm_seed nonce' amount w =
     invoke_signed env
       (SplMintTo (ai_key token_program) (ai_key mint) (ai_key destination) (ai_key authority) amount)
       [mint, destination, authority, token_program] (authority_seeds amm_seed nonce') w"

text \<open>
  The hook, if the token program is Token-2022, and then \<^verbatim>\<open>transfer_checked\<close> with the mint's
  decimals; a plain \<^verbatim>\<open>transfer\<close> otherwise.
\<close>

definition token_transfer_signed ::
  "env \<Rightarrow> pubkey \<Rightarrow> account_info \<Rightarrow> account_info \<Rightarrow> account_info \<Rightarrow> account_info \<Rightarrow> bytes list list \<Rightarrow>
   u64 \<Rightarrow> account_info \<Rightarrow> account_info list \<Rightarrow> world \<Rightarrow> world res" where
  "token_transfer_signed env program_id token_program source destination authority seeds amount mint remaining w =
     (if ai_key token_program = env_spl_token_2022 env then
        rbind (execute_transfer_hook env program_id source mint destination authority amount remaining w) (\<lambda>w.
        rbind (try_borrow_data w mint) (\<lambda>d.
        rbind (env_mint22_decimals env d) (\<lambda>dec.
        invoke_signed env
          (Spl22TransferChecked (ai_key token_program) (ai_key source) (ai_key mint)
             (ai_key destination) (ai_key authority) amount dec)
          [source, mint, destination, authority, token_program] seeds w)))
      else
        invoke_signed env
          (SplTransfer (ai_key token_program) (ai_key source) (ai_key destination) (ai_key authority) amount)
          [source, destination, authority, token_program] seeds w)"

definition token_transfer ::
  "env \<Rightarrow> pubkey \<Rightarrow> account_info \<Rightarrow> account_info \<Rightarrow> account_info \<Rightarrow> account_info \<Rightarrow> u64 \<Rightarrow>
   account_info \<Rightarrow> account_info list \<Rightarrow> world \<Rightarrow> world res" where
  "token_transfer env program_id token_program source destination owner deposit_amount mint remaining w =
     token_transfer_signed env program_id token_program source destination owner [] deposit_amount
       mint remaining w"

definition token_transfer_with_authority ::
  "env \<Rightarrow> pubkey \<Rightarrow> account_info \<Rightarrow> account_info \<Rightarrow> account_info \<Rightarrow> account_info \<Rightarrow> bytes \<Rightarrow> u8 \<Rightarrow>
   u64 \<Rightarrow> account_info \<Rightarrow> account_info list \<Rightarrow> world \<Rightarrow> world res" where
  "token_transfer_with_authority env program_id token_program source destination authority amm_seed
     nonce' amount mint remaining w =
     token_transfer_signed env program_id token_program source destination authority
       (authority_seeds amm_seed nonce') amount mint remaining w"

section \<open>The dex\<close>

definition invoke_dex_init_open_orders ::
  "env \<Rightarrow> account_info \<Rightarrow> account_info \<Rightarrow> account_info \<Rightarrow> account_info \<Rightarrow> account_info \<Rightarrow> bytes \<Rightarrow> u8 \<Rightarrow>
   world \<Rightarrow> world res" where
  "invoke_dex_init_open_orders env dex_program oo oo_authority mkt rent_sysvar amm_seed nonce' w =
     invoke_signed env (DexInitOpenOrders (ai_key dex_program) (ai_key oo) (ai_key oo_authority) (ai_key mkt))
       [dex_program, oo, oo_authority, mkt, rent_sysvar] (authority_seeds amm_seed nonce') w"

definition invoke_dex_close_open_orders ::
  "env \<Rightarrow> account_info \<Rightarrow> account_info \<Rightarrow> account_info \<Rightarrow> account_info \<Rightarrow> account_info \<Rightarrow> bytes \<Rightarrow> u8 \<Rightarrow>
   world \<Rightarrow> world res" where
  "invoke_dex_close_open_orders env dex_program oo oo_authority destination mkt amm_seed nonce' w =
     invoke_signed env
       (DexCloseOpenOrders (ai_key dex_program) (ai_key oo) (ai_key oo_authority) (ai_key destination) (ai_key mkt))
       [dex_program, oo, oo_authority, destination, mkt] (authority_seeds amm_seed nonce') w"

definition invoke_dex_cancel_order_v2 ::
  "env \<Rightarrow> account_info \<Rightarrow> account_info \<Rightarrow> account_info \<Rightarrow> account_info \<Rightarrow> account_info \<Rightarrow> account_info \<Rightarrow>
   account_info \<Rightarrow> bytes \<Rightarrow> u8 \<Rightarrow> side \<Rightarrow> u128 \<Rightarrow> world \<Rightarrow> world res" where
  "invoke_dex_cancel_order_v2 env dex_program mkt bids asks oo oo_authority event_q amm_seed nonce' sd order_id w =
     (let infos = [dex_program, mkt, bids, asks, oo, oo_authority, event_q] in
      invoke_signed env (DexCancelOrder (map ai_key infos) sd order_id) infos
        (authority_seeds amm_seed nonce') w)"

definition invoke_dex_cancel_orders_by_client_order_ids ::
  "env \<Rightarrow> account_info \<Rightarrow> account_info \<Rightarrow> account_info \<Rightarrow> account_info \<Rightarrow> account_info \<Rightarrow> account_info \<Rightarrow>
   account_info \<Rightarrow> bytes \<Rightarrow> u8 \<Rightarrow> u64 list \<Rightarrow> world \<Rightarrow> world res" where
  "invoke_dex_cancel_orders_by_client_order_ids env dex_program mkt bids asks oo oo_authority event_q
     amm_seed nonce' ids w =
     (let infos = [dex_program, mkt, bids, asks, oo, oo_authority, event_q] in
      invoke_signed env (DexCancelByClientIds (map ai_key infos) ids) infos
        (authority_seeds amm_seed nonce') w)"

definition invoke_dex_settle_funds ::
  "env \<Rightarrow> account_info \<Rightarrow> account_info \<Rightarrow> account_info \<Rightarrow> account_info \<Rightarrow> account_info \<Rightarrow> account_info \<Rightarrow>
   account_info \<Rightarrow> account_info \<Rightarrow> account_info \<Rightarrow> account_info \<Rightarrow> account_info option \<Rightarrow> bytes \<Rightarrow> u8 \<Rightarrow>
   world \<Rightarrow> world res" where
  "invoke_dex_settle_funds env dex_program mkt oo owner coin_vault_ai pc_vault_ai coin_wallet pc_wallet
     vault_signer spl_token_program referrer amm_seed nonce' w =
     invoke_signed env
       (DexSettleFunds
          (map ai_key [dex_program, mkt, spl_token_program, oo, owner, coin_vault_ai, coin_wallet,
             pc_vault_ai, pc_wallet, vault_signer])
          (map_option ai_key referrer))
       ([dex_program, mkt, oo, owner, coin_vault_ai, pc_vault_ai, coin_wallet, pc_wallet, vault_signer,
         spl_token_program] @ (case referrer of Some r \<Rightarrow> [r] | None \<Rightarrow> []))
       (authority_seeds amm_seed nonce') w"

text \<open>
  The accounts of a new order, in the order both order calls list them after the program; the
  self-trade behaviour is always cancel-provide and there is no time limit.
\<close>

record order_accounts =
  oa_dex_program :: account_info
  oa_market :: account_info
  oa_open_orders :: account_info
  oa_req_q :: account_info
  oa_event_q :: account_info
  oa_bids :: account_info
  oa_asks :: account_info
  oa_payer :: account_info
  oa_open_orders_owner :: account_info
  oa_coin_vault :: account_info
  oa_pc_vault :: account_info
  oa_token_program :: account_info
  oa_rent :: account_info
  oa_srm_referral :: "account_info option"

record order_args =
  or_side :: side
  or_limit_price :: u64
  or_max_coin_qty :: u64
  or_max_native_pc :: u64
  or_order_type :: u8
  or_client_order_id :: u64
  or_limit :: u16

definition order_infos :: "order_accounts \<Rightarrow> account_info list" where
  "order_infos oa =
     [oa_dex_program oa, oa_market oa, oa_open_orders oa, oa_req_q oa, oa_event_q oa, oa_bids oa,
      oa_asks oa, oa_payer oa, oa_open_orders_owner oa, oa_coin_vault oa, oa_pc_vault oa,
      oa_token_program oa, oa_rent oa] @ (case oa_srm_referral oa of Some a \<Rightarrow> [a] | None \<Rightarrow> [])"

definition invoke_dex_new_order_v3 ::
  "env \<Rightarrow> order_accounts \<Rightarrow> bytes \<Rightarrow> u8 \<Rightarrow> order_args \<Rightarrow> world \<Rightarrow> world res" where
  "invoke_dex_new_order_v3 env oa amm_seed nonce' r w =
     invoke_signed env
       (DexNewOrder
          (map ai_key [oa_market oa, oa_open_orders oa, oa_req_q oa, oa_event_q oa, oa_bids oa,
             oa_asks oa, oa_payer oa, oa_open_orders_owner oa, oa_coin_vault oa, oa_pc_vault oa,
             oa_token_program oa, oa_rent oa])
          (map_option ai_key (oa_srm_referral oa)) (ai_key (oa_dex_program oa))
          (or_side r) (or_limit_price r) (or_max_coin_qty r) (or_order_type r)
          (or_client_order_id r) (or_limit r) (or_max_native_pc r))
       (order_infos oa) (authority_seeds amm_seed nonce') w"

text \<open>
  \<^verbatim>\<open>replace_order_by_client_id\<close> writes the account list of the instruction itself; its data is
  packed by the dex crate (\<open>order_data\<close>).
\<close>

definition replace_order_metas :: "order_accounts \<Rightarrow> account_meta list" where
  "replace_order_metas oa =
     (let w = (\<lambda>a. \<lparr>am_key = ai_key a, am_is_signer = False, am_is_writable = True\<rparr>);
          r = (\<lambda>a s. \<lparr>am_key = ai_key a, am_is_signer = s, am_is_writable = False\<rparr>) in
      [w (oa_market oa), w (oa_open_orders oa), w (oa_req_q oa), w (oa_event_q oa), w (oa_bids oa),
       w (oa_asks oa), w (oa_payer oa), r (oa_open_orders_owner oa) True, w (oa_coin_vault oa),
       w (oa_pc_vault oa), r (oa_token_program oa) False, r (oa_rent oa) False]
      @ (case oa_srm_referral oa of Some a \<Rightarrow> [r a False] | None \<Rightarrow> []))"

definition replace_order_by_client_id :: "(order_args \<Rightarrow> bytes) \<Rightarrow> order_accounts \<Rightarrow> order_args \<Rightarrow> ix" where
  "replace_order_by_client_id order_data oa r =
     RawIx (ai_key (oa_dex_program oa)) (replace_order_metas oa) (order_data r)"

definition invoke_dex_replace_order_by_client_id ::
  "(order_args \<Rightarrow> bytes) \<Rightarrow> env \<Rightarrow> order_accounts \<Rightarrow> bytes \<Rightarrow> u8 \<Rightarrow> order_args \<Rightarrow> world \<Rightarrow> world res" where
  "invoke_dex_replace_order_by_client_id order_data env oa amm_seed nonce' r w =
     invoke_signed env (replace_order_by_client_id order_data oa r) (order_infos oa)
       (authority_seeds amm_seed nonce') w"

section \<open>Cancelling orders and settling\<close>

text \<open>The accounts of a market a handler works with.\<close>

record market_accounts =
  ma_program :: account_info
  ma_market :: account_info
  ma_bids :: account_info
  ma_asks :: account_info
  ma_event_q :: account_info
  ma_coin_vault :: account_info
  ma_pc_vault :: account_info
  ma_vault_signer :: account_info
  ma_open_orders :: account_info
  ma_authority :: account_info

text \<open>\<^verbatim>\<open>for ids in amm_order_ids_vec.iter()\<close>\<close>

definition cancel_groups :: "env \<Rightarrow> market_accounts \<Rightarrow> u8 \<Rightarrow> u64 list list \<Rightarrow> world \<Rightarrow> world res" where
  "cancel_groups env ma nonce' groups w =
     fold_outcome (invoke_dex_cancel_orders_by_client_order_ids env (ma_program ma) (ma_market ma)
       (ma_bids ma) (ma_asks ma) (ma_open_orders ma) (ma_authority ma) (ma_event_q ma)
       AUTHORITY_AMM nonce') groups w"

text \<open>The block \<^verbatim>\<open>if !orders.is_empty() { ... }\<close> of the swaps, the migration and the admin.\<close>

definition cancel_orders :: "env \<Rightarrow> market_accounts \<Rightarrow> u8 \<Rightarrow> leaf_node list \<Rightarrow> world \<Rightarrow> world res" where
  "cancel_orders env ma nonce' orders w =
     (if orders = [] then Ok w
      else rbind (batch_ids orders) (\<lambda>groups. cancel_groups env ma nonce' groups w))"

definition cancel_amm_orders_and_settle ::
  "env \<Rightarrow> market_accounts \<Rightarrow> account_info \<Rightarrow> account_info \<Rightarrow> account_info \<Rightarrow> account_info option \<Rightarrow>
   leaf_node list \<Rightarrow> leaf_node list \<Rightarrow> u8 \<Rightarrow> world \<Rightarrow> world res" where
  "cancel_amm_orders_and_settle env ma amm_coin_vault_ai amm_pc_vault_ai token_program referrer bids asks nonce' w =
     rbind (batch_both_ids bids asks) (\<lambda>groups.
     rbind (cancel_groups env ma nonce' groups w) (\<lambda>w.
     invoke_dex_settle_funds env (ma_program ma) (ma_market ma) (ma_open_orders ma) (ma_authority ma)
       (ma_coin_vault ma) (ma_pc_vault ma) amm_coin_vault_ai amm_pc_vault_ai (ma_vault_signer ma)
       token_program referrer AUTHORITY_AMM nonce' w))"

section \<open>The log of calls\<close>

text \<open>
  The contract of every invoker: when it returns, it has appended calls of a known kind to the
  log and left the borrows as they were.
\<close>

locale logged_step =
  fixes run :: "world \<Rightarrow> world res" and kind :: "cpi \<Rightarrow> bool"
  assumes logs: "run w = Ok w' \<Longrightarrow>
      \<exists>cs. calls w' = calls w @ cs \<and> list_all kind cs \<and> borrowed w' = borrowed w"
begin

lemma log_grows: "run w = Ok w' \<Longrightarrow> length (calls w) \<le> length (calls w')"
  using logs [of w w'] by auto

lemma log_prefix: "run w = Ok w' \<Longrightarrow> take (length (calls w)) (calls w') = calls w"
  using logs [of w w'] by auto

lemma keeps_borrows: "run w = Ok w' \<Longrightarrow> borrowed w' = borrowed w"
  using logs [of w w'] by auto

lemma followed_by:
  assumes "\<And>v v'. run2 v = Ok v' \<Longrightarrow> \<exists>cs. calls v' = calls v @ cs \<and> list_all kind cs \<and> borrowed v' = borrowed v"
    and "rbind (run w) run2 = Ok w'"
  shows "\<exists>cs. calls w' = calls w @ cs \<and> list_all kind cs \<and> borrowed w' = borrowed w"
proof -
  obtain v where v: "run w = Ok v" "run2 v = Ok w'" using assms(2) by (auto simp: outcome)
  then show ?thesis using logs [OF v(1)] assms(1) [OF v(2)] by auto
qed

end

lemma invoke_signed_Ok:
  assumes "invoke_signed env i infos seeds w = Ok w'"
  shows "calls w' = calls w @ [\<lparr>cpi_ix = i, cpi_infos = infos, cpi_seeds = seeds\<rparr>] \<and>
    borrowed w' = borrowed w \<and>
    env_invoke env \<lparr>cpi_ix = i, cpi_infos = infos, cpi_seeds = seeds\<rparr> (accts w) = Ok (accts w') \<and>
    env_build env i = Ok () \<and>
    (\<forall>k \<in> set (ix_keys i). k \<in> ai_key ` set infos \<longrightarrow> k \<notin> set (borrowed w))"
proof -
  have "\<not> list_ex (\<lambda>k. k \<in> ai_key ` set infos \<and> k \<in> set (borrowed w)) (ix_keys i)"
    using assms by (auto simp: invoke_signed_def outcome split: if_splits)
  then have "\<forall>k \<in> set (ix_keys i). k \<in> ai_key ` set infos \<longrightarrow> k \<notin> set (borrowed w)"
    by (auto simp: list_ex_iff)
  then show ?thesis
    using assms by (auto simp: invoke_signed_def outcome Let_def split: if_splits)
qed

definition dex_call :: "cpi \<Rightarrow> bool" where
  "dex_call c = (case cpi_ix c of DexCancelByClientIds _ _ \<Rightarrow> True | DexSettleFunds _ _ \<Rightarrow> True | _ \<Rightarrow> False)"

definition cancelled_ids :: "cpi \<Rightarrow> u64 list" where
  "cancelled_ids c = (case cpi_ix c of DexCancelByClientIds _ ids \<Rightarrow> ids | _ \<Rightarrow> [])"

interpretation settle: logged_step
  "invoke_dex_settle_funds env dp mkt oo ow cv pv cw pw vs tp r seed n" dex_call
  for env dp mkt oo ow cv pv cw pw vs tp r seed n
  by unfold_locales
    (auto simp: invoke_dex_settle_funds_def dex_call_def dest!: invoke_signed_Ok)

text \<open>A cancellation at a market, with the accounts of the market and of the pool's open orders.\<close>

definition market_cancel :: "market_accounts \<Rightarrow> cpi \<Rightarrow> bool" where
  "market_cancel ma c \<longleftrightarrow> cpi_ix c = DexCancelByClientIds (map ai_key [ma_program ma, ma_market ma, ma_bids ma,
     ma_asks ma, ma_open_orders ma, ma_authority ma, ma_event_q ma]) (cancelled_ids c)"

lemma market_cancels_are_dex_calls: "list_all (market_cancel ma) cs \<Longrightarrow> list_all dex_call cs"
  by (auto simp: list_all_iff market_cancel_def dex_call_def)

interpretation cancel: logged_step
  "invoke_dex_cancel_orders_by_client_order_ids env (ma_program ma) (ma_market ma) (ma_bids ma) (ma_asks ma)
     (ma_open_orders ma) (ma_authority ma) (ma_event_q ma) seed n ids" "market_cancel ma"
  for env ma seed n ids
  by unfold_locales
    (auto simp: invoke_dex_cancel_orders_by_client_order_ids_def Let_def market_cancel_def cancelled_ids_def
      dest!: invoke_signed_Ok)

lemma cancel_groups_calls:
  "cancel_groups env ma n groups w = Ok w' \<Longrightarrow>
     \<exists>cs. calls w' = calls w @ cs \<and> list_all (market_cancel ma) cs \<and> borrowed w' = borrowed w \<and>
       concat (map cancelled_ids cs) = concat groups"
proof (induction groups arbitrary: w)
  case Nil
  then show ?case by (auto simp: cancel_groups_def)
next
  case (Cons g gs)
  then obtain v where v: "invoke_dex_cancel_orders_by_client_order_ids env (ma_program ma) (ma_market ma)
       (ma_bids ma) (ma_asks ma) (ma_open_orders ma) (ma_authority ma) (ma_event_q ma)
       AUTHORITY_AMM n g w = Ok v" and r: "cancel_groups env ma n gs v = Ok w'"
    by (auto simp: cancel_groups_def outcome)
  obtain cs where cs: "calls w' = calls v @ cs" "list_all (market_cancel ma) cs" "borrowed w' = borrowed v"
      "concat (map cancelled_ids cs) = concat gs"
    using Cons.IH [OF r] by blast
  have "\<exists>c. calls v = calls w @ [c] \<and> market_cancel ma c \<and> borrowed v = borrowed w \<and> cancelled_ids c = g"
    using v by (auto simp: invoke_dex_cancel_orders_by_client_order_ids_def Let_def market_cancel_def
        cancelled_ids_def dest!: invoke_signed_Ok)
  then show ?case using cs by auto
qed

lemma cancel_orders_calls:
  assumes "cancel_orders env ma n orders w = Ok w'"
  shows "\<exists>cs k. calls w' = calls w @ cs \<and> list_all (market_cancel ma) cs \<and> borrowed w' = borrowed w \<and>
    concat (map cancelled_ids cs) = map leaf_client_order_id orders @ replicate k 0"
proof (cases "orders = []")
  case True
  then show ?thesis using assms by (intro exI [of _ "[]"] exI [of _ 0]) (simp add: cancel_orders_def)
next
  case False
  obtain gs k where gs: "(batch_ids orders :: u64 list list res) = Ok gs"
      "concat gs = map leaf_client_order_id orders @ replicate k 0"
    using batch_ids_spec by blast
  then have "cancel_groups env ma n gs w = Ok w'" using assms False by (simp add: cancel_orders_def)
  from cancel_groups_calls [OF this] show ?thesis using gs(2) by auto
qed

lemma token_transfer_signed_Ok:
  assumes "ai_key token_program \<noteq> env_spl_token_2022 env"
    and "token_transfer_signed env program_id token_program source destination authority seeds amount
      mint remaining w = Ok w'"
  shows "calls w' = calls w @
      [\<lparr>cpi_ix = SplTransfer (ai_key token_program) (ai_key source) (ai_key destination) (ai_key authority) amount,
        cpi_infos = [source, destination, authority, token_program], cpi_seeds = seeds\<rparr>] \<and>
    borrowed w' = borrowed w"
  using assms invoke_signed_Ok by (fastforce simp: token_transfer_signed_def)

section \<open>What a run has moved\<close>

text \<open>The token movements and the cancelled orders among a list of calls.\<close>

definition moved :: "cpi \<Rightarrow> (pubkey \<times> pubkey \<times> u64) list" where
  "moved c = (case cpi_ix c of
      SplTransfer _ s d _ n \<Rightarrow> [(s, d, n)]
    | Spl22TransferChecked _ s _ d _ n _ \<Rightarrow> [(s, d, n)]
    | _ \<Rightarrow> [])"

definition transfers :: "cpi list \<Rightarrow> (pubkey \<times> pubkey \<times> u64) list" where
  "transfers cs = concat (map moved cs)"

definition cancellations :: "cpi list \<Rightarrow> u64 list" where
  "cancellations cs = concat (map cancelled_ids cs)"

definition new_calls :: "world \<Rightarrow> world \<Rightarrow> cpi list" where
  "new_calls w w' = drop (length (calls w)) (calls w')"

lemma transfers_simps [simp]: "transfers [] = []" "transfers (c # cs) = moved c @ transfers cs"
  "transfers (cs @ ds) = transfers cs @ transfers ds"
  by (simp_all add: transfers_def)

lemma cancellations_simps [simp]: "cancellations [] = []" "cancellations (c # cs) = cancelled_ids c @ cancellations cs"
  "cancellations (cs @ ds) = cancellations cs @ cancellations ds"
  by (simp_all add: cancellations_def)

lemma new_calls_append: "calls w' = calls w @ cs \<Longrightarrow> new_calls w w' = cs"
  by (simp add: new_calls_def)

lemma dex_calls_move_nothing: "list_all dex_call cs \<Longrightarrow> transfers cs = []"
  by (induction cs) (auto simp: dex_call_def moved_def split: ix.splits)

text \<open>The LP tokens minted and burned among a list of calls: mint, account, amount.\<close>

definition minted :: "cpi list \<Rightarrow> (pubkey \<times> pubkey \<times> u64) list" where
  "minted cs = concat (map (\<lambda>c. case cpi_ix c of SplMintTo _ m d _ n \<Rightarrow> [(m, d, n)] | _ \<Rightarrow> []) cs)"

definition burned :: "cpi list \<Rightarrow> (pubkey \<times> pubkey \<times> u64) list" where
  "burned cs = concat (map (\<lambda>c. case cpi_ix c of SplBurn _ a m _ n \<Rightarrow> [(m, a, n)] | _ \<Rightarrow> []) cs)"

lemma token_transfer_Ok:
  assumes "ai_key tp \<noteq> env_spl_token_2022 env"
  shows "token_transfer env pid tp src dst own n m rest w = Ok w' \<Longrightarrow>
      \<exists>c. calls w' = calls w @ [c] \<and> borrowed w' = borrowed w \<and>
        cpi_ix c = SplTransfer (ai_key tp) (ai_key src) (ai_key dst) (ai_key own) n"
    and "token_transfer_with_authority env pid tp src dst own sd k n m rest w = Ok w' \<Longrightarrow>
      \<exists>c. calls w' = calls w @ [c] \<and> borrowed w' = borrowed w \<and>
        cpi_ix c = SplTransfer (ai_key tp) (ai_key src) (ai_key dst) (ai_key own) n"
  using token_transfer_signed_Ok [OF assms]
  by (fastforce simp: token_transfer_def token_transfer_with_authority_def)+

lemma new_calls_store [simp]: "new_calls w (store_target ai t w') = new_calls w w'"
  "new_calls w (store_amm ai2 a w') = new_calls w w'"
  "new_calls w (store_config ai3 cf w') = new_calls w w'"
  by (simp_all add: new_calls_def)

end
