(* ===== verification/Example.thy ===== *)
theory Example
  imports Invokers
begin

text \<open>
  A concrete environment and pool for the examples: the parameters of the model instantiated by
  functions small enough to evaluate. A token account is four bytes (mint, owner and a 16-bit
  amount), a mint is three (a 16-bit supply and the decimals), and the token program's transfer,
  burn and mint instructions move these amounts.
\<close>

unbundle bit_operations_syntax

definition demo_token :: "u8 \<Rightarrow> u8 \<Rightarrow> nat \<Rightarrow> account" where
  "demo_token mint owner amount =
     \<lparr>acc_owner = 1, acc_data = RawData [mint, owner, word_of_nat (amount mod 256), word_of_nat (amount div 256)]\<rparr>"

definition demo_mint :: "nat \<Rightarrow> u8 \<Rightarrow> account" where
  "demo_mint supply decimals =
     \<lparr>acc_owner = 1, acc_data = RawData [word_of_nat (supply mod 256), word_of_nat (supply div 256), decimals]\<rparr>"

definition demo_amount :: "account_data \<Rightarrow> nat" where
  "demo_amount d = (case d of RawData [_, _, lo, hi] \<Rightarrow> unat lo + 256 * unat hi | _ \<Rightarrow> 0)"

definition demo_unpack_token :: "account_data \<Rightarrow> token_account option" where
  "demo_unpack_token d = (case d of
      RawData [m, ow, lo, hi] \<Rightarrow>
        Some \<lparr>ta_mint = ucast m, ta_owner = ucast ow, ta_amount = of_nat (demo_amount d)\<rparr>
    | _ \<Rightarrow> None)"

definition demo_unpack_mint :: "account_data \<Rightarrow> mint_account option" where
  "demo_unpack_mint d = (case d of
      RawData [lo, hi, dec] \<Rightarrow>
        Some \<lparr>mint_supply = of_nat (unat lo + 256 * unat hi), mint_decimals = dec\<rparr>
    | _ \<Rightarrow> None)"

definition demo_set_amount :: "nat \<Rightarrow> account \<Rightarrow> account" where
  "demo_set_amount n a = (case acc_data a of
      RawData [m, ow, _, _] \<Rightarrow> a\<lparr>acc_data := RawData [m, ow, of_nat (n mod 256), of_nat (n div 256)]\<rparr>
    | _ \<Rightarrow> a)"

definition demo_transfer :: "pubkey \<Rightarrow> pubkey \<Rightarrow> nat \<Rightarrow> (pubkey \<Rightarrow> account) \<Rightarrow> (pubkey \<Rightarrow> account) res" where
  "demo_transfer s d n l =
     (if acc_owner (l s) \<noteq> 1 \<or> acc_owner (l d) \<noteq> 1 then Err (PE_Custom 4)
      else if demo_amount (acc_data (l s)) < n then Err (PE_Custom 1)
      else let l1 = l(s := demo_set_amount (demo_amount (acc_data (l s)) - n) (l s)) in
        Ok (l1(d := demo_set_amount (demo_amount (acc_data (l1 d)) + n) (l1 d))))"

definition demo_invoke :: "cpi \<Rightarrow> (pubkey \<Rightarrow> account) \<Rightarrow> (pubkey \<Rightarrow> account) res" where
  "demo_invoke c l = (case cpi_ix c of
      SplTransfer _ s d _ n \<Rightarrow> demo_transfer s d (unat n) l
    | SysCreateAccount f t n ow \<Rightarrow>
        if list_ex (\<lambda>ai. ai_key ai = t \<and> ai_is_signer ai) (cpi_infos c) \<and> acc_owner (l t) = 0 \<and> data_len (acc_data (l t)) = 0
        then Ok (l(t := \<lparr>acc_owner = ow, acc_data = RawData (replicate n 0)\<rparr>))
        else Err PE_MissingRequiredSignature
    | Spl22TransferChecked tp s _ _ _ _ _ \<Rightarrow>
        if acc_owner (l s) = tp then Ok l else Err (PE_Custom 4)
    | _ \<Rightarrow> Ok l)"

definition demo_env :: env where
  "demo_env =
     \<lparr>env_create_pda = \<lambda>seeds pid. Some 3,
      env_find_pda = \<lambda>seeds pid. (40, 255),
      env_clock = Ok \<lparr>clock_unix_timestamp = 1000, clock_epoch = 7\<rparr>,
      env_rent = Ok (), env_system_program = 0, env_rent_sysvar = 90, env_clock_sysvar = 91,
      env_spl_token = 1, env_spl_token_2022 = 2,
      env_unpack_token = demo_unpack_token, env_unpack_mint = demo_unpack_mint,
      env_mint22_decimals = \<lambda>_. Ok 6, env_mint22_space = \<lambda>_ _. Some 82,
      env_mint_hook = \<lambda>_. None, env_set_transferring = \<lambda>_ _. None, env_hook_data = \<lambda>_. [],
      env_tlv = \<lambda>_. TlvBad, env_default_meta = Err PE_InvalidArgument,
      env_meta_list_size = \<lambda>n. Ok (12 + 35 * n), env_meta_list_init = \<lambda>_ d. Ok d,
      env_resolve_meta = \<lambda>_ _ _ _. None,
      env_market = \<lambda>_ _ _ _. Err PE_InvalidAccountData,
      env_open_orders = \<lambda>_ _ _ _ _. Err PE_InvalidAccountData,
      env_slab = \<lambda>_ _ _ _. Err PE_InvalidAccountData,
      env_events = \<lambda>_ _ _. Err PE_InvalidAccountData,
      env_build = \<lambda>_. Ok (), env_invoke = demo_invoke\<rparr>"

text \<open>
  A pool of 2000 coin and 8000 pc without order book: the program is 5, the pool 10, its
  authority 3, its vaults 11 and 12, the user's coin, pc and LP accounts 20, 21 and 22.
\<close>

definition demo_amm :: amm_info where
  "demo_amm = zero_amm_info\<lparr>status := 6, nonce := 254, coin_vault := 11, pc_vault := 12,
     coin_vault_mint := 30, pc_vault_mint := 31, lp_mint := 13, target_orders := 14, amm_owner := 23,
     lp_amount := 4000, sys_decimal_value := 1, amm_fees := fees_initialize zero_fees\<rparr>"

definition demo_world :: world where
  "demo_world =
     \<lparr>accts = (\<lambda>_. \<lparr>acc_owner = 0, acc_data = RawData []\<rparr>)
        (10 := \<lparr>acc_owner = 5, acc_data = AmmData demo_amm\<rparr>,
         11 := demo_token 30 3 2000, 12 := demo_token 31 3 8000, 13 := demo_mint 4000 6,
         14 := \<lparr>acc_owner = 5, acc_data = TargetData (zero_target_orders\<lparr>t_owner := 10\<rparr>)\<rparr>,
         20 := demo_token 30 23 1000, 21 := demo_token 31 23 1000, 22 := demo_token 13 23 500),
      borrowed = [], calls = []\<rparr>"

text \<open>
  The same pool trading on a dex: market 50 of program 51, open orders 15 with one bid, client id
  77 at price 9.
\<close>

definition demo_open_orders :: open_orders_data where
  "demo_open_orders = \<lparr>oo_market = 50, oo_owner = 3, oo_native_coin_total = 0, oo_native_pc_total = 0,
     oo_free_slot_bits = - 2, oo_is_bid_bits = 1, oo_orders = replicate 128 5\<rparr>"

definition demo_slab :: slab where
  "demo_slab = \<lparr>slab_find = \<lambda>_. Some 0, slab_leaf = \<lambda>_. Some \<lparr>leaf_client_order_id = 77, leaf_price = 9\<rparr>\<rparr>"

definition demo_dex_env :: env where
  "demo_dex_env = demo_env\<lparr>env_market := \<lambda>_ _ _ _. Ok \<lparr>ms_coin_mint = 30, ms_pc_mint = 31\<rparr>,
     env_open_orders := \<lambda>_ _ _ _ _. Ok demo_open_orders,
     env_slab := \<lambda>_ _ _ _. Ok demo_slab, env_events := \<lambda>_ _ _. Ok []\<rparr>"

definition demo_dex_amm :: amm_info where
  "demo_dex_amm = demo_amm\<lparr>status := 1, open_orders := 15, market := 50, market_program := 51\<rparr>"

definition demo_dex_world :: world where
  "demo_dex_world = demo_world\<lparr>accts := (accts demo_world)(10 := \<lparr>acc_owner = 5, acc_data = AmmData demo_dex_amm\<rparr>)\<rparr>"

lemma fold_free_slots:
  "\<forall>i \<in> set is. bit (oo_free_slot_bits oo) i \<Longrightarrow>
     fold_outcome (collect_slot oo b a) is acc = (Ok acc :: ('e, leaf_node list \<times> leaf_node list) outcome)"
  by (induction "is") (auto simp: collect_slot_def Let_def split: prod.split)

lemma demo_orders:
  "get_amm_orders demo_open_orders demo_slab demo_slab =
     (Ok ([\<lparr>leaf_client_order_id = 77, leaf_price = 9\<rparr>], []) :: ('e, leaf_node list \<times> leaf_node list) outcome)"
proof -
  have "(- 2 :: u128) = NOT 1" using minus_eq_not_minus_1 [of "2 :: u128"] by simp
  then have bits: "bit (oo_free_slot_bits demo_open_orders) i \<longleftrightarrow> i \<noteq> 0" if "i < 128" for i
    using that by (simp add: demo_open_orders_def bit_not_iff bit_1_iff)
  have up: "[0..<128] = 0 # [1..<128]" by (simp add: upt_conv_Cons)
  have free: "fold_outcome (collect_slot demo_open_orders demo_slab demo_slab) [1..<128] acc =
      (Ok acc :: ('e, leaf_node list \<times> leaf_node list) outcome)" for acc
    by (rule fold_free_slots) (auto simp: bits)
  have "oo_free_slot_bits demo_open_orders \<noteq> - 1" by (simp add: demo_open_orders_def)
  moreover have "collect_slot demo_open_orders demo_slab demo_slab 0 ([], []) =
      (Ok ([\<lparr>leaf_client_order_id = 77, leaf_price = 9\<rparr>], []) :: ('e, leaf_node list \<times> leaf_node list) outcome)"
    by (simp add: collect_slot_def bits) (simp add: demo_open_orders_def demo_slab_def index_at_def lookup_order_def)
  ultimately show ?thesis
    unfolding get_amm_orders_def up fold_outcome.simps by (simp add: free [simplified])
qed

definition ro :: "pubkey \<Rightarrow> account_info" where
  "ro k = \<lparr>ai_key = k, ai_is_signer = False, ai_is_writable = False\<rparr>"

definition rw :: "pubkey \<Rightarrow> account_info" where
  "rw k = \<lparr>ai_key = k, ai_is_signer = False, ai_is_writable = True\<rparr>"

definition signer :: "pubkey \<Rightarrow> account_info" where
  "signer k = \<lparr>ai_key = k, ai_is_signer = True, ai_is_writable = True\<rparr>"

lemmas demo_defs = demo_env_def demo_amm_def demo_world_def ro_def rw_def signer_def demo_token_def
  demo_mint_def demo_amount_def demo_unpack_token_def demo_unpack_mint_def demo_set_amount_def
  demo_transfer_def demo_invoke_def

lemmas demo_dex_defs = demo_dex_env_def demo_dex_amm_def demo_dex_world_def

text \<open>The definitions a run without order book unfolds.\<close>

lemmas runtime_eval = Let_def amm_load_mut_checked_def amm_load_checked_def target_load_mut_checked_def
  owner_of_def account_of_def data_of_def borrow_data_def is_borrowed_def amm_view_def target_view_def
  config_view_def hold_def authority_id_def unpack_token_account_def unpack_mint_def invoke_signed_def
  authority_seeds_def store_amm_def store_target_def store_config_def set_data_def
  token_transfer_def token_transfer_with_authority_def token_transfer_signed_def

lemmas pool_eval = amm_status_from_u64_def calc_total_without_take_pnl_no_orderbook_def
  zero_amm_info_def zero_state_data_def zero_target_orders_def zero_amm_config_def fees_initialize_def
  zero_fees_def TEN_THOUSAND_def

lemmas arith_eval = checked_sub_def checked_mul_def checked_ceil_div_def checked_div_def checked_add_def
  checked_rem_def as_u64_def try_narrow_def

end
