(* ===== verification/Swap.thy ===== *)
theory Swap
  imports Example
begin

text \<open>
  \<^verbatim>\<open>process/swap.rs\<close>: the two swap handlers. Both read the same 19 accounts (a 20th, the target
  orders, may stand in fifth place and is skipped) and share their checks, so the common part
  is one group of definitions; the amounts and the effects are separate for each handler and
  direction. Logging is not modelled.
\<close>

definition SWAP_ACCOUNT_LEN :: nat where "SWAP_ACCOUNT_LEN = 19"

record swap_accounts =
  sa_token_program :: account_info
  sa_amm :: account_info
  sa_coin_vault :: account_info
  sa_pc_vault :: account_info
  sa_coin_mint :: account_info
  sa_pc_mint :: account_info
  sa_market :: market_accounts
  sa_user_source :: account_info
  sa_user_destination :: account_info
  sa_user_owner :: account_info

definition swap_accounts_of :: "account_info list \<Rightarrow> swap_accounts" where
  "swap_accounts_of accounts =
     (let a = (if length accounts = SWAP_ACCOUNT_LEN + 1 then take 4 accounts @ drop 5 accounts
               else accounts) in
      \<lparr>sa_token_program = a ! 0, sa_amm = a ! 1, sa_coin_vault = a ! 4, sa_pc_vault = a ! 5,
       sa_coin_mint = a ! 6, sa_pc_mint = a ! 7,
       sa_market = \<lparr>ma_program = a ! 8, ma_market = a ! 9, ma_bids = a ! 10, ma_asks = a ! 11,
         ma_event_q = a ! 12, ma_coin_vault = a ! 13, ma_pc_vault = a ! 14, ma_vault_signer = a ! 15,
         ma_open_orders = a ! 3, ma_authority = a ! 2\<rparr>,
       sa_user_source = a ! 16, sa_user_destination = a ! 17, sa_user_owner = a ! 18\<rparr>)"

text \<open>What the checks have read when the amounts are computed.\<close>

record swap_ctx =
  sc_accounts :: swap_accounts
  sc_amm :: amm_info
  sc_coin_vault :: token_account
  sc_pc_vault :: token_account
  sc_source :: token_account
  sc_destination :: token_account
  sc_orderbook :: bool
  sc_bids :: "leaf_node list"
  sc_asks :: "leaf_node list"
  sc_total_pc :: u64
  sc_total_coin :: u64
  sc_direction :: swap_direction

section \<open>The common checks\<close>

definition swap_check_keys :: "env \<Rightarrow> pubkey \<Rightarrow> swap_accounts \<Rightarrow> amm_info \<Rightarrow> unit res" where
  "swap_check_keys env program_id sa amm =
     (if \<not> ai_is_signer (sa_user_owner sa) then AmmErr InvalidSignAccount
      else if ai_key (sa_token_program sa) \<noteq> env_spl_token env then AmmErr InvalidSplTokenProgram
      else rbind (into_res (authority_id env program_id AUTHORITY_AMM (ucast (nonce amm)))) (\<lambda>authority.
        if ai_key (ma_authority (sa_market sa)) \<noteq> authority then AmmErr InvalidProgramAddress
        else if ai_key (sa_coin_vault sa) \<noteq> coin_vault amm then AmmErr InvalidCoinVault
        else if ai_key (sa_pc_vault sa) \<noteq> pc_vault amm then AmmErr InvalidPCVault
        else if ai_key (sa_user_source sa) = pc_vault amm \<or> ai_key (sa_user_source sa) = coin_vault amm
        then AmmErr InvalidUserToken
        else if ai_key (sa_user_destination sa) = pc_vault amm
             \<or> ai_key (sa_user_destination sa) = coin_vault amm
        then AmmErr InvalidUserToken
        else Ok ()))"

text \<open>The status after the time-based transitions, or \<open>InvalidStatus\<close>.\<close>

definition swap_status :: "env \<Rightarrow> amm_info \<Rightarrow> amm_info res" where
  "swap_status env amm =
     rbind (amm_status_from_u64 (status amm)) (\<lambda>st.
       if \<not> swap_permission st then
         rbind (env_clock env) (\<lambda>clk.
           if status amm = amm_status_into_u64 OrderBookOnly
              \<and> clock_unix_timestamp clk \<ge> orderbook_to_init_time (amm_state_data amm)
           then Ok (amm\<lparr>status := amm_status_into_u64 Initialized\<rparr>)
           else AmmErr InvalidStatus)
       else if status amm = amm_status_into_u64 WaitingTrade then
         rbind (env_clock env) (\<lambda>clk.
           if clock_unix_timestamp clk < pool_open_time (amm_state_data amm) then AmmErr InvalidStatus
           else Ok (amm\<lparr>status := amm_status_into_u64 SwapOnly\<rparr>))
       else Ok amm)"

text \<open>The pool's orders and totals, with and without the order book.\<close>

definition swap_totals ::
  "env \<Rightarrow> swap_accounts \<Rightarrow> amm_info \<Rightarrow> bool \<Rightarrow> token_account \<Rightarrow> token_account \<Rightarrow> world \<Rightarrow>
   (leaf_node list \<times> leaf_node list \<times> u64 \<times> u64) res" where
  "swap_totals env sa amm enable_orderbook coin_vault_acc pc_vault_acc w =
     (if enable_orderbook then
        let ma = sa_market sa in
        if ai_key (ma_open_orders ma) \<noteq> open_orders amm then AmmErr InvalidOpenOrders
        else if ai_key (ma_program ma) \<noteq> market_program amm then AmmErr InvalidMarketProgram
        else if ai_key (ma_market ma) \<noteq> market amm then AmmErr InvalidMarket
        else
          rbind (load_serum_market_order env (ma_market ma) (ma_open_orders ma) (ma_authority ma) amm False w)
            (\<lambda>(ms, oo).
          rbind (env_slab env Bid w (ai_key (ma_market ma)) (ai_key (ma_bids ma))) (\<lambda>bids_slab.
          rbind (env_slab env Ask w (ai_key (ma_market ma)) (ai_key (ma_asks ma))) (\<lambda>asks_slab.
          rbind (get_amm_orders oo bids_slab asks_slab) (\<lambda>(bids, asks).
          rbind (into_res (calc_total_without_take_pnl (ta_amount pc_vault_acc) (ta_amount coin_vault_acc) oo amm
                   (env_events env w (ai_key (ma_market ma)) (ai_key (ma_event_q ma)))
                   (ai_key (ma_open_orders ma)))) (\<lambda>(pc, coin).
          Ok (bids, asks, pc, coin))))))
      else
        rbind (into_res (calc_total_without_take_pnl_no_orderbook (ta_amount pc_vault_acc)
                 (ta_amount coin_vault_acc) amm)) (\<lambda>(pc, coin).
        Ok ([], [], pc, coin)))"

definition swap_direction_of ::
  "token_account \<Rightarrow> token_account \<Rightarrow> token_account \<Rightarrow> token_account \<Rightarrow> swap_direction res" where
  "swap_direction_of coin_vault_acc pc_vault_acc source destination =
     (if ta_mint source = ta_mint coin_vault_acc \<and> ta_mint destination = ta_mint pc_vault_acc
      then Ok Coin2PC
      else if ta_mint source = ta_mint pc_vault_acc \<and> ta_mint destination = ta_mint coin_vault_acc
      then Ok PC2Coin
      else AmmErr InvalidUserToken)"

definition swap_prepare :: "env \<Rightarrow> pubkey \<Rightarrow> account_info list \<Rightarrow> world \<Rightarrow> (swap_ctx \<times> world) res" where
  "swap_prepare env program_id accounts w =
     (if length accounts \<noteq> SWAP_ACCOUNT_LEN \<and> length accounts \<noteq> SWAP_ACCOUNT_LEN + 1
      then AmmErr WrongAccountsNumber
      else let sa = swap_accounts_of accounts; spl = ai_key (sa_token_program sa) in
        rbind (amm_load_mut_checked env program_id (sa_amm sa) w) (\<lambda>(amm, w).
        rbind (amm_status_from_u64 (status amm)) (\<lambda>st.
        rbind (swap_check_keys env program_id sa amm) (\<lambda>_.
        rbind (into_res (unpack_token_account env (sa_coin_vault sa) spl w)) (\<lambda>coin_vault_acc.
        rbind (into_res (unpack_token_account env (sa_pc_vault sa) spl w)) (\<lambda>pc_vault_acc.
        rbind (into_res (unpack_token_account env (sa_user_source sa) spl w)) (\<lambda>source.
        rbind (into_res (unpack_token_account env (sa_user_destination sa) spl w)) (\<lambda>destination.
        rbind (swap_status env amm) (\<lambda>amm.
        rbind (swap_totals env sa amm (orderbook_permission st) coin_vault_acc pc_vault_acc w)
          (\<lambda>(bids, asks, pc, coin).
        rbind (swap_direction_of coin_vault_acc pc_vault_acc source destination) (\<lambda>dir.
        Ok (\<lparr>sc_accounts = sa, sc_amm = amm, sc_coin_vault = coin_vault_acc,
             sc_pc_vault = pc_vault_acc, sc_source = source, sc_destination = destination,
             sc_orderbook = orderbook_permission st, sc_bids = bids, sc_asks = asks,
             sc_total_pc = pc, sc_total_coin = coin, sc_direction = dir\<rparr>, w))))))))))))"

section \<open>Moving the funds\<close>

definition sc_nonce :: "swap_ctx \<Rightarrow> u8" where
  "sc_nonce c = ucast (nonce (sc_amm c))"

text \<open>
  With the order book: cancel the pool's orders on the side being bought from, and settle when
  the vault does not hold the amount to pay out.
\<close>

definition swap_free_funds ::
  "env \<Rightarrow> swap_ctx \<Rightarrow> leaf_node list \<Rightarrow> bool \<Rightarrow> account_info \<Rightarrow> world \<Rightarrow> world res" where
  "swap_free_funds env c orders need_settle market_coin_vault w =
     (let sa = sc_accounts c; ma = sa_market sa in
      if sc_orderbook c then
        rbind (cancel_orders env ma (sc_nonce c) orders w) (\<lambda>w.
          if need_settle then
            invoke_dex_settle_funds env (ma_program ma) (ma_market ma) (ma_open_orders ma)
              (ma_authority ma) market_coin_vault (ma_pc_vault ma) (sa_coin_vault sa) (sa_pc_vault sa)
              (ma_vault_signer ma) (sa_token_program sa) (Some (sa_pc_vault sa)) AUTHORITY_AMM
              (sc_nonce c) w
          else Ok w)
      else Ok w)"

definition swap_deposit ::
  "env \<Rightarrow> pubkey \<Rightarrow> swap_ctx \<Rightarrow> account_info \<Rightarrow> account_info \<Rightarrow> u64 \<Rightarrow> world \<Rightarrow> world res" where
  "swap_deposit env program_id c vault mint amount w =
     (let sa = sc_accounts c in
      token_transfer env program_id (sa_token_program sa) (sa_user_source sa) vault (sa_user_owner sa)
        amount mint [] w)"

definition swap_withdraw ::
  "env \<Rightarrow> pubkey \<Rightarrow> swap_ctx \<Rightarrow> account_info \<Rightarrow> account_info \<Rightarrow> u64 \<Rightarrow> world \<Rightarrow> world res" where
  "swap_withdraw env program_id c vault mint amount w =
     (let sa = sc_accounts c in
      token_transfer_with_authority env program_id (sa_token_program sa) vault (sa_user_destination sa)
        (ma_authority (sa_market sa)) AUTHORITY_AMM (sc_nonce c) amount mint [] w)"

section \<open>Swap base in\<close>

text \<open>The fee and the amount out.\<close>

definition swap_base_in_amounts ::
  "fees \<Rightarrow> u64 \<Rightarrow> u64 \<Rightarrow> u64 \<Rightarrow> swap_direction \<Rightarrow> (u128 \<times> u64) res" where
  "swap_base_in_amounts f a total_pc total_coin dir =
     rbind (unwrap (checked_mul (ucast a :: u128) (ucast (swap_fee_numerator f)))) (\<lambda>m.
     rbind (unwrap (checked_ceil_div m (ucast (swap_fee_denominator f)))) (\<lambda>(swap_fee, _).
     rbind (unwrap (checked_sub (ucast a) swap_fee)) (\<lambda>swap_in_after_deduct_fee.
     rbind (swap_token_amount_base_in swap_in_after_deduct_fee (ucast total_pc) (ucast total_coin) dir) (\<lambda>out.
     rbind (as_u64 out) (\<lambda>swap_amount_out.
     Ok (swap_fee, swap_amount_out))))))"

definition swap_base_in_coin2pc ::
  "env \<Rightarrow> pubkey \<Rightarrow> swap_ctx \<Rightarrow> u64 \<Rightarrow> u64 \<Rightarrow> u128 \<Rightarrow> world \<Rightarrow> (amm_info \<times> world) res" where
  "swap_base_in_coin2pc env program_id c a out swap_fee w =
     (let sa = sc_accounts c; amm = sc_amm c; sd = amm_state_data amm in
      if out \<ge> sc_total_pc c then AmmErr InsufficientFunds
      else
        rbind (swap_free_funds env c (sc_bids c) (out > ta_amount (sc_pc_vault c))
                 (ma_coin_vault (sa_market sa)) w) (\<lambda>w.
        rbind (swap_deposit env program_id c (sa_coin_vault sa) (sa_coin_mint sa) a w) (\<lambda>w.
        rbind (swap_withdraw env program_id c (sa_pc_vault sa) (sa_pc_mint sa) out w) (\<lambda>w.
        rbind (unwrap (checked_add (swap_coin_in_amount sd) (ucast a))) (\<lambda>coin_in.
        rbind (unwrap (checked_add (swap_pc_out_amount sd) (ucast out))) (\<lambda>pc_out.
        rbind (as_u64 swap_fee) (\<lambda>fee.
        rbind (unwrap (checked_add (swap_acc_coin_fee sd) fee)) (\<lambda>acc_fee.
        Ok (amm\<lparr>amm_state_data := sd\<lparr>swap_coin_in_amount := coin_in, swap_pc_out_amount := pc_out,
              swap_acc_coin_fee := acc_fee\<rparr>\<rparr>, w)))))))))"

text \<open>In this branch the code deposits \<^verbatim>\<open>swap_amount_out\<close>, not \<^verbatim>\<open>swap.amount_in\<close>.\<close>

definition swap_base_in_pc2coin ::
  "env \<Rightarrow> pubkey \<Rightarrow> swap_ctx \<Rightarrow> u64 \<Rightarrow> u64 \<Rightarrow> u128 \<Rightarrow> world \<Rightarrow> (amm_info \<times> world) res" where
  "swap_base_in_pc2coin env program_id c a out swap_fee w =
     (let sa = sc_accounts c; amm = sc_amm c; sd = amm_state_data amm in
      if out \<ge> sc_total_coin c then AmmErr InsufficientFunds
      else
        rbind (swap_free_funds env c (sc_asks c) (out > ta_amount (sc_coin_vault c))
                 (ma_coin_vault (sa_market sa)) w) (\<lambda>w.
        rbind (swap_deposit env program_id c (sa_pc_vault sa) (sa_pc_mint sa) out w) (\<lambda>w.
        rbind (swap_withdraw env program_id c (sa_coin_vault sa) (sa_coin_mint sa) out w) (\<lambda>w.
        rbind (unwrap (checked_add (swap_pc_in_amount sd) (ucast a))) (\<lambda>pc_in.
        rbind (unwrap (checked_add (swap_coin_out_amount sd) (ucast out))) (\<lambda>coin_out.
        rbind (as_u64 swap_fee) (\<lambda>fee.
        rbind (unwrap (checked_add (swap_acc_pc_fee sd) fee)) (\<lambda>acc_fee.
        Ok (amm\<lparr>amm_state_data := sd\<lparr>swap_pc_in_amount := pc_in, swap_coin_out_amount := coin_out,
              swap_acc_pc_fee := acc_fee\<rparr>\<rparr>, w)))))))))"

definition process_swap_base_in ::
  "env \<Rightarrow> pubkey \<Rightarrow> account_info list \<Rightarrow> swap_base_in_instruction \<Rightarrow> world \<Rightarrow> world res" where
  "process_swap_base_in env program_id accounts swap w =
     rbind (swap_prepare env program_id accounts w) (\<lambda>(c, w).
       if ta_amount (sc_source c) < amount_in swap then AmmErr InsufficientFunds
       else
         rbind (swap_base_in_amounts (amm_fees (sc_amm c)) (amount_in swap) (sc_total_pc c)
                  (sc_total_coin c) (sc_direction c)) (\<lambda>(swap_fee, out).
           if out < minimum_amount_out swap then AmmErr ExceededSlippage
           else if out = 0 \<or> amount_in swap = 0 then AmmErr InvalidInput
           else
             rbind (case sc_direction c of
                      Coin2PC \<Rightarrow> swap_base_in_coin2pc env program_id c (amount_in swap) out swap_fee w
                    | PC2Coin \<Rightarrow> swap_base_in_pc2coin env program_id c (amount_in swap) out swap_fee w)
               (\<lambda>(amm, w).
             rbind (env_clock env) (\<lambda>clk.
             Ok (store_amm (sa_amm (sc_accounts c)) (amm\<lparr>recent_epoch := clock_epoch clk\<rparr>) w)))))"

section \<open>Swap base out\<close>

text \<open>The amount in with the fee added, and the fee.\<close>

definition swap_base_out_amounts ::
  "fees \<Rightarrow> u64 \<Rightarrow> u64 \<Rightarrow> u64 \<Rightarrow> swap_direction \<Rightarrow> (u64 \<times> u64) res" where
  "swap_base_out_amounts f out total_pc total_coin dir =
     rbind (swap_token_amount_base_out (ucast out) (ucast total_pc) (ucast total_coin) dir)
       (\<lambda>swap_in_before_add_fee.
     rbind (unwrap (checked_mul swap_in_before_add_fee (ucast (swap_fee_denominator f)))) (\<lambda>m.
     rbind (unwrap (checked_sub (swap_fee_denominator f) (swap_fee_numerator f))) (\<lambda>d.
     rbind (unwrap (checked_ceil_div m (ucast d))) (\<lambda>(q, _).
     rbind (as_u64 q) (\<lambda>swap_in_after_add_fee.
     rbind (as_u64 swap_in_before_add_fee) (\<lambda>before.
     rbind (unwrap (checked_sub swap_in_after_add_fee before)) (\<lambda>swap_fee.
     Ok (swap_in_after_add_fee, swap_fee))))))))"

definition swap_base_out_coin2pc ::
  "env \<Rightarrow> pubkey \<Rightarrow> swap_ctx \<Rightarrow> u64 \<Rightarrow> u64 \<Rightarrow> u64 \<Rightarrow> world \<Rightarrow> (amm_info \<times> world) res" where
  "swap_base_out_coin2pc env program_id c out paid_in swap_fee w =
     (let sa = sc_accounts c; amm = sc_amm c; sd = amm_state_data amm in
      if out \<ge> sc_total_pc c then AmmErr InsufficientFunds
      else
        rbind (swap_free_funds env c (sc_bids c) (out > ta_amount (sc_pc_vault c))
                 (ma_coin_vault (sa_market sa)) w) (\<lambda>w.
        rbind (swap_deposit env program_id c (sa_coin_vault sa) (sa_coin_mint sa) paid_in w) (\<lambda>w.
        rbind (swap_withdraw env program_id c (sa_pc_vault sa) (sa_pc_mint sa) out w) (\<lambda>w.
        rbind (unwrap (checked_add (swap_coin_in_amount sd) (ucast paid_in))) (\<lambda>coin_in.
        rbind (into_res (to_u128 out)) (\<lambda>out128.
        rbind (unwrap (checked_add (swap_pc_out_amount sd) out128)) (\<lambda>pc_out.
        rbind (unwrap (checked_add (swap_acc_coin_fee sd) swap_fee)) (\<lambda>acc_fee.
        Ok (amm\<lparr>amm_state_data := sd\<lparr>swap_coin_in_amount := coin_in, swap_pc_out_amount := pc_out,
              swap_acc_coin_fee := acc_fee\<rparr>\<rparr>, w)))))))))"

text \<open>In this branch the code passes the asks account as the market's coin vault.\<close>

definition swap_base_out_pc2coin ::
  "env \<Rightarrow> pubkey \<Rightarrow> swap_ctx \<Rightarrow> u64 \<Rightarrow> u64 \<Rightarrow> u64 \<Rightarrow> world \<Rightarrow> (amm_info \<times> world) res" where
  "swap_base_out_pc2coin env program_id c out paid_in swap_fee w =
     (let sa = sc_accounts c; amm = sc_amm c; sd = amm_state_data amm in
      if out \<ge> sc_total_coin c then AmmErr InsufficientFunds
      else
        rbind (swap_free_funds env c (sc_asks c) (out > ta_amount (sc_coin_vault c))
                 (ma_asks (sa_market sa)) w) (\<lambda>w.
        rbind (swap_deposit env program_id c (sa_pc_vault sa) (sa_pc_mint sa) paid_in w) (\<lambda>w.
        rbind (swap_withdraw env program_id c (sa_coin_vault sa) (sa_coin_mint sa) out w) (\<lambda>w.
        rbind (unwrap (checked_add (swap_pc_in_amount sd) (ucast paid_in))) (\<lambda>pc_in.
        rbind (unwrap (checked_add (swap_coin_out_amount sd) (ucast out))) (\<lambda>coin_out.
        rbind (unwrap (checked_add (swap_acc_pc_fee sd) swap_fee)) (\<lambda>acc_fee.
        Ok (amm\<lparr>amm_state_data := sd\<lparr>swap_pc_in_amount := pc_in, swap_coin_out_amount := coin_out,
              swap_acc_pc_fee := acc_fee\<rparr>\<rparr>, w))))))))"

definition process_swap_base_out ::
  "env \<Rightarrow> pubkey \<Rightarrow> account_info list \<Rightarrow> swap_base_out_instruction \<Rightarrow> world \<Rightarrow> world res" where
  "process_swap_base_out env program_id accounts swap w =
     rbind (swap_prepare env program_id accounts w) (\<lambda>(c, w).
     rbind (swap_base_out_amounts (amm_fees (sc_amm c)) (amount_out swap) (sc_total_pc c)
              (sc_total_coin c) (sc_direction c)) (\<lambda>(paid_in, swap_fee).
       if ta_amount (sc_source c) < paid_in then AmmErr InsufficientFunds
       else if max_amount_in swap < paid_in then AmmErr ExceededSlippage
       else if paid_in = 0 \<or> amount_out swap = 0 then AmmErr InvalidInput
       else
         rbind (case sc_direction c of
                  Coin2PC \<Rightarrow> swap_base_out_coin2pc env program_id c (amount_out swap) paid_in swap_fee w
                | PC2Coin \<Rightarrow> swap_base_out_pc2coin env program_id c (amount_out swap) paid_in swap_fee w)
           (\<lambda>(amm, w).
         rbind (env_clock env) (\<lambda>clk.
         Ok (store_amm (sa_amm (sc_accounts c)) (amm\<lparr>recent_epoch := clock_epoch clk\<rparr>) w)))))"

section \<open>What the common checks establish\<close>

lemma swap_check_keys_Ok:
  "swap_check_keys env pid sa amm = Ok u \<longleftrightarrow>
     ai_is_signer (sa_user_owner sa) \<and> ai_key (sa_token_program sa) = env_spl_token env \<and>
     env_create_pda env [AUTHORITY_AMM, [ucast (nonce amm)]] pid = Some (ai_key (ma_authority (sa_market sa))) \<and>
     ai_key (sa_coin_vault sa) = coin_vault amm \<and> ai_key (sa_pc_vault sa) = pc_vault amm \<and>
     ai_key (sa_user_source sa) \<notin> {pc_vault amm, coin_vault amm} \<and>
     ai_key (sa_user_destination sa) \<notin> {pc_vault amm, coin_vault amm}"
  by (auto simp: swap_check_keys_def outcome into_res_def authority_id_def split: if_splits)

lemma swap_status_keeps: "swap_status env amm = Ok amm' \<Longrightarrow> amm' = amm\<lparr>status := status amm'\<rparr>"
  by (auto simp: swap_status_def outcome split: if_splits)

lemma swap_check_keys_status [simp]: "swap_check_keys env pid sa (amm\<lparr>status := s\<rparr>) = swap_check_keys env pid sa amm"
  by (simp add: swap_check_keys_def)

lemma swap_prepare_Ok:
  assumes "swap_prepare env pid accs w = Ok (c, w1)"
  shows "sc_accounts c = swap_accounts_of accs \<and> length accs \<in> {19, 20} \<and>
    calls w1 = calls w \<and> w1 = hold (sa_amm (sc_accounts c)) w \<and>
    owner_of w (sa_amm (sc_accounts c)) = pid \<and>
    swap_check_keys env pid (sc_accounts c) (sc_amm c) = Ok () \<and>
    swap_status env (amm_view (data_of w (sa_amm (sc_accounts c)))) = Ok (sc_amm c) \<and>
    (sc_orderbook c \<or> sc_bids c = [] \<and> sc_asks c = [])"
proof -
  let ?sa = "swap_accounts_of accs"
  have len: "length accs = SWAP_ACCOUNT_LEN \<or> length accs = SWAP_ACCOUNT_LEN + 1"
    using assms by (auto simp: swap_prepare_def split: if_splits)
  from assms obtain amm st amm' bids asks pc coin cv pv src dst dir where
    s: "amm_load_mut_checked env pid (sa_amm ?sa) w = Ok (amm, w1)"
    "amm_status_from_u64 (status amm) = (Ok st :: amm_status res)"
    "swap_check_keys env pid ?sa amm = Ok ()"
    "swap_status env amm = Ok amm'"
    "swap_totals env ?sa amm' (orderbook_permission st) cv pv w1 = Ok (bids, asks, pc, coin)"
    "c = \<lparr>sc_accounts = ?sa, sc_amm = amm', sc_coin_vault = cv, sc_pc_vault = pv, sc_source = src,
      sc_destination = dst, sc_orderbook = orderbook_permission st, sc_bids = bids, sc_asks = asks,
      sc_total_pc = pc, sc_total_coin = coin, sc_direction = dir\<rparr>"
    by (auto simp: swap_prepare_def outcome Let_def split: if_splits prod.splits)
  have chk: "swap_check_keys env pid ?sa amm' = Ok ()"
    by (subst swap_status_keeps [OF s(4)]) (simp add: s(3))
  have "orderbook_permission st \<or> bids = [] \<and> asks = []"
    using s(5) by (cases "orderbook_permission st") (auto simp: swap_totals_def outcome split: prod.splits)
  moreover have "length accs \<in> {19, 20}" using len by (simp add: SWAP_ACCOUNT_LEN_def)
  ultimately show ?thesis using s(1,4,6) chk by (auto simp: amm_load_mut_Ok)
qed

lemma swap_free_funds_calls:
  assumes "swap_free_funds env c orders b mcv w = Ok w'"
  shows "\<exists>cs k. calls w' = calls w @ cs \<and> transfers cs = [] \<and>
    cancellations cs = (if sc_orderbook c then map leaf_client_order_id orders @ replicate k 0 else [])"
proof (cases "sc_orderbook c")
  case False
  then show ?thesis using assms by (intro exI [of _ "[]"]) (simp add: swap_free_funds_def)
next
  case True
  let ?ma = "sa_market (sc_accounts c)"
  from assms True obtain v where v: "cancel_orders env ?ma (sc_nonce c) orders w = Ok v"
    and r: "(if b then invoke_dex_settle_funds env (ma_program ?ma) (ma_market ?ma) (ma_open_orders ?ma)
              (ma_authority ?ma) mcv (ma_pc_vault ?ma) (sa_coin_vault (sc_accounts c)) (sa_pc_vault (sc_accounts c))
              (ma_vault_signer ?ma) (sa_token_program (sc_accounts c)) (Some (sa_pc_vault (sc_accounts c))) AUTHORITY_AMM
              (sc_nonce c) v else Ok v) = Ok w'"
    by (auto simp: swap_free_funds_def outcome Let_def)
  obtain cs k where cs: "calls v = calls w @ cs" "list_all dex_call cs"
      "concat (map cancelled_ids cs) = map leaf_client_order_id orders @ replicate k 0"
    using cancel_orders_calls [OF v] market_cancels_are_dex_calls by blast
  obtain ds where ds: "calls w' = calls v @ ds" "transfers ds = []" "cancellations ds = []"
    using r by (auto simp: invoke_dex_settle_funds_def cancelled_ids_def moved_def split: if_splits dest!: invoke_signed_Ok)
  show ?thesis
    by (intro exI [of _ "cs @ ds"] exI [of _ k])
      (use cs ds True dex_calls_move_nothing [OF cs(2)] in \<open>simp add: cancellations_def\<close>)
qed

lemma swap_transfer_calls:
  assumes "ai_key (sa_token_program (sc_accounts c)) \<noteq> env_spl_token_2022 env"
  shows "swap_deposit env pid c vault mint n w = Ok w' \<Longrightarrow> \<exists>cs. calls w' = calls w @ cs \<and>
      transfers cs = [(ai_key (sa_user_source (sc_accounts c)), ai_key vault, n)] \<and> cancellations cs = []"
    and "swap_withdraw env pid c vault mint n w = Ok w' \<Longrightarrow> \<exists>cs. calls w' = calls w @ cs \<and>
      transfers cs = [(ai_key vault, ai_key (sa_user_destination (sc_accounts c)), n)] \<and> cancellations cs = []"
  using assms
  by (auto simp: Let_def swap_deposit_def swap_withdraw_def token_transfer_def token_transfer_with_authority_def
      moved_def cancelled_ids_def dest!: token_transfer_signed_Ok)


section \<open>Amounts\<close>

lemma swap_base_in_amounts_Ok:
  assumes "swap_base_in_amounts f a pc coin d = Ok (fee, out)"
  shows "unat fee = ceil_div_spec (unat a * unat (swap_fee_numerator f)) (unat (swap_fee_denominator f)) \<and>
    unat fee \<le> unat a \<and>
    unat out = unat (reserve_out d pc coin) * (unat a - unat fee) div
      (unat (reserve_in d pc coin) + (unat a - unat fee)) \<and>
    unat pc * unat coin \<le> (unat (reserve_in d pc coin) + unat a) * (unat (reserve_out d pc coin) - unat out)"
proof -
  from assms obtain m r x y where m: "checked_mul (ucast a :: u128) (ucast (swap_fee_numerator f)) = Some m"
    and q: "checked_ceil_div m (ucast (swap_fee_denominator f)) = Some (fee, r)"
    and x: "checked_sub (ucast a) fee = Some x"
    and y: "(swap_token_amount_base_in x (ucast pc) (ucast coin) d :: u128 res) = Ok y"
    and out: "try_narrow y = Some out"
    by (auto simp: swap_base_in_amounts_def as_u64_def outcome split: prod.splits)
  have t: "base_in_trade d (ucast (reserve_in d pc coin)) (ucast (reserve_out d pc coin)) x y"
    using y base_in_trade_iff [of d "ucast pc" "ucast coin" x y] by (simp add: reserve_ucast)
  have xv: "unat fee \<le> unat a \<and> unat x = unat a - unat fee"
    using x by (auto simp: checked_sub_Some_iff)
  have "unat m = unat a * unat (swap_fee_numerator f)" using m by (simp add: checked_mul_Some_iff)
  then have "unat fee = ceil_div_spec (unat a * unat (swap_fee_numerator f)) (unat (swap_fee_denominator f))"
    using checked_ceil_div_spec [OF q] by simp
  moreover have o: "unat out = unat y" using out by (simp add: try_narrow_Some_iff)
  moreover have "unat pc * unat coin = unat (reserve_in d pc coin) * unat (reserve_out d pc coin)"
    by (cases d) (simp_all add: reserve_defs)
  ultimately show ?thesis
    using xv base_in_trade_value [OF t] base_in.trade_product_fee [OF t, of "unat fee"] by simp
qed

lemma swap_base_out_amounts_Ok:
  assumes "swap_base_out_amounts f out pc coin d = Ok (paid_in, fee)" "paid_in \<noteq> 0"
  shows "\<exists>before. unat before = ceil_div_spec (unat (reserve_in d pc coin) * unat out)
      (unat (reserve_out d pc coin) - unat out) \<and>
    unat paid_in = ceil_div_spec (unat (before :: u64) * unat (swap_fee_denominator f))
      (unat (swap_fee_denominator f) - unat (swap_fee_numerator f)) \<and>
    unat paid_in = unat before + unat fee \<and> unat out < unat (reserve_out d pc coin) \<and>
    unat pc * unat coin \<le> (unat (reserve_in d pc coin) + unat paid_in) * (unat (reserve_out d pc coin) - unat out)"
proof -
  from assms(1) obtain y m dd q r before where
    y: "(swap_token_amount_base_out (ucast out) (ucast pc) (ucast coin) d :: u128 res) = Ok y"
    and m: "checked_mul y (ucast (swap_fee_denominator f)) = Some m"
    and dd: "checked_sub (swap_fee_denominator f) (swap_fee_numerator f) = Some dd"
    and q: "checked_ceil_div m (ucast dd) = Some (q, r)"
    and p: "try_narrow q = Some paid_in" and b: "try_narrow y = Some before"
    and f: "checked_sub paid_in before = Some fee"
    by (auto simp: swap_base_out_amounts_def as_u64_def outcome split: prod.splits)
  have bv: "unat before = unat y" and pv: "unat paid_in = unat q"
    using b p by (simp_all add: try_narrow_Some_iff)
  have dv: "unat dd = unat (swap_fee_denominator f) - unat (swap_fee_numerator f)"
    using dd by (simp add: checked_sub_Some_iff)
  have mv: "unat m = unat y * unat (swap_fee_denominator f)" using m by (simp add: checked_mul_Some_iff)
  have qv: "unat dd \<noteq> 0 \<and> unat q = ceil_div_spec (unat m) (unat dd)"
    using checked_ceil_div_spec [OF q] by simp
  have "y \<noteq> 0"
  proof
    assume "y = 0"
    then have "unat q = 0" using qv mv ceil_div_spec_eq_0 [of "unat dd" 0] by simp
    then show False using assms(2) pv by simp
  qed
  then have t: "base_out_trade d (ucast (reserve_in d pc coin)) (ucast (reserve_out d pc coin)) y (ucast out)"
    using y base_out_trade_iff [of d "ucast pc" "ucast coin" y "ucast out"] by (simp add: reserve_ucast)
  have "unat pc * unat coin = unat (reserve_in d pc coin) * unat (reserve_out d pc coin)"
    by (cases d) (simp_all add: reserve_defs)
  moreover have "unat paid_in = unat before + unat fee" using f by (auto simp: checked_sub_Some_iff)
  ultimately show ?thesis
    using base_out_trade_value [OF t] base_out.trade_product_fee [OF t, of "unat fee"] bv pv qv mv dv
    by (intro exI [of _ before]) (simp add: add.assoc)
qed

section \<open>Properties of the swaps\<close>

definition swap_orders :: "swap_ctx \<Rightarrow> leaf_node list" where
  "swap_orders c = (case sc_direction c of Coin2PC \<Rightarrow> sc_bids c | PC2Coin \<Rightarrow> sc_asks c)"

text \<open>The payment, then the payout: two transfers, after the orders on the other side are cancelled.\<close>

definition swap_moves :: "swap_ctx \<Rightarrow> u64 \<Rightarrow> u64 \<Rightarrow> (pubkey \<times> pubkey \<times> u64) list" where
  "swap_moves c pay out =
     (let sa = sc_accounts c; cv = ai_key (sa_coin_vault sa); pv = ai_key (sa_pc_vault sa) in
      [(ai_key (sa_user_source sa), reserve_in (sc_direction c) pv cv, pay),
       (reserve_out (sc_direction c) pv cv, ai_key (sa_user_destination sa), out)])"

definition swap_effect :: "swap_ctx \<Rightarrow> u64 \<Rightarrow> u64 \<Rightarrow> cpi list \<Rightarrow> bool" where
  "swap_effect c pay out cs \<longleftrightarrow>
     transfers cs = swap_moves c pay out \<and>
     (\<exists>k. cancellations cs =
        (if sc_orderbook c then map leaf_client_order_id (swap_orders c) @ replicate k 0 else []))"

lemma swap_run_calls:
  assumes "ai_key (sa_token_program (sc_accounts c)) \<noteq> env_spl_token_2022 env"
    and "swap_free_funds env c (swap_orders c) b mcv w = Ok w1"
    and "swap_deposit env pid c v m pay w1 = Ok w2" "swap_withdraw env pid c v' m' out w2 = Ok w3"
    and "v = reserve_in (sc_direction c) (sa_pc_vault (sc_accounts c)) (sa_coin_vault (sc_accounts c))"
    and "v' = reserve_out (sc_direction c) (sa_pc_vault (sc_accounts c)) (sa_coin_vault (sc_accounts c))"
  shows "swap_effect c pay out (new_calls w w3)"
proof -
  obtain as k where a: "calls w1 = calls w @ as" "transfers as = []"
      "cancellations as = (if sc_orderbook c then map leaf_client_order_id (swap_orders c) @ replicate k 0 else [])"
    using swap_free_funds_calls [OF assms(2)] by blast
  obtain bs where b: "calls w2 = calls w1 @ bs" "cancellations bs = []"
      "transfers bs = [(ai_key (sa_user_source (sc_accounts c)), ai_key v, pay)]"
    using swap_transfer_calls(1) [OF assms(1,3)] by blast
  obtain ds where d: "calls w3 = calls w2 @ ds" "cancellations ds = []"
      "transfers ds = [(ai_key v', ai_key (sa_user_destination (sc_accounts c)), out)]"
    using swap_transfer_calls(2) [OF assms(1,4)] by blast
  have "new_calls w w3 = as @ bs @ ds" using a(1) b(1) d(1) by (simp add: new_calls_append)
  then show ?thesis using a b d assms(5,6)
    by (cases "sc_direction c")
      (auto simp: swap_effect_def swap_moves_def Let_def reserve_defs)
qed

text \<open>The counters of a direction after a swap.\<close>

definition swap_counters :: "swap_direction \<Rightarrow> u64 \<Rightarrow> u64 \<Rightarrow> u64 \<Rightarrow> state_data \<Rightarrow> state_data" where
  "swap_counters d a out fee sd =
     (case d of
        Coin2PC \<Rightarrow> sd\<lparr>swap_coin_in_amount := swap_coin_in_amount sd + ucast a,
           swap_pc_out_amount := swap_pc_out_amount sd + ucast out,
           swap_acc_coin_fee := swap_acc_coin_fee sd + fee\<rparr>
      | PC2Coin \<Rightarrow> sd\<lparr>swap_pc_in_amount := swap_pc_in_amount sd + ucast a,
           swap_coin_out_amount := swap_coin_out_amount sd + ucast out,
           swap_acc_pc_fee := swap_acc_pc_fee sd + fee\<rparr>)"

text \<open>The same without wrap-around.\<close>

definition swap_counted :: "swap_direction \<Rightarrow> u64 \<Rightarrow> u64 \<Rightarrow> nat \<Rightarrow> state_data \<Rightarrow> state_data \<Rightarrow> bool" where
  "swap_counted d a out fee sd sd' \<longleftrightarrow>
     (\<exists>fee64. unat fee64 = fee \<and> sd' = swap_counters d a out fee64 sd) \<and>
     (case d of
        Coin2PC \<Rightarrow> unat (swap_coin_in_amount sd') = unat (swap_coin_in_amount sd) + unat a \<and>
           unat (swap_pc_out_amount sd') = unat (swap_pc_out_amount sd) + unat out \<and>
           unat (swap_acc_coin_fee sd') = unat (swap_acc_coin_fee sd) + fee
      | PC2Coin \<Rightarrow> unat (swap_pc_in_amount sd') = unat (swap_pc_in_amount sd) + unat a \<and>
           unat (swap_coin_out_amount sd') = unat (swap_coin_out_amount sd) + unat out \<and>
           unat (swap_acc_pc_fee sd') = unat (swap_acc_pc_fee sd) + fee)"

lemma swap_base_in_coin2pc_Ok:
  assumes "swap_base_in_coin2pc env pid c a out fee w = Ok (amm', w')" "sc_direction c = Coin2PC"
    and "ai_key (sa_token_program (sc_accounts c)) \<noteq> env_spl_token_2022 env"
  shows "out < sc_total_pc c \<and> swap_effect c a out (new_calls w w') \<and>
    (\<exists>sd. amm' = (sc_amm c)\<lparr>amm_state_data := sd\<rparr> \<and>
       swap_counted Coin2PC a out (unat fee) (amm_state_data (sc_amm c)) sd)"
  using assms swap_run_calls [OF assms(3), of "out > ta_amount (sc_pc_vault c)" "ma_coin_vault (sa_market (sc_accounts c))" w]
  by (auto simp: swap_base_in_coin2pc_def Let_def outcome swap_orders_def reserve_defs swap_counters_def as_u64_def
      swap_counted_def try_narrow_Some_iff dest!: checked_add_value)

lemma swap_base_in_pc2coin_Ok:
  assumes "swap_base_in_pc2coin env pid c a out fee w = Ok (amm', w')" "sc_direction c = PC2Coin"
    and "ai_key (sa_token_program (sc_accounts c)) \<noteq> env_spl_token_2022 env"
  shows "out < sc_total_coin c \<and> swap_effect c out out (new_calls w w') \<and>
    (\<exists>sd. amm' = (sc_amm c)\<lparr>amm_state_data := sd\<rparr> \<and>
       swap_counted PC2Coin a out (unat fee) (amm_state_data (sc_amm c)) sd)"
  using assms swap_run_calls [OF assms(3), of "out > ta_amount (sc_coin_vault c)" "ma_coin_vault (sa_market (sc_accounts c))" w]
  by (auto simp: swap_base_in_pc2coin_def Let_def outcome swap_orders_def reserve_defs swap_counters_def as_u64_def
      swap_counted_def try_narrow_Some_iff dest!: checked_add_value)

lemma swap_base_out_coin2pc_Ok:
  assumes "swap_base_out_coin2pc env pid c out pay fee w = Ok (amm', w')" "sc_direction c = Coin2PC"
    and "ai_key (sa_token_program (sc_accounts c)) \<noteq> env_spl_token_2022 env"
  shows "out < sc_total_pc c \<and> swap_effect c pay out (new_calls w w') \<and>
    (\<exists>sd. amm' = (sc_amm c)\<lparr>amm_state_data := sd\<rparr> \<and>
       swap_counted Coin2PC pay out (unat fee) (amm_state_data (sc_amm c)) sd)"
  using assms swap_run_calls [OF assms(3), of "out > ta_amount (sc_pc_vault c)" "ma_coin_vault (sa_market (sc_accounts c))" w]
  by (auto simp: swap_base_out_coin2pc_def Let_def outcome swap_orders_def reserve_defs swap_counters_def to_u128_def
      swap_counted_def dest!: checked_add_value)

lemma swap_base_out_pc2coin_Ok:
  assumes "swap_base_out_pc2coin env pid c out pay fee w = Ok (amm', w')" "sc_direction c = PC2Coin"
    and "ai_key (sa_token_program (sc_accounts c)) \<noteq> env_spl_token_2022 env"
  shows "out < sc_total_coin c \<and> swap_effect c pay out (new_calls w w') \<and>
    (\<exists>sd. amm' = (sc_amm c)\<lparr>amm_state_data := sd\<rparr> \<and>
       swap_counted PC2Coin pay out (unat fee) (amm_state_data (sc_amm c)) sd)"
  using assms swap_run_calls [OF assms(3), of "out > ta_amount (sc_coin_vault c)" "ma_asks (sa_market (sc_accounts c))" w]
  by (auto simp: swap_base_out_pc2coin_def Let_def outcome swap_orders_def reserve_defs swap_counters_def
      swap_counted_def dest!: checked_add_value)

text \<open>The pool record a swap leaves in the pool's account.\<close>

definition pool_after :: "env \<Rightarrow> swap_ctx \<Rightarrow> (state_data \<Rightarrow> bool) \<Rightarrow> world \<Rightarrow> bool" where
  "pool_after env c P w' \<longleftrightarrow>
     (\<exists>sd clk. env_clock env = Ok clk \<and> P sd \<and>
        data_of w' (sa_amm (sc_accounts c)) =
          AmmData ((sc_amm c)\<lparr>amm_state_data := sd, recent_epoch := clock_epoch clk\<rparr>))"

text \<open>
  What the swap handlers promise. \<open>pay\<close> and \<open>out\<close> are the amounts moved, \<open>counted\<close> is the amount in
  that is counted.
\<close>

definition swap_promise :: "env \<Rightarrow> swap_ctx \<Rightarrow> u64 \<Rightarrow> u64 \<Rightarrow> u64 \<Rightarrow> nat \<Rightarrow> world \<Rightarrow> world \<Rightarrow> bool" where
  "swap_promise env c pay out counted fee w w' \<longleftrightarrow>
     unat out < unat (reserve_out (sc_direction c) (sc_total_pc c) (sc_total_coin c)) \<and>
     swap_effect c pay out (new_calls w w') \<and>
     pool_after env c (swap_counted (sc_direction c) counted out fee (amm_state_data (sc_amm c))) w'"

lemma swap_token_program:
  assumes "swap_prepare env pid accs w = Ok (c, w1)" "env_spl_token env \<noteq> env_spl_token_2022 env"
  shows "ai_key (sa_token_program (sc_accounts c)) \<noteq> env_spl_token_2022 env \<and> new_calls w1 w' = new_calls w w'"
  using swap_prepare_Ok [OF assms(1)] assms(2) by (auto simp: swap_check_keys_Ok new_calls_def)

lemma process_swap_base_in_Ok:
  assumes "process_swap_base_in env pid accs s w = Ok w'" "swap_prepare env pid accs w = Ok (c, w1)"
    and "env_spl_token env \<noteq> env_spl_token_2022 env"
  shows "\<exists>fee out. swap_base_in_amounts (amm_fees (sc_amm c)) (amount_in s) (sc_total_pc c) (sc_total_coin c)
      (sc_direction c) = Ok (fee, out) \<and>
    minimum_amount_out s \<le> out \<and> out \<noteq> 0 \<and> amount_in s \<noteq> 0 \<and> amount_in s \<le> ta_amount (sc_source c) \<and>
    swap_promise env c (case sc_direction c of Coin2PC \<Rightarrow> amount_in s | PC2Coin \<Rightarrow> out) out (amount_in s)
      (unat fee) w w'"
proof -
  note tp = swap_token_program [OF assms(2,3)]
  from assms(1,2) obtain fee out amm w2 clk where
    q: "amount_in s \<le> ta_amount (sc_source c)"
    "swap_base_in_amounts (amm_fees (sc_amm c)) (amount_in s) (sc_total_pc c) (sc_total_coin c) (sc_direction c)
       = Ok (fee, out)"
    "minimum_amount_out s \<le> out" "out \<noteq> 0" "amount_in s \<noteq> 0"
    and r: "(case sc_direction c of Coin2PC \<Rightarrow> swap_base_in_coin2pc env pid c (amount_in s) out fee w1
       | PC2Coin \<Rightarrow> swap_base_in_pc2coin env pid c (amount_in s) out fee w1) = Ok (amm, w2)"
    and k: "env_clock env = Ok clk"
    "w' = store_amm (sa_amm (sc_accounts c)) (amm\<lparr>recent_epoch := clock_epoch clk\<rparr>) w2"
    by (auto simp: process_swap_base_in_def outcome not_less split: if_splits prod.splits)
  have "swap_promise env c (case sc_direction c of Coin2PC \<Rightarrow> amount_in s | PC2Coin \<Rightarrow> out) out (amount_in s)
      (unat fee) w w'"
    using r k tp swap_base_in_coin2pc_Ok [of env pid c "amount_in s" out fee w1 amm w2]
      swap_base_in_pc2coin_Ok [of env pid c "amount_in s" out fee w1 amm w2]
    by (cases "sc_direction c") (auto simp: swap_promise_def pool_after_def reserve_defs word_less_nat_alt)
  with q show ?thesis by blast
qed

lemma process_swap_base_out_Ok:
  assumes "process_swap_base_out env pid accs s w = Ok w'" "swap_prepare env pid accs w = Ok (c, w1)"
    and "env_spl_token env \<noteq> env_spl_token_2022 env"
  shows "\<exists>fee pay. swap_base_out_amounts (amm_fees (sc_amm c)) (amount_out s) (sc_total_pc c) (sc_total_coin c)
      (sc_direction c) = Ok (pay, fee) \<and>
    pay \<le> max_amount_in s \<and> pay \<noteq> 0 \<and> amount_out s \<noteq> 0 \<and> pay \<le> ta_amount (sc_source c) \<and>
    swap_promise env c pay (amount_out s) pay (unat fee) w w'"
proof -
  note tp = swap_token_program [OF assms(2,3)]
  from assms(1,2) obtain fee pay amm w2 clk where
    q: "pay \<le> ta_amount (sc_source c)"
    "swap_base_out_amounts (amm_fees (sc_amm c)) (amount_out s) (sc_total_pc c) (sc_total_coin c) (sc_direction c)
       = Ok (pay, fee)"
    "pay \<le> max_amount_in s" "pay \<noteq> 0" "amount_out s \<noteq> 0"
    and r: "(case sc_direction c of Coin2PC \<Rightarrow> swap_base_out_coin2pc env pid c (amount_out s) pay fee w1
       | PC2Coin \<Rightarrow> swap_base_out_pc2coin env pid c (amount_out s) pay fee w1) = Ok (amm, w2)"
    and k: "env_clock env = Ok clk"
    "w' = store_amm (sa_amm (sc_accounts c)) (amm\<lparr>recent_epoch := clock_epoch clk\<rparr>) w2"
    by (auto simp: process_swap_base_out_def outcome not_less split: if_splits prod.splits)
  have "swap_promise env c pay (amount_out s) pay (unat fee) w w'"
    using r k tp swap_base_out_coin2pc_Ok [of env pid c "amount_out s" pay fee w1 amm w2]
      swap_base_out_pc2coin_Ok [of env pid c "amount_out s" pay fee w1 amm w2]
    by (cases "sc_direction c") (auto simp: swap_promise_def pool_after_def reserve_defs word_less_nat_alt)
  with q show ?thesis by blast
qed

text \<open>The example pool: the user swaps on the accounts 20 (coin) and 21 (pc).\<close>

definition demo_swap :: "pubkey \<Rightarrow> pubkey \<Rightarrow> account_info list" where
  "demo_swap src dst =
     [ro 1, rw 10, ro 3, ro 0, rw 11, rw 12, ro 30, ro 31, ro 0, ro 0, ro 0, ro 0, ro 0, ro 0, ro 0, ro 0,
      rw src, rw dst, signer 23]"

lemmas swap_prepare_eval = demo_swap_def swap_prepare_def swap_accounts_of_def SWAP_ACCOUNT_LEN_def
  swap_check_keys_def swap_status_def swap_totals_def swap_direction_of_def runtime_eval pool_eval demo_defs
  checked_sub_def

lemmas swap_run_eval = process_swap_base_in_def swap_base_in_amounts_def swap_token_amount_base_in_def
  swap_base_in_coin2pc_def swap_base_in_pc2coin_def process_swap_base_out_def swap_base_out_amounts_def
  swap_token_amount_base_out_def swap_base_out_coin2pc_def swap_base_out_pc2coin_def
  swap_free_funds_def swap_deposit_def swap_withdraw_def sc_nonce_def to_u128_def arith_eval

definition demo_ctx :: "bool \<Rightarrow> swap_ctx" where
  "demo_ctx coin_in = \<lparr>sc_accounts = swap_accounts_of (if coin_in then demo_swap 20 21 else demo_swap 21 20),
     sc_amm = demo_amm, sc_coin_vault = \<lparr>ta_mint = 30, ta_owner = 3, ta_amount = 2000\<rparr>,
     sc_pc_vault = \<lparr>ta_mint = 31, ta_owner = 3, ta_amount = 8000\<rparr>,
     sc_source = \<lparr>ta_mint = (if coin_in then 30 else 31), ta_owner = 23, ta_amount = 1000\<rparr>,
     sc_destination = \<lparr>ta_mint = (if coin_in then 31 else 30), ta_owner = 23, ta_amount = 1000\<rparr>,
     sc_orderbook = False, sc_bids = [], sc_asks = [], sc_total_pc = 8000, sc_total_coin = 2000,
     sc_direction = (if coin_in then Coin2PC else PC2Coin)\<rparr>"

lemma demo_prepare:
  "swap_prepare demo_env 5 (demo_swap 20 21) demo_world = Ok (demo_ctx True, hold (rw 10) demo_world)"
  "swap_prepare demo_env 5 (demo_swap 21 20) demo_world = Ok (demo_ctx False, hold (rw 10) demo_world)"
  by (simp_all add: swap_prepare_eval demo_ctx_def)

lemma demo_base_in_runs:
  "\<exists>w'. process_swap_base_in demo_env 5 (demo_swap 20 21) \<lparr>amount_in = 100, minimum_amount_out = 380\<rparr> demo_world = Ok w'"
  "\<exists>w'. process_swap_base_in demo_env 5 (demo_swap 21 20) \<lparr>amount_in = 1000, minimum_amount_out = 0\<rparr> demo_world = Ok w'"
  by (simp_all add: swap_prepare_eval swap_run_eval)

lemma demo_base_out_runs:
  "\<exists>w'. process_swap_base_out demo_env 5 (demo_swap 20 21) \<lparr>max_amount_in = 110, amount_out = 380\<rparr> demo_world = Ok w'"
  by (simp add: swap_prepare_eval swap_run_eval)

lemma demo_distinct: "env_spl_token demo_env \<noteq> env_spl_token_2022 demo_env"
  by (simp add: demo_env_def)

text \<open>
  C3. A base-in swap that succeeds charges the fee \<open>ceil(amount_in * num / den)\<close>, computes the
  amount out from the rest, and that amount is positive, at least the minimum asked for and below
  the reserve. Apart from cancelling exactly the pool's orders on the side bought from (and then
  only with the order book, possibly with a settlement), it issues exactly two transfers: the
  payment from the user's source into the vault of the currency paid in, and the amount out from
  the other vault to the user's destination. The pool's counters grow by the amount in, the amount
  out and the fee, without wrap-around, and nothing else of the record but the epoch changes.
  The payment is the amount in when the coin is paid in; when the pc is paid in, the code
  transfers the amount out instead.
\<close>

theorem swap_base_in_effect:
  assumes "process_swap_base_in env pid accs s w = Ok w'" "swap_prepare env pid accs w = Ok (c, w1)"
    and "env_spl_token env \<noteq> env_spl_token_2022 env"
  shows "\<exists>fee out.
    fee = ceil_div_spec (unat (amount_in s) * unat (swap_fee_numerator (amm_fees (sc_amm c))))
            (unat (swap_fee_denominator (amm_fees (sc_amm c)))) \<and> fee \<le> unat (amount_in s) \<and>
    unat out = unat (reserve_out (sc_direction c) (sc_total_pc c) (sc_total_coin c)) * (unat (amount_in s) - fee) div
      (unat (reserve_in (sc_direction c) (sc_total_pc c) (sc_total_coin c)) + (unat (amount_in s) - fee)) \<and>
    minimum_amount_out s \<le> out \<and> out \<noteq> 0 \<and> amount_in s \<le> ta_amount (sc_source c) \<and>
    swap_promise env c (case sc_direction c of Coin2PC \<Rightarrow> amount_in s | PC2Coin \<Rightarrow> out) out (amount_in s) fee w w'"
proof -
  obtain fee out where a: "swap_base_in_amounts (amm_fees (sc_amm c)) (amount_in s) (sc_total_pc c)
      (sc_total_coin c) (sc_direction c) = Ok (fee, out)"
    and p: "minimum_amount_out s \<le> out" "out \<noteq> 0" "amount_in s \<le> ta_amount (sc_source c)"
    "swap_promise env c (case sc_direction c of Coin2PC \<Rightarrow> amount_in s | PC2Coin \<Rightarrow> out) out (amount_in s)
      (unat fee) w w'"
    using process_swap_base_in_Ok [OF assms] by blast
  note v = swap_base_in_amounts_Ok [OF a]
  show ?thesis
    by (intro exI [of _ "unat fee"] exI [of _ out] conjI) (use v p in blast)+
qed

theorem swap_base_in_effect_witness:
  "\<exists>w' fee out.
    process_swap_base_in demo_env 5 (demo_swap 20 21) \<lparr>amount_in = 100, minimum_amount_out = 380\<rparr> demo_world = Ok w' \<and>
    unat out = 8000 * (100 - fee) div (2000 + (100 - fee)) \<and> 380 \<le> out \<and>
    swap_promise demo_env (demo_ctx True) 100 out 100 fee demo_world w'"
proof -
  obtain w' where w: "process_swap_base_in demo_env 5 (demo_swap 20 21)
      \<lparr>amount_in = 100, minimum_amount_out = 380\<rparr> demo_world = Ok w'"
    using demo_base_in_runs by blast
  show ?thesis using swap_base_in_effect [OF w demo_prepare(1) demo_distinct] w
    by (auto simp: demo_ctx_def reserve_defs)
qed

text \<open>
  C6. When coin is swapped for pc with a given amount in, the pool never loses: with the payment
  and the payout the two transfers move, the product of the two totals does not decrease.
\<close>

theorem swap_coin_in_keeps_product:
  assumes "process_swap_base_in env pid accs s w = Ok w'" "swap_prepare env pid accs w = Ok (c, w1)"
    and "env_spl_token env \<noteq> env_spl_token_2022 env" "sc_direction c = Coin2PC"
  shows "\<exists>out. transfers (new_calls w w') = swap_moves c (amount_in s) out \<and> unat out < unat (sc_total_pc c) \<and>
    unat (sc_total_pc c) * unat (sc_total_coin c) \<le>
      (unat (sc_total_pc c) - unat out) * (unat (sc_total_coin c) + unat (amount_in s))"
proof -
  obtain fee out where a: "swap_base_in_amounts (amm_fees (sc_amm c)) (amount_in s) (sc_total_pc c)
      (sc_total_coin c) Coin2PC = Ok (fee, out)"
    and p: "swap_promise env c (amount_in s) out (amount_in s) (unat fee) w w'"
    using process_swap_base_in_Ok [OF assms(1-3)] assms(4) by auto
  have "unat (sc_total_pc c) * unat (sc_total_coin c) \<le>
      (unat (sc_total_pc c) - unat out) * (unat (sc_total_coin c) + unat (amount_in s))"
    using swap_base_in_amounts_Ok [OF a, THEN conjunct2, THEN conjunct2, THEN conjunct2]
    by (simp only: reserve_defs swap_direction.case) (metis mult.commute)
  then show ?thesis using p assms(4)
    by (intro exI [of _ out]) (auto simp: swap_promise_def swap_effect_def reserve_defs)
qed

theorem swap_coin_in_keeps_product_witness:
  "\<exists>w' out. process_swap_base_in demo_env 5 (demo_swap 20 21) \<lparr>amount_in = 100, minimum_amount_out = 380\<rparr> demo_world
      = Ok w' \<and> transfers (new_calls demo_world w') = [(20, 11, 100), (12, 21, out)] \<and>
    8000 * 2000 \<le> (8000 - unat out) * 2100"
proof -
  obtain w' where w: "process_swap_base_in demo_env 5 (demo_swap 20 21)
      \<lparr>amount_in = 100, minimum_amount_out = 380\<rparr> demo_world = Ok w'"
    using demo_base_in_runs by blast
  have "sc_direction (demo_ctx True) = Coin2PC" by (simp add: demo_ctx_def)
  from swap_coin_in_keeps_product [OF w demo_prepare(1) demo_distinct this] w show ?thesis
    by (auto simp: demo_ctx_def swap_moves_def reserve_defs swap_accounts_of_def demo_swap_def
        SWAP_ACCOUNT_LEN_def ro_def rw_def Let_def)
qed

lemma product_falls:
  fixes p q x :: nat
  assumes "0 < x" "x < q" "q \<le> p"
  shows "(p + x) * (q - x) < p * q"
proof -
  obtain r where q: "q = x + r" using assms(2) less_imp_add_positive by blast
  have "x * r < p * x" using assms q by (simp add: mult.commute)
  then show ?thesis by (simp add: q algebra_simps)
qed

text \<open>
  C7. When pc is swapped for coin with a given amount in, the code moves only the amount out into
  the pc vault, whatever amount in was quoted. In a pool that holds at least as much pc as coin,
  the product of the totals then strictly falls with every such swap.
\<close>

theorem swap_pc_in_undercharges:
  assumes "process_swap_base_in env pid accs s w = Ok w'" "swap_prepare env pid accs w = Ok (c, w1)"
    and "env_spl_token env \<noteq> env_spl_token_2022 env" "sc_direction c = PC2Coin"
    and "sc_total_coin c \<le> sc_total_pc c"
  shows "\<exists>out. transfers (new_calls w w') = swap_moves c out out \<and> out \<noteq> 0 \<and>
    unat out < unat (sc_total_coin c) \<and>
    (unat (sc_total_pc c) + unat out) * (unat (sc_total_coin c) - unat out) <
      unat (sc_total_pc c) * unat (sc_total_coin c)"
proof -
  obtain fee out where o: "out \<noteq> 0" and p: "swap_promise env c out out (amount_in s) (unat (fee :: u128)) w w'"
    using process_swap_base_in_Ok [OF assms(1-3)] assms(4) by auto
  then have lt: "unat out < unat (sc_total_coin c)" and t: "transfers (new_calls w w') = swap_moves c out out"
    using assms(4) by (auto simp: swap_promise_def swap_effect_def reserve_defs)
  show ?thesis using o lt t assms(5) product_falls [OF _ lt]
    by (intro exI [of _ out]) (simp add: word_le_nat_alt)
qed

theorem swap_pc_in_undercharges_witness:
  "\<exists>w' out. process_swap_base_in demo_env 5 (demo_swap 21 20) \<lparr>amount_in = 1000, minimum_amount_out = 0\<rparr> demo_world
      = Ok w' \<and> transfers (new_calls demo_world w') = [(21, 12, out), (11, 20, out)] \<and>
    (8000 + unat out) * (2000 - unat out) < 8000 * 2000"
proof -
  obtain w' where w: "process_swap_base_in demo_env 5 (demo_swap 21 20)
      \<lparr>amount_in = 1000, minimum_amount_out = 0\<rparr> demo_world = Ok w'"
    using demo_base_in_runs by blast
  have "sc_direction (demo_ctx False) = PC2Coin" "sc_total_coin (demo_ctx False) \<le> sc_total_pc (demo_ctx False)"
    by (simp_all add: demo_ctx_def)
  from swap_pc_in_undercharges [OF w demo_prepare(2) demo_distinct this] w show ?thesis
    by (auto simp: demo_ctx_def swap_moves_def reserve_defs swap_accounts_of_def demo_swap_def
        SWAP_ACCOUNT_LEN_def ro_def rw_def Let_def)
qed

text \<open>
  C4. A base-out swap that succeeds pays out exactly the amount asked for and charges a positive
  amount not above the user's limit: the rounded-up quote grossed up by the fee. The payment, the
  payout, the cancelled orders and the counters are as for the other handler, in both directions,
  and the product of the totals never decreases.
\<close>

theorem swap_base_out_effect:
  assumes "process_swap_base_out env pid accs s w = Ok w'" "swap_prepare env pid accs w = Ok (c, w1)"
    and "env_spl_token env \<noteq> env_spl_token_2022 env"
  shows "\<exists>pay fee quote.
    quote = ceil_div_spec
      (unat (reserve_in (sc_direction c) (sc_total_pc c) (sc_total_coin c)) * unat (amount_out s))
      (unat (reserve_out (sc_direction c) (sc_total_pc c) (sc_total_coin c)) - unat (amount_out s)) \<and>
    unat pay = ceil_div_spec (quote * unat (swap_fee_denominator (amm_fees (sc_amm c))))
      (unat (swap_fee_denominator (amm_fees (sc_amm c))) - unat (swap_fee_numerator (amm_fees (sc_amm c)))) \<and>
    unat pay = quote + fee \<and> pay \<noteq> 0 \<and> pay \<le> max_amount_in s \<and> pay \<le> ta_amount (sc_source c) \<and>
    swap_promise env c pay (amount_out s) pay fee w w' \<and>
    unat (sc_total_pc c) * unat (sc_total_coin c) \<le>
      (unat (reserve_in (sc_direction c) (sc_total_pc c) (sc_total_coin c)) + unat pay) *
      (unat (reserve_out (sc_direction c) (sc_total_pc c) (sc_total_coin c)) - unat (amount_out s))"
proof -
  obtain fee pay where a: "swap_base_out_amounts (amm_fees (sc_amm c)) (amount_out s) (sc_total_pc c)
      (sc_total_coin c) (sc_direction c) = Ok (pay, fee)"
    and p: "pay \<le> max_amount_in s" "pay \<noteq> 0" "pay \<le> ta_amount (sc_source c)"
    "swap_promise env c pay (amount_out s) pay (unat fee) w w'"
    using process_swap_base_out_Ok [OF assms] by blast
  from swap_base_out_amounts_Ok [OF a p(2)] obtain before :: u64 where v:
    "unat before = ceil_div_spec
      (unat (reserve_in (sc_direction c) (sc_total_pc c) (sc_total_coin c)) * unat (amount_out s))
      (unat (reserve_out (sc_direction c) (sc_total_pc c) (sc_total_coin c)) - unat (amount_out s))"
    "unat pay = ceil_div_spec (unat before * unat (swap_fee_denominator (amm_fees (sc_amm c))))
      (unat (swap_fee_denominator (amm_fees (sc_amm c))) - unat (swap_fee_numerator (amm_fees (sc_amm c))))"
    "unat pay = unat before + unat fee"
    "unat (sc_total_pc c) * unat (sc_total_coin c) \<le>
      (unat (reserve_in (sc_direction c) (sc_total_pc c) (sc_total_coin c)) + unat pay) *
      (unat (reserve_out (sc_direction c) (sc_total_pc c) (sc_total_coin c)) - unat (amount_out s))"
    by blast
  show ?thesis
    by (intro exI [of _ pay] exI [of _ "unat fee"] exI [of _ "unat before"] conjI) (fact v p)+
qed

theorem swap_base_out_effect_witness:
  "\<exists>w' pay fee.
    process_swap_base_out demo_env 5 (demo_swap 20 21) \<lparr>max_amount_in = 110, amount_out = 380\<rparr> demo_world = Ok w' \<and>
    pay \<le> 110 \<and> swap_promise demo_env (demo_ctx True) pay 380 pay fee demo_world w' \<and>
    8000 * 2000 \<le> (2000 + unat pay) * 7620"
proof -
  obtain w' where w: "process_swap_base_out demo_env 5 (demo_swap 20 21)
      \<lparr>max_amount_in = 110, amount_out = 380\<rparr> demo_world = Ok w'"
    using demo_base_out_runs by blast
  show ?thesis using swap_base_out_effect [OF w demo_prepare(1) demo_distinct] w
    by (auto simp: demo_ctx_def reserve_defs)
qed

text \<open>
  C8. The checks no swap can pass without: the pool's account belongs to the program, the owner of
  the source signed, the token program is the SPL token program, the authority is the program's
  derived address for the pool's nonce, the vaults are the ones the pool records, and neither
  user account is a vault of the pool. The status has gone through the time-based transition.
\<close>

theorem swap_guards:
  assumes "process_swap_base_in env pid accs s w = Ok w' \<or> process_swap_base_out env pid accs s' w = Ok w'"
  shows "\<exists>amm. swap_status env (amm_view (data_of w (sa_amm (swap_accounts_of accs)))) = Ok amm \<and>
    length accs \<in> {19, 20} \<and> owner_of w (sa_amm (swap_accounts_of accs)) = pid \<and>
    ai_is_signer (sa_user_owner (swap_accounts_of accs)) \<and>
    ai_key (sa_token_program (swap_accounts_of accs)) = env_spl_token env \<and>
    env_create_pda env [AUTHORITY_AMM, [ucast (nonce amm)]] pid
      = Some (ai_key (ma_authority (sa_market (swap_accounts_of accs)))) \<and>
    ai_key (sa_coin_vault (swap_accounts_of accs)) = coin_vault amm \<and>
    ai_key (sa_pc_vault (swap_accounts_of accs)) = pc_vault amm \<and>
    ai_key (sa_user_source (swap_accounts_of accs)) \<notin> {pc_vault amm, coin_vault amm} \<and>
    ai_key (sa_user_destination (swap_accounts_of accs)) \<notin> {pc_vault amm, coin_vault amm}"
proof -
  from assms obtain c w1 where "swap_prepare env pid accs w = Ok (c, w1)"
    by (auto simp: process_swap_base_in_def process_swap_base_out_def outcome split: prod.splits)
  from swap_prepare_Ok [OF this] show ?thesis
    by (intro exI [of _ "sc_amm c"]) (auto simp: swap_check_keys_Ok)
qed

theorem swap_guards_witness:
  "coin_vault demo_amm = 11 \<and> (\<exists>amm. swap_status demo_env demo_amm = Ok amm \<and> coin_vault amm = 11)"
proof -
  obtain w' where w: "process_swap_base_in demo_env 5 (demo_swap 20 21)
      \<lparr>amount_in = 100, minimum_amount_out = 380\<rparr> demo_world = Ok w'"
    using demo_base_in_runs by blast
  have "swap_accounts_of (demo_swap 20 21) = sc_accounts (demo_ctx True)" by (simp add: demo_ctx_def)
  moreover have "sa_amm (sc_accounts (demo_ctx True)) = rw 10" "sa_coin_vault (sc_accounts (demo_ctx True)) = rw 11"
    by (simp_all add: demo_ctx_def swap_accounts_of_def demo_swap_def SWAP_ACCOUNT_LEN_def Let_def)
  moreover have "amm_view (data_of demo_world (rw 10)) = demo_amm" "ai_key (rw 11) = 11"
    by (simp_all add: runtime_eval demo_world_def rw_def demo_token_def demo_mint_def)
  ultimately show ?thesis
    using swap_guards [OF disjI1 [OF w]] by (auto simp: demo_amm_def)
qed

text \<open>
  The time-based transitions of a pool's status at a swap: swapping proceeds exactly in the
  statuses Initialized and SwapOnly (unchanged), in OrderBookOnly once the switch time is reached
  (the pool becomes Initialized), and in WaitingTrade once the opening time is reached (it becomes
  SwapOnly). In every other case of a valid status the handler reports InvalidStatus.
\<close>

theorem swap_status_transitions:
  "swap_status env amm =
    (if status amm \<in> {1, 6} then Ok amm
     else if status amm \<in> {0, 2, 3, 4, 5} then
       rbind (env_clock env) (\<lambda>clk.
         if status amm = 5 \<and> orderbook_to_init_time (amm_state_data amm) \<le> clock_unix_timestamp clk
         then Ok (amm\<lparr>status := 1\<rparr>) else AmmErr InvalidStatus)
     else if status amm = 7 then
       rbind (env_clock env) (\<lambda>clk.
         if clock_unix_timestamp clk < pool_open_time (amm_state_data amm) then AmmErr InvalidStatus
         else Ok (amm\<lparr>status := 6\<rparr>))
     else Panic)"
  by (auto simp: swap_status_def amm_status_from_u64_def intro!: arg_cong [of _ _ "rbind (env_clock env)"])

end
