(* ===== verification/Deposit.thy ===== *)
theory Deposit
  imports Example
begin

text \<open>
  \<^verbatim>\<open>process/deposit.rs\<close>: a liquidity provider pays coin and pc in the pool's ratio and receives
  LP tokens. The handler first takes the profit (\<^verbatim>\<open>calc_take_pnl\<close>) and prices the deposit
  against what is left. Logging is not modelled.
\<close>

definition DEPOSIT_ACCOUNT_LEN :: nat where "DEPOSIT_ACCOUNT_LEN = 16"

record deposit_accounts =
  da_token_program :: account_info
  da_amm :: account_info
  da_authority :: account_info
  da_open_orders :: account_info
  da_target_orders :: account_info
  da_lp_mint :: account_info
  da_coin_vault :: account_info
  da_pc_vault :: account_info
  da_market :: account_info
  da_source_coin :: account_info
  da_source_pc :: account_info
  da_dest_lp :: account_info
  da_owner :: account_info
  da_event_q :: account_info
  da_coin_mint :: account_info
  da_pc_mint :: account_info

definition deposit_accounts_of :: "account_info list \<Rightarrow> deposit_accounts" where
  "deposit_accounts_of a =
     \<lparr>da_token_program = a ! 0, da_amm = a ! 1, da_authority = a ! 2, da_open_orders = a ! 3,
      da_target_orders = a ! 4, da_lp_mint = a ! 5, da_coin_vault = a ! 6, da_pc_vault = a ! 7,
      da_market = a ! 8, da_source_coin = a ! 9, da_source_pc = a ! 10, da_dest_lp = a ! 11,
      da_owner = a ! 12, da_event_q = a ! 13, da_coin_mint = a ! 14, da_pc_mint = a ! 15\<rparr>"

text \<open>What the handler knows when it computes the amounts: \<open>dc_amm\<close> and the totals after the profit.\<close>

record deposit_ctx =
  dc_accounts :: deposit_accounts
  dc_amm :: amm_info
  dc_target :: target_orders_data
  dc_source_coin :: token_account
  dc_source_pc :: token_account
  dc_total_pc :: u64
  dc_total_coin :: u64
  dc_x1 :: u128
  dc_y1 :: u128
  dc_delta_x :: u128
  dc_delta_y :: u128

section \<open>Checks and totals\<close>

definition deposit_check :: "env \<Rightarrow> pubkey \<Rightarrow> deposit_accounts \<Rightarrow> deposit_instruction \<Rightarrow> amm_info \<Rightarrow> bool res" where
  "deposit_check env program_id da deposit amm =
     (if max_coin_amount deposit = 0 \<or> max_pc_amount deposit = 0 then AmmErr InvalidInput
      else if \<not> ai_is_signer (da_owner da) then AmmErr InvalidSignAccount
      else rbind (amm_status_from_u64 (status amm)) (\<lambda>st.
        if \<not> deposit_permission st then AmmErr InvalidStatus
        else rbind (into_res (authority_id env program_id AUTHORITY_AMM (ucast (nonce amm)))) (\<lambda>authority.
          if ai_key (da_authority da) \<noteq> authority then AmmErr InvalidProgramAddress
          else if ai_key (da_coin_vault da) \<noteq> coin_vault amm \<or> ai_key (da_source_coin da) = coin_vault amm
          then AmmErr InvalidCoinVault
          else if ai_key (da_pc_vault da) \<noteq> pc_vault amm \<or> ai_key (da_source_pc da) = pc_vault amm
          then AmmErr InvalidPCVault
          else if ai_key (da_lp_mint da) \<noteq> lp_mint amm then AmmErr InvalidPoolMint
          else if ai_key (da_target_orders da) \<noteq> target_orders amm then AmmErr InvalidTargetOrders
          else Ok (orderbook_permission st))))"

definition deposit_totals ::
  "env \<Rightarrow> deposit_accounts \<Rightarrow> amm_info \<Rightarrow> bool \<Rightarrow> token_account \<Rightarrow> token_account \<Rightarrow> token_account \<Rightarrow>
   token_account \<Rightarrow> world \<Rightarrow> (u64 \<times> u64) res" where
  "deposit_totals env da amm enable_orderbook coin_vault_acc pc_vault_acc source_coin source_pc w =
     (if enable_orderbook then
        if ai_key (da_market da) \<noteq> market amm then AmmErr InvalidMarket
        else if ai_key (da_open_orders da) \<noteq> open_orders amm then AmmErr InvalidOpenOrders
        else
          rbind (load_serum_market_order env (da_market da) (da_open_orders da) (da_authority da) amm False w)
            (\<lambda>(ms, oo).
            if ms_coin_mint ms \<noteq> ta_mint coin_vault_acc \<or> ms_coin_mint ms \<noteq> ta_mint source_coin
            then AmmErr InvalidCoinMint
            else if ms_pc_mint ms \<noteq> ta_mint pc_vault_acc \<or> ms_pc_mint ms \<noteq> ta_mint source_pc
            then AmmErr InvalidPCMint
            else into_res (calc_total_without_take_pnl (ta_amount pc_vault_acc) (ta_amount coin_vault_acc) oo amm
                   (env_events env w (ai_key (da_market da)) (ai_key (da_event_q da)))
                   (ai_key (da_open_orders da))))
      else
        into_res (calc_total_without_take_pnl_no_orderbook (ta_amount pc_vault_acc)
          (ta_amount coin_vault_acc) amm))"

definition deposit_prepare ::
  "env \<Rightarrow> pubkey \<Rightarrow> account_info list \<Rightarrow> deposit_instruction \<Rightarrow> world \<Rightarrow> (deposit_ctx \<times> world) res" where
  "deposit_prepare env program_id accounts deposit w =
     (if length accounts \<noteq> DEPOSIT_ACCOUNT_LEN \<and> length accounts \<noteq> DEPOSIT_ACCOUNT_LEN + 1
      then AmmErr WrongAccountsNumber
      else let da = deposit_accounts_of accounts; spl = ai_key (da_token_program da) in
        rbind (amm_load_mut_checked env program_id (da_amm da) w) (\<lambda>(amm, w).
        rbind (deposit_check env program_id da deposit amm) (\<lambda>enable_orderbook.
        rbind (into_res (unpack_token_account env (da_coin_vault da) spl w)) (\<lambda>coin_vault_acc.
        rbind (into_res (unpack_token_account env (da_pc_vault da) spl w)) (\<lambda>pc_vault_acc.
        rbind (into_res (unpack_token_account env (da_source_coin da) spl w)) (\<lambda>source_coin.
        rbind (into_res (unpack_token_account env (da_source_pc da) spl w)) (\<lambda>source_pc.
        rbind (target_load_mut_checked env program_id (ai_key (da_amm da)) (da_target_orders da) w) (\<lambda>(target, w).
        rbind (deposit_totals env da amm enable_orderbook coin_vault_acc pc_vault_acc source_coin source_pc w)
          (\<lambda>(total_pc, total_coin).
        rbind (normalize_decimal_v2 total_pc (pc_decimals amm) (sys_decimal_value amm)) (\<lambda>x1.
        rbind (normalize_decimal_v2 total_coin (coin_decimals amm) (sys_decimal_value amm)) (\<lambda>y1.
        case calc_take_pnl target amm total_pc total_coin of (amm, total_pc, total_coin, dx, dy) \<Rightarrow>
        Ok (\<lparr>dc_accounts = da, dc_amm = amm, dc_target = target, dc_source_coin = source_coin,
             dc_source_pc = source_pc, dc_total_pc = total_pc, dc_total_coin = total_coin,
             dc_x1 = x1, dc_y1 = y1, dc_delta_x = dx, dc_delta_y = dy\<rparr>, w))))))))))))"

section \<open>Amounts\<close>

text \<open>The pc and the coin to deduct and the LP tokens to mint, from the side the user fixed.\<close>

definition deposit_base_coin ::
  "deposit_instruction \<Rightarrow> u64 \<Rightarrow> u64 \<Rightarrow> u64 \<Rightarrow> (u64 \<times> u64 \<times> u64) res" where
  "deposit_base_coin deposit lp total_pc total_coin =
     rbind (exchange_coin_to_pc \<lparr>token_coin = total_coin, token_pc = total_pc\<rparr> (max_coin_amount deposit) Ceiling)
       (\<lambda>q. rbind (into_res (ok_or CalculationExRateFailure q)) (\<lambda>deduct_pc.
       if deduct_pc > max_pc_amount deposit then AmmErr ExceededSlippage
       else if (case other_amount_min deposit of Some m \<Rightarrow> deduct_pc < m | None \<Rightarrow> False)
       then AmmErr ExceededSlippage
       else
         rbind (exchange_token_to_pool \<lparr>token_input = max_coin_amount deposit, token_total = total_coin\<rparr> lp Floor)
           (\<lambda>q. rbind (into_res (ok_or CalculationExRateFailure q)) (\<lambda>mint_lp.
           Ok (deduct_pc, max_coin_amount deposit, mint_lp)))))"

definition deposit_base_pc ::
  "deposit_instruction \<Rightarrow> u64 \<Rightarrow> u64 \<Rightarrow> u64 \<Rightarrow> (u64 \<times> u64 \<times> u64) res" where
  "deposit_base_pc deposit lp total_pc total_coin =
     rbind (exchange_pc_to_coin \<lparr>token_coin = total_coin, token_pc = total_pc\<rparr> (max_pc_amount deposit) Ceiling)
       (\<lambda>q. rbind (into_res (ok_or CalculationExRateFailure q)) (\<lambda>deduct_coin.
       if deduct_coin > max_coin_amount deposit then AmmErr ExceededSlippage
       else if (case other_amount_min deposit of Some m \<Rightarrow> deduct_coin < m | None \<Rightarrow> False)
       then AmmErr ExceededSlippage
       else
         rbind (exchange_token_to_pool \<lparr>token_input = max_pc_amount deposit, token_total = total_pc\<rparr> lp Floor)
           (\<lambda>q. rbind (into_res (ok_or CalculationExRateFailure q)) (\<lambda>mint_lp.
           Ok (max_pc_amount deposit, deduct_coin, mint_lp)))))"

definition deposit_amounts ::
  "deposit_instruction \<Rightarrow> u64 \<Rightarrow> u64 \<Rightarrow> u64 \<Rightarrow> (u64 \<times> u64 \<times> u64) res" where
  "deposit_amounts deposit lp total_pc total_coin =
     (if base_side deposit = 0 then deposit_base_coin deposit lp total_pc total_coin
      else deposit_base_pc deposit lp total_pc total_coin)"

section \<open>The handler\<close>

definition deposit_move ::
  "env \<Rightarrow> pubkey \<Rightarrow> deposit_ctx \<Rightarrow> u64 \<Rightarrow> u64 \<Rightarrow> u64 \<Rightarrow> world \<Rightarrow> world res" where
  "deposit_move env program_id c deduct_pc deduct_coin mint_lp w =
     (let da = dc_accounts c in
      rbind (token_transfer env program_id (da_token_program da) (da_source_coin da) (da_coin_vault da)
               (da_owner da) deduct_coin (da_coin_mint da) [] w) (\<lambda>w.
      rbind (token_transfer env program_id (da_token_program da) (da_source_pc da) (da_pc_vault da)
               (da_owner da) deduct_pc (da_pc_mint da) [] w) (\<lambda>w.
      token_mint_to env (da_token_program da) (da_lp_mint da) (da_dest_lp da) (da_authority da)
        AUTHORITY_AMM (ucast (nonce (dc_amm c))) mint_lp w)))"

definition profit_base :: "u128 \<Rightarrow> u128 \<Rightarrow> u128 \<Rightarrow> ('e, u128) outcome" where
  "profit_base x1 added delta =
     rbind (unwrap (checked_add x1 added)) (\<lambda>s. unwrap (checked_sub s delta))"

definition deposit_update ::
  "deposit_ctx \<Rightarrow> u64 \<Rightarrow> u64 \<Rightarrow> u64 \<Rightarrow> (amm_info \<times> target_orders_data) res" where
  "deposit_update c deduct_pc deduct_coin mint_lp =
     (let amm = dc_amm c in
      rbind (unwrap (checked_add (lp_amount amm) mint_lp)) (\<lambda>lp.
      rbind (normalize_decimal_v2 deduct_pc (pc_decimals amm) (sys_decimal_value amm)) (\<lambda>npc.
      rbind (profit_base (dc_x1 c) npc (dc_delta_x c)) (\<lambda>px.
      rbind (normalize_decimal_v2 deduct_coin (coin_decimals amm) (sys_decimal_value amm)) (\<lambda>ncoin.
      rbind (profit_base (dc_y1 c) ncoin (dc_delta_y c)) (\<lambda>py.
      Ok (amm\<lparr>lp_amount := lp\<rparr>, (dc_target c)\<lparr>calc_pnl_x := px, calc_pnl_y := py\<rparr>)))))))"

definition process_deposit ::
  "env \<Rightarrow> pubkey \<Rightarrow> account_info list \<Rightarrow> deposit_instruction \<Rightarrow> world \<Rightarrow> world res" where
  "process_deposit env program_id accounts deposit w =
     rbind (deposit_prepare env program_id accounts deposit w) (\<lambda>(c, w).
       if lp_amount (dc_amm c) = 0 then AmmErr NotAllowZeroLP
       else
         rbind (deposit_amounts deposit (lp_amount (dc_amm c)) (dc_total_pc c) (dc_total_coin c))
           (\<lambda>(deduct_pc, deduct_coin, mint_lp).
         if deduct_coin > ta_amount (dc_source_coin c) \<or> deduct_pc > ta_amount (dc_source_pc c)
         then AmmErr InsufficientFunds
         else if mint_lp = 0 \<or> deduct_coin = 0 \<or> deduct_pc = 0 then AmmErr InvalidInput
         else
           rbind (deposit_move env program_id c deduct_pc deduct_coin mint_lp w) (\<lambda>w.
           rbind (deposit_update c deduct_pc deduct_coin mint_lp) (\<lambda>(amm, target).
           rbind (env_clock env) (\<lambda>clk.
           Ok (store_target (da_target_orders (dc_accounts c)) target
                (store_amm (da_amm (dc_accounts c)) (amm\<lparr>recent_epoch := clock_epoch clk\<rparr>) w)))))))"

section \<open>What a deposit does\<close>

lemma deposit_move_calls:
  assumes "deposit_move env pid c pc coin lp w = Ok w'"
    and "ai_key (da_token_program (dc_accounts c)) \<noteq> env_spl_token_2022 env"
  shows "transfers (new_calls w w') =
      [(ai_key (da_source_coin (dc_accounts c)), ai_key (da_coin_vault (dc_accounts c)), coin),
       (ai_key (da_source_pc (dc_accounts c)), ai_key (da_pc_vault (dc_accounts c)), pc)] \<and>
    minted (new_calls w w') =
      [(ai_key (da_lp_mint (dc_accounts c)), ai_key (da_dest_lp (dc_accounts c)), lp)]"
  using assms(1)
  by (auto simp: deposit_move_def Let_def outcome token_mint_to_def moved_def minted_def new_calls_def
      dest!: token_transfer_Ok [OF assms(2)] invoke_signed_Ok)

text \<open>The amounts: none above the user's limits, and no more LP than the share of either side paid.\<close>

definition fair_deposit :: "u64 \<Rightarrow> u64 \<Rightarrow> u64 \<Rightarrow> u64 \<Rightarrow> u64 \<Rightarrow> u64 \<Rightarrow> bool" where
  "fair_deposit lp total_pc total_coin pc coin mint_lp \<longleftrightarrow>
     unat mint_lp * unat total_coin \<le> unat lp * unat coin \<and>
     unat mint_lp * unat total_pc \<le> unat lp * unat pc"

lemma fair_other_side:
  fixes m l tc tp c p :: nat
  assumes "m * tc \<le> l * c" "c * tp \<le> p * tc" "0 < tc"
  shows "m * tp \<le> l * p"
proof -
  have "m * tp * tc \<le> l * (c * tp)" using assms(1) by (metis mult.assoc mult.commute mult_le_mono1)
  also have "\<dots> \<le> l * p * tc" using assms(2) by (simp add: mult.assoc)
  finally show ?thesis using assms(3) by simp
qed

lemma exchange_Ceiling_covers:
  assumes "(exchange amount mul dv Ceiling :: ('e, u64 option) outcome) = Ok (Some x)" "x \<noteq> 0"
  shows "unat amount * unat mul \<le> unat x * unat dv"
proof -
  have v: "unat dv \<noteq> 0 \<and> unat x = ceil_div_spec (unat amount * unat mul) (unat dv)"
    using exchange_Ceiling_value [OF assms(1)] by auto
  moreover have "unat x \<noteq> 0" using assms(2) by simp
  ultimately have "unat dv \<le> 2 * (unat amount * unat mul)"
    using ceil_div_spec_eq_0 [of "unat dv" "unat amount * unat mul"] by auto
  then show ?thesis using v ceil_div_spec_mult by simp
qed

lemma exchange_Floor_below:
  assumes "(exchange amount mul dv Floor :: ('e, u64 option) outcome) = Ok (Some x)"
  shows "unat dv \<noteq> 0 \<and> unat x * unat dv \<le> unat amount * unat mul"
  using exchange_Floor_value [OF assms] by auto

lemma deposit_base_coin_Ok:
  assumes "deposit_base_coin d lp tp tc = Ok (pc, coin, m)" "pc \<noteq> 0"
  shows "coin = max_coin_amount d \<and> pc \<le> max_pc_amount d \<and>
    (case other_amount_min d of Some k \<Rightarrow> k \<le> pc | None \<Rightarrow> True) \<and> fair_deposit lp tp tc pc coin m \<and>
    unat m = unat lp * unat coin div unat tc"
proof -
  from assms(1) have e: "(exchange (max_coin_amount d) tp tc Ceiling :: u64 option res) = Ok (Some pc)"
    and f: "(exchange lp (max_coin_amount d) tc Floor :: u64 option res) = Ok (Some m)"
    and r: "coin = max_coin_amount d" "pc \<le> max_pc_amount d"
    "case other_amount_min d of Some k \<Rightarrow> k \<le> pc | None \<Rightarrow> True"
    by (auto simp: deposit_base_coin_def exchange_coin_to_pc_def exchange_token_to_pool_def outcome not_less
        split: if_splits option.splits)
  have b: "unat tc \<noteq> 0 \<and> unat m * unat tc \<le> unat lp * unat (max_coin_amount d)"
    using exchange_Floor_below [OF f] by simp
  have "unat m * unat tp \<le> unat lp * unat pc"
    by (rule fair_other_side [of _ "unat tc" _ "unat (max_coin_amount d)"])
      (use b exchange_Ceiling_covers [OF e assms(2)] in auto)
  with b show ?thesis using r exchange_Floor_value [OF f] by (simp add: fair_deposit_def)
qed

lemma deposit_base_pc_Ok:
  assumes "deposit_base_pc d lp tp tc = Ok (pc, coin, m)" "coin \<noteq> 0"
  shows "pc = max_pc_amount d \<and> coin \<le> max_coin_amount d \<and>
    (case other_amount_min d of Some k \<Rightarrow> k \<le> coin | None \<Rightarrow> True) \<and> fair_deposit lp tp tc pc coin m \<and>
    unat m = unat lp * unat pc div unat tp"
proof -
  from assms(1) have e: "(exchange (max_pc_amount d) tc tp Ceiling :: u64 option res) = Ok (Some coin)"
    and f: "(exchange lp (max_pc_amount d) tp Floor :: u64 option res) = Ok (Some m)"
    and r: "pc = max_pc_amount d" "coin \<le> max_coin_amount d"
    "case other_amount_min d of Some k \<Rightarrow> k \<le> coin | None \<Rightarrow> True"
    by (auto simp: deposit_base_pc_def exchange_pc_to_coin_def exchange_token_to_pool_def outcome not_less
        split: if_splits option.splits)
  have b: "unat tp \<noteq> 0 \<and> unat m * unat tp \<le> unat lp * unat (max_pc_amount d)"
    using exchange_Floor_below [OF f] by simp
  have "unat m * unat tc \<le> unat lp * unat coin"
    by (rule fair_other_side [of _ "unat tp" _ "unat (max_pc_amount d)"])
      (use b exchange_Ceiling_covers [OF e assms(2)] in auto)
  with b show ?thesis using r exchange_Floor_value [OF f] by (simp add: fair_deposit_def)
qed

lemma deposit_check_Ok:
  "deposit_check env pid da d amm = Ok ob \<longleftrightarrow>
     max_coin_amount d \<noteq> 0 \<and> max_pc_amount d \<noteq> 0 \<and> ai_is_signer (da_owner da) \<and>
     (\<exists>st. amm_status_from_u64 (status amm) = (Ok st :: amm_status res) \<and> deposit_permission st \<and>
        ob = orderbook_permission st) \<and>
     env_create_pda env [AUTHORITY_AMM, [ucast (nonce amm)]] pid = Some (ai_key (da_authority da)) \<and>
     ai_key (da_coin_vault da) = coin_vault amm \<and> ai_key (da_source_coin da) \<noteq> coin_vault amm \<and>
     ai_key (da_pc_vault da) = pc_vault amm \<and> ai_key (da_source_pc da) \<noteq> pc_vault amm \<and>
     ai_key (da_lp_mint da) = lp_mint amm \<and> ai_key (da_target_orders da) = target_orders amm"
  by (auto simp: deposit_check_def outcome into_res_def authority_id_def split: if_splits)

lemma deposit_prepare_Ok:
  assumes "deposit_prepare env pid accs d w = Ok (c, w1)"
  shows "\<exists>amm ob tpc tcoin.
    dc_accounts c = deposit_accounts_of accs \<and> length accs \<in> {16, 17} \<and>
    amm = amm_view (data_of w (da_amm (dc_accounts c))) \<and> owner_of w (da_amm (dc_accounts c)) = pid \<and>
    deposit_check env pid (dc_accounts c) d amm = Ok ob \<and>
    dc_target c = target_view (data_of w (da_target_orders (dc_accounts c))) \<and>
    t_owner (dc_target c) = ai_key (da_amm (dc_accounts c)) \<and>
    ai_key (da_target_orders (dc_accounts c)) \<noteq> ai_key (da_amm (dc_accounts c)) \<and>
    calls w1 = calls w \<and>
    calc_take_pnl (dc_target c) amm tpc tcoin =
      (dc_amm c, dc_total_pc c, dc_total_coin c, dc_delta_x c, dc_delta_y c) \<and>
    normalize_decimal_v2 tpc (pc_decimals amm) (sys_decimal_value amm) = (Ok (dc_x1 c) :: u128 res) \<and>
    normalize_decimal_v2 tcoin (coin_decimals amm) (sys_decimal_value amm) = (Ok (dc_y1 c) :: u128 res)"
proof -
  let ?da = "deposit_accounts_of accs"
  have len: "length accs \<in> {16, 17}"
    using assms by (auto simp: deposit_prepare_def DEPOSIT_ACCOUNT_LEN_def split: if_splits)
  from assms obtain amm w0 ob cv pv sc sp t tpc tcoin x1 y1 amm' pc' coin' dx dy where
    s: "amm_load_mut_checked env pid (da_amm ?da) w = Ok (amm, w0)"
    "deposit_check env pid ?da d amm = Ok ob"
    "target_load_mut_checked env pid (ai_key (da_amm ?da)) (da_target_orders ?da) w0 = Ok (t, w1)"
    "normalize_decimal_v2 tpc (pc_decimals amm) (sys_decimal_value amm) = (Ok x1 :: u128 res)"
    "normalize_decimal_v2 tcoin (coin_decimals amm) (sys_decimal_value amm) = (Ok y1 :: u128 res)"
    "calc_take_pnl t amm tpc tcoin = (amm', pc', coin', dx, dy)"
    "c = \<lparr>dc_accounts = ?da, dc_amm = amm', dc_target = t, dc_source_coin = sc,
             dc_source_pc = sp, dc_total_pc = pc', dc_total_coin = coin',
             dc_x1 = x1, dc_y1 = y1, dc_delta_x = dx, dc_delta_y = dy\<rparr>"
    by (auto simp: deposit_prepare_def calc_take_pnl_def outcome Let_def split: if_splits)
  show ?thesis using s len
    by (intro exI [of _ amm] exI [of _ ob] exI [of _ tpc] exI [of _ tcoin])
      (auto simp: amm_load_mut_Ok target_load_mut_Ok is_borrowed_def hold_def data_of_def account_of_def)
qed

text \<open>A deposit that succeeds, step by step.\<close>

lemma process_deposit_Ok:
  assumes "process_deposit env pid accs d w = Ok w'" "deposit_prepare env pid accs d w = Ok (c, w1)"
    and "ai_key (da_token_program (dc_accounts c)) \<noteq> env_spl_token_2022 env"
  shows "\<exists>pc coin lp amm target clk.
    deposit_amounts d (lp_amount (dc_amm c)) (dc_total_pc c) (dc_total_coin c) = Ok (pc, coin, lp) \<and>
    coin \<le> ta_amount (dc_source_coin c) \<and> pc \<le> ta_amount (dc_source_pc c) \<and>
    lp \<noteq> 0 \<and> coin \<noteq> 0 \<and> pc \<noteq> 0 \<and> lp_amount (dc_amm c) \<noteq> 0 \<and>
    transfers (new_calls w w') =
      [(ai_key (da_source_coin (dc_accounts c)), ai_key (da_coin_vault (dc_accounts c)), coin),
       (ai_key (da_source_pc (dc_accounts c)), ai_key (da_pc_vault (dc_accounts c)), pc)] \<and>
    minted (new_calls w w') =
      [(ai_key (da_lp_mint (dc_accounts c)), ai_key (da_dest_lp (dc_accounts c)), lp)] \<and>
    deposit_update c pc coin lp = Ok (amm, target) \<and> env_clock env = Ok clk \<and>
    data_of w' (da_amm (dc_accounts c)) = AmmData (amm\<lparr>recent_epoch := clock_epoch clk\<rparr>) \<and>
    data_of w' (da_target_orders (dc_accounts c)) = TargetData target"
proof -
  from assms(1,2) obtain pc coin lp w2 amm target clk where
    r: "lp_amount (dc_amm c) \<noteq> 0"
    "deposit_amounts d (lp_amount (dc_amm c)) (dc_total_pc c) (dc_total_coin c) = Ok (pc, coin, lp)"
    "coin \<le> ta_amount (dc_source_coin c)" "pc \<le> ta_amount (dc_source_pc c)"
    "lp \<noteq> 0" "coin \<noteq> 0" "pc \<noteq> 0"
    "deposit_move env pid c pc coin lp w1 = Ok w2"
    "deposit_update c pc coin lp = Ok (amm, target)" "env_clock env = Ok clk"
    and w': "w' = store_target (da_target_orders (dc_accounts c)) target
                (store_amm (da_amm (dc_accounts c)) (amm\<lparr>recent_epoch := clock_epoch clk\<rparr>) w2)"
    by (auto simp: process_deposit_def outcome not_less split: if_splits prod.splits)
  have p: "calls w1 = calls w" "ai_key (da_target_orders (dc_accounts c)) \<noteq> ai_key (da_amm (dc_accounts c))"
    using deposit_prepare_Ok [OF assms(2)] by blast+
  have "new_calls w w' = new_calls w1 w2" using p(1) w' by (simp add: new_calls_def)
  then show ?thesis using r p(2) deposit_move_calls [OF r(8) assms(3)]
    by (intro exI [of _ pc] exI [of _ coin] exI [of _ lp] exI [of _ amm] exI [of _ target] exI [of _ clk])
      (simp add: w')
qed

lemma deposit_amounts_Ok:
  assumes "deposit_amounts d lp tp tc = Ok (pc, coin, m)" "pc \<noteq> 0" "coin \<noteq> 0"
  shows "coin \<le> max_coin_amount d \<and> pc \<le> max_pc_amount d \<and>
    (case other_amount_min d of Some k \<Rightarrow> k \<le> (if base_side d = 0 then pc else coin) | None \<Rightarrow> True) \<and>
    fair_deposit lp tp tc pc coin m \<and>
    unat m = (if base_side d = 0 then unat lp * unat coin div unat tc else unat lp * unat pc div unat tp)"
  using assms deposit_base_coin_Ok [of d lp tp tc pc coin m] deposit_base_pc_Ok [of d lp tp tc pc coin m]
  by (auto simp: deposit_amounts_def split: if_splits)

lemma deposit_update_Ok:
  assumes "deposit_update c pc coin lp = Ok (amm, target)"
  shows "\<exists>npc ncoin.
    normalize_decimal_v2 pc (pc_decimals (dc_amm c)) (sys_decimal_value (dc_amm c)) = (Ok npc :: u128 res) \<and>
    normalize_decimal_v2 coin (coin_decimals (dc_amm c)) (sys_decimal_value (dc_amm c)) = (Ok ncoin :: u128 res) \<and>
    unat (calc_pnl_x target) + unat (dc_delta_x c) = unat (dc_x1 c) + unat npc \<and>
    unat (calc_pnl_y target) + unat (dc_delta_y c) = unat (dc_y1 c) + unat ncoin \<and>
    amm = (dc_amm c)\<lparr>lp_amount := lp_amount (dc_amm c) + lp\<rparr> \<and>
    unat (lp_amount amm) = unat (lp_amount (dc_amm c)) + unat lp"
  using assms by (auto simp: deposit_update_def profit_base_def outcome Let_def checked_sub_Some_iff dest!: checked_add_value)

section \<open>Properties of deposits\<close>

text \<open>A deposit into the example pool: 100 coin and 400 pc for 200 LP tokens.\<close>

definition demo_deposit_accounts :: "account_info list" where
  "demo_deposit_accounts = [ro 1, rw 10, ro 3, ro 0, rw 14, rw 13, rw 11, rw 12, ro 0, rw 20, rw 21, rw 22, signer 23,
     ro 0, ro 30, ro 31]"

definition demo_deposit :: deposit_instruction where
  "demo_deposit = \<lparr>max_coin_amount = 100, max_pc_amount = 450, base_side = 0, other_amount_min = None\<rparr>"

definition demo_deposit_ctx :: deposit_ctx where
  "demo_deposit_ctx = \<lparr>dc_accounts = deposit_accounts_of demo_deposit_accounts, dc_amm = demo_amm,
     dc_target = zero_target_orders\<lparr>t_owner := 10\<rparr>,
     dc_source_coin = \<lparr>ta_mint = 30, ta_owner = 23, ta_amount = 1000\<rparr>,
     dc_source_pc = \<lparr>ta_mint = 31, ta_owner = 23, ta_amount = 1000\<rparr>,
     dc_total_pc = 8000, dc_total_coin = 2000, dc_x1 = 8000, dc_y1 = 2000, dc_delta_x = 0, dc_delta_y = 0\<rparr>"

lemmas deposit_eval = demo_deposit_accounts_def demo_deposit_def deposit_accounts_of_def DEPOSIT_ACCOUNT_LEN_def
  deposit_prepare_def deposit_check_def deposit_totals_def runtime_eval pool_eval demo_defs arith_eval
  calc_take_pnl_def saturating_add_def saturating_sub_def normalize_decimal_v2_def pow10_def checked_pow_def

lemmas deposit_run_eval = process_deposit_def deposit_amounts_def deposit_base_coin_def deposit_base_pc_def
  exchange_coin_to_pc_def exchange_pc_to_coin_def exchange_token_to_pool_def exchange_def deposit_move_def
  token_mint_to_def deposit_update_def profit_base_def

lemma demo_deposit_prepare:
  "deposit_prepare demo_env 5 demo_deposit_accounts demo_deposit demo_world =
     Ok (demo_deposit_ctx, hold (rw 14) (hold (rw 10) demo_world))"
  by (simp add: deposit_eval demo_deposit_ctx_def target_orders_size_def MAX_ORDER_LIMIT_def)

lemma demo_deposit_runs: "\<exists>w'. process_deposit demo_env 5 demo_deposit_accounts demo_deposit demo_world = Ok w'"
  unfolding process_deposit_def demo_deposit_prepare
  by (simp add: demo_deposit_ctx_def deposit_run_eval deposit_eval)

text \<open>
  C9. A deposit that succeeds takes coin and pc from the user's two accounts into the two vaults
  and mints LP tokens to the user, and does nothing else: none of the three amounts is zero, none of
  the two payments is above the user's maximum or the user's balance, and the amount of the other
  side is not below the user's minimum. The pool's LP amount grows by exactly the LP tokens minted.
\<close>

theorem deposit_effect:
  assumes "process_deposit env pid accs d w = Ok w'" "deposit_prepare env pid accs d w = Ok (c, w1)"
    and "ai_key (da_token_program (dc_accounts c)) \<noteq> env_spl_token_2022 env"
  shows "\<exists>pc coin lp amm.
    transfers (new_calls w w') =
      [(ai_key (da_source_coin (dc_accounts c)), ai_key (da_coin_vault (dc_accounts c)), coin),
       (ai_key (da_source_pc (dc_accounts c)), ai_key (da_pc_vault (dc_accounts c)), pc)] \<and>
    minted (new_calls w w') =
      [(ai_key (da_lp_mint (dc_accounts c)), ai_key (da_dest_lp (dc_accounts c)), lp)] \<and>
    lp \<noteq> 0 \<and> coin \<noteq> 0 \<and> pc \<noteq> 0 \<and> coin \<le> max_coin_amount d \<and> pc \<le> max_pc_amount d \<and>
    coin \<le> ta_amount (dc_source_coin c) \<and> pc \<le> ta_amount (dc_source_pc c) \<and>
    (case other_amount_min d of Some k \<Rightarrow> k \<le> (if base_side d = 0 then pc else coin) | None \<Rightarrow> True) \<and>
    data_of w' (da_amm (dc_accounts c)) = AmmData amm \<and>
    unat (lp_amount amm) = unat (lp_amount (dc_amm c)) + unat lp"
  using process_deposit_Ok [OF assms]
  by (elim exE conjE) (drule (2) deposit_amounts_Ok, drule deposit_update_Ok, fastforce)

theorem deposit_effect_witness:
  "\<exists>w' pc lp. process_deposit demo_env 5 demo_deposit_accounts demo_deposit demo_world = Ok w' \<and>
    transfers (new_calls demo_world w') = [(20, 11, 100), (21, 12, pc)] \<and> pc \<le> 450 \<and>
    minted (new_calls demo_world w') = [(13, 22, lp)] \<and> lp \<noteq> 0"
proof -
  obtain w' where w: "process_deposit demo_env 5 demo_deposit_accounts demo_deposit demo_world = Ok w'"
    using demo_deposit_runs by blast
  have "ai_key (da_token_program (dc_accounts demo_deposit_ctx)) \<noteq> env_spl_token_2022 demo_env"
    by (simp add: demo_deposit_ctx_def deposit_accounts_of_def demo_deposit_accounts_def demo_defs)
  from deposit_effect [OF w demo_deposit_prepare this] w obtain pc coin lp where
    t: "transfers (new_calls demo_world w') = [(20, 11, coin), (21, 12, pc)]"
    "minted (new_calls demo_world w') = [(13, 22, lp)]" "lp \<noteq> 0" "pc \<le> 450"
    by (auto simp: demo_deposit_ctx_def deposit_accounts_of_def demo_deposit_accounts_def demo_deposit_def
        ro_def rw_def)
  have "coin = 100"
    using t(1) w unfolding process_deposit_def demo_deposit_prepare
    by (auto simp: demo_deposit_ctx_def deposit_run_eval deposit_eval transfers_def moved_def new_calls_def)
  with t w show ?thesis by blast
qed

text \<open>
  C10. Depositing never dilutes the other holders: the LP tokens minted are the floored share of the
  side the user fixed, and are at most the share that either of the two payments is of the pool,
  priced against the totals after the profit is taken.
\<close>

theorem deposit_mints_fairly:
  assumes "process_deposit env pid accs d w = Ok w'" "deposit_prepare env pid accs d w = Ok (c, w1)"
    and "ai_key (da_token_program (dc_accounts c)) \<noteq> env_spl_token_2022 env"
  shows "\<exists>src src' cv pv coin pc m dst lp.
    transfers (new_calls w w') = [(src, cv, coin), (src', pv, pc)] \<and> minted (new_calls w w') = [(m, dst, lp)] \<and>
    unat lp * unat (dc_total_coin c) \<le> unat (lp_amount (dc_amm c)) * unat coin \<and>
    unat lp * unat (dc_total_pc c) \<le> unat (lp_amount (dc_amm c)) * unat pc \<and>
    unat lp = (if base_side d = 0 then unat (lp_amount (dc_amm c)) * unat coin div unat (dc_total_coin c)
               else unat (lp_amount (dc_amm c)) * unat pc div unat (dc_total_pc c))"
  using process_deposit_Ok [OF assms]
  by (elim exE conjE) (drule (2) deposit_amounts_Ok, unfold fair_deposit_def, fastforce)

theorem deposit_mints_fairly_witness:
  "\<exists>w' src src' cv pv coin pc m dst lp.
    process_deposit demo_env 5 demo_deposit_accounts demo_deposit demo_world = Ok w' \<and>
    transfers (new_calls demo_world w') = [(src, cv, coin), (src', pv, pc)] \<and>
    minted (new_calls demo_world w') = [(m, dst, lp)] \<and>
    unat lp * 2000 \<le> 4000 * unat coin \<and> unat lp * 8000 \<le> 4000 * unat pc"
proof -
  obtain w' where w: "process_deposit demo_env 5 demo_deposit_accounts demo_deposit demo_world = Ok w'"
    using demo_deposit_runs by blast
  have "ai_key (da_token_program (dc_accounts demo_deposit_ctx)) \<noteq> env_spl_token_2022 demo_env"
    by (simp add: demo_deposit_ctx_def deposit_accounts_of_def demo_deposit_accounts_def demo_defs)
  moreover have "unat (dc_total_coin demo_deposit_ctx) = 2000" "unat (dc_total_pc demo_deposit_ctx) = 8000"
    "unat (lp_amount (dc_amm demo_deposit_ctx)) = 4000"
    by (simp_all add: demo_deposit_ctx_def demo_amm_def)
  ultimately show ?thesis
    using deposit_mints_fairly [OF w demo_deposit_prepare] w by metis
qed

lemma normalize_decimal_v2_value:
  assumes "normalize_decimal_v2 v dec s = (Ok n :: ('e, u128) outcome)"
  shows "unat n = unat v * unat s div 10 ^ unat dec"
  using assms by (auto simp: normalize_decimal_v2_def pow10_def outcome word_arith)

lemma deposit_into_empty_pool:
  assumes "deposit_prepare env pid accs d w = Ok (c, w1)" "dc_total_pc c = 0" "dc_total_coin c = 0"
  shows "\<not> is_ok (process_deposit env pid accs d w)"
proof -
  have "deposit_amounts d lp 0 0 = Panic" for lp
    by (simp add: deposit_amounts_def deposit_base_coin_def deposit_base_pc_def exchange_coin_to_pc_def
        exchange_pc_to_coin_def exchange_def arith_eval split: option.splits)
  then show ?thesis using assms by (simp add: process_deposit_def is_ok_iff)
qed

text \<open>What the profit leaves of a total when the base is the total but for a rest.\<close>

lemma saturating_sub_base:
  fixes total :: u64 and base rest :: u128
  assumes "unat base + unat rest = unat total"
  shows "unat (saturating_sub total (ucast base)) = unat rest"
proof -
  have "unat base < 2 ^ 64" using assms unat_lt [of total] by simp
  then have "unat (ucast base :: u64) = unat base" by (simp add: unsigned_ucast_eq take_bit_nat_eq_self)
  then show ?thesis using assms by (simp add: saturating_sub_def word_le_nat_alt unat_sub)
qed

text \<open>
  C11. A deposit makes the pool the profit of the next one. In a pool whose decimals need no scaling
  let a second deposit meet the records as the first left them, and the tokens the first met
  with its two payments. The profit it takes off is then, on both sides, everything in the pool but
  for the profit base the first deposit met, and is booked in the profit counters; that old base is all
  that is left to price the second deposit, and if it was zero the second deposit fails, whoever makes
  it and whatever the amounts.
\<close>

theorem deposit_books_pool_as_profit:
  assumes "process_deposit env pid accs d w = Ok w'" "deposit_prepare env pid accs d w = Ok (c, w1)"
    and "ai_key (da_token_program (dc_accounts c)) \<noteq> env_spl_token_2022 env"
    and "transfers (new_calls w w') = [(src, cv, coin), (src', pv, pc)]"
    and "deposit_prepare env2 pid accs2 d2 w2 = Ok (c2, w3)"
    and "data_of w2 (da_amm (dc_accounts c2)) = data_of w' (da_amm (dc_accounts c))"
    and "data_of w2 (da_target_orders (dc_accounts c2)) = data_of w' (da_target_orders (dc_accounts c))"
    and "unat (sys_decimal_value (dc_amm c)) = 10 ^ unat (pc_decimals (dc_amm c))"
    and "unat (sys_decimal_value (dc_amm c)) = 10 ^ unat (coin_decimals (dc_amm c))"
    and "unat (dc_x1 c2) = unat (dc_x1 c) + unat pc" "unat (dc_y1 c2) = unat (dc_y1 c) + unat coin"
  shows "unat (dc_delta_x c2) + unat (dc_delta_x c) = unat (dc_x1 c2) \<and>
    unat (dc_delta_y c2) + unat (dc_delta_y c) = unat (dc_y1 c2) \<and>
    unat (dc_total_pc c2) = unat (dc_delta_x c) \<and> unat (dc_total_coin c2) = unat (dc_delta_y c) \<and>
    total_pnl_pc (amm_state_data (dc_amm c2)) =
      saturating_add (total_pnl_pc (amm_state_data (dc_amm c))) (ucast (dc_delta_x c2)) \<and>
    total_pnl_coin (amm_state_data (dc_amm c2)) =
      saturating_add (total_pnl_coin (amm_state_data (dc_amm c))) (ucast (dc_delta_y c2)) \<and>
    (if dc_delta_x c = 0 \<and> dc_delta_y c = 0 then \<not> is_ok (process_deposit env2 pid accs2 d2 w2) else True)"
proof -
  from process_deposit_Ok [OF assms(1-3)] obtain pc' coin' lp amm target clk where
    moves: "transfers (new_calls w w') =
      [(ai_key (da_source_coin (dc_accounts c)), ai_key (da_coin_vault (dc_accounts c)), coin'),
       (ai_key (da_source_pc (dc_accounts c)), ai_key (da_pc_vault (dc_accounts c)), pc')]"
    and u': "deposit_update c pc' coin' lp = Ok (amm, target)"
    and after: "env_clock env = Ok clk" "data_of w' (da_amm (dc_accounts c)) = AmmData (amm\<lparr>recent_epoch := clock_epoch clk\<rparr>)"
      "data_of w' (da_target_orders (dc_accounts c)) = TargetData target"
    by blast
  have u: "deposit_update c pc coin lp = Ok (amm, target)" using moves u' assms(4) by simp
  obtain npc ncoin where n:
    "normalize_decimal_v2 pc (pc_decimals (dc_amm c)) (sys_decimal_value (dc_amm c)) = (Ok npc :: u128 res)"
    "normalize_decimal_v2 coin (coin_decimals (dc_amm c)) (sys_decimal_value (dc_amm c)) = (Ok ncoin :: u128 res)"
    and base: "unat (calc_pnl_x target) + unat (dc_delta_x c) = unat (dc_x1 c) + unat npc"
      "unat (calc_pnl_y target) + unat (dc_delta_y c) = unat (dc_y1 c) + unat ncoin"
    and amm: "amm = (dc_amm c)\<lparr>lp_amount := lp_amount (dc_amm c) + lp\<rparr>"
    using deposit_update_Ok [OF u] by blast
  let ?amm2 = "amm\<lparr>recent_epoch := clock_epoch clk\<rparr>"
  have views: "amm_view (data_of w2 (da_amm (dc_accounts c2))) = ?amm2"
      "target_view (data_of w2 (da_target_orders (dc_accounts c2))) = target"
    using assms(6,7) after(2,3) by (simp_all add: amm_view_def target_view_def)
  from deposit_prepare_Ok [OF assms(5), unfolded views] obtain tpc tcoin where
    take: "calc_take_pnl target ?amm2 tpc tcoin =
      (dc_amm c2, dc_total_pc c2, dc_total_coin c2, dc_delta_x c2, dc_delta_y c2)"
    and x1: "normalize_decimal_v2 tpc (pc_decimals ?amm2) (sys_decimal_value ?amm2) = (Ok (dc_x1 c2) :: u128 res)"
    and y1: "normalize_decimal_v2 tcoin (coin_decimals ?amm2) (sys_decimal_value ?amm2) = (Ok (dc_y1 c2) :: u128 res)"
    by metis
  have t: "unat (dc_x1 c2) = unat tpc" "unat (dc_y1 c2) = unat tcoin" "unat npc = unat pc" "unat ncoin = unat coin"
    using normalize_decimal_v2_value [OF x1] normalize_decimal_v2_value [OF y1] normalize_decimal_v2_value [OF n(1)]
      normalize_decimal_v2_value [OF n(2)] assms(8,9) by (simp_all add: amm)
  have d: "dc_delta_x c2 = calc_pnl_x target" "dc_delta_y c2 = calc_pnl_y target"
    and rest: "dc_total_pc c2 = saturating_sub tpc (ucast (calc_pnl_x target))"
      "dc_total_coin c2 = saturating_sub tcoin (ucast (calc_pnl_y target))"
    and booked: "amm_state_data (dc_amm c2) = (amm_state_data (dc_amm c))
       \<lparr>total_pnl_pc := saturating_add (total_pnl_pc (amm_state_data (dc_amm c))) (ucast (calc_pnl_x target)),
        total_pnl_coin := saturating_add (total_pnl_coin (amm_state_data (dc_amm c))) (ucast (calc_pnl_y target))\<rparr>"
    using take by (auto simp: calc_take_pnl_eq amm)
  have sums: "unat (calc_pnl_x target) + unat (dc_delta_x c) = unat tpc"
      "unat (calc_pnl_y target) + unat (dc_delta_y c) = unat tcoin"
    using base t assms(10,11) by simp_all
  have left: "unat (dc_total_pc c2) = unat (dc_delta_x c)" "unat (dc_total_coin c2) = unat (dc_delta_y c)"
    using saturating_sub_base [OF sums(1)] saturating_sub_base [OF sums(2)] rest by simp_all
  then have "dc_delta_x c = 0 \<and> dc_delta_y c = 0 \<Longrightarrow> dc_total_pc c2 = 0 \<and> dc_total_coin c2 = 0"
    by (simp add: unat_eq_zero)
  with deposit_into_empty_pool [OF assms(5)] show ?thesis using sums t left d booked by simp
qed

text \<open>The example deposit, and the same once more.\<close>

definition demo_second_ctx :: deposit_ctx where
  "demo_second_ctx = demo_deposit_ctx
     \<lparr>dc_amm := demo_amm\<lparr>lp_amount := 4200, recent_epoch := 7, amm_state_data := zero_state_data\<lparr>total_pnl_pc := 8400, total_pnl_coin := 2100\<rparr>\<rparr>,
      dc_target := zero_target_orders\<lparr>t_owner := 10, calc_pnl_x := 8400, calc_pnl_y := 2100\<rparr>,
      dc_source_coin := \<lparr>ta_mint = 30, ta_owner = 23, ta_amount = 900\<rparr>,
      dc_source_pc := \<lparr>ta_mint = 31, ta_owner = 23, ta_amount = 600\<rparr>,
      dc_total_pc := 0, dc_total_coin := 0, dc_x1 := 8400, dc_y1 := 2100, dc_delta_x := 8400, dc_delta_y := 2100\<rparr>"

lemma demo_deposit_twice:
  "\<exists>w' w3. process_deposit demo_env 5 demo_deposit_accounts demo_deposit demo_world = Ok w' \<and>
    deposit_prepare demo_env 5 demo_deposit_accounts demo_deposit (w'\<lparr>borrowed := []\<rparr>) = Ok (demo_second_ctx, w3) \<and>
    transfers (new_calls demo_world w') = [(20, 11, 100), (21, 12, 400)]"
  unfolding process_deposit_def demo_deposit_prepare
  by (simp add: demo_deposit_ctx_def demo_second_ctx_def deposit_run_eval deposit_eval transfers_def moved_def new_calls_def)

theorem deposit_books_pool_as_profit_witness:
  "\<exists>w' w3. process_deposit demo_env 5 demo_deposit_accounts demo_deposit demo_world = Ok w' \<and>
    deposit_prepare demo_env 5 demo_deposit_accounts demo_deposit (w'\<lparr>borrowed := []\<rparr>) = Ok (demo_second_ctx, w3) \<and>
    unat (dc_total_pc demo_second_ctx) = 0 \<and> unat (dc_total_coin demo_second_ctx) = 0 \<and>
    \<not> is_ok (process_deposit demo_env 5 demo_deposit_accounts demo_deposit (w'\<lparr>borrowed := []\<rparr>))"
proof -
  obtain w' w3 where w: "process_deposit demo_env 5 demo_deposit_accounts demo_deposit demo_world = Ok w'"
    and second: "deposit_prepare demo_env 5 demo_deposit_accounts demo_deposit (w'\<lparr>borrowed := []\<rparr>) = Ok (demo_second_ctx, w3)"
    and moves: "transfers (new_calls demo_world w') = [(20, 11, 100), (21, 12, 400)]"
    using demo_deposit_twice by blast
  have tp: "ai_key (da_token_program (dc_accounts demo_deposit_ctx)) \<noteq> env_spl_token_2022 demo_env"
    by (simp add: demo_deposit_ctx_def deposit_accounts_of_def demo_deposit_accounts_def demo_defs)
  have same: "data_of (w'\<lparr>borrowed := []\<rparr>) (da_amm (dc_accounts demo_second_ctx)) = data_of w' (da_amm (dc_accounts demo_deposit_ctx))"
    "data_of (w'\<lparr>borrowed := []\<rparr>) (da_target_orders (dc_accounts demo_second_ctx)) =
       data_of w' (da_target_orders (dc_accounts demo_deposit_ctx))"
    by (simp_all add: demo_second_ctx_def demo_deposit_ctx_def data_of_def account_of_def)
  have scale: "unat (sys_decimal_value (dc_amm demo_deposit_ctx)) = 10 ^ unat (pc_decimals (dc_amm demo_deposit_ctx))"
    "unat (sys_decimal_value (dc_amm demo_deposit_ctx)) = 10 ^ unat (coin_decimals (dc_amm demo_deposit_ctx))"
    by (simp_all add: demo_deposit_ctx_def demo_amm_def zero_amm_info_def)
  have grown: "unat (dc_x1 demo_second_ctx) = unat (dc_x1 demo_deposit_ctx) + unat (400 :: u64)"
    "unat (dc_y1 demo_second_ctx) = unat (dc_y1 demo_deposit_ctx) + unat (100 :: u64)"
    by (simp_all add: demo_second_ctx_def demo_deposit_ctx_def)
  have "dc_delta_x demo_deposit_ctx = 0" "dc_delta_y demo_deposit_ctx = 0" by (simp_all add: demo_deposit_ctx_def)
  with deposit_books_pool_as_profit [OF w demo_deposit_prepare tp moves second same scale grown] w second
  show ?thesis by auto
qed

end
