(* ===== verification/Withdraw.thy ===== *)
theory Withdraw
  imports Deposit
begin

text \<open>
  \<^verbatim>\<open>process/withdraw.rs\<close>: an LP holder burns LP tokens for the floored share of the two totals.
  The handler admits 20 to 23 accounts but reads 22, 23, 24 or 25 of them, so it always stops at
  \<^verbatim>\<open>next_account_info\<close> (theorem \<open>withdraw_never_succeeds\<close>); what it would do with the accounts
  it reads is \<open>withdraw_run\<close>. Logging is not modelled.
\<close>

definition WITHDRAW_ACCOUNT_LEN :: nat where "WITHDRAW_ACCOUNT_LEN = 20"

record withdraw_accounts =
  wa_token_program :: account_info
  wa_amm :: account_info
  wa_target_orders :: account_info
  wa_lp_mint :: account_info
  wa_coin_vault :: account_info
  wa_pc_vault :: account_info
  wa_coin_mint :: account_info
  wa_pc_mint :: account_info
  wa_market :: market_accounts
  wa_source_lp :: account_info
  wa_dest_coin :: account_info
  wa_dest_pc :: account_info
  wa_owner :: account_info
  wa_referrer :: "account_info option"

text \<open>Two padding accounts are skipped when there are 22 or 23 accounts, a referrer is read when there are 21 or 23.\<close>

definition withdraw_padded :: "nat \<Rightarrow> bool" where
  "withdraw_padded len = (len = WITHDRAW_ACCOUNT_LEN + 2 \<or> len = WITHDRAW_ACCOUNT_LEN + 3)"

definition withdraw_referred :: "nat \<Rightarrow> bool" where
  "withdraw_referred len = (len = WITHDRAW_ACCOUNT_LEN + 1 \<or> len = WITHDRAW_ACCOUNT_LEN + 3)"

definition withdraw_reads :: "nat \<Rightarrow> nat" where
  "withdraw_reads len = 10 + (if withdraw_padded len then 2 else 0) + 12 + (if withdraw_referred len then 1 else 0)"

definition withdraw_accounts_of :: "nat \<Rightarrow> account_info list \<Rightarrow> withdraw_accounts" where
  "withdraw_accounts_of len accounts =
     (let a = (if withdraw_padded len then take 10 accounts @ drop 12 accounts else accounts) in
      \<lparr>wa_token_program = a ! 0, wa_amm = a ! 1, wa_target_orders = a ! 4, wa_lp_mint = a ! 5,
       wa_coin_vault = a ! 6, wa_pc_vault = a ! 7, wa_coin_mint = a ! 8, wa_pc_mint = a ! 9,
       wa_market = \<lparr>ma_program = a ! 10, ma_market = a ! 11, ma_bids = a ! 20, ma_asks = a ! 21,
         ma_event_q = a ! 19, ma_coin_vault = a ! 12, ma_pc_vault = a ! 13, ma_vault_signer = a ! 14,
         ma_open_orders = a ! 3, ma_authority = a ! 2\<rparr>,
       wa_source_lp = a ! 15, wa_dest_coin = a ! 16, wa_dest_pc = a ! 17, wa_owner = a ! 18,
       wa_referrer = (if withdraw_referred len then Some (a ! 22) else None)\<rparr>)"

record withdraw_ctx =
  wc_accounts :: withdraw_accounts
  wc_amm :: amm_info
  wc_target :: target_orders_data
  wc_coin_vault :: token_account
  wc_pc_vault :: token_account
  wc_source_lp :: token_account
  wc_total_pc :: u64
  wc_total_coin :: u64
  wc_x1 :: u128
  wc_y1 :: u128
  wc_delta_x :: u128
  wc_delta_y :: u128

section \<open>Checks\<close>

text \<open>\<^verbatim>\<open>config::referrer_pc_wallet::id()\<close> is the default address.\<close>

definition referrer_pc_wallet_id :: "pubkey res" where "referrer_pc_wallet_id = Ok default_pubkey"

definition withdraw_check_referrer :: "env \<Rightarrow> withdraw_accounts \<Rightarrow> world \<Rightarrow> unit res" where
  "withdraw_check_referrer env wa w =
     (case wa_referrer wa of
        None \<Rightarrow> Ok ()
      | Some r \<Rightarrow>
          if ai_key r = default_pubkey then Ok ()
          else rbind (into_res (unpack_token_account env r (ai_key (wa_token_program wa)) w)) (\<lambda>tok.
            rbind referrer_pc_wallet_id (\<lambda>ident.
            if ta_owner tok \<noteq> ident then AmmErr InvalidOwner else Ok ())))"

definition withdraw_check :: "env \<Rightarrow> pubkey \<Rightarrow> withdraw_accounts \<Rightarrow> amm_info \<Rightarrow> bool res" where
  "withdraw_check env program_id wa amm =
     rbind (amm_status_from_u64 (status amm)) (\<lambda>st.
       if \<not> withdraw_permission st then AmmErr InvalidStatus
       else rbind (into_res (authority_id env program_id AUTHORITY_AMM (ucast (nonce amm)))) (\<lambda>authority.
         if ai_key (ma_authority (wa_market wa)) \<noteq> authority then AmmErr InvalidProgramAddress
         else if ai_key (wa_token_program wa) \<noteq> env_spl_token env then AmmErr InvalidSplTokenProgram
         else if ai_key (wa_coin_vault wa) \<noteq> coin_vault amm \<or> ai_key (wa_dest_coin wa) = coin_vault amm
         then AmmErr InvalidCoinVault
         else if ai_key (wa_pc_vault wa) \<noteq> pc_vault amm \<or> ai_key (wa_dest_pc wa) = pc_vault amm
         then AmmErr InvalidPCVault
         else if ai_key (wa_target_orders wa) \<noteq> target_orders amm then AmmErr InvalidTargetOrders
         else if ai_key (wa_lp_mint wa) \<noteq> lp_mint amm then AmmErr InvalidPoolMint
         else Ok (orderbook_permission st)))"

definition withdraw_check_lp ::
  "withdraw_instruction \<Rightarrow> withdraw_accounts \<Rightarrow> amm_info \<Rightarrow> mint_account \<Rightarrow> token_account \<Rightarrow> unit res" where
  "withdraw_check_lp withdraw wa amm mint source_lp =
     (if ta_mint source_lp \<noteq> ai_key (wa_lp_mint wa) then AmmErr InvalidTokenLP
      else if w_amount withdraw > ta_amount source_lp then AmmErr InsufficientFunds
      else if w_amount withdraw > mint_supply mint \<or> w_amount withdraw \<ge> lp_amount amm
      then AmmErr NotAllowZeroLP
      else Ok ())"

text \<open>
  With the order book: every order is cancelled, the funds are settled (to the referrer or, without
  one, to the pc vault), and the totals are taken from the balances read before.
\<close>

definition withdraw_totals ::
  "env \<Rightarrow> withdraw_accounts \<Rightarrow> amm_info \<Rightarrow> bool \<Rightarrow> token_account \<Rightarrow> token_account \<Rightarrow> token_account \<Rightarrow>
   token_account \<Rightarrow> world \<Rightarrow> (u64 \<times> u64 \<times> world) res" where
  "withdraw_totals env wa amm enable_orderbook coin_vault_acc pc_vault_acc dest_coin dest_pc w =
     (let ma = wa_market wa in
      if enable_orderbook then
        if ai_key (ma_market ma) \<noteq> market amm then AmmErr InvalidMarket
        else if ai_key (ma_program ma) \<noteq> market_program amm then AmmErr InvalidMarketProgram
        else if ai_key (ma_open_orders ma) \<noteq> open_orders amm then AmmErr InvalidOpenOrders
        else
          rbind (load_serum_market_order env (ma_market ma) (ma_open_orders ma) (ma_authority ma) amm False w)
            (\<lambda>(ms, oo).
          rbind (env_slab env Bid w (ai_key (ma_market ma)) (ai_key (ma_bids ma))) (\<lambda>bids_slab.
          rbind (env_slab env Ask w (ai_key (ma_market ma)) (ai_key (ma_asks ma))) (\<lambda>asks_slab.
          rbind (get_amm_orders oo bids_slab asks_slab) (\<lambda>(bids, asks).
          rbind (cancel_amm_orders_and_settle env ma (wa_coin_vault wa) (wa_pc_vault wa) (wa_token_program wa)
                   (case wa_referrer wa of Some r \<Rightarrow> Some r | None \<Rightarrow> Some (wa_pc_vault wa)) bids asks
                   (ucast (nonce amm)) w) (\<lambda>w.
            if ms_coin_mint ms \<noteq> ta_mint coin_vault_acc \<or> ms_coin_mint ms \<noteq> ta_mint dest_coin
            then AmmErr InvalidCoinMint
            else if ms_pc_mint ms \<noteq> ta_mint pc_vault_acc \<or> ms_pc_mint ms \<noteq> ta_mint dest_pc
            then AmmErr InvalidPCMint
            else
              rbind (into_res (calc_total_without_take_pnl (ta_amount pc_vault_acc) (ta_amount coin_vault_acc) oo amm
                       (env_events env w (ai_key (ma_market ma)) (ai_key (ma_event_q ma)))
                       (ai_key (ma_open_orders ma)))) (\<lambda>(pc, coin).
              Ok (pc, coin, w)))))))
      else
        rbind (into_res (calc_total_without_take_pnl_no_orderbook (ta_amount pc_vault_acc)
                 (ta_amount coin_vault_acc) amm)) (\<lambda>(pc, coin).
        Ok (pc, coin, w)))"

text \<open>Profit is taken except in the status WithdrawOnly.\<close>

definition withdraw_profit ::
  "target_orders_data \<Rightarrow> amm_info \<Rightarrow> u64 \<Rightarrow> u64 \<Rightarrow> amm_info \<times> u64 \<times> u64 \<times> u128 \<times> u128" where
  "withdraw_profit target amm total_pc total_coin =
     (if status amm \<noteq> amm_status_into_u64 WithdrawOnly then calc_take_pnl target amm total_pc total_coin
      else (amm, total_pc, total_coin, 0, 0))"

record withdraw_loaded =
  wl_amm :: amm_info
  wl_target :: target_orders_data
  wl_orderbook :: bool
  wl_coin_vault :: token_account
  wl_pc_vault :: token_account
  wl_dest_coin :: token_account
  wl_dest_pc :: token_account
  wl_source_lp :: token_account

definition withdraw_load ::
  "env \<Rightarrow> pubkey \<Rightarrow> withdraw_accounts \<Rightarrow> withdraw_instruction \<Rightarrow> world \<Rightarrow> (withdraw_loaded \<times> world) res" where
  "withdraw_load env program_id wa withdraw w =
     (let spl = ai_key (wa_token_program wa) in
      rbind (withdraw_check_referrer env wa w) (\<lambda>_.
      if \<not> ai_is_signer (wa_owner wa) then AmmErr InvalidSignAccount
      else
        rbind (amm_load_mut_checked env program_id (wa_amm wa) w) (\<lambda>(amm, w).
        rbind (target_load_mut_checked env program_id (ai_key (wa_amm wa)) (wa_target_orders wa) w) (\<lambda>(target, w).
        rbind (withdraw_check env program_id wa amm) (\<lambda>enable_orderbook.
        rbind (into_res (unpack_token_account env (wa_coin_vault wa) spl w)) (\<lambda>coin_vault_acc.
        rbind (into_res (unpack_token_account env (wa_pc_vault wa) spl w)) (\<lambda>pc_vault_acc.
        rbind (into_res (unpack_token_account env (wa_dest_coin wa) spl w)) (\<lambda>dest_coin.
        rbind (into_res (unpack_token_account env (wa_dest_pc wa) spl w)) (\<lambda>dest_pc.
        rbind (into_res (unpack_mint env (wa_lp_mint wa) spl w)) (\<lambda>mint.
        rbind (into_res (unpack_token_account env (wa_source_lp wa) spl w)) (\<lambda>source_lp.
        rbind (withdraw_check_lp withdraw wa amm mint source_lp) (\<lambda>_.
        Ok (\<lparr>wl_amm = amm, wl_target = target, wl_orderbook = enable_orderbook,
             wl_coin_vault = coin_vault_acc, wl_pc_vault = pc_vault_acc, wl_dest_coin = dest_coin,
             wl_dest_pc = dest_pc, wl_source_lp = source_lp\<rparr>, w)))))))))))))"

definition withdraw_ctx_of ::
  "withdraw_accounts \<Rightarrow> withdraw_loaded \<Rightarrow> u64 \<Rightarrow> u64 \<Rightarrow> u128 \<Rightarrow> u128 \<Rightarrow> withdraw_ctx" where
  "withdraw_ctx_of wa l total_pc total_coin x1 y1 =
     (case withdraw_profit (wl_target l) (wl_amm l) total_pc total_coin of
        (amm, total_pc, total_coin, dx, dy) \<Rightarrow>
          \<lparr>wc_accounts = wa, wc_amm = amm, wc_target = wl_target l, wc_coin_vault = wl_coin_vault l,
           wc_pc_vault = wl_pc_vault l, wc_source_lp = wl_source_lp l, wc_total_pc = total_pc,
           wc_total_coin = total_coin, wc_x1 = x1, wc_y1 = y1, wc_delta_x = dx, wc_delta_y = dy\<rparr>)"

definition withdraw_prepare ::
  "env \<Rightarrow> pubkey \<Rightarrow> withdraw_accounts \<Rightarrow> withdraw_instruction \<Rightarrow> world \<Rightarrow> (withdraw_ctx \<times> world) res" where
  "withdraw_prepare env program_id wa withdraw w =
     rbind (withdraw_load env program_id wa withdraw w) (\<lambda>(l, w).
     let amm = wl_amm l in
     rbind (withdraw_totals env wa amm (wl_orderbook l) (wl_coin_vault l) (wl_pc_vault l) (wl_dest_coin l)
              (wl_dest_pc l) w) (\<lambda>(total_pc, total_coin, w).
     rbind (normalize_decimal_v2 total_pc (pc_decimals amm) (sys_decimal_value amm)) (\<lambda>x1.
     rbind (normalize_decimal_v2 total_coin (coin_decimals amm) (sys_decimal_value amm)) (\<lambda>y1.
     Ok (withdraw_ctx_of wa l total_pc total_coin x1 y1, w)))))"

section \<open>Paying out\<close>

definition withdraw_move ::
  "env \<Rightarrow> pubkey \<Rightarrow> withdraw_ctx \<Rightarrow> u64 \<Rightarrow> u64 \<Rightarrow> u64 \<Rightarrow> world \<Rightarrow> world res" where
  "withdraw_move env program_id c coin_amount pc_amount lp w =
     (let wa = wc_accounts c; n = ucast (nonce (wc_amm c)); authority = ma_authority (wa_market wa) in
      rbind (token_transfer_with_authority env program_id (wa_token_program wa) (wa_coin_vault wa)
               (wa_dest_coin wa) authority AUTHORITY_AMM n coin_amount (wa_coin_mint wa) [] w) (\<lambda>w.
      rbind (token_transfer_with_authority env program_id (wa_token_program wa) (wa_pc_vault wa)
               (wa_dest_pc wa) authority AUTHORITY_AMM n pc_amount (wa_pc_mint wa) [] w) (\<lambda>w.
      token_burn env (wa_token_program wa) (wa_source_lp wa) (wa_lp_mint wa) (wa_owner wa) lp w)))"

definition profit_base_after :: "u128 \<Rightarrow> u128 \<Rightarrow> u128 \<Rightarrow> ('e, u128) outcome" where
  "profit_base_after x1 removed delta =
     rbind (unwrap (checked_sub x1 removed)) (\<lambda>s. unwrap (checked_sub s delta))"

definition withdraw_update ::
  "withdraw_ctx \<Rightarrow> u64 \<Rightarrow> u64 \<Rightarrow> u64 \<Rightarrow> (amm_info \<times> target_orders_data) res" where
  "withdraw_update c coin_amount pc_amount lp =
     (let amm = wc_amm c in
      rbind (unwrap (checked_sub (lp_amount amm) lp)) (\<lambda>l.
      rbind (normalize_decimal_v2 pc_amount (pc_decimals amm) (sys_decimal_value amm)) (\<lambda>npc.
      rbind (profit_base_after (wc_x1 c) npc (wc_delta_x c)) (\<lambda>px.
      rbind (normalize_decimal_v2 coin_amount (coin_decimals amm) (sys_decimal_value amm)) (\<lambda>ncoin.
      rbind (profit_base_after (wc_y1 c) ncoin (wc_delta_y c)) (\<lambda>py.
      Ok (amm\<lparr>lp_amount := l\<rparr>, (wc_target c)\<lparr>calc_pnl_x := px, calc_pnl_y := py\<rparr>)))))))"

definition withdraw_run ::
  "env \<Rightarrow> pubkey \<Rightarrow> withdraw_accounts \<Rightarrow> withdraw_instruction \<Rightarrow> world \<Rightarrow> world res" where
  "withdraw_run env program_id wa withdraw w =
     rbind (withdraw_prepare env program_id wa withdraw w) (\<lambda>(c, w).
     rbind (into_res (calculate_withdrawal_amounts (w_amount withdraw) (lp_amount (wc_amm c))
              (wc_total_coin c) (wc_total_pc c))) (\<lambda>(coin_amount, pc_amount).
       if w_amount withdraw = 0 \<or> coin_amount = 0 \<or> pc_amount = 0 then AmmErr InvalidInput
       else if coin_amount < ta_amount (wc_coin_vault c) \<and> pc_amount < ta_amount (wc_pc_vault c) then
         rbind (into_res (validate_withdraw_slippage withdraw coin_amount pc_amount)) (\<lambda>_.
         rbind (withdraw_move env program_id c coin_amount pc_amount (w_amount withdraw) w) (\<lambda>w.
         rbind (withdraw_update c coin_amount pc_amount (w_amount withdraw)) (\<lambda>(amm, target).
         rbind (env_clock env) (\<lambda>clk.
         Ok (store_target (wa_target_orders (wc_accounts c)) target
              (store_amm (wa_amm (wc_accounts c)) (amm\<lparr>recent_epoch := clock_epoch clk\<rparr>) w))))))
       else AmmErr TakePnlError))"

definition process_withdraw ::
  "env \<Rightarrow> pubkey \<Rightarrow> account_info list \<Rightarrow> withdraw_instruction \<Rightarrow> world \<Rightarrow> world res" where
  "process_withdraw env program_id accounts withdraw w =
     (let len = length accounts in
      if len \<noteq> WITHDRAW_ACCOUNT_LEN \<and> len \<noteq> WITHDRAW_ACCOUNT_LEN + 1 \<and> len \<noteq> WITHDRAW_ACCOUNT_LEN + 2
         \<and> len \<noteq> WITHDRAW_ACCOUNT_LEN + 3
      then AmmErr WrongAccountsNumber
      else rbind (next_accounts (withdraw_reads len) accounts) (\<lambda>a.
        withdraw_run env program_id (withdraw_accounts_of len a) withdraw w))"

section \<open>Properties\<close>

lemma withdraw_accounts_short:
  "process_withdraw env program_id accounts withdraw w =
     (if length accounts \<in> {20, 21, 22, 23} then Err PE_NotEnoughAccountKeys else AmmErr WrongAccountsNumber)"
  by (auto simp: process_withdraw_def next_accounts_def withdraw_reads_def withdraw_padded_def
      withdraw_referred_def WITHDRAW_ACCOUNT_LEN_def Let_def)

text \<open>
  C13. No withdrawal can succeed: for every program state, instruction and list of accounts, the
  handler returns WrongAccountsNumber, or NotEnoughAccountKeys when the number is one it admits.
\<close>

theorem withdraw_never_succeeds:
  "process_withdraw env program_id accounts withdraw w =
     (if length accounts \<in> {20, 21, 22, 23} then Err PE_NotEnoughAccountKeys else AmmErr WrongAccountsNumber)"
  by (rule withdraw_accounts_short)

lemma withdraw_load_Ok:
  assumes "withdraw_load env pid wa wd w = Ok (l, w1)"
  shows "ai_is_signer (wa_owner wa) \<and> ai_key (wa_token_program wa) = env_spl_token env \<and>
    ai_key (wa_target_orders wa) \<noteq> ai_key (wa_amm wa) \<and>
    w_amount wd < lp_amount (wl_amm l) \<and> w_amount wd \<le> ta_amount (wl_source_lp l)"
proof -
  from assms obtain amm w0 t ob mint lp where
    s: "ai_is_signer (wa_owner wa)"
    "amm_load_mut_checked env pid (wa_amm wa) w = Ok (amm, w0)"
    "target_load_mut_checked env pid (ai_key (wa_amm wa)) (wa_target_orders wa) w0 = Ok (t, w1)"
    "withdraw_check env pid wa amm = Ok ob" "withdraw_check_lp wd wa amm mint lp = Ok ()"
    "wl_amm l = amm" "wl_source_lp l = lp"
    by (auto simp: withdraw_load_def outcome Let_def split: if_splits)
  then show ?thesis
    by (auto simp: amm_load_mut_Ok target_load_mut_Ok is_borrowed_def hold_def withdraw_check_def
        withdraw_check_lp_def outcome not_less not_le split: if_splits)
qed

lemma withdraw_ctx_of_simps [simp]:
  "wc_accounts (withdraw_ctx_of wa l tpc tcoin x1 y1) = wa"
  "wc_source_lp (withdraw_ctx_of wa l tpc tcoin x1 y1) = wl_source_lp l"
  "lp_amount (wc_amm (withdraw_ctx_of wa l tpc tcoin x1 y1)) = lp_amount (wl_amm l)"
  by (simp_all add: withdraw_ctx_of_def withdraw_profit_def calc_take_pnl_def Let_def)

lemma withdraw_prepare_Ok:
  assumes "withdraw_prepare env pid wa wd w = Ok (c, w1)"
  shows "wc_accounts c = wa \<and> ai_is_signer (wa_owner wa) \<and>
    ai_key (wa_token_program wa) = env_spl_token env \<and>
    ai_key (wa_target_orders wa) \<noteq> ai_key (wa_amm wa) \<and>
    w_amount wd < lp_amount (wc_amm c) \<and> w_amount wd \<le> ta_amount (wc_source_lp c)"
proof -
  from assms obtain l w0 tpc tcoin x1 y1 where "withdraw_load env pid wa wd w = Ok (l, w0)"
      "c = withdraw_ctx_of wa l tpc tcoin x1 y1"
    by (auto simp: withdraw_prepare_def outcome Let_def)
  then show ?thesis using withdraw_load_Ok by simp
qed

lemma withdraw_move_calls:
  assumes "withdraw_move env pid c coin pc lp w = Ok w'"
    and "ai_key (wa_token_program (wc_accounts c)) \<noteq> env_spl_token_2022 env"
  shows "transfers (new_calls w w') =
      [(ai_key (wa_coin_vault (wc_accounts c)), ai_key (wa_dest_coin (wc_accounts c)), coin),
       (ai_key (wa_pc_vault (wc_accounts c)), ai_key (wa_dest_pc (wc_accounts c)), pc)] \<and>
    burned (new_calls w w') =
      [(ai_key (wa_lp_mint (wc_accounts c)), ai_key (wa_source_lp (wc_accounts c)), lp)]"
  using assms(1)
  by (auto simp: withdraw_move_def Let_def outcome token_burn_def moved_def burned_def new_calls_def
      dest!: token_transfer_Ok [OF assms(2)] invoke_signed_Ok)

lemma calculate_withdrawal_amounts_Ok:
  assumes "calculate_withdrawal_amounts a lp tcoin tpc = Ok (coin, pc)"
  shows "unat lp \<noteq> 0 \<and> unat coin = unat tcoin * unat a div unat lp \<and> unat pc = unat tpc * unat a div unat lp"
proof -
  from assms have "(exchange tcoin a lp Floor :: (amm_error, u64 option) outcome) = Ok (Some coin)"
    "(exchange tpc a lp Floor :: (amm_error, u64 option) outcome) = Ok (Some pc)"
    by (auto simp: calculate_withdrawal_amounts_def exchange_pool_to_token_def outcome Let_def)
  then show ?thesis using exchange_Floor_value by blast
qed

lemma withdraw_update_Ok:
  assumes "withdraw_update c coin pc lp = Ok (amm, target)"
  shows "unat (lp_amount (wc_amm c)) = unat (lp_amount amm) + unat lp"
  using assms by (auto simp: withdraw_update_def outcome Let_def checked_sub_Some_iff)

text \<open>
  C12. The body of the withdrawal, on the accounts it reads, would pay out the floored shares of the
  two totals, burn exactly the LP tokens asked for and reduce the pool's LP amount by them. It
  needs the LP owner's signature, never redeems the last LP token, respects the user's minima, and
  never lowers the amount of either token per remaining LP token.
\<close>

theorem withdraw_run_effect:
  assumes "withdraw_run env pid wa wd w = Ok w'" "withdraw_prepare env pid wa wd w = Ok (c, w1)"
    and "env_spl_token env \<noteq> env_spl_token_2022 env"
  shows "\<exists>coin pc amm.
    transfers (new_calls w1 w') =
      [(ai_key (wa_coin_vault wa), ai_key (wa_dest_coin wa), coin), (ai_key (wa_pc_vault wa), ai_key (wa_dest_pc wa), pc)] \<and>
    burned (new_calls w1 w') = [(ai_key (wa_lp_mint wa), ai_key (wa_source_lp wa), w_amount wd)] \<and>
    ai_is_signer (wa_owner wa) \<and> w_amount wd < lp_amount (wc_amm c) \<and>
    unat coin = unat (wc_total_coin c) * unat (w_amount wd) div unat (lp_amount (wc_amm c)) \<and>
    unat pc = unat (wc_total_pc c) * unat (w_amount wd) div unat (lp_amount (wc_amm c)) \<and>
    validate_withdraw_slippage wd coin pc = Ok () \<and>
    data_of w' (wa_amm wa) = AmmData amm \<and>
    unat (lp_amount (wc_amm c)) = unat (lp_amount amm) + unat (w_amount wd) \<and>
    unat (wc_total_coin c) * unat (lp_amount amm)
      \<le> (unat (wc_total_coin c) - unat coin) * unat (lp_amount (wc_amm c)) \<and>
    unat (wc_total_pc c) * unat (lp_amount amm)
      \<le> (unat (wc_total_pc c) - unat pc) * unat (lp_amount (wc_amm c))"
proof -
  note p = withdraw_prepare_Ok [OF assms(2)]
  from assms(1,2) obtain coin pc w2 amm target clk where
    r: "calculate_withdrawal_amounts (w_amount wd) (lp_amount (wc_amm c)) (wc_total_coin c) (wc_total_pc c)
       = Ok (coin, pc)"
    "validate_withdraw_slippage wd coin pc = Ok ()"
    "withdraw_move env pid c coin pc (w_amount wd) w1 = Ok w2"
    "withdraw_update c coin pc (w_amount wd) = Ok (amm, target)" "env_clock env = Ok clk"
    and w': "w' = store_target (wa_target_orders (wc_accounts c)) target
              (store_amm (wa_amm (wc_accounts c)) (amm\<lparr>recent_epoch := clock_epoch clk\<rparr>) w2)"
    by (auto simp: withdraw_run_def outcome split: if_splits prod.splits)
  note v = calculate_withdrawal_amounts_Ok [OF r(1)] and u = withdraw_update_Ok [OF r(4)]
  let ?amm = "amm\<lparr>recent_epoch := clock_epoch clk\<rparr>"
  have le: "unat (w_amount wd) \<le> unat (lp_amount (wc_amm c))" and pos: "0 < unat (lp_amount (wc_amm c))"
    and l: "unat (lp_amount ?amm) = unat (lp_amount (wc_amm c)) - unat (w_amount wd)"
    and u': "unat (lp_amount (wc_amm c)) = unat (lp_amount ?amm) + unat (w_amount wd)"
    using u v by simp_all
  have acc: "wc_accounts c = wa" and tp: "ai_key (wa_token_program (wc_accounts c)) \<noteq> env_spl_token_2022 env"
    and ne: "ai_key (wa_amm wa) \<noteq> ai_key (wa_target_orders wa)"
    and sg: "ai_is_signer (wa_owner wa)" and lt: "w_amount wd < lp_amount (wc_amm c)"
    using p assms(3) by auto
  have n: "new_calls w1 w' = new_calls w1 w2" by (simp add: w' new_calls_def)
  have d: "data_of w' (wa_amm wa) = AmmData ?amm" using ne by (simp add: w' acc)
  note m = withdraw_move_calls [OF r(3) tp, unfolded acc, folded n]
  note rc = redeem_ratio_nat [OF pos le, of "unat (wc_total_coin c)", folded l]
    and rp = redeem_ratio_nat [OF pos le, of "unat (wc_total_pc c)", folded l]
  have vc: "unat coin = unat (wc_total_coin c) * unat (w_amount wd) div unat (lp_amount (wc_amm c))"
    and vp: "unat pc = unat (wc_total_pc c) * unat (w_amount wd) div unat (lp_amount (wc_amm c))"
    using v by blast+
  show ?thesis
    by (intro exI [of _ coin] exI [of _ pc] exI [of _ ?amm] conjI)
      (fact m [THEN conjunct1] m [THEN conjunct2] sg lt vc vp r(2) d u' rc [folded vc] rp [folded vp])+
qed

definition demo_withdraw_accounts :: withdraw_accounts where
  "demo_withdraw_accounts = withdraw_accounts_of 20
     [ro 1, rw 10, ro 3, ro 0, rw 14, rw 13, rw 11, rw 12, ro 30, ro 31, ro 0, ro 0, ro 0, ro 0, ro 0,
      rw 22, rw 20, rw 21, signer 23, ro 0, ro 0, ro 0]"

definition demo_withdraw :: withdraw_instruction where
  "demo_withdraw = \<lparr>w_amount = 200, min_coin_amount = Some 100, min_pc_amount = Some 400\<rparr>"

lemmas withdraw_eval = demo_withdraw_accounts_def demo_withdraw_def withdraw_accounts_of_def withdraw_padded_def
  withdraw_referred_def WITHDRAW_ACCOUNT_LEN_def withdraw_prepare_def withdraw_load_def withdraw_ctx_of_def
  withdraw_profit_def withdraw_check_referrer_def withdraw_check_def withdraw_check_lp_def withdraw_totals_def
  runtime_eval pool_eval demo_defs arith_eval calc_take_pnl_def saturating_add_def saturating_sub_def
  normalize_decimal_v2_def pow10_def checked_pow_def target_orders_size_def MAX_ORDER_LIMIT_def

lemma demo_withdraw_prepare:
  "\<exists>c w1. withdraw_prepare demo_env 5 demo_withdraw_accounts demo_withdraw demo_world = Ok (c, w1)"
  by (simp add: withdraw_eval)

lemma demo_withdraw_runs:
  "\<exists>w'. withdraw_run demo_env 5 demo_withdraw_accounts demo_withdraw demo_world = Ok w'"
  by (simp add: withdraw_run_def withdraw_eval calculate_withdrawal_amounts_def exchange_pool_to_token_def
      exchange_def validate_withdraw_slippage_def withdraw_move_def token_burn_def withdraw_update_def
      profit_base_after_def)

theorem withdraw_run_effect_witness:
  "\<exists>w' w1 coin pc. withdraw_run demo_env 5 demo_withdraw_accounts demo_withdraw demo_world = Ok w' \<and>
    transfers (new_calls w1 w') = [(11, 20, coin), (12, 21, pc)] \<and> burned (new_calls w1 w') = [(13, 22, 200)]"
proof -
  obtain w' where w: "withdraw_run demo_env 5 demo_withdraw_accounts demo_withdraw demo_world = Ok w'"
    using demo_withdraw_runs by blast
  obtain c w1 where p: "withdraw_prepare demo_env 5 demo_withdraw_accounts demo_withdraw demo_world = Ok (c, w1)"
    using demo_withdraw_prepare by blast
  have "env_spl_token demo_env \<noteq> env_spl_token_2022 demo_env" by (simp add: demo_env_def)
  from withdraw_run_effect [OF w p this] w show ?thesis
    by (auto simp: demo_withdraw_accounts_def demo_withdraw_def withdraw_accounts_of_def Let_def
        withdraw_padded_def WITHDRAW_ACCOUNT_LEN_def ro_def rw_def)
qed

end
