(* ===== verification/Pnl.thy ===== *)
theory Pnl
  imports Example
begin

text \<open>
  \<^verbatim>\<open>process/withdraw_pnl.rs\<close> and \<^verbatim>\<open>process/withdraw_srm.rs\<close>: paying out the booked profit and the
  SRM tokens.
\<close>

section \<open>Withdrawing the profit\<close>

record pnl_accounts =
  pa_amm :: account_info
  pa_authority :: account_info
  pa_coin_vault :: account_info
  pa_pc_vault :: account_info
  pa_dest_coin :: account_info
  pa_dest_pc :: account_info
  pa_token_program :: account_info
  pa_wallet :: account_info

definition pnl_accounts_of :: "account_info list \<Rightarrow> pnl_accounts" where
  "pnl_accounts_of a =
     \<lparr>pa_amm = a ! 0, pa_authority = a ! 1, pa_coin_vault = a ! 2, pa_pc_vault = a ! 3,
      pa_dest_coin = a ! 4, pa_dest_pc = a ! 5, pa_token_program = a ! 6, pa_wallet = a ! 7\<rparr>"

definition pnl_check_accounts :: "env \<Rightarrow> pnl_accounts \<Rightarrow> world \<Rightarrow> unit res" where
  "pnl_check_accounts env pa w =
     (let spl = ai_key (pa_token_program pa) in
      rbind (into_res (unpack_token_account env (pa_coin_vault pa) spl w)) (\<lambda>coin_vault_acc.
      rbind (into_res (unpack_token_account env (pa_pc_vault pa) spl w)) (\<lambda>pc_vault_acc.
      rbind (into_res (unpack_token_account env (pa_dest_coin pa) spl w)) (\<lambda>dest_coin.
      rbind (into_res (unpack_token_account env (pa_dest_pc pa) spl w)) (\<lambda>dest_pc.
        if ta_owner dest_coin \<noteq> ai_key (pa_wallet pa) then AmmErr InvalidOwner
        else if ta_owner dest_pc \<noteq> ai_key (pa_wallet pa) then AmmErr InvalidOwner
        else if ta_mint dest_coin \<noteq> ta_mint coin_vault_acc then AmmErr InvalidCoinMint
        else if ta_mint dest_pc \<noteq> ta_mint pc_vault_acc then AmmErr InvalidPCMint
        else Ok ())))))"

definition pnl_pay ::
  "env \<Rightarrow> pubkey \<Rightarrow> pnl_accounts \<Rightarrow> amm_info \<Rightarrow> account_info \<Rightarrow> account_info \<Rightarrow> u64 \<Rightarrow> world \<Rightarrow> world res" where
  "pnl_pay env program_id pa amm vault dest amount w =
     (if amount > 0 then
        token_transfer_with_authority env program_id (pa_token_program pa) vault dest (pa_authority pa)
          AUTHORITY_AMM (ucast (nonce amm)) amount vault [] w
      else Ok w)"

definition process_withdrawpnl :: "env \<Rightarrow> pubkey \<Rightarrow> account_info list \<Rightarrow> world \<Rightarrow> world res" where
  "process_withdrawpnl env program_id accounts w =
     rbind (next_accounts 8 accounts) (\<lambda>a.
     let pa = pnl_accounts_of a in
     if \<not> ai_is_signer (pa_wallet pa) then AmmErr InvalidSignAccount
     else rbind (amm_load_mut_checked env program_id (pa_amm pa) w) (\<lambda>(amm, w).
       rbind (into_res (authority_id env program_id AUTHORITY_AMM (ucast (nonce amm)))) (\<lambda>authority.
       if ai_key (pa_authority pa) \<noteq> authority then AmmErr InvalidProgramAddress
       else if ai_key (pa_token_program pa) \<noteq> env_spl_token env then AmmErr InvalidSplTokenProgram
       else if ai_key (pa_coin_vault pa) \<noteq> coin_vault amm then AmmErr InvalidCoinVault
       else if ai_key (pa_pc_vault pa) \<noteq> pc_vault amm then AmmErr InvalidPCVault
       else rbind (pnl_check_accounts env pa w) (\<lambda>_.
         let sd = amm_state_data amm; coin_pnl = total_pnl_coin sd; pc_pnl = total_pnl_pc sd in
         if coin_pnl = 0 \<and> pc_pnl = 0 then AmmErr InsufficientFunds
         else
           rbind (pnl_pay env program_id pa amm (pa_coin_vault pa) (pa_dest_coin pa) coin_pnl w) (\<lambda>w.
           rbind (pnl_pay env program_id pa amm (pa_pc_vault pa) (pa_dest_pc pa) pc_pnl w) (\<lambda>w.
           Ok (store_amm (pa_amm pa)
                (amm\<lparr>amm_state_data := sd\<lparr>total_pnl_coin := 0, total_pnl_pc := 0\<rparr>\<rparr>) w)))))))"

section \<open>Withdrawing SRM\<close>

record srm_accounts =
  ra_amm :: account_info
  ra_authority :: account_info
  ra_vault :: account_info
  ra_dest :: account_info
  ra_token_program :: account_info
  ra_wallet :: account_info

definition srm_accounts_of :: "account_info list \<Rightarrow> srm_accounts" where
  "srm_accounts_of a =
     \<lparr>ra_amm = a ! 0, ra_authority = a ! 1, ra_vault = a ! 2, ra_dest = a ! 3,
      ra_token_program = a ! 4, ra_wallet = a ! 5\<rparr>"

definition process_withdraw_srm :: "env \<Rightarrow> pubkey \<Rightarrow> account_info list \<Rightarrow> u64 \<Rightarrow> world \<Rightarrow> world res" where
  "process_withdraw_srm env program_id accounts amount w =
     rbind (next_accounts 6 accounts) (\<lambda>a.
     let ra = srm_accounts_of a in
     if \<not> ai_is_signer (ra_wallet ra) then AmmErr InvalidSignAccount
     else rbind (amm_load_mut_checked env program_id (ra_amm ra) w) (\<lambda>(amm, w).
       rbind (into_res (authority_id env program_id AUTHORITY_AMM (ucast (nonce amm)))) (\<lambda>authority.
       if ai_key (ra_authority ra) \<noteq> authority then AmmErr InvalidProgramAddress
       else if ai_key (ra_token_program ra) \<noteq> env_spl_token env then AmmErr InvalidSplTokenProgram
       else
         rbind (into_res (unpack_token_account env (ra_vault ra) (ai_key (ra_token_program ra)) w)) (\<lambda>srm_vault.
         rbind (into_res (unpack_token_account env (ra_dest ra) (ai_key (ra_token_program ra)) w)) (\<lambda>dest.
           if ta_owner dest \<noteq> ai_key (ra_wallet ra) then AmmErr InvalidOwner
           else if ta_mint dest \<noteq> ta_mint srm_vault then AmmErr InvalidCoinMint
           else if amount > ta_amount srm_vault then AmmErr InsufficientFunds
           else if amount = 0 then AmmErr InvalidInput
           else
             token_transfer_with_authority env program_id (ra_token_program ra) (ra_vault ra)
               (ra_dest ra) (ra_authority ra) AUTHORITY_AMM (ucast (nonce amm)) amount (ra_vault ra) [] w)))))"

section \<open>Who may take the profit\<close>

lemma pnl_pay_calls:
  assumes "pnl_pay env pid pa amm vault dest n w = Ok w'"
    and "ai_key (pa_token_program pa) \<noteq> env_spl_token_2022 env"
  shows "\<exists>cs. calls w' = calls w @ cs \<and> transfers cs = (if n = 0 then [] else [(ai_key vault, ai_key dest, n)])"
  using assms(1)
  by (auto simp: pnl_pay_def moved_def word_gt_0 split: if_splits dest!: token_transfer_Ok [OF assms(2)])

definition profit_of :: "env \<Rightarrow> pnl_accounts \<Rightarrow> world \<Rightarrow> u64 \<times> u64" where
  "profit_of env pa w = (let sd = amm_state_data (amm_view (data_of w (pa_amm pa))) in
     (total_pnl_coin sd, total_pnl_pc sd))"

lemma pnl_accounts_of_take [simp]: "pnl_accounts_of (take 8 a) = pnl_accounts_of a"
  by (simp add: pnl_accounts_of_def)

text \<open>The token account in the data of an account.\<close>

definition token_at :: "env \<Rightarrow> account_info \<Rightarrow> world \<Rightarrow> token_account option" where
  "token_at env ai w = env_unpack_token env (data_of w ai)"

lemma pnl_check_accounts_Ok:
  assumes "pnl_check_accounts env pa w = Ok ()"
  shows "\<exists>cv pv dc dp. token_at env (pa_coin_vault pa) w = Some cv \<and> token_at env (pa_pc_vault pa) w = Some pv \<and>
    token_at env (pa_dest_coin pa) w = Some dc \<and> token_at env (pa_dest_pc pa) w = Some dp \<and>
    ta_owner dc = ai_key (pa_wallet pa) \<and> ta_owner dp = ai_key (pa_wallet pa) \<and>
    ta_mint dc = ta_mint cv \<and> ta_mint dp = ta_mint pv"
  using assms
  by (auto simp: pnl_check_accounts_def Let_def outcome token_at_def unpack_token_account_def borrow_data_def
      split: if_splits option.splits)

lemma withdrawpnl_without_profit:
  "profit_of env (pnl_accounts_of accs) w = (0, 0) \<Longrightarrow> \<not> is_ok (process_withdrawpnl env pid accs w)"
  by (auto simp: process_withdrawpnl_def next_accounts_def profit_of_def Let_def amm_load_mut_Ok is_ok_iff outcome
      split: if_splits)

text \<open>
  C25. Withdrawing the profit pays out exactly the booked coin and pc profit from the two vaults of
  the pool to two token accounts that are owned by the wallet that signed and have the vaults' mints,
  and resets both counters, so that a repetition right afterwards does not succeed. The pool's
  owner is not among the checks: in the example a stranger takes the profit.
\<close>

theorem withdrawpnl_effect:
  assumes "process_withdrawpnl env pid accs w = Ok w'"
    and "env_spl_token env \<noteq> env_spl_token_2022 env"
  shows "\<exists>coin pc. profit_of env (pnl_accounts_of accs) w = (coin, pc) \<and> (coin, pc) \<noteq> (0, 0) \<and>
    transfers (new_calls w w') =
      (if coin = 0 then [] else [(ai_key (pa_coin_vault (pnl_accounts_of accs)), ai_key (pa_dest_coin (pnl_accounts_of accs)), coin)]) @
      (if pc = 0 then [] else [(ai_key (pa_pc_vault (pnl_accounts_of accs)), ai_key (pa_dest_pc (pnl_accounts_of accs)), pc)]) \<and>
    ai_is_signer (pa_wallet (pnl_accounts_of accs)) \<and>
    (\<exists>cv pv dc dp.
      ai_key (pa_coin_vault (pnl_accounts_of accs)) = coin_vault (amm_view (data_of w (pa_amm (pnl_accounts_of accs)))) \<and>
      ai_key (pa_pc_vault (pnl_accounts_of accs)) = pc_vault (amm_view (data_of w (pa_amm (pnl_accounts_of accs)))) \<and>
      token_at env (pa_coin_vault (pnl_accounts_of accs)) w = Some cv \<and>
      token_at env (pa_pc_vault (pnl_accounts_of accs)) w = Some pv \<and>
      token_at env (pa_dest_coin (pnl_accounts_of accs)) w = Some dc \<and>
      token_at env (pa_dest_pc (pnl_accounts_of accs)) w = Some dp \<and>
      ta_owner dc = ai_key (pa_wallet (pnl_accounts_of accs)) \<and> ta_mint dc = ta_mint cv \<and>
      ta_owner dp = ai_key (pa_wallet (pnl_accounts_of accs)) \<and> ta_mint dp = ta_mint pv) \<and>
    profit_of env (pnl_accounts_of accs) w' = (0, 0) \<and>
    \<not> is_ok (process_withdrawpnl env pid accs (w'\<lparr>borrowed := []\<rparr>))"
proof -
  let ?pa = "pnl_accounts_of accs"
  let ?amm = "amm_view (data_of w (pa_amm ?pa))"
  from assms(1) obtain w1 w2 where
    r: "ai_is_signer (pa_wallet ?pa)" "ai_key (pa_token_program ?pa) = env_spl_token env"
    "ai_key (pa_coin_vault ?pa) = coin_vault ?amm" "ai_key (pa_pc_vault ?pa) = pc_vault ?amm"
    "pnl_check_accounts env ?pa (hold (pa_amm ?pa) w) = Ok ()"
    "total_pnl_coin (amm_state_data ?amm) \<noteq> 0 \<or> total_pnl_pc (amm_state_data ?amm) \<noteq> 0"
    and p1: "pnl_pay env pid ?pa ?amm (pa_coin_vault ?pa) (pa_dest_coin ?pa) (total_pnl_coin (amm_state_data ?amm))
       (hold (pa_amm ?pa) w) = Ok w1"
    and p2: "pnl_pay env pid ?pa ?amm (pa_pc_vault ?pa) (pa_dest_pc ?pa) (total_pnl_pc (amm_state_data ?amm)) w1 = Ok w2"
    and w': "w' = store_amm (pa_amm ?pa) (?amm\<lparr>amm_state_data := (amm_state_data ?amm)
      \<lparr>total_pnl_coin := 0, total_pnl_pc := 0\<rparr>\<rparr>) w2"
    by (auto simp: process_withdrawpnl_def next_accounts_def Let_def amm_load_mut_Ok outcome split: if_splits)
  have tp: "ai_key (pa_token_program ?pa) \<noteq> env_spl_token_2022 env" using r(2) assms(2) by simp
  obtain as where a: "calls w1 = calls w @ as" "transfers as = (if total_pnl_coin (amm_state_data ?amm) = 0 then []
      else [(ai_key (pa_coin_vault ?pa), ai_key (pa_dest_coin ?pa), total_pnl_coin (amm_state_data ?amm))])"
    using pnl_pay_calls [OF p1 tp] by auto
  obtain bs where b: "calls w2 = calls w1 @ bs" "transfers bs = (if total_pnl_pc (amm_state_data ?amm) = 0 then []
      else [(ai_key (pa_pc_vault ?pa), ai_key (pa_dest_pc ?pa), total_pnl_pc (amm_state_data ?amm))])"
    using pnl_pay_calls [OF p2 tp] by auto
  have n: "new_calls w w' = as @ bs" using a(1) b(1) by (simp add: w' new_calls_def)
  have z: "profit_of env ?pa w' = (0, 0)" by (simp add: w' profit_of_def Let_def amm_view_def)
  then have "profit_of env ?pa (w'\<lparr>borrowed := []\<rparr>) = (0, 0)"
    by (simp add: profit_of_def data_of_def account_of_def)
  note again = withdrawpnl_without_profit [OF this]
  have "token_at env ai (hold (pa_amm ?pa) w) = token_at env ai w" for ai
    by (simp add: token_at_def hold_def data_of_def account_of_def)
  with pnl_check_accounts_Ok [OF r(5)] obtain cv pv dc dp where
    t: "token_at env (pa_coin_vault ?pa) w = Some cv" "token_at env (pa_pc_vault ?pa) w = Some pv"
    "token_at env (pa_dest_coin ?pa) w = Some dc" "token_at env (pa_dest_pc ?pa) w = Some dp"
    "ta_owner dc = ai_key (pa_wallet ?pa)" "ta_owner dp = ai_key (pa_wallet ?pa)"
    "ta_mint dc = ta_mint cv" "ta_mint dp = ta_mint pv"
    by auto
  show ?thesis
    using r(1,3,4,6) a(2) b(2) n z again t by (auto simp: profit_of_def Let_def)
qed

text \<open>A stranger (99, while the pool is owned by 23) takes the profit of the example pool.\<close>

definition demo_profit_world :: world where
  "demo_profit_world = demo_world\<lparr>accts := (accts demo_world)
     (10 := \<lparr>acc_owner = 5, acc_data = AmmData (demo_amm\<lparr>amm_state_data := zero_state_data
        \<lparr>total_pnl_coin := 500, total_pnl_pc := 3000\<rparr>\<rparr>)\<rparr>,
      60 := demo_token 30 99 0, 61 := demo_token 31 99 0)\<rparr>"

definition demo_pnl_accounts :: "account_info list" where
  "demo_pnl_accounts = [rw 10, ro 3, rw 11, rw 12, rw 60, rw 61, ro 1, signer 99]"

theorem withdrawpnl_effect_witness:
  "\<exists>w'. process_withdrawpnl demo_env 5 demo_pnl_accounts demo_profit_world = Ok w' \<and>
    transfers (new_calls demo_profit_world w') = [(11, 60, 500), (12, 61, 3000)] \<and>
    pa_wallet (pnl_accounts_of demo_pnl_accounts) = signer 99 \<and> amm_owner demo_amm = 23"
proof -
  obtain w' where w: "process_withdrawpnl demo_env 5 demo_pnl_accounts demo_profit_world = Ok w'"
    by (simp add: process_withdrawpnl_def next_accounts_def demo_pnl_accounts_def pnl_accounts_of_def
        demo_profit_world_def pnl_check_accounts_def pnl_pay_def runtime_eval pool_eval demo_defs arith_eval)
  have l: "env_spl_token demo_env \<noteq> env_spl_token_2022 demo_env"
    by (simp add: demo_env_def)
  have "profit_of demo_env (pnl_accounts_of demo_pnl_accounts) demo_profit_world = (500, 3000)"
    by (simp add: profit_of_def demo_profit_world_def demo_pnl_accounts_def pnl_accounts_of_def data_of_def
        account_of_def amm_view_def zero_state_data_def rw_def Let_def)
  with withdrawpnl_effect [OF w l] w show ?thesis
    by (auto simp: demo_pnl_accounts_def pnl_accounts_of_def rw_def demo_amm_def)
qed

end
