(* ===== verification/Params.thy ===== *)
theory Params
  imports Example
begin

text \<open>
  \<^verbatim>\<open>process/set_params.rs\<close> and \<^verbatim>\<open>process/config.rs\<close>: the owner's changes of a pool's parameters,
  and the configuration account.
\<close>

section \<open>Setting a parameter\<close>

text \<open>The change of the pool record; several parameters are accepted and change nothing.\<close>

definition set_value :: "u64 option \<Rightarrow> (u64 \<Rightarrow> amm_info) \<Rightarrow> amm_info \<Rightarrow> amm_info" where
  "set_value v f amm = (case v of Some x \<Rightarrow> f x | None \<Rightarrow> amm)"

definition apply_param :: "amm_params \<Rightarrow> set_params_instruction \<Rightarrow> amm_info \<Rightarrow> amm_info" where
  "apply_param p s amm =
     (case p of
        PStatus \<Rightarrow> set_value (sp_value s) (\<lambda>x. amm\<lparr>status := x\<rparr>) amm
      | PState \<Rightarrow> set_value (sp_value s) (\<lambda>x. amm\<lparr>state := x\<rparr>) amm
      | POrderNum \<Rightarrow> set_value (sp_value s) (\<lambda>x. amm\<lparr>order_num := x\<rparr>) amm
      | PDepth \<Rightarrow> set_value (sp_value s) (\<lambda>x. amm\<lparr>depth := x\<rparr>) amm
      | PAmountWave \<Rightarrow> set_value (sp_value s) (\<lambda>x. amm\<lparr>amount_wave := x\<rparr>) amm
      | PMinPriceMultiplier \<Rightarrow> set_value (sp_value s) (\<lambda>x. amm\<lparr>min_price_multiplier := x\<rparr>) amm
      | PMaxPriceMultiplier \<Rightarrow> set_value (sp_value s) (\<lambda>x. amm\<lparr>max_price_multiplier := x\<rparr>) amm
      | PMinSize \<Rightarrow> set_value (sp_value s) (\<lambda>x. amm\<lparr>min_size := x\<rparr>) amm
      | PVolMaxCutRatio \<Rightarrow> set_value (sp_value s) (\<lambda>x. amm\<lparr>vol_max_cut_ratio := x\<rparr>) amm
      | PFees \<Rightarrow> (case sp_fees s of Some f \<Rightarrow> amm\<lparr>amm_fees := f\<rparr> | None \<Rightarrow> amm)
      | PAmmOwner \<Rightarrow> (case sp_new_pubkey s of Some k \<Rightarrow> amm\<lparr>amm_owner := k\<rparr> | None \<Rightarrow> amm)
      | PSetOpenTime \<Rightarrow> set_value (sp_value s)
          (\<lambda>x. amm\<lparr>amm_state_data := (amm_state_data amm)\<lparr>pool_open_time := x\<rparr>\<rparr>) amm
      | PClearOpenTime \<Rightarrow> amm\<lparr>amm_state_data := (amm_state_data amm)\<lparr>pool_open_time := 0\<rparr>\<rparr>
      | PLastOrderDistance \<Rightarrow> amm
      | PInitOrderDepth \<Rightarrow> amm
      | PSetSwitchTime \<Rightarrow> amm
      | PSeperate \<Rightarrow> amm
      | PUpdateOpenOrder \<Rightarrow> amm)"

definition process_set_params ::
  "env \<Rightarrow> pubkey \<Rightarrow> account_info list \<Rightarrow> set_params_instruction \<Rightarrow> world \<Rightarrow> world res" where
  "process_set_params env program_id accounts setparams w =
     rbind (next_accounts 3 accounts) (\<lambda>a.
     let amm_ai = a ! 0; authority_ai = a ! 1; wallet = a ! 2 in
     if \<not> ai_is_signer wallet then AmmErr InvalidSignAccount
     else rbind (amm_load_mut_checked env program_id amm_ai w) (\<lambda>(amm, w).
       rbind (into_res (authority_id env program_id AUTHORITY_AMM (ucast (nonce amm)))) (\<lambda>authority.
       if ai_key authority_ai \<noteq> authority then AmmErr InvalidProgramAddress
       else if ai_key wallet \<noteq> amm_owner amm then AmmErr InvalidOwner
       else rbind (amm_params_from_u64 (ucast (sp_param setparams))) (\<lambda>p.
         Ok (store_amm amm_ai (apply_param p setparams amm) w)))))"

section \<open>The configuration account\<close>

definition process_create_config :: "env \<Rightarrow> pubkey \<Rightarrow> account_info list \<Rightarrow> world \<Rightarrow> world res" where
  "process_create_config env program_id accounts w =
     rbind (next_accounts 4 accounts) (\<lambda>a.
     let config_ai = a ! 0; wallet = a ! 1; system_program = a ! 2; rent = a ! 3 in
     if \<not> ai_is_signer wallet then AmmErr InvalidSignAccount
     else if ai_key system_program \<noteq> env_system_program env then AmmErr InvalidMarketProgram
     else if ai_key rent \<noteq> env_rent_sysvar env then AmmErr InvalidMarketProgram
     else if ai_key config_ai
             \<noteq> fst (get_associated_address_and_bump_seed env (ai_key wallet) (ai_key wallet) AMM_CONFIG_SEED program_id)
     then AmmErr InvalidConfigAccount
     else rbind (try_borrow_data w config_ai) (\<lambda>d.
       if data_len d \<noteq> amm_config_size then Panic
       else Ok (store_config config_ai (zero_amm_config\<lparr>pnl_owner := ai_key wallet\<rparr>) w)))"

definition process_update_config ::
  "env \<Rightarrow> pubkey \<Rightarrow> account_info list \<Rightarrow> config_args \<Rightarrow> world \<Rightarrow> world res" where
  "process_update_config env program_id accounts args w =
     rbind (next_accounts 2 accounts) (\<lambda>a.
     let config_ai = a ! 0; wallet = a ! 1 in
     if \<not> ai_is_signer wallet then AmmErr InvalidSignAccount
     else rbind (config_load_mut_checked env program_id config_ai w) (\<lambda>(config, w).
       if ai_key wallet \<noteq> pnl_owner config then AmmErr InvalidOwner
       else
         let config = (case ca_owner args of Some k \<Rightarrow> config\<lparr>pnl_owner := k\<rparr> | None \<Rightarrow> config) in
         let config = (case ca_create_pool_fee args of Some f \<Rightarrow> config\<lparr>create_pool_fee := f\<rparr> | None \<Rightarrow> config) in
         Ok (store_config config_ai config w)))"

section \<open>What the owner can change\<close>

text \<open>
  The part of the pool's record the assets depend on: the accounts it holds them in, the
  authority's nonce, the LP supply it counts, the price unit and the profit it owes.
\<close>

definition custody :: "amm_info \<Rightarrow> pubkey list \<times> u64 list \<times> state_data" where
  "custody amm =
     ([coin_vault amm, pc_vault amm, coin_vault_mint amm, pc_vault_mint amm, lp_mint amm, open_orders amm,
       market amm, market_program amm, target_orders amm],
      [nonce amm, lp_amount amm, sys_decimal_value amm, client_order_id amm, coin_decimals amm, pc_decimals amm],
      (amm_state_data amm)\<lparr>pool_open_time := 0\<rparr>)"

lemma apply_param_custody: "custody (apply_param p s amm) = custody amm"
  by (auto simp: apply_param_def set_value_def custody_def split: amm_params.split option.split)

lemma apply_param_owner:
  "amm_owner (apply_param p s amm) = (case (p, sp_new_pubkey s) of (PAmmOwner, Some k) \<Rightarrow> k | _ \<Rightarrow> amm_owner amm)"
  by (auto simp: apply_param_def set_value_def split: amm_params.split option.split)

lemma accts_store_amm: "accts (store_amm ai a (hold bi w)) k =
    (if k = ai_key ai then (accts w k)\<lparr>acc_data := AmmData a\<rparr> else accts w k)"
  by (simp add: store_amm_def set_data_def hold_def account_of_def)

lemma set_params_Ok:
  assumes "process_set_params env pid accs s w = Ok w'"
  shows "\<exists>p. amm_params_from_u64 (ucast (sp_param s)) = (Ok p :: amm_params res) \<and> ai_is_signer (accs ! 2) \<and>
    ai_key (accs ! 2) = amm_owner (amm_view (data_of w (accs ! 0))) \<and>
    owner_of w (accs ! 0) = pid \<and>
    w' = store_amm (accs ! 0) (apply_param p s (amm_view (data_of w (accs ! 0)))) (hold (accs ! 0) w)"
  using assms by (auto simp: process_set_params_def next_accounts_def outcome Let_def amm_load_mut_Ok split: if_splits)

text \<open>
  C22. Setting a parameter takes the signature of the pool's owner and changes nothing but the
  pool's record, and in it neither where the assets are nor what they are counted with: vaults,
  mints, market, nonce, LP amount, price unit and profit counters stay. The owner changes only by
  the parameter \<open>AmmOwner\<close> with a new key.
\<close>

theorem set_params_frame:
  assumes "process_set_params env pid accs s w = Ok w'"
  shows "\<exists>amm amm' p. amm = amm_view (data_of w (accs ! 0)) \<and> data_of w' (accs ! 0) = AmmData amm' \<and>
    amm_params_from_u64 (ucast (sp_param s)) = (Ok p :: amm_params res) \<and>
    ai_is_signer (accs ! 2) \<and> ai_key (accs ! 2) = amm_owner amm \<and> custody amm' = custody amm \<and>
    amm_owner amm' = (case (p, sp_new_pubkey s) of (PAmmOwner, Some k) \<Rightarrow> k | _ \<Rightarrow> amm_owner amm) \<and>
    calls w' = calls w \<and> (\<forall>k. k = ai_key (accs ! 0) \<or> accts w' k = accts w k)"
  using set_params_Ok [OF assms]
  by (auto simp: apply_param_custody apply_param_owner accts_store_amm)

definition demo_set_owner :: set_params_instruction where
  "demo_set_owner = \<lparr>sp_param = 10, sp_value = None, sp_new_pubkey = Some 24, sp_fees = None, sp_last_order_distance = None\<rparr>"

theorem set_params_frame_witness:
  "\<exists>w' amm'. process_set_params demo_env 5 [rw 10, ro 3, signer 23] demo_set_owner demo_world = Ok w' \<and>
     data_of w' (rw 10) = AmmData amm' \<and> amm_owner amm' = 24 \<and> custody amm' = custody demo_amm"
proof -
  have "\<exists>w'. process_set_params demo_env 5 [rw 10, ro 3, signer 23] demo_set_owner demo_world = Ok w'"
    by (simp add: process_set_params_def next_accounts_def demo_set_owner_def amm_params_from_u64_def
        runtime_eval demo_defs pool_eval amm_status_into_u64_def)
  then obtain w' where w: "process_set_params demo_env 5 [rw 10, ro 3, signer 23] demo_set_owner demo_world = Ok w'" by blast
  have "amm_view (data_of demo_world (rw 10)) = demo_amm"
    by (simp add: amm_view_def data_of_def account_of_def demo_world_def rw_def)
  then show ?thesis using set_params_frame [OF w] w
    by (auto simp: demo_set_owner_def amm_params_from_u64_def)
qed

section \<open>Who controls the configuration\<close>

lemma config_load_mut_Ok:
  "config_load_mut_checked env pid ai w = Ok (c, w') \<longleftrightarrow>
     owner_of w ai = pid \<and> \<not> is_borrowed w ai \<and> data_len (data_of w ai) = amm_config_size \<and>
     c = config_view (data_of w ai) \<and> w' = hold ai w"
  by (auto simp: config_load_mut_checked_def outcome borrow_data_def split: if_splits)

text \<open>Creating the configuration succeeds over any record of its size.\<close>

lemma create_config_runs:
  assumes "ai_key ai = fst (get_associated_address_and_bump_seed env k k AMM_CONFIG_SEED pid)"
    and "\<not> is_borrowed w ai" "data_len (data_of w ai) = amm_config_size"
  shows "process_create_config env pid [ai, signer k, ro (env_system_program env), ro (env_rent_sysvar env)] w =
    Ok (store_config ai (zero_amm_config\<lparr>pnl_owner := k\<rparr>) w)"
  using assms by (simp add: process_create_config_def next_accounts_def signer_def ro_def try_borrow_data_def)

text \<open>
  The configuration changes hands only by its owner's signature or by its creation, and the
  creation can be repeated: after the owner has handed the account to any other key, the wallet
  the address derives from can create it again, over whatever it holds, and is its owner again, with
  the pool fee back at zero.
\<close>

theorem config_reclaimable:
  assumes "process_update_config env pid accs args w = Ok w'" "ca_owner args = Some k"
    and "ai_key (accs ! 0) = fst (get_associated_address_and_bump_seed env creator creator AMM_CONFIG_SEED pid)"
  shows "ai_is_signer (accs ! 1) \<and> ai_key (accs ! 1) = pnl_owner (config_view (data_of w (accs ! 0))) \<and>
    (\<exists>c. data_of w' (accs ! 0) = ConfigData c \<and> pnl_owner c = k) \<and>
    (\<exists>w''. process_create_config env pid
        [accs ! 0, signer creator, ro (env_system_program env), ro (env_rent_sysvar env)] (w'\<lparr>borrowed := []\<rparr>) = Ok w'' \<and>
      data_of w'' (accs ! 0) = ConfigData (zero_amm_config\<lparr>pnl_owner := creator\<rparr>))"
proof -
  let ?c = "config_view (data_of w (accs ! 0))"
  from assms(1,2) obtain c where s: "ai_is_signer (accs ! 1)" "ai_key (accs ! 1) = pnl_owner ?c"
    and w': "w' = store_config (accs ! 0) c (hold (accs ! 0) w)" and c: "pnl_owner c = k"
    by (auto simp: process_update_config_def next_accounts_def outcome Let_def config_load_mut_Ok
        split: if_splits option.splits)
  have d: "data_of (w'\<lparr>borrowed := []\<rparr>) ai = data_of w' ai" for ai by (simp add: data_of_def account_of_def)
  have "process_create_config env pid
      [accs ! 0, signer creator, ro (env_system_program env), ro (env_rent_sysvar env)] (w'\<lparr>borrowed := []\<rparr>) =
    Ok (store_config (accs ! 0) (zero_amm_config\<lparr>pnl_owner := creator\<rparr>) (w'\<lparr>borrowed := []\<rparr>))"
    using assms(3) by (rule create_config_runs) (simp_all add: is_borrowed_def d, simp add: w')
  then show ?thesis using s c by (auto simp: w')
qed

definition demo_config_world :: world where
  "demo_config_world = demo_world\<lparr>accts := (accts demo_world)
     (40 := \<lparr>acc_owner = 5, acc_data = ConfigData (zero_amm_config\<lparr>pnl_owner := 23\<rparr>)\<rparr>)\<rparr>"

theorem config_reclaimable_witness:
  "\<exists>w' w''. process_update_config demo_env 5 [rw 40, signer 23] \<lparr>ca_param = 0, ca_owner = Some 24, ca_create_pool_fee = None\<rparr>
       demo_config_world = Ok w' \<and>
     process_create_config demo_env 5 [rw 40, signer 23, ro 0, ro 90] (w'\<lparr>borrowed := []\<rparr>) = Ok w'' \<and>
     data_of w'' (rw 40) = ConfigData (zero_amm_config\<lparr>pnl_owner := 23\<rparr>)"
proof -
  have "\<exists>w'. process_update_config demo_env 5 [rw 40, signer 23]
      \<lparr>ca_param = 0, ca_owner = Some 24, ca_create_pool_fee = None\<rparr> demo_config_world = Ok w'"
    by (simp add: process_update_config_def next_accounts_def config_load_mut_checked_def demo_config_world_def
        runtime_eval demo_defs pool_eval)
  then obtain w' where w: "process_update_config demo_env 5 [rw 40, signer 23]
      \<lparr>ca_param = 0, ca_owner = Some 24, ca_create_pool_fee = None\<rparr> demo_config_world = Ok w'" by blast
  show ?thesis using config_reclaimable [OF w, of 24 23] w
    by (auto simp: get_associated_address_and_bump_seed_def demo_env_def rw_def)
qed

end
