(* ===== verification/Orders.thy ===== *)
theory Orders
  imports Example
begin

text \<open>
  \<^verbatim>\<open>process/monitor.rs\<close>, \<^verbatim>\<open>process/migrate.rs\<close> and \<^verbatim>\<open>process/admin.rs\<close>: the handlers that cancel
  the pool's orders on the dex and settle.
\<close>

section \<open>The pool's orders\<close>

text \<open>The common part: the market is loaded, the pool's bids and asks are read.\<close>

definition load_amm_orders ::
  "env \<Rightarrow> market_accounts \<Rightarrow> amm_info \<Rightarrow> world \<Rightarrow> (open_orders_data \<times> leaf_node list \<times> leaf_node list) res" where
  "load_amm_orders env ma amm w =
     rbind (load_serum_market_order env (ma_market ma) (ma_open_orders ma) (ma_authority ma) amm False w) (\<lambda>(ms, oo).
     rbind (env_slab env Bid w (ai_key (ma_market ma)) (ai_key (ma_bids ma))) (\<lambda>bids_slab.
     rbind (env_slab env Ask w (ai_key (ma_market ma)) (ai_key (ma_asks ma))) (\<lambda>asks_slab.
     rbind (get_amm_orders oo bids_slab asks_slab) (\<lambda>(bids, asks).
     Ok (oo, bids, asks)))))"

text \<open>
  The administrator and the migration cancel the bids, then the asks, and settle to the market's
  own vaults, which they pass as the pool's wallets.
\<close>

definition cancel_all_and_settle ::
  "env \<Rightarrow> market_accounts \<Rightarrow> account_info \<Rightarrow> u8 \<Rightarrow> leaf_node list \<Rightarrow> leaf_node list \<Rightarrow> world \<Rightarrow> world res" where
  "cancel_all_and_settle env ma token_program nonce' bids asks w =
     rbind (cancel_orders env ma nonce' bids w) (\<lambda>w.
     rbind (cancel_orders env ma nonce' asks w) (\<lambda>w.
     invoke_dex_settle_funds env (ma_program ma) (ma_market ma) (ma_open_orders ma) (ma_authority ma)
       (ma_coin_vault ma) (ma_pc_vault ma) (ma_coin_vault ma) (ma_pc_vault ma) (ma_vault_signer ma)
       token_program None AUTHORITY_AMM nonce' w))"

section \<open>The administrator's cancellation\<close>

record order_handler_accounts =
  ha_amm :: account_info
  ha_market :: market_accounts
  ha_token_program :: account_info
  ha_wallet :: account_info

definition order_handler_accounts_of :: "account_info list \<Rightarrow> order_handler_accounts" where
  "order_handler_accounts_of a =
     \<lparr>ha_amm = a ! 0,
      ha_market = \<lparr>ma_program = a ! 3, ma_market = a ! 4, ma_bids = a ! 5, ma_asks = a ! 6, ma_event_q = a ! 7,
        ma_coin_vault = a ! 8, ma_pc_vault = a ! 9, ma_vault_signer = a ! 10, ma_open_orders = a ! 2,
        ma_authority = a ! 1\<rparr>,
      ha_token_program = a ! 11, ha_wallet = a ! 12\<rparr>"

definition check_market_keys :: "market_accounts \<Rightarrow> amm_info \<Rightarrow> unit res" where
  "check_market_keys ma amm =
     (if ai_key (ma_market ma) \<noteq> market amm then AmmErr InvalidMarket
      else if ai_key (ma_open_orders ma) \<noteq> open_orders amm then AmmErr InvalidOpenOrders
      else Ok ())"

definition process_admin_cancel_orders :: "env \<Rightarrow> pubkey \<Rightarrow> account_info list \<Rightarrow> u16 \<Rightarrow> world \<Rightarrow> world res" where
  "process_admin_cancel_orders env program_id accounts limit w =
     rbind (next_accounts 13 accounts) (\<lambda>a.
     let ha = order_handler_accounts_of a; ma = ha_market ha in
     if \<not> ai_is_signer (ha_wallet ha) then AmmErr InvalidSignAccount
     else rbind (amm_load_mut_checked env program_id (ha_amm ha) w) (\<lambda>(amm, w).
       rbind (into_res (authority_id env program_id AUTHORITY_AMM (ucast (nonce amm)))) (\<lambda>authority.
       if ai_key (ma_authority ma) \<noteq> authority then AmmErr InvalidProgramAddress
       else if ai_key (ha_wallet ha) \<noteq> amm_owner amm then AmmErr InvalidOwner
       else if ai_key (ha_token_program ha) \<noteq> env_spl_token env then AmmErr InvalidSplTokenProgram
       else rbind (check_market_keys ma amm) (\<lambda>_.
         rbind (load_amm_orders env ma amm w) (\<lambda>(oo, bids, asks).
         cancel_all_and_settle env ma (ha_token_program ha) (ucast (nonce amm)) bids asks w)))))"

section \<open>The migration\<close>

text \<open>
  \<^verbatim>\<open>9xQeWvG816bUx9EPjHmaT23yvVM2ZWbrrpZb9PusVFin\<close>, as the little-endian number of its 32 bytes.
\<close>

definition migration_program_id :: pubkey where
  "migration_program_id = 108276196204269723985839478512190802600431992009917533299797394108672075698053"

definition process_migrate_to_openbook :: "env \<Rightarrow> pubkey \<Rightarrow> account_info list \<Rightarrow> world \<Rightarrow> world res" where
  "process_migrate_to_openbook env program_id accounts w =
     rbind (next_accounts 13 accounts) (\<lambda>a.
     let ha = order_handler_accounts_of a; ma = ha_market ha in
     if \<not> ai_is_signer (ha_wallet ha) then AmmErr InvalidSignAccount
     else rbind (amm_load_mut_checked env program_id (ha_amm ha) w) (\<lambda>(amm, w).
       rbind (into_res (authority_id env program_id AUTHORITY_AMM (ucast (nonce amm)))) (\<lambda>authority.
       if ai_key (ma_authority ma) \<noteq> authority then AmmErr InvalidProgramAddress
       else if ai_key (ha_token_program ha) \<noteq> env_spl_token env then AmmErr InvalidSplTokenProgram
       else if ai_key (ma_program ma) \<noteq> migration_program_id then AmmErr InvalidMarketProgram
       else rbind (check_market_keys ma amm) (\<lambda>_.
         rbind (load_amm_orders env ma amm w) (\<lambda>(oo, bids, asks).
         rbind (cancel_all_and_settle env ma (ha_token_program ha) (ucast (nonce amm)) bids asks w) (\<lambda>w.
         Ok (store_amm (ha_amm ha) (amm\<lparr>market_program := migration_program_id\<rparr>) w)))))))"

section \<open>The monitor step\<close>

record monitor_accounts =
  mo_amm :: account_info
  mo_target_orders :: account_info
  mo_coin_vault :: account_info
  mo_pc_vault :: account_info
  mo_market :: market_accounts
  mo_token_program :: account_info
  mo_wallet :: account_info

definition monitor_accounts_of :: "account_info list \<Rightarrow> monitor_accounts" where
  "monitor_accounts_of a =
     \<lparr>mo_amm = a ! 0, mo_target_orders = a ! 3, mo_coin_vault = a ! 4, mo_pc_vault = a ! 5,
      mo_market = \<lparr>ma_program = a ! 6, ma_market = a ! 7, ma_bids = a ! 8, ma_asks = a ! 9, ma_event_q = a ! 10,
        ma_coin_vault = a ! 11, ma_pc_vault = a ! 12, ma_vault_signer = a ! 13, ma_open_orders = a ! 2,
        ma_authority = a ! 1\<rparr>,
      mo_token_program = a ! 14, mo_wallet = a ! 15\<rparr>"

text \<open>The records after the profit is taken.\<close>

definition monitor_take_pnl ::
  "target_orders_data \<Rightarrow> amm_info \<Rightarrow> u64 \<Rightarrow> u64 \<Rightarrow> amm_info \<times> target_orders_data" where
  "monitor_take_pnl target amm total_pc total_coin =
     (case calc_take_pnl target amm total_pc total_coin of (amm', total_pc, total_coin, dx, dy) \<Rightarrow>
        (amm', update_target_orders_pnl (ucast total_pc) (ucast total_coin) dx dy target))"

text \<open>The pool's orders are cancelled, and the dex settled, only when there are any.\<close>

definition monitor_cancel ::
  "env \<Rightarrow> monitor_accounts \<Rightarrow> leaf_node list \<Rightarrow> leaf_node list \<Rightarrow> u8 \<Rightarrow> world \<Rightarrow> world res" where
  "monitor_cancel env mo bids asks nonce' w =
     (if bids \<noteq> [] \<or> asks \<noteq> [] then
        cancel_amm_orders_and_settle env (mo_market mo) (mo_coin_vault mo) (mo_pc_vault mo) (mo_token_program mo)
          None bids asks nonce' w
      else Ok w)"

definition process_monitor_step ::
  "env \<Rightarrow> pubkey \<Rightarrow> account_info list \<Rightarrow> monitor_step_instruction \<Rightarrow> world \<Rightarrow> world res" where
  "process_monitor_step env program_id accounts monitor w =
     rbind (next_accounts 16 accounts) (\<lambda>a.
     let mo = monitor_accounts_of a; ma = mo_market mo; spl = ai_key (mo_token_program mo) in
     if \<not> ai_is_signer (mo_wallet mo) then AmmErr InvalidSignAccount
     else rbind (amm_load_mut_checked env program_id (mo_amm mo) w) (\<lambda>(amm, w).
       rbind (into_res (authority_id env program_id AUTHORITY_AMM (ucast (nonce amm)))) (\<lambda>authority.
       if ai_key (ma_authority ma) \<noteq> authority then AmmErr InvalidProgramAddress
       else if spl \<noteq> env_spl_token env then AmmErr InvalidSplTokenProgram
       else rbind (check_market_keys ma amm) (\<lambda>_.
         if ai_key (mo_target_orders mo) \<noteq> target_orders amm then AmmErr InvalidTargetOrders
         else
           rbind (load_amm_orders env ma amm w) (\<lambda>(oo, bids, asks).
           rbind (target_load_mut_checked env program_id (ai_key (mo_amm mo)) (mo_target_orders mo) w) (\<lambda>(target, w).
           rbind (into_res (unpack_token_account env (mo_coin_vault mo) spl w)) (\<lambda>coin_vault_acc.
           rbind (into_res (unpack_token_account env (mo_pc_vault mo) spl w)) (\<lambda>pc_vault_acc.
           rbind (into_res (calc_total_without_take_pnl (ta_amount pc_vault_acc) (ta_amount coin_vault_acc) oo amm
                    (env_events env w (ai_key (ma_market ma)) (ai_key (ma_event_q ma)))
                    (ai_key (ma_open_orders ma)))) (\<lambda>(total_pc, total_coin).
           case monitor_take_pnl target amm total_pc total_coin of (amm, target) \<Rightarrow>
           rbind (monitor_cancel env mo bids asks (ucast (nonce amm)) w) (\<lambda>w.
           Ok (store_target (mo_target_orders mo) target (store_amm (mo_amm mo) amm w))))))))))))"

section \<open>What the handlers issue\<close>

lemma settle_calls:
  assumes "invoke_dex_settle_funds env dp mkt oo ow cv pv cw pw vs tp None seed n w = Ok w'"
  shows "\<exists>c. calls w' = calls w @ [c] \<and> cancelled_ids c = [] \<and> moved c = [] \<and>
    cpi_ix c = DexSettleFunds (map ai_key [dp, mkt, tp, oo, ow, cv, cw, pv, pw, vs]) None"
  using assms by (auto simp: invoke_dex_settle_funds_def cancelled_ids_def moved_def dest!: invoke_signed_Ok)

text \<open>
  All orders cancelled at the market, and after the last cancellation one settlement to the market's
  own vaults; there are no other calls.
\<close>

definition all_cancelled :: "market_accounts \<Rightarrow> account_info \<Rightarrow> leaf_node list \<Rightarrow> leaf_node list \<Rightarrow> cpi list \<Rightarrow> bool" where
  "all_cancelled ma tp bids asks cs \<longleftrightarrow>
     transfers cs = [] \<and>
     (\<exists>j k. cancellations cs =
        map leaf_client_order_id bids @ replicate j 0 @ map leaf_client_order_id asks @ replicate k 0) \<and>
     cs \<noteq> [] \<and> list_all (market_cancel ma) (butlast cs) \<and>
     cpi_ix (last cs) = DexSettleFunds (map ai_key [ma_program ma, ma_market ma, tp, ma_open_orders ma,
       ma_authority ma, ma_coin_vault ma, ma_coin_vault ma, ma_pc_vault ma, ma_pc_vault ma, ma_vault_signer ma]) None"

lemma cancel_all_and_settle_calls:
  assumes "cancel_all_and_settle env ma tp n bids asks w = Ok w'"
  shows "all_cancelled ma tp bids asks (new_calls w w')"
proof -
  from assms obtain w1 w2 where c: "cancel_orders env ma n bids w = Ok w1" "cancel_orders env ma n asks w1 = Ok w2"
    and s: "invoke_dex_settle_funds env (ma_program ma) (ma_market ma) (ma_open_orders ma) (ma_authority ma)
       (ma_coin_vault ma) (ma_pc_vault ma) (ma_coin_vault ma) (ma_pc_vault ma) (ma_vault_signer ma)
       tp None AUTHORITY_AMM n w2 = Ok w'"
    by (auto simp: cancel_all_and_settle_def outcome)
  obtain as j where a: "calls w1 = calls w @ as" "list_all (market_cancel ma) as"
      "cancellations as = map leaf_client_order_id bids @ replicate j 0"
    using cancel_orders_calls [OF c(1)] unfolding cancellations_def by blast
  obtain bs k where b: "calls w2 = calls w1 @ bs" "list_all (market_cancel ma) bs"
      "cancellations bs = map leaf_client_order_id asks @ replicate k 0"
    using cancel_orders_calls [OF c(2)] unfolding cancellations_def by blast
  obtain d where d: "calls w' = calls w2 @ [d]" "cancelled_ids d = []" "moved d = []"
      "cpi_ix d = DexSettleFunds (map ai_key [ma_program ma, ma_market ma, tp, ma_open_orders ma,
       ma_authority ma, ma_coin_vault ma, ma_coin_vault ma, ma_pc_vault ma, ma_pc_vault ma, ma_vault_signer ma]) None"
    using settle_calls [OF s] by blast
  have "new_calls w w' = as @ bs @ [d]" using a(1) b(1) d(1) by (simp add: new_calls_append)
  moreover have "transfers as = []" "transfers bs = []"
    using a(2) b(2) by (auto intro: dex_calls_move_nothing market_cancels_are_dex_calls)
  ultimately show ?thesis using a b d by (auto simp: all_cancelled_def butlast_append)
qed

lemma new_calls_hold [simp]: "new_calls (hold ai w) w' = new_calls w w'"
  by (simp add: new_calls_def)

text \<open>The accounts behind the thirteenth are not looked at.\<close>

lemma order_handler_accounts_of_take [simp]: "order_handler_accounts_of (take 13 a) = order_handler_accounts_of a"
  by (simp add: order_handler_accounts_of_def)

text \<open>
  C26. The administrator's cancellation runs only for the signing owner of the pool. Its calls are
  cancellations at the market, of exactly the pool's resting orders, the bids and then the asks, and
  after them one settlement, which names the market's own vaults as the pool's wallets; it makes no
  other call and moves no tokens itself.
\<close>

theorem admin_cancels_all:
  assumes "process_admin_cancel_orders env pid accs limit w = Ok w'"
  shows "\<exists>amm oo bids asks.
    amm = amm_view (data_of w (ha_amm (order_handler_accounts_of accs))) \<and>
    ai_is_signer (ha_wallet (order_handler_accounts_of accs)) \<and>
    ai_key (ha_wallet (order_handler_accounts_of accs)) = amm_owner amm \<and>
    load_amm_orders env (ha_market (order_handler_accounts_of accs)) amm
      (hold (ha_amm (order_handler_accounts_of accs)) w) = Ok (oo, bids, asks) \<and>
    all_cancelled (ha_market (order_handler_accounts_of accs)) (ha_token_program (order_handler_accounts_of accs))
      bids asks (new_calls w w')"
proof -
  let ?ha = "order_handler_accounts_of accs"
  let ?amm = "amm_view (data_of w (ha_amm ?ha))"
  from assms obtain oo bids asks where r: "ai_is_signer (ha_wallet ?ha)" "ai_key (ha_wallet ?ha) = amm_owner ?amm"
    "load_amm_orders env (ha_market ?ha) ?amm (hold (ha_amm ?ha) w) = Ok (oo, bids, asks)"
    and c: "cancel_all_and_settle env (ha_market ?ha) (ha_token_program ?ha) (ucast (nonce ?amm)) bids asks
      (hold (ha_amm ?ha) w) = Ok w'"
    by (auto simp: process_admin_cancel_orders_def next_accounts_def Let_def amm_load_mut_Ok outcome split: if_splits)
  show ?thesis using r cancel_all_and_settle_calls [OF c] by auto
qed

definition order_run :: "pubkey \<Rightarrow> pubkey \<Rightarrow> account_info list" where
  "order_run program wallet = [rw 10, ro 3, rw 15, ro program, rw 50, rw 60, rw 61, rw 62, rw 63, rw 64, ro 65,
     ro 1, signer wallet]"

definition demo_bid :: leaf_node where
  "demo_bid = \<lparr>leaf_client_order_id = 77, leaf_price = 9\<rparr>"

lemma order_run_accounts:
  "order_handler_accounts_of (order_run p k) =
     \<lparr>ha_amm = rw 10, ha_market = \<lparr>ma_program = ro p, ma_market = rw 50, ma_bids = rw 60, ma_asks = rw 61, ma_event_q = rw 62,
        ma_coin_vault = rw 63, ma_pc_vault = rw 64, ma_vault_signer = ro 65, ma_open_orders = rw 15, ma_authority = ro 3\<rparr>,
      ha_token_program = ro 1, ha_wallet = signer k\<rparr>" "length (order_run p k) = 13"
  by (simp_all add: order_handler_accounts_of_def order_run_def)

lemma demo_load_orders:
  "load_amm_orders demo_dex_env (ha_market (order_handler_accounts_of (order_run p k))) demo_dex_amm w =
     Ok (demo_open_orders, [demo_bid], [])"
  by (simp add: load_amm_orders_def load_serum_market_order_def demo_dex_defs demo_orders demo_bid_def order_run_accounts
      demo_open_orders_def [THEN arg_cong, of oo_market] demo_open_orders_def [THEN arg_cong, of oo_owner] ro_def rw_def)

lemma demo_batch: "(batch_ids [demo_bid] :: u64 list list res) = Ok [[77, 0, 0, 0, 0, 0, 0, 0]]"
  by (simp add: batch_ids_def ib_push_def ib_flush_def ib_finish_def ib_new_def demo_bid_def eval_nat_numeral)

lemma demo_invoke_dex:
  "invoke_signed demo_dex_env (DexCancelByClientIds ks ids) infos seeds w =
     (if list_ex (\<lambda>k. k \<in> ai_key ` set infos \<and> k \<in> set (borrowed w)) (tl ks) then Err PE_AccountBorrowFailed
      else Ok (w\<lparr>calls := calls w @ [\<lparr>cpi_ix = DexCancelByClientIds ks ids, cpi_infos = infos, cpi_seeds = seeds\<rparr>]\<rparr>))"
  "invoke_signed demo_dex_env (DexSettleFunds ks r) infos seeds w =
     (if list_ex (\<lambda>k. k \<in> ai_key ` set infos \<and> k \<in> set (borrowed w)) (ix_keys (DexSettleFunds ks r))
      then Err PE_AccountBorrowFailed
      else Ok (w\<lparr>calls := calls w @ [\<lparr>cpi_ix = DexSettleFunds ks r, cpi_infos = infos, cpi_seeds = seeds\<rparr>]\<rparr>))"
  by (simp_all add: invoke_signed_def demo_dex_env_def demo_env_def demo_invoke_def Let_def)

lemma demo_cancel:
  "set (borrowed w) = {10} \<Longrightarrow> p \<noteq> 10 \<Longrightarrow>
    \<exists>w'. cancel_all_and_settle demo_dex_env (ha_market (order_handler_accounts_of (order_run p k))) (ro 1) n [demo_bid] [] w = Ok w'"
  by (simp add: cancel_all_and_settle_def cancel_orders_def demo_batch cancel_groups_def
      invoke_dex_cancel_orders_by_client_order_ids_def invoke_dex_settle_funds_def demo_invoke_dex
      order_run_accounts ro_def rw_def Let_def del: bex_simps)

lemma demo_order_load:
  "amm_load_mut_checked demo_dex_env 5 (rw 10) demo_dex_world = Ok (demo_dex_amm, hold (rw 10) demo_dex_world)"
  by (simp add: amm_load_mut_Ok) (simp add: runtime_eval demo_dex_defs demo_defs pool_eval amm_status_into_u64_def)

lemma demo_dex_facts:
  "amm_owner demo_dex_amm = 23" "market demo_dex_amm = 50" "open_orders demo_dex_amm = 15"
  "env_spl_token demo_dex_env = 1" "env_create_pda demo_dex_env seeds pid = Some 3" "borrowed demo_dex_world = []"
  "acc_data (accts demo_dex_world 10) = AmmData demo_dex_amm"
  by (simp_all add: demo_dex_defs demo_defs)

lemma info_simps: "ai_key (ro k) = k" "ai_key (rw k) = k" "ai_key (signer k) = k" "ai_is_signer (signer k)"
  by (simp_all add: ro_def rw_def signer_def)

lemmas demo_order_run = next_accounts_def order_run_accounts Let_def demo_order_load authority_id_def demo_dex_facts
  info_simps check_market_keys_def hold_def

lemma demo_admin_runs:
  "\<exists>w'. process_admin_cancel_orders demo_dex_env 5 (order_run 51 23) 10 demo_dex_world = Ok w'"
proof -
  have "take 13 (order_run 51 23) = order_run 51 23" by (simp add: order_run_accounts)
  moreover note demo_load_orders [of 51 23, unfolded order_run_accounts order_handler_accounts.simps]
  moreover note demo_cancel [of "hold (rw 10) demo_dex_world" 51 23, unfolded order_run_accounts order_handler_accounts.simps]
  ultimately show ?thesis
    by (simp add: process_admin_cancel_orders_def demo_order_run)
qed

theorem admin_cancels_all_witness:
  "\<exists>w' n cs d. process_admin_cancel_orders demo_dex_env 5 (order_run 51 23) 10 demo_dex_world = Ok w' \<and>
     cancellations (new_calls demo_dex_world w') = 77 # replicate n 0 \<and> new_calls demo_dex_world w' = cs @ [d] \<and>
     cpi_ix d = DexSettleFunds [51, 50, 1, 15, 3, 63, 63, 64, 64, 65] None"
proof -
  obtain w' where w: "process_admin_cancel_orders demo_dex_env 5 (order_run 51 23) 10 demo_dex_world = Ok w'"
    using demo_admin_runs by blast
  have "amm_view (data_of demo_dex_world (ha_amm (order_handler_accounts_of (order_run 51 23)))) = demo_dex_amm"
    by (simp add: amm_view_def data_of_def account_of_def demo_order_run)
  with admin_cancels_all [OF w] have c: "all_cancelled (ha_market (order_handler_accounts_of (order_run 51 23))) (ro 1) [demo_bid] []
      (new_calls demo_dex_world w')"
    by (auto simp: demo_load_orders) (simp add: order_run_accounts)
  then obtain n where "cancellations (new_calls demo_dex_world w') = 77 # replicate n 0"
    by (auto simp: all_cancelled_def demo_bid_def replicate_add [symmetric])
  moreover obtain cs d where "new_calls demo_dex_world w' = cs @ [d]"
    using c by (cases "new_calls demo_dex_world w'" rule: rev_cases) (auto simp: all_cancelled_def)
  ultimately show ?thesis using w c by (auto simp: all_cancelled_def order_run_accounts info_simps)
qed

text \<open>
  C27. The migration cancels and settles in the same way and then changes only the pool's market
  program, to the fixed address the passed market program must have; the wallet must sign, but it
  need not be the pool's owner.
\<close>

theorem migrate_effect:
  assumes "process_migrate_to_openbook env pid accs w = Ok w'"
  shows "\<exists>amm oo bids asks.
    amm = amm_view (data_of w (ha_amm (order_handler_accounts_of accs))) \<and>
    ai_is_signer (ha_wallet (order_handler_accounts_of accs)) \<and>
    ai_key (ma_program (ha_market (order_handler_accounts_of accs))) = migration_program_id \<and>
    load_amm_orders env (ha_market (order_handler_accounts_of accs)) amm
      (hold (ha_amm (order_handler_accounts_of accs)) w) = Ok (oo, bids, asks) \<and>
    all_cancelled (ha_market (order_handler_accounts_of accs)) (ha_token_program (order_handler_accounts_of accs))
      bids asks (new_calls w w') \<and>
    data_of w' (ha_amm (order_handler_accounts_of accs)) = AmmData (amm\<lparr>market_program := migration_program_id\<rparr>)"
proof -
  let ?ha = "order_handler_accounts_of accs"
  let ?amm = "amm_view (data_of w (ha_amm ?ha))"
  from assms obtain oo bids asks w1 where r: "ai_is_signer (ha_wallet ?ha)"
    "ai_key (ma_program (ha_market ?ha)) = migration_program_id"
    "load_amm_orders env (ha_market ?ha) ?amm (hold (ha_amm ?ha) w) = Ok (oo, bids, asks)"
    and c: "cancel_all_and_settle env (ha_market ?ha) (ha_token_program ?ha) (ucast (nonce ?amm)) bids asks
      (hold (ha_amm ?ha) w) = Ok w1"
    and w': "w' = store_amm (ha_amm ?ha) (?amm\<lparr>market_program := migration_program_id\<rparr>) w1"
    by (auto simp: process_migrate_to_openbook_def next_accounts_def Let_def amm_load_mut_Ok outcome split: if_splits)
  show ?thesis using r cancel_all_and_settle_calls [OF c] by (auto simp: w')
qed

lemma demo_migration_runs:
  "\<exists>w'. process_migrate_to_openbook demo_dex_env 5 (order_run migration_program_id 99) demo_dex_world = Ok w'"
proof -
  have "take 13 (order_run migration_program_id 99) = order_run migration_program_id 99" by (simp add: order_run_accounts)
  moreover have "migration_program_id \<noteq> 10" by (simp add: migration_program_id_def)
  moreover note demo_load_orders [of migration_program_id 99, unfolded order_run_accounts order_handler_accounts.simps]
  moreover note demo_cancel [of "hold (rw 10) demo_dex_world" migration_program_id 99,
      unfolded order_run_accounts order_handler_accounts.simps]
  ultimately show ?thesis
    by (simp add: process_migrate_to_openbook_def demo_order_run) (auto simp: outcome)
qed

theorem migrate_effect_witness:
  "\<exists>w'. process_migrate_to_openbook demo_dex_env 5 (order_run migration_program_id 99) demo_dex_world = Ok w' \<and>
     acc_data (accts w' 10) = AmmData (demo_dex_amm\<lparr>market_program := migration_program_id\<rparr>) \<and> amm_owner demo_dex_amm \<noteq> 99"
proof -
  obtain w' where w: "process_migrate_to_openbook demo_dex_env 5 (order_run migration_program_id 99) demo_dex_world = Ok w'"
    using demo_migration_runs by blast
  show ?thesis using migrate_effect [OF w] w
    by (auto simp: amm_view_def data_of_def account_of_def demo_order_run)
qed

lemma cancel_amm_orders_and_settle_calls:
  assumes "cancel_amm_orders_and_settle env ma cv pv tp None bids asks n w = Ok w'"
  shows "\<exists>cs k. calls w' = calls w @ cs \<and> transfers cs = [] \<and> cs \<noteq> [] \<and> list_all (market_cancel ma) (butlast cs) \<and>
    mset (cancellations cs) = mset (map leaf_client_order_id bids) + mset (map leaf_client_order_id asks)
      + replicate_mset k 0 \<and>
    cpi_ix (last cs) = DexSettleFunds (map ai_key [ma_program ma, ma_market ma, tp, ma_open_orders ma,
       ma_authority ma, ma_coin_vault ma, cv, ma_pc_vault ma, pv, ma_vault_signer ma]) None"
proof -
  obtain gs k where gs: "(batch_both_ids bids asks :: u64 list list res) = Ok gs"
      "mset (concat gs) = mset (map leaf_client_order_id bids) + mset (map leaf_client_order_id asks) + replicate_mset k 0"
    using batch_both_ids_spec by blast
  then obtain w1 where c: "cancel_groups env ma n gs w = Ok w1"
    and s: "invoke_dex_settle_funds env (ma_program ma) (ma_market ma) (ma_open_orders ma) (ma_authority ma)
       (ma_coin_vault ma) (ma_pc_vault ma) cv pv (ma_vault_signer ma) tp None AUTHORITY_AMM n w1 = Ok w'"
    using assms by (auto simp: cancel_amm_orders_and_settle_def outcome)
  obtain cs where cs: "calls w1 = calls w @ cs" "list_all (market_cancel ma) cs" "cancellations cs = concat gs"
    using cancel_groups_calls [OF c] by (auto simp: cancellations_def)
  obtain d where d: "calls w' = calls w1 @ [d]" "cancelled_ids d = []" "moved d = []"
      "cpi_ix d = DexSettleFunds (map ai_key [ma_program ma, ma_market ma, tp, ma_open_orders ma,
       ma_authority ma, ma_coin_vault ma, cv, ma_pc_vault ma, pv, ma_vault_signer ma]) None"
    using settle_calls [OF s] by blast
  have "transfers cs = []" using cs(2) by (intro dex_calls_move_nothing market_cancels_are_dex_calls)
  then show ?thesis using cs d gs(2) by (intro exI [of _ "cs @ [d]"] exI [of _ k]) auto
qed

lemma monitor_cancel_calls:
  assumes "monitor_cancel env mo bids asks n w = Ok w'"
  shows "transfers (new_calls w w') = [] \<and>
    (\<exists>k. mset (cancellations (new_calls w w')) =
      mset (map leaf_client_order_id bids) + mset (map leaf_client_order_id asks) + replicate_mset k 0) \<and>
    (if bids = [] \<and> asks = [] then new_calls w w' = []
     else new_calls w w' \<noteq> [] \<and> list_all (market_cancel (mo_market mo)) (butlast (new_calls w w')) \<and> cpi_ix (last (new_calls w w')) =
       DexSettleFunds (map ai_key [ma_program (mo_market mo), ma_market (mo_market mo), mo_token_program mo,
         ma_open_orders (mo_market mo), ma_authority (mo_market mo), ma_coin_vault (mo_market mo), mo_coin_vault mo,
         ma_pc_vault (mo_market mo), mo_pc_vault mo, ma_vault_signer (mo_market mo)]) None)"
proof (cases "bids = [] \<and> asks = []")
  case True
  then show ?thesis using assms by (auto simp: monitor_cancel_def new_calls_def intro: exI [of _ 0])
next
  case False
  then have "cancel_amm_orders_and_settle env (mo_market mo) (mo_coin_vault mo) (mo_pc_vault mo) (mo_token_program mo)
          None bids asks n w = Ok w'" using assms by (auto simp: monitor_cancel_def)
  from cancel_amm_orders_and_settle_calls [OF this] obtain cs k where
    cs: "calls w' = calls w @ cs" "transfers cs = []" "cs \<noteq> []" "list_all (market_cancel (mo_market mo)) (butlast cs)"
     "mset (cancellations cs) = mset (map leaf_client_order_id bids) + mset (map leaf_client_order_id asks)
      + replicate_mset k 0"
     "cpi_ix (last cs) = DexSettleFunds (map ai_key [ma_program (mo_market mo), ma_market (mo_market mo), mo_token_program mo,
         ma_open_orders (mo_market mo), ma_authority (mo_market mo), ma_coin_vault (mo_market mo), mo_coin_vault mo,
         ma_pc_vault (mo_market mo), mo_pc_vault mo, ma_vault_signer (mo_market mo)]) None"
    by blast
  have "new_calls w w' = cs" using cs(1) by (rule new_calls_append)
  with cs False show ?thesis by auto
qed

text \<open>The record after a step: the counters have grown by the base.\<close>

definition profit_booked :: "target_orders_data \<Rightarrow> amm_info \<Rightarrow> amm_info" where
  "profit_booked t amm = amm\<lparr>amm_state_data := (amm_state_data amm)
     \<lparr>total_pnl_pc := saturating_add (total_pnl_pc (amm_state_data amm)) (ucast (calc_pnl_x t)),
      total_pnl_coin := saturating_add (total_pnl_coin (amm_state_data amm)) (ucast (calc_pnl_y t))\<rparr>\<rparr>"

lemma monitor_take_pnl_eq:
  "monitor_take_pnl t amm pc coin = (profit_booked t amm,
     t\<lparr>target_x := ucast (saturating_sub pc (ucast (calc_pnl_x t))),
       target_y := ucast (saturating_sub coin (ucast (calc_pnl_y t)))\<rparr>)"
  by (simp add: monitor_take_pnl_def calc_take_pnl_def update_target_orders_pnl_def Let_def profit_booked_def)

lemma monitor_accounts_of_take [simp]: "monitor_accounts_of (take 16 a) = monitor_accounts_of a"
  by (simp add: monitor_accounts_of_def)

text \<open>
  C28. A monitor step that succeeds cancels exactly the pool's resting orders on both sides and, if there
  were any, settles once, after the cancellations, into the two accounts passed as the vaults of the
  pool; it makes no other call and moves no tokens itself. It books the profit base of the
  target orders as profit (truncated to 64 bits, the counters saturating) and keeps the base, so the
  next step books the same profit again. Any wallet that signs can run it, and what it passes
  as vaults is not compared with the vaults of the pool: in the example a stranger settles into
  two accounts of its own.
\<close>

theorem monitor_effect:
  assumes "process_monitor_step env pid accs m w = Ok w'"
  shows "\<exists>mo amm t t' oo bids asks k.
    mo = monitor_accounts_of accs \<and> amm = amm_view (data_of w (mo_amm mo)) \<and>
    t = target_view (data_of w (mo_target_orders mo)) \<and> ai_is_signer (mo_wallet mo) \<and>
    load_amm_orders env (mo_market mo) amm (hold (mo_amm mo) w) = Ok (oo, bids, asks) \<and>
    transfers (new_calls w w') = [] \<and>
    mset (cancellations (new_calls w w')) =
      mset (map leaf_client_order_id bids) + mset (map leaf_client_order_id asks) + replicate_mset k 0 \<and>
    (if bids = [] \<and> asks = [] then new_calls w w' = []
     else new_calls w w' \<noteq> [] \<and> list_all (market_cancel (mo_market mo)) (butlast (new_calls w w')) \<and>
       cpi_ix (last (new_calls w w')) =
       DexSettleFunds (map ai_key [ma_program (mo_market mo), ma_market (mo_market mo), mo_token_program mo,
         ma_open_orders (mo_market mo), ma_authority (mo_market mo), ma_coin_vault (mo_market mo), mo_coin_vault mo,
         ma_pc_vault (mo_market mo), mo_pc_vault mo, ma_vault_signer (mo_market mo)]) None) \<and>
    data_of w' (mo_amm mo) = AmmData (profit_booked t amm) \<and>
    data_of w' (mo_target_orders mo) = TargetData t' \<and> calc_pnl_x t' = calc_pnl_x t \<and> calc_pnl_y t' = calc_pnl_y t"
proof -
  let ?mo = "monitor_accounts_of accs"
  let ?w1 = "hold (mo_amm ?mo) w"
  let ?w2 = "hold (mo_target_orders ?mo) ?w1"
  let ?amm = "amm_view (data_of w (mo_amm ?mo))"
  let ?t = "target_view (data_of w (mo_target_orders ?mo))"
  from assms obtain oo bids asks total_pc total_coin w3 where
      r: "ai_is_signer (mo_wallet ?mo)"
    "load_amm_orders env (mo_market ?mo) ?amm ?w1 = Ok (oo, bids, asks)"
    and ne: "ai_key (mo_target_orders ?mo) \<noteq> ai_key (mo_amm ?mo)"
    and c: "monitor_cancel env ?mo bids asks (ucast (nonce (profit_booked ?t ?amm))) ?w2 = Ok w3"
    and w': "w' = store_target (mo_target_orders ?mo) (snd (monitor_take_pnl ?t ?amm total_pc total_coin))
      (store_amm (mo_amm ?mo) (profit_booked ?t ?amm) w3)"
    by (auto simp: process_monitor_step_def next_accounts_def Let_def amm_load_mut_Ok target_load_mut_Ok outcome
        monitor_take_pnl_eq hold_def is_borrowed_def data_of_def account_of_def split: if_splits)
  have nc: "new_calls w w' = new_calls ?w2 w3" by (simp add: w')
  have d: "data_of w' (mo_amm ?mo) = AmmData (profit_booked ?t ?amm)"
    "\<exists>t'. data_of w' (mo_target_orders ?mo) = TargetData t' \<and> calc_pnl_x t' = calc_pnl_x ?t \<and> calc_pnl_y t' = calc_pnl_y ?t"
    using ne by (simp_all add: w' monitor_take_pnl_eq data_of_def account_of_def store_target_def store_amm_def set_data_def)
  show ?thesis using r monitor_cancel_calls [OF c] d unfolding nc by (auto split: if_splits)
qed

text \<open>The accounts 70 and 71 belong to the stranger 99; the vaults of the pool are 11 and 12.\<close>

definition monitor_run :: "pubkey \<Rightarrow> account_info list" where
  "monitor_run wallet = [rw 10, ro 3, rw 15, rw 14, rw 70, rw 71, ro 51, rw 50, rw 60, rw 61, rw 62, rw 63, rw 64, ro 65,
     ro 1, signer wallet]"

definition demo_base :: target_orders_data where
  "demo_base = zero_target_orders\<lparr>t_owner := 10, calc_pnl_x := 40, calc_pnl_y := 10\<rparr>"

definition demo_monitor_world :: world where
  "demo_monitor_world = demo_dex_world\<lparr>accts := (accts demo_dex_world)
     (14 := \<lparr>acc_owner = 5, acc_data = TargetData demo_base\<rparr>, 70 := demo_token 30 99 5, 71 := demo_token 31 99 7)\<rparr>"

lemma monitor_run_accounts:
  "monitor_accounts_of (monitor_run k) =
     \<lparr>mo_amm = rw 10, mo_target_orders = rw 14, mo_coin_vault = rw 70, mo_pc_vault = rw 71,
      mo_market = \<lparr>ma_program = ro 51, ma_market = rw 50, ma_bids = rw 60, ma_asks = rw 61, ma_event_q = rw 62,
        ma_coin_vault = rw 63, ma_pc_vault = rw 64, ma_vault_signer = ro 65, ma_open_orders = rw 15, ma_authority = ro 3\<rparr>,
      mo_token_program = ro 1, mo_wallet = signer k\<rparr>" "length (monitor_run k) = 16" "take 16 (monitor_run k) = monitor_run k"
  by (simp_all add: monitor_accounts_of_def monitor_run_def)

lemma demo_monitor_loads:
  "amm_load_mut_checked demo_dex_env 5 (rw 10) demo_monitor_world = Ok (demo_dex_amm, hold (rw 10) demo_monitor_world)"
  "target_load_mut_checked demo_dex_env 5 10 (rw 14) (hold (rw 10) demo_monitor_world) =
     Ok (demo_base, hold (rw 14) (hold (rw 10) demo_monitor_world))"
  "unpack_token_account demo_dex_env (rw 70) 1 (hold (rw 14) (hold (rw 10) demo_monitor_world)) =
     Ok \<lparr>ta_mint = 30, ta_owner = 99, ta_amount = 5\<rparr>"
  "unpack_token_account demo_dex_env (rw 71) 1 (hold (rw 14) (hold (rw 10) demo_monitor_world)) =
     Ok \<lparr>ta_mint = 31, ta_owner = 99, ta_amount = 7\<rparr>"
  by (simp_all add: runtime_eval demo_dex_defs demo_defs demo_monitor_world_def demo_base_def pool_eval
      amm_status_into_u64_def)

lemma demo_monitor_totals:
  "calc_total_without_take_pnl 7 5 demo_open_orders demo_dex_amm (env_events demo_dex_env w 50 62) 15 = Ok (7, 5)"
  by (simp add: calc_total_without_take_pnl_def calc_exact_vault_in_serum_def demo_dex_env_def demo_dex_amm_def demo_amm_def
      demo_open_orders_def zero_amm_info_def zero_state_data_def checked_add_def checked_sub_def)

lemma demo_monitor_cancel:
  "\<exists>w'. monitor_cancel demo_dex_env (monitor_accounts_of (monitor_run k)) [demo_bid] [] n
      (hold (rw 14) (hold (rw 10) demo_monitor_world)) = Ok w'"
proof -
  have "(batch_both_ids [demo_bid] [] :: u64 list list res) = Ok [[77, 0, 0, 0, 0, 0, 0, 0]]"
    by (simp add: batch_both_ids_def batch_both_step_def ib_push_def ib_flush_def ib_finish_def ib_new_def demo_bid_def
        eval_nat_numeral)
  then show ?thesis
    by (simp add: monitor_cancel_def cancel_amm_orders_and_settle_def cancel_groups_def monitor_run_accounts
        invoke_dex_cancel_orders_by_client_order_ids_def invoke_dex_settle_funds_def demo_invoke_dex
        ro_def rw_def Let_def hold_def demo_monitor_world_def demo_dex_facts del: bex_simps)
qed

lemma demo_monitor_orders:
  "load_amm_orders demo_dex_env (mo_market (monitor_accounts_of (monitor_run k))) demo_dex_amm w =
     Ok (demo_open_orders, [demo_bid], [])"
  by (simp add: load_amm_orders_def load_serum_market_order_def demo_dex_defs demo_orders demo_bid_def monitor_run_accounts
      demo_open_orders_def [THEN arg_cong, of oo_market] demo_open_orders_def [THEN arg_cong, of oo_owner] ro_def rw_def)

lemma demo_monitor_runs: "\<exists>w'. process_monitor_step demo_dex_env 5 (monitor_run 99) m demo_monitor_world = Ok w'"
proof -
  note demo_monitor_orders [of 99, unfolded monitor_run_accounts monitor_accounts.simps]
  moreover note demo_monitor_cancel [of 99, unfolded monitor_run_accounts]
  moreover have "target_orders demo_dex_amm = 14" by (simp add: demo_dex_defs demo_defs)
  ultimately show ?thesis
    by (simp add: process_monitor_step_def next_accounts_def monitor_run_accounts Let_def demo_monitor_loads
        authority_id_def demo_dex_facts info_simps check_market_keys_def into_res_def demo_monitor_totals monitor_take_pnl_eq)
      (auto simp: outcome)
qed

theorem monitor_effect_witness:
  "\<exists>w' k. process_monitor_step demo_dex_env 5 (monitor_run 99)
       \<lparr>plan_order_limit = 1, place_order_limit = 1, cancel_order_limit = 1\<rparr> demo_monitor_world = Ok w' \<and>
     mset (cancellations (new_calls demo_monitor_world w')) = {#77#} + replicate_mset k 0 \<and>
     cpi_ix (last (new_calls demo_monitor_world w')) = DexSettleFunds [51, 50, 1, 15, 3, 63, 70, 64, 71, 65] None \<and>
     (\<exists>amm. acc_data (accts w' 10) = AmmData amm \<and> total_pnl_pc (amm_state_data amm) = 40 \<and>
        coin_vault amm = 11 \<and> pc_vault amm = 12)"
proof -
  obtain w' where w: "process_monitor_step demo_dex_env 5 (monitor_run 99)
      \<lparr>plan_order_limit = 1, place_order_limit = 1, cancel_order_limit = 1\<rparr> demo_monitor_world = Ok w'"
    using demo_monitor_runs by blast
  have "amm_view (data_of demo_monitor_world (rw 10)) = demo_dex_amm"
    "target_view (data_of demo_monitor_world (rw 14)) = demo_base"
    by (simp_all add: amm_view_def target_view_def data_of_def account_of_def demo_monitor_world_def rw_def demo_dex_facts)
  moreover have "total_pnl_pc (amm_state_data (profit_booked demo_base demo_dex_amm)) = 40"
      "coin_vault (profit_booked demo_base demo_dex_amm) = 11" "pc_vault (profit_booked demo_base demo_dex_amm) = 12"
    by (simp_all add: profit_booked_def demo_base_def demo_dex_defs demo_defs zero_amm_info_def zero_state_data_def
        saturating_add_def)
  ultimately show ?thesis using monitor_effect [OF w] w demo_monitor_orders [of 99]
    by (auto simp: monitor_run_accounts demo_bid_def data_of_def account_of_def rw_def ro_def)
qed

end
