(* ===== verification/Initialize.thy ===== *)
theory Initialize
  imports Example
begin

text \<open>
  \<^verbatim>\<open>process/initialize.rs\<close>: creating a pool. The handler borrows the pool's data a second time
  while the first borrow is alive, so it never succeeds (lemma \<open>process_initialize2_fails\<close>).
  Its integer square root, which prices the first LP tokens, is treated on its own.
\<close>

section \<open>The integer square root\<close>

text \<open>
  \<^verbatim>\<open>while y < x { x = y; y = (x + product / x) / 2; }\<close>: the sum may overflow and the division be
  by zero, both panics.
\<close>

function isqrt_loop :: "u128 \<Rightarrow> u128 \<Rightarrow> u128 \<Rightarrow> ('e, u128) outcome" where
  "isqrt_loop product x y =
     (if y < x then
        rbind (unwrap (checked_div product y)) (\<lambda>q.
        rbind (unwrap (checked_add y q)) (\<lambda>s.
        isqrt_loop product y (s div 2)))
      else Ok x)"
  by pat_completeness auto
termination
  by (relation "measure (\<lambda>(p, x, y). unat x)") (auto simp: word_less_nat_alt)

text \<open>The LP amount; \<^verbatim>\<open>x as u64\<close> truncates.\<close>

definition initial_lp_amount :: "u64 \<Rightarrow> u64 \<Rightarrow> ('e, u64) outcome" where
  "initial_lp_amount coin pc =
     rbind (unwrap (checked_mul (ucast coin :: u128) (ucast pc))) (\<lambda>product.
       if product > 0 then
         rbind (unwrap (checked_add product 1)) (\<lambda>s.
         rbind (isqrt_loop product product (s div 2)) (\<lambda>x.
         Ok (ucast x)))
       else Ok 0)"

section \<open>The handler\<close>

record init_accounts =
  ia_amm :: account_info
  ia_authority :: account_info
  ia_open_orders :: account_info
  ia_target_orders :: account_info
  ia_coin_vault :: account_info
  ia_pc_vault :: account_info
  ia_lp_mint :: account_info
  ia_market_program :: account_info
  ia_market :: account_info
  ia_token_program :: account_info
  ia_system_program :: account_info
  ia_rent :: account_info
  ia_wallet :: account_info
  ia_user_coin :: account_info
  ia_user_pc :: account_info
  ia_user_lp :: account_info
  ia_coin_mint :: account_info
  ia_pc_mint :: account_info

definition init_accounts_of :: "account_info list \<Rightarrow> init_accounts" where
  "init_accounts_of a =
     \<lparr>ia_amm = a ! 0, ia_authority = a ! 1, ia_open_orders = a ! 2, ia_target_orders = a ! 3,
      ia_coin_vault = a ! 4, ia_pc_vault = a ! 5, ia_lp_mint = a ! 6, ia_market_program = a ! 9,
      ia_market = a ! 10, ia_token_program = a ! 17, ia_system_program = a ! 18, ia_rent = a ! 19,
      ia_wallet = a ! 20, ia_user_coin = a ! 21, ia_user_pc = a ! 22, ia_user_lp = a ! 23,
      ia_coin_mint = a ! 24, ia_pc_mint = a ! 25\<rparr>"

definition new_amm :: "init_accounts \<Rightarrow> u8 \<Rightarrow> u64 \<Rightarrow> amm_info" where
  "new_amm ia nonce' open_time =
     zero_amm_info\<lparr>status := amm_status_into_u64 Initialized, nonce := ucast nonce',
       amm_fees := fees_initialize zero_fees, amm_state_data := state_data_initialize open_time zero_state_data,
       coin_vault := ai_key (ia_coin_vault ia), pc_vault := ai_key (ia_pc_vault ia),
       coin_vault_mint := ai_key (ia_coin_mint ia), pc_vault_mint := ai_key (ia_pc_mint ia),
       lp_mint := ai_key (ia_lp_mint ia), open_orders := ai_key (ia_open_orders ia),
       market := ai_key (ia_market ia), market_program := ai_key (ia_market_program ia),
       target_orders := ai_key (ia_target_orders ia), amm_owner := ai_key (ia_wallet ia)\<rparr>"

definition init_check :: "env \<Rightarrow> pubkey \<Rightarrow> init_accounts \<Rightarrow> u8 \<Rightarrow> unit res" where
  "init_check env program_id ia nonce' =
     (if \<not> ai_is_signer (ia_wallet ia) then AmmErr InvalidSignAccount
      else if ai_key (ia_token_program ia) \<noteq> env_spl_token env then AmmErr InvalidSplTokenProgram
      else if ai_key (ia_system_program ia) \<noteq> env_system_program env then AmmErr InvalidMarketProgram
      else if ai_key (ia_rent ia) \<noteq> env_rent_sysvar env then AmmErr InvalidMarketProgram
      else rbind (into_res (authority_id env program_id AUTHORITY_AMM nonce')) (\<lambda>authority.
        if ai_key (ia_authority ia) \<noteq> authority then AmmErr InvalidProgramAddress else Ok ()))"

text \<open>\<^verbatim>\<open>let mut data = account.try_borrow_mut_data()?; data.copy_from_slice(..)\<close>, the borrow staying alive.\<close>

definition write_and_hold :: "account_info \<Rightarrow> account_data \<Rightarrow> world \<Rightarrow> world res" where
  "write_and_hold ai new w =
     rbind (try_borrow_data w ai) (\<lambda>d.
       if data_len d \<noteq> data_len new then Panic else Ok (hold ai (set_data ai new w)))"

definition mint_initial_lp :: "env \<Rightarrow> init_accounts \<Rightarrow> u8 \<Rightarrow> u64 \<Rightarrow> world \<Rightarrow> world res" where
  "mint_initial_lp env ia nonce' lp w =
     invoke_signed env (SplMintTo (env_spl_token env) (ai_key (ia_lp_mint ia)) (ai_key (ia_user_lp ia))
         (ai_key (ia_authority ia)) lp) [ia_lp_mint ia, ia_user_lp ia, ia_authority ia]
       [[AUTHORITY_AMM, [nonce']]] w"

text \<open>Both transfers are built before the first is made.\<close>

definition transfer_initial_tokens :: "env \<Rightarrow> init_accounts \<Rightarrow> u64 \<Rightarrow> u64 \<Rightarrow> world \<Rightarrow> world res" where
  "transfer_initial_tokens env ia coin pc w =
     (let coin_ix = SplTransfer (env_spl_token env) (ai_key (ia_user_coin ia)) (ai_key (ia_coin_vault ia))
            (ai_key (ia_wallet ia)) coin;
          pc_ix = SplTransfer (env_spl_token env) (ai_key (ia_user_pc ia)) (ai_key (ia_pc_vault ia))
            (ai_key (ia_wallet ia)) pc in
      rbind (env_build env coin_ix) (\<lambda>_.
      rbind (env_build env pc_ix) (\<lambda>_.
      rbind (invoke env coin_ix [ia_user_coin ia, ia_coin_vault ia, ia_wallet ia] w) (\<lambda>w.
      invoke env pc_ix [ia_user_pc ia, ia_pc_vault ia, ia_wallet ia] w))))"

definition process_initialize2 ::
  "env \<Rightarrow> pubkey \<Rightarrow> account_info list \<Rightarrow> initialize_instruction2 \<Rightarrow> world \<Rightarrow> world res" where
  "process_initialize2 env program_id accounts init w =
     rbind (next_accounts 28 accounts) (\<lambda>a.
     let ia = init_accounts_of a; n = i2_nonce init; amm = new_amm ia n (i2_open_time init) in
     rbind (init_check env program_id ia n) (\<lambda>_.
     rbind (write_and_hold (ia_amm ia) (AmmData amm) w) (\<lambda>w.
     rbind (target_orders_check_init 0 0 (ai_key (ia_amm ia)) (zero_target_orders\<lparr>free_slot_bits := - 1\<rparr>)) (\<lambda>target.
     rbind (write_and_hold (ia_target_orders ia) (TargetData target) w) (\<lambda>w.
     rbind (initial_lp_amount (i2_init_coin_amount init) (i2_init_pc_amount init)) (\<lambda>lp.
     rbind (mint_initial_lp env ia n lp w) (\<lambda>w.
     rbind (write_and_hold (ia_amm ia) (AmmData (amm\<lparr>lp_amount := lp\<rparr>)) w) (\<lambda>w.
     transfer_initial_tokens env ia (i2_init_coin_amount init) (i2_init_pc_amount init) w))))))))"

section \<open>The square root is exact\<close>

lemma newton_step_bound:
  fixes p x :: nat
  assumes "0 < x"
  shows "p < Suc ((x + p div x) div 2) ^ 2"
proof -
  let ?q = "p div x" and ?s = "(x + p div x) div 2"
  have "p < x * Suc ?q" using dividend_less_times_div [OF assms, of p] by simp
  moreover have "4 * (x * Suc ?q) \<le> (x + Suc ?q) ^ 2"
  proof -
    have "0 \<le> (int x - int (Suc ?q)) ^ 2" by simp
    then have "int (4 * (x * Suc ?q)) \<le> int ((x + Suc ?q) ^ 2)"
      by (simp add: power2_eq_square algebra_simps)
    then show ?thesis by (rule of_nat_le_iff [THEN iffD1])
  qed
  moreover have "(x + Suc ?q) ^ 2 \<le> (2 * Suc ?s) ^ 2"
    by (rule power_mono) auto
  moreover have "(2 * Suc ?s) ^ 2 = 4 * Suc ?s ^ 2" unfolding power_mult_distrib by simp
  ultimately show ?thesis by linarith
qed

lemma newton_stop:
  fixes p x :: nat
  assumes "0 < x" "x \<le> (x + p div x) div 2"
  shows "x ^ 2 \<le> p"
proof -
  have "x \<le> p div x" using assms(2) by linarith
  then have "x * x \<le> x * (p div x)" by (rule mult_left_mono) simp
  also have "\<dots> \<le> p" by simp
  finally show ?thesis by (simp add: power2_eq_square)
qed

lemma sum_le_dividend:
  fixes p y :: nat
  assumes "0 < y" "y \<le> p"
  shows "y + p div y \<le> p + 1"
proof -
  have "0 < p div y" using assms by (simp add: div_greater_zero_iff)
  then have "0 \<le> (int y - 1) * (int (p div y) - 1)" using assms by simp
  then have "int y + int (p div y) \<le> int y * int (p div y) + 1" by (simp add: algebra_simps)
  then have "y + p div y \<le> y * (p div y) + 1"
    by (simp flip: of_nat_mult of_nat_add of_nat_Suc add: of_nat_le_iff)
  also have "\<dots> \<le> p + 1" by simp
  finally show ?thesis .
qed

lemma isqrt_loop_correct:
  assumes "0 < unat x" "unat x \<le> unat p" "unat p + 1 < 2 ^ 128" "unat p < Suc (unat x) ^ 2"
    and "unat y = (unat x + unat p div unat x) div 2"
  shows "\<exists>r. isqrt_loop p x y = Ok r \<and> unat r ^ 2 \<le> unat p \<and> unat p < Suc (unat r) ^ 2"
  using assms
proof (induction p x y rule: isqrt_loop.induct)
  case (1 p x y)
  show ?case
  proof (cases "y < x")
    case False
    then have "unat x \<le> (unat x + unat p div unat x) div 2"
      using 1(6) by (simp add: word_less_nat_alt)
    then have "unat x ^ 2 \<le> unat p" using 1(2) by (intro newton_stop)
    with False 1(5) show ?thesis by simp
  next
    case True
    have b: "unat p < Suc (unat y) ^ 2" unfolding 1(6) using 1(2) by (rule newton_step_bound)
    have "0 < unat y" using b 1(2,3) by (cases "unat y") auto
    obtain q where q: "checked_div p y = Some q" "unat q = unat p div unat y"
      using checked_div_ex [of y p] \<open>0 < unat y\<close> by auto
    have yx: "unat y < unat x" using True by (simp add: word_less_nat_alt)
    have "unat y + unat p div unat y \<le> unat p + 1"
      using \<open>0 < unat y\<close> yx 1(3) by (intro sum_le_dividend) auto
    then have s: "checked_add y q = Some (y + q)" and sv: "unat (y + q) = unat y + unat q"
      using 1(4) q(2) by (auto simp: checked_add_def unat_word_ariths)
    have "unat ((y + q) div 2) = (unat y + unat p div unat y) div 2"
      using sv q(2) by (simp add: unat_div_distrib)
    then show ?thesis
      using 1(1) [OF True] q(1) s b yx 1(3,4) \<open>0 < unat y\<close> True by simp
  qed
qed

text \<open>
  C30. The initial LP amount is the integer square root of the product of the two deposits: the
  loop ends, no step of it overflows or divides by zero, and the result, which always fits the 64
  bits it is cast to, is the largest number whose square does not exceed the product.
\<close>

theorem initial_lp_is_isqrt:
  "\<exists>r. initial_lp_amount coin pc = (Ok r :: ('e, u64) outcome) \<and>
     unat r ^ 2 \<le> unat coin * unat pc \<and> unat coin * unat pc < Suc (unat r) ^ 2"
proof -
  let ?c = "ucast coin :: u128" and ?p = "ucast pc :: u128"
  let ?P = "?c * ?p"
  have "unat coin * unat pc \<le> (2 ^ 64 - 1) * (2 ^ 64 - 1)"
    using u64_lt [of coin] u64_lt [of pc] by (intro mult_le_mono) auto
  then have lt: "unat coin * unat pc + 1 < 2 ^ 128" by simp
  then have mul: "checked_mul ?c ?p = Some ?P" and P: "unat ?P = unat coin * unat pc"
    by (auto simp: checked_mul_def unat_word_ariths)
  show ?thesis
  proof (cases "?P = 0")
    case True
    then show ?thesis using P mul by (auto simp: initial_lp_amount_def)
  next
    case False
    then have pos: "0 < unat ?P" by simp
    have add: "checked_add ?P 1 = Some (?P + 1)" "unat (?P + 1) = unat ?P + 1"
      using lt P by (auto simp: checked_add_def unat_word_ariths)
    have y: "unat ((?P + 1) div 2) = (unat ?P + unat ?P div unat ?P) div 2"
      using pos add(2) by (simp add: unat_div_distrib)
    obtain r where r: "isqrt_loop ?P ?P ((?P + 1) div 2) = (Ok r :: ('e, u128) outcome)"
        "unat r ^ 2 \<le> unat ?P" "unat ?P < Suc (unat r) ^ 2"
      using isqrt_loop_correct [of ?P ?P "(?P + 1) div 2"] pos lt P y by (auto simp: power2_eq_square)
    have "unat r < 2 ^ 64"
    proof (rule ccontr)
      assume "\<not> unat r < 2 ^ 64"
      then have "(2 ^ 64) ^ 2 \<le> unat r ^ 2" by (intro power_mono) auto
      with r(2) lt P show False by simp
    qed
    then have "unat (ucast r :: u64) = unat r" by (simp add: unsigned_ucast_eq take_bit_nat_eq_self)
    then show ?thesis
      using mul add(1) r P False by (auto simp: initial_lp_amount_def word_gt_0)
  qed
qed

section \<open>No pool is ever initialized\<close>

lemma borrowed_simps [simp]: "borrowed (set_data ai d w) = borrowed w" "borrowed (hold ai w) = ai_key ai # borrowed w"
  by (simp_all add: set_data_def hold_def)

lemma invoke_signed_borrowed: "invoke_signed env i infos seeds w = Ok w' \<Longrightarrow> borrowed w' = borrowed w"
  by (auto simp: invoke_signed_def outcome Let_def)

lemma write_and_hold_Ok:
  "write_and_hold ai d w = Ok w' \<longleftrightarrow>
     ai_key ai \<notin> set (borrowed w) \<and> data_len (data_of w ai) = data_len d \<and> w' = hold ai (set_data ai d w)"
  by (auto simp: write_and_hold_def outcome try_borrow_data_def is_borrowed_def)

text \<open>The second borrow: the pool's data is still borrowed when the LP amount is to be stored.\<close>

lemma process_initialize2_fails: "process_initialize2 env program_id accounts init w \<noteq> Ok w'"
proof
  assume "process_initialize2 env program_id accounts init w = Ok w'"
  then show False
    by (auto simp: process_initialize2_def mint_initial_lp_def outcome Let_def write_and_hold_Ok dest!: invoke_signed_borrowed)
qed

end
