(* ===== verification/Simulate.thy ===== *)
theory Simulate
  imports Example
begin

text \<open>
  \<^verbatim>\<open>process/simulate.rs\<close>: the read-only handlers. They log what they compute and change nothing.
  Both swap simulations first read the accounts by their own layout and then hand the same
  accounts to the pool simulation, which has another one.
\<close>

section \<open>The pool\<close>

text \<open>\<^verbatim>\<open>amm_id\<close>, a base-58 string in the code, is kept as the key it prints.\<close>

definition simulate_pool_info :: "env \<Rightarrow> pubkey \<Rightarrow> account_info list \<Rightarrow> world \<Rightarrow> get_pool_data res" where
  "simulate_pool_info env program_id accounts w =
     rbind (next_accounts 9 accounts) (\<lambda>a.
     let amm_ai = a ! 0; authority_ai = a ! 1; coin_vault_ai = a ! 3; pc_vault_ai = a ! 4; lp_mint_ai = a ! 5;
         spl = env_spl_token env in
     rbind (amm_load_checked env program_id amm_ai w) (\<lambda>amm.
     rbind (into_res (authority_id env program_id AUTHORITY_AMM (ucast (nonce amm)))) (\<lambda>authority.
     if ai_key authority_ai \<noteq> authority then AmmErr InvalidProgramAddress
     else
       rbind (into_res (unpack_token_account env coin_vault_ai spl w)) (\<lambda>coin_vault_acc.
       rbind (into_res (unpack_token_account env pc_vault_ai spl w)) (\<lambda>pc_vault_acc.
       rbind (into_res (unpack_mint env lp_mint_ai spl w)) (\<lambda>lp.
       Ok \<lparr>gpd_status = status amm, gpd_coin_decimals = coin_decimals amm, gpd_pc_decimals = pc_decimals amm,
         gpd_lp_decimals = ucast (mint_decimals lp), gpd_pool_pc_amount = ta_amount pc_vault_acc,
         gpd_pool_coin_amount = ta_amount coin_vault_acc, gpd_pnl_pc_amount = total_pnl_pc (amm_state_data amm),
         gpd_pnl_coin_amount = total_pnl_coin (amm_state_data amm), gpd_pool_lp_supply = mint_supply lp,
         gpd_pool_open_time = pool_open_time (amm_state_data amm), gpd_amm_id = ai_key amm_ai\<rparr>))))))"

section \<open>The swaps\<close>

text \<open>The common start: the pool, its vaults and the direction of the user's accounts.\<close>

definition simulate_swap_load ::
  "env \<Rightarrow> pubkey \<Rightarrow> account_info list \<Rightarrow> world \<Rightarrow> (amm_info \<times> token_account \<times> token_account \<times> swap_direction) res" where
  "simulate_swap_load env program_id accounts w =
     rbind (next_accounts 13 accounts) (\<lambda>a.
     let spl = env_spl_token env in
     rbind (amm_load_checked env program_id (a ! 0) w) (\<lambda>amm.
     rbind (into_res (authority_id env program_id AUTHORITY_AMM (ucast (nonce amm)))) (\<lambda>authority.
     if ai_key (a ! 1) \<noteq> authority then AmmErr InvalidProgramAddress
     else
       rbind (into_res (unpack_token_account env (a ! 4) spl w)) (\<lambda>coin_vault_acc.
       rbind (into_res (unpack_token_account env (a ! 5) spl w)) (\<lambda>pc_vault_acc.
       rbind (into_res (unpack_token_account env (a ! 10) spl w)) (\<lambda>source.
       rbind (into_res (unpack_token_account env (a ! 11) spl w)) (\<lambda>destination.
       if ta_mint source = ta_mint coin_vault_acc \<and> ta_mint destination = ta_mint pc_vault_acc
       then Ok (amm, coin_vault_acc, pc_vault_acc, Coin2PC)
       else if ta_mint source = ta_mint pc_vault_acc \<and> ta_mint destination = ta_mint coin_vault_acc
       then Ok (amm, coin_vault_acc, pc_vault_acc, PC2Coin)
       else AmmErr InvalidUserToken)))))))"

text \<open>The fee is computed, with its panics, and not used.\<close>

definition simulate_swap_base_in ::
  "env \<Rightarrow> pubkey \<Rightarrow> account_info list \<Rightarrow> swap_base_in_instruction \<Rightarrow> world \<Rightarrow> get_swap_base_in_data res" where
  "simulate_swap_base_in env program_id accounts swap w =
     rbind (simulate_swap_load env program_id accounts w) (\<lambda>(amm, coin_vault_acc, pc_vault_acc, dir).
     rbind (unwrap (checked_mul (ucast (amount_in swap) :: u128) (ucast (swap_fee_numerator (amm_fees amm))))) (\<lambda>m.
     rbind (unwrap (checked_ceil_div m (ucast (swap_fee_denominator (amm_fees amm))))) (\<lambda>(swap_fee, _).
     rbind (unwrap (checked_sub (ucast (amount_in swap)) swap_fee)) (\<lambda>_.
     rbind (simulate_pool_info env program_id accounts w) (\<lambda>pool.
     Ok \<lparr>gsbi_pool_data = pool, gsbi_amount_in = amount_in swap,
       gsbi_minimum_amount_out = minimum_amount_out swap, gsbi_price_impact = 0\<rparr>)))))"

definition simulate_swap_base_out ::
  "env \<Rightarrow> pubkey \<Rightarrow> account_info list \<Rightarrow> swap_base_out_instruction \<Rightarrow> world \<Rightarrow> get_swap_base_out_data res" where
  "simulate_swap_base_out env program_id accounts swap w =
     rbind (simulate_swap_load env program_id accounts w) (\<lambda>(amm, coin_vault_acc, pc_vault_acc, dir).
     let max_in = (if dir = Coin2PC then saturating_add (ta_amount coin_vault_acc) 1
                   else saturating_add (ta_amount pc_vault_acc) 1) in
     rbind (simulate_pool_info env program_id accounts w) (\<lambda>pool.
     Ok \<lparr>gsbo_pool_data = pool, gsbo_max_amount_in = max_in, gsbo_amount_out = amount_out swap,
       gsbo_price_impact = 0\<rparr>))"

section \<open>The crank and the handler\<close>

definition simulate_run_crank :: "env \<Rightarrow> pubkey \<Rightarrow> account_info list \<Rightarrow> world \<Rightarrow> run_crank_data res" where
  "simulate_run_crank env program_id accounts w =
     rbind (next_accounts 11 accounts) (\<lambda>a.
     rbind (amm_load_checked env program_id (a ! 0) w) (\<lambda>amm.
     rbind (into_res (authority_id env program_id AUTHORITY_AMM (ucast (nonce amm)))) (\<lambda>authority.
     if ai_key (a ! 1) \<noteq> authority then AmmErr InvalidProgramAddress
     else Ok \<lparr>rcd_status = status amm, rcd_state = state amm, rcd_run_crank = True\<rparr>)))"

definition process_simulate_info ::
  "env \<Rightarrow> pubkey \<Rightarrow> account_info list \<Rightarrow> simulate_instruction \<Rightarrow> world \<Rightarrow> world res" where
  "process_simulate_info env program_id accounts simulate w =
     rbind (simulate_params_from_u64 (ucast (sim_param simulate))) (\<lambda>p.
     case p of
       PoolInfo \<Rightarrow> rbind (simulate_pool_info env program_id accounts w) (\<lambda>_. Ok w)
     | SwapBaseInInfo \<Rightarrow>
         (case swap_base_in_value simulate of
            Some swap \<Rightarrow> rbind (simulate_swap_base_in env program_id accounts swap w) (\<lambda>_. Ok w)
          | None \<Rightarrow> Ok w)
     | SwapBaseOutInfo \<Rightarrow>
         (case swap_base_out_value simulate of
            Some swap \<Rightarrow> rbind (simulate_swap_base_out env program_id accounts swap w) (\<lambda>_. Ok w)
          | None \<Rightarrow> Ok w)
     | RunCrankInfo \<Rightarrow> rbind (simulate_run_crank env program_id accounts w) (\<lambda>_. Ok w))"

section \<open>Properties\<close>

lemma unpack_token_account_Ok:
  "unpack_token_account env ai p w = Ok t \<longleftrightarrow>
     owner_of w ai = p \<and> \<not> is_borrowed w ai \<and> env_unpack_token env (data_of w ai) = Some t"
  by (auto simp: unpack_token_account_def outcome borrow_data_def)

lemma unpack_mint_Ok:
  "unpack_mint env ai p w = Ok m \<longleftrightarrow>
     owner_of w ai = p \<and> \<not> is_borrowed w ai \<and> env_unpack_mint env (data_of w ai) = Some m"
  by (auto simp: unpack_mint_def outcome borrow_data_def)

lemma into_res_Ok: "into_res r = Ok x \<longleftrightarrow> r = Ok x"
  by (cases r) (auto simp: into_res_def)

text \<open>Each of the two reads the sixth account, as a vault and as the LP mint.\<close>

lemma simulate_swap_load_vault:
  assumes "simulate_swap_load env pid accs w = Ok r"
  shows "\<exists>t. env_unpack_token env (data_of w (accs ! 5)) = Some t"
  using assms
  by (auto simp: simulate_swap_load_def next_accounts_def outcome Let_def into_res_Ok unpack_token_account_Ok split: if_splits)

lemma simulate_pool_info_mint:
  assumes "simulate_pool_info env pid accs w = Ok r"
  shows "\<exists>m. env_unpack_mint env (data_of w (accs ! 5)) = Some m"
  using assms
  by (auto simp: simulate_pool_info_def next_accounts_def outcome Let_def into_res_Ok unpack_mint_Ok split: if_splits)

text \<open>
  No swap can be simulated: the same account is read as the pc vault and as the LP mint, and
  no data is both a token account and a mint (the two unpackers take data of different lengths
  only). Whatever accounts are passed, a simulation that is given its swap arguments never succeeds.
\<close>

theorem swap_simulations_never_succeed:
  assumes "\<forall>d. env_unpack_token env d = None \<or> env_unpack_mint env d = None"
  shows "\<not> is_ok (simulate_swap_base_in env pid accs s w) \<and> \<not> is_ok (simulate_swap_base_out env pid accs t w)"
proof -
  have "(\<forall>x. simulate_swap_load env pid accs w \<noteq> Ok x) \<or> (\<forall>y. simulate_pool_info env pid accs w \<noteq> Ok y)"
    using assms simulate_swap_load_vault simulate_pool_info_mint by (metis option.distinct(1))
  then show ?thesis
    by (auto simp: simulate_swap_base_in_def simulate_swap_base_out_def outcome Let_def is_ok_iff)
qed

theorem swap_simulations_never_succeed_witness:
  "\<not> is_ok (simulate_swap_base_in demo_env 5 [ro 10, ro 3, ro 15, ro 14, ro 11, ro 12, ro 13, ro 51, ro 50, ro 62, ro 20, ro 21, ro 23]
     \<lparr>amount_in = 100, minimum_amount_out = 380\<rparr> demo_world)"
proof -
  have "\<forall>d. env_unpack_token demo_env d = None \<or> env_unpack_mint demo_env d = None"
    by (auto simp: demo_env_def demo_unpack_token_def demo_unpack_mint_def split: account_data.split list.split)
  from swap_simulations_never_succeed [OF this] show ?thesis by blast
qed

text \<open>A simulation changes nothing.\<close>

lemma simulate_world:
  assumes "process_simulate_info env pid accs s w = Ok w'"
  shows "w' = w"
proof -
  from assms obtain p where "simulate_params_from_u64 (ucast (sim_param s)) = (Ok p :: simulate_params res)"
    by (auto simp: process_simulate_info_def outcome)
  with assms show ?thesis
    by (cases p) (auto simp: process_simulate_info_def outcome split: option.splits)
qed

end
