(* ===== verification/WhitelistHandlers.thy ===== *)
theory WhitelistHandlers
  imports Example
begin

text \<open>
  \<^verbatim>\<open>process/whitelist.rs\<close>: the handlers that create and change the whitelist of transfer-hook
  programs (its queries are in \<open>Helpers\<close>), and what they implement: a set of programs that only
  the current authority can change.
\<close>

section \<open>The handlers\<close>

text \<open>\<^verbatim>\<open>try_borrow_mut_data()?.copy_from_slice(&data)\<close> panics when the lengths differ.\<close>

definition copy_into :: "account_info \<Rightarrow> bytes \<Rightarrow> world \<Rightarrow> world res" where
  "copy_into ai bs w =
     rbind (try_borrow_data w ai) (\<lambda>d. if data_len d \<noteq> length bs then Panic else Ok (set_data ai (RawData bs) w))"

definition process_initialize_hook_whitelist ::
  "env \<Rightarrow> pubkey \<Rightarrow> account_info list \<Rightarrow> pubkey \<Rightarrow> world \<Rightarrow> world res" where
  "process_initialize_hook_whitelist env program_id accounts authority w =
     rbind (next_accounts 3 accounts) (\<lambda>a.
     let whitelist_ai = a ! 0; payer = a ! 1; system_program = a ! 2 in
     if \<not> ai_is_signer payer then Err PE_MissingRequiredSignature
     else if ai_key whitelist_ai \<noteq> fst (find_whitelist_pda env program_id) then Err PE_InvalidAccountData
     else rbind (data_is_empty w whitelist_ai) (\<lambda>empty.
       if \<not> empty then Err PE_AccountAlreadyInitialized
       else rbind (env_rent env) (\<lambda>_.
         rbind (invoke_signed env
                  (SysCreateAccount (ai_key payer) (ai_key whitelist_ai) HOOK_WHITELIST_LEN program_id)
                  [payer, whitelist_ai, system_program] [[ascii ''hook_whitelist'']] w) (\<lambda>w.
         copy_into whitelist_ai (whitelist_pack (whitelist_new authority)) w))))"

text \<open>The common part of the two changes: the checks and the stored whitelist.\<close>

definition load_whitelist_for ::
  "env \<Rightarrow> pubkey \<Rightarrow> account_info \<Rightarrow> account_info \<Rightarrow> world \<Rightarrow> hook_whitelist res" where
  "load_whitelist_for env program_id whitelist_ai authority w =
     (if \<not> ai_is_signer authority then Err PE_MissingRequiredSignature
      else if ai_key whitelist_ai \<noteq> fst (find_whitelist_pda env program_id) then Err PE_InvalidAccountData
      else rbind (data_is_empty w whitelist_ai) (\<lambda>empty.
        if empty then Err PE_UninitializedAccount
        else rbind (try_borrow_data w whitelist_ai) (\<lambda>d.
          rbind (whitelist_of_data d) (\<lambda>wl.
          if wl_authority wl \<noteq> ai_key authority then Err PE_InvalidAccountOwner else Ok wl))))"

definition process_update_hook_whitelist ::
  "env \<Rightarrow> pubkey \<Rightarrow> account_info list \<Rightarrow> update_whitelist_instruction \<Rightarrow> world \<Rightarrow> world res" where
  "process_update_hook_whitelist env program_id accounts instruction w =
     rbind (next_accounts 2 accounts) (\<lambda>a.
     rbind (load_whitelist_for env program_id (a ! 0) (a ! 1) w) (\<lambda>wl.
     rbind (into_res (case uw_action instruction of
              HookAdd \<Rightarrow> add_hook (uw_hook_program_id instruction) wl
            | HookRemove \<Rightarrow> remove_hook (uw_hook_program_id instruction) wl)) (\<lambda>wl.
     copy_into (a ! 0) (whitelist_pack wl) w)))"

definition process_update_whitelist_authority ::
  "env \<Rightarrow> pubkey \<Rightarrow> account_info list \<Rightarrow> pubkey \<Rightarrow> world \<Rightarrow> world res" where
  "process_update_whitelist_authority env program_id accounts new_authority w =
     rbind (next_accounts 2 accounts) (\<lambda>a.
     rbind (load_whitelist_for env program_id (a ! 0) (a ! 1) w) (\<lambda>wl.
     copy_into (a ! 0) (whitelist_pack (wl\<lparr>wl_authority := new_authority\<rparr>)) w))"

section \<open>The specification\<close>

text \<open>
  The abstract whitelist: who may change it and the programs it holds. A step is labelled with
  the signer who makes it.
\<close>

inductive wl_step :: "pubkey \<Rightarrow> pubkey \<times> pubkey set \<Rightarrow> pubkey \<times> pubkey set \<Rightarrow> bool" where
  add: "h \<notin> S \<Longrightarrow> card S < MAX_HOOKS \<Longrightarrow> wl_step a (a, S) (a, insert h S)"
| remove: "h \<in> S \<Longrightarrow> wl_step a (a, S) (a, S - {h})"
| transfer: "wl_step a (a, S) (b, S)"

inductive_cases wl_stepE: "wl_step s (a, S) (b, T)"

inductive_simps wl_step_signer: "wl_step s (a, S) (b, T)"

text \<open>A history: the signers of a sequence of steps.\<close>

inductive wl_history :: "pubkey \<times> pubkey set \<Rightarrow> pubkey list \<Rightarrow> pubkey \<times> pubkey set \<Rightarrow> bool" where
  start: "wl_history s [] s"
| more: "wl_history s ks t \<Longrightarrow> wl_step k t u \<Longrightarrow> wl_history s (ks @ [k]) u"

lemma wl_step_bounded: "wl_step k s t \<Longrightarrow> finite (snd s) \<and> card (snd s) \<le> MAX_HOOKS \<Longrightarrow>
    finite (snd t) \<and> card (snd t) \<le> MAX_HOOKS"
  by (induction rule: wl_step.induct) (auto simp: card_insert_if card_Diff_singleton_if)

lemma wl_history_bounded: "wl_history s ks t \<Longrightarrow> finite (snd s) \<and> card (snd s) \<le> MAX_HOOKS \<Longrightarrow>
    finite (snd t) \<and> card (snd t) \<le> MAX_HOOKS"
  by (induction rule: wl_history.induct) (auto dest: wl_step_bounded)

text \<open>Nobody but the authority changes anything: without its key among the signers nothing happens.\<close>

lemma wl_history_needs_authority: "wl_history s ks t \<Longrightarrow> fst s \<notin> set ks \<Longrightarrow> t = s"
proof (induction rule: wl_history.induct)
  case (more s ks t k u)
  then have "t = s" "fst s \<noteq> k" by auto
  with more.hyps(2) show ?case by (cases s; cases u) (auto elim: wl_step.cases)
qed simp

section \<open>The handlers implement it\<close>

definition wl_abs :: "hook_whitelist \<Rightarrow> pubkey \<times> pubkey set" where
  "wl_abs wl = (wl_authority wl, wl_set wl)"

text \<open>The account holds the whitelist.\<close>

definition stores :: "env \<Rightarrow> pubkey \<Rightarrow> world \<Rightarrow> hook_whitelist \<Rightarrow> bool" where
  "stores env pid w wl \<longleftrightarrow> wl_inv wl \<and>
     acc_data (accts w (fst (find_whitelist_pda env pid))) = RawData (whitelist_pack wl)"

lemma whitelist_unpack_packed: "wl_inv wl \<Longrightarrow> whitelist_unpack (whitelist_pack wl) = Ok wl' \<Longrightarrow> wl' = wl"
  using unpack_pack [of wl "[]"] length_whitelist_pack [of wl]
  by (simp add: whitelist_unpack_def split: if_splits)

lemma load_whitelist_for_Ok:
  assumes "load_whitelist_for env pid ai au w = Ok wl'" "stores env pid w wl"
  shows "wl' = wl \<and> ai_is_signer au \<and> ai_key au = wl_authority wl \<and> ai_key ai = fst (find_whitelist_pda env pid)"
proof -
  have k: "ai_key ai = fst (find_whitelist_pda env pid)"
    using assms(1) by (auto simp: load_whitelist_for_def split: if_splits)
  then have "data_of w ai = RawData (whitelist_pack wl)"
    using assms(2) by (simp add: stores_def data_of_def account_of_def)
  moreover have "wl_inv wl" using assms(2) by (simp add: stores_def)
  ultimately show ?thesis using assms(1) k whitelist_unpack_packed [of wl wl']
    by (auto simp: load_whitelist_for_def outcome data_is_empty_def try_borrow_data_def borrow_data_def
        whitelist_of_data_def split: if_splits)
qed

lemma copy_into_Ok:
  "copy_into ai bs w = Ok w' \<Longrightarrow> acc_data (accts w' (ai_key ai)) = RawData bs \<and> calls w' = calls w"
  by (auto simp: copy_into_def outcome set_data_def split: if_splits)

lemma change_hook_Ok:
  assumes "wl_inv wl"
    and "(case u of HookAdd \<Rightarrow> add_hook h wl | HookRemove \<Rightarrow> remove_hook h wl) = Ok wl'"
  shows "wl_inv wl' \<and> wl_step (wl_authority wl) (wl_abs wl) (wl_abs wl')"
proof (cases u)
  case HookAdd
  then have a: "add_hook h wl = Ok wl'" using assms(2) by simp
  have "wl_authority wl' = wl_authority wl" using a by (auto simp: add_hook_def outcome split: if_splits)
  moreover have "card (wl_set wl) \<noteq> MAX_HOOKS" "card (wl_set wl) \<le> MAX_HOOKS"
    using wl.ins_full [OF assms(1), of h] wl.ins_Ok [OF assms(1) a] a wl.finite_abs [OF assms(1)] by auto
  ultimately show ?thesis using wl.ins_Ok [OF assms(1) a] by (auto simp: wl_abs_def intro: wl_step.add)
next
  case HookRemove
  then have r: "remove_hook h wl = Ok wl'" using assms(2) by simp
  have "wl_authority wl' = wl_authority wl"
    using remove_hook_spec [OF assms(1), of h] wl.del_Ok [OF assms(1) r] r by auto
  then show ?thesis using wl.del_Ok [OF assms(1) r] by (auto simp: wl_abs_def intro: wl_step.remove)
qed

text \<open>
  C19. The whitelist handlers implement the abstract whitelist: on an account that stores a
  well-formed whitelist, a successful update or transfer of the authority is signed by the current
  authority, stores a well-formed whitelist again, and is a step of the specification (a new
  program added below the bound, a member removed, or the authority replaced). Neither calls
  another program.
\<close>

theorem whitelist_handlers_refine:
  assumes "stores env pid w wl"
    and "process_update_hook_whitelist env pid accs u w = Ok w' \<or>
         process_update_whitelist_authority env pid accs k w = Ok w'"
  shows "\<exists>wl'. stores env pid w' wl' \<and> ai_is_signer (accs ! 1) \<and>
    wl_step (ai_key (accs ! 1)) (wl_abs wl) (wl_abs wl') \<and> calls w' = calls w"
proof -
  let ?c = "take 2 accs"
  from assms(2) obtain wl0 wl' where l: "load_whitelist_for env pid (?c ! 0) (?c ! 1) w = Ok wl0"
    and c: "copy_into (?c ! 0) (whitelist_pack wl') w = Ok w'"
    and s: "(\<exists>h. (case uw_action u of HookAdd \<Rightarrow> add_hook h wl0 | HookRemove \<Rightarrow> remove_hook h wl0) = Ok wl') \<or>
      wl' = wl0\<lparr>wl_authority := k\<rparr>"
    by (auto simp: process_update_hook_whitelist_def process_update_whitelist_authority_def outcome
        next_accounts_def simp del: nth_take split: if_splits)
  note e = load_whitelist_for_Ok [OF l assms(1)]
  have i: "wl_inv wl" using assms(1) by (simp add: stores_def)
  have "wl_inv wl' \<and> wl_step (wl_authority wl) (wl_abs wl) (wl_abs wl')"
  proof (cases "wl' = wl0\<lparr>wl_authority := k\<rparr>")
    case True
    then show ?thesis using i e wl_step.transfer [of "wl_authority wl" "wl_set wl" k]
      by (simp add: wl_inv_def wl_abs_def wl_set_def active_def)
  next
    case False
    then show ?thesis using s e change_hook_Ok [OF i] by auto
  qed
  moreover have "stores env pid w' wl'" using copy_into_Ok [OF c] e calculation by (simp add: stores_def)
  ultimately show ?thesis using e copy_into_Ok [OF c] by auto
qed

text \<open>Conversely, on such an account a signature of the authority is enough for the load.\<close>

lemma load_whitelist_for_runs:
  assumes "stores env pid w wl" "wl_authority wl \<noteq> 0" "fst (find_whitelist_pda env pid) \<notin> set (borrowed w)"
    and "ai_is_signer au" "ai_key au = wl_authority wl" "ai_key ai = fst (find_whitelist_pda env pid)"
  shows "load_whitelist_for env pid ai au w = Ok wl"
proof -
  have "data_of w ai = RawData (whitelist_pack wl)" and i: "wl_inv wl"
    using assms(1,6) by (simp_all add: stores_def data_of_def account_of_def)
  then show ?thesis using assms length_whitelist_pack [OF i]
    by (auto simp: load_whitelist_for_def data_is_empty_def borrow_data_def try_borrow_data_def is_borrowed_def
        whitelist_of_data_def HOOK_WHITELIST_LEN_def)
qed

lemma copy_whitelist:
  assumes "stores env pid w wl" "wl_inv wl'" "fst (find_whitelist_pda env pid) \<notin> set (borrowed w)"
    and "ai_key ai = fst (find_whitelist_pda env pid)"
  shows "\<exists>w'. copy_into ai (whitelist_pack wl') w = Ok w' \<and> stores env pid w' wl'"
  using assms length_whitelist_pack [of wl] length_whitelist_pack [of wl']
  by (auto simp: stores_def copy_into_def try_borrow_data_def is_borrowed_def data_of_def account_of_def set_data_def)

definition whitelist_accounts :: "env \<Rightarrow> pubkey \<Rightarrow> pubkey \<Rightarrow> account_info list" where
  "whitelist_accounts env pid k = [rw (fst (find_whitelist_pda env pid)), signer k]"

lemma update_runs:
  assumes "stores env pid w wl" "wl_authority wl \<noteq> 0" "fst (find_whitelist_pda env pid) \<notin> set (borrowed w)"
    and "(case a of HookAdd \<Rightarrow> add_hook h wl | HookRemove \<Rightarrow> remove_hook h wl) = Ok wl'" "wl_inv wl'"
  shows "\<exists>w'. process_update_hook_whitelist env pid (whitelist_accounts env pid (wl_authority wl))
      \<lparr>uw_hook_program_id = h, uw_action = a\<rparr> w = Ok w' \<and> stores env pid w' wl'"
  using load_whitelist_for_runs [OF assms(1-3), of "signer (wl_authority wl)" "rw (fst (find_whitelist_pda env pid))"]
    copy_whitelist [OF assms(1,5,3), of "rw (fst (find_whitelist_pda env pid))"] assms(4)
  by (cases a) (simp_all add: process_update_hook_whitelist_def next_accounts_def whitelist_accounts_def signer_def rw_def)

text \<open>
  C20. Every step of the abstract whitelist is available to its authority: as long as the authority
  is not the default address, whatever step the specification allows, one of the two handlers,
  called with the authority's signature, succeeds and stores a whitelist that represents the result.
\<close>

theorem whitelist_steps_enabled:
  assumes "stores env pid w wl" "wl_authority wl \<noteq> 0" "fst (find_whitelist_pda env pid) \<notin> set (borrowed w)"
    and "wl_step (wl_authority wl) (wl_abs wl) t"
  shows "\<exists>w' wl'. stores env pid w' wl' \<and> wl_abs wl' = t \<and>
    ((\<exists>u. process_update_hook_whitelist env pid (whitelist_accounts env pid (wl_authority wl)) u w = Ok w') \<or>
     (\<exists>k. process_update_whitelist_authority env pid (whitelist_accounts env pid (wl_authority wl)) k w = Ok w'))"
proof -
  have i: "wl_inv wl" using assms(1) by (simp add: stores_def)
  from assms(4) consider
      (add) h where "h \<notin> wl_set wl" "card (wl_set wl) < MAX_HOOKS" "t = (wl_authority wl, insert h (wl_set wl))"
    | (remove) h where "h \<in> wl_set wl" "t = (wl_authority wl, wl_set wl - {h})"
    | (transfer) b where "t = (b, wl_set wl)"
    by (cases t) (auto simp: wl_abs_def wl_step_signer)
  then show ?thesis
  proof cases
    case add
    then obtain wl' where a: "add_hook h wl = Ok wl'" "wl_inv wl'" "wl_set wl' = insert h (wl_set wl)"
      using wl.ins_new [OF i, of h] by blast
    moreover have "wl_authority wl' = wl_authority wl" using a(1) by (auto simp: add_hook_def outcome split: if_splits)
    ultimately show ?thesis using update_runs [OF assms(1-3), where a = HookAdd and h = h and wl' = wl'] add
      by (auto simp: wl_abs_def)
  next
    case remove
    then obtain wl' where "remove_hook h wl = Ok wl'" "wl_inv wl'" "active wl' = remove1 h (active wl)"
      "wl_authority wl' = wl_authority wl" using remove_hook_spec [OF i, of h] by blast
    moreover from this have "wl_set wl' = wl_set wl - {h}" using i wl.del_Ok [OF i, of h wl'] by simp
    ultimately show ?thesis using update_runs [OF assms(1-3), where a = HookRemove and h = h and wl' = wl'] remove
      by (auto simp: wl_abs_def)
  next
    case transfer
    let ?wl = "wl\<lparr>wl_authority := b\<rparr>"
    have "wl_inv ?wl" "wl_abs ?wl = t" using i transfer by (simp_all add: wl_inv_def active_def wl_abs_def wl_set_def)
    then show ?thesis
      using load_whitelist_for_runs [OF assms(1-3), of "signer (wl_authority wl)" "rw (fst (find_whitelist_pda env pid))"]
        copy_whitelist [OF assms(1) _ assms(3), of ?wl "rw (fst (find_whitelist_pda env pid))"]
      by (fastforce simp: process_update_whitelist_authority_def next_accounts_def whitelist_accounts_def signer_def rw_def)
  qed
qed

section \<open>Creating the whitelist\<close>

text \<open>
  What \<^verbatim>\<open>create_account\<close> of the system program does: the new account must sign, and it then has
  the given owner and zeroed data of the given size. Signing for a derived address takes the seeds
  it was derived with, its bump included.
\<close>

definition creates_accounts :: "env \<Rightarrow> bool" where
  "creates_accounts env \<longleftrightarrow>
     (\<forall>c l l' f t n ow. cpi_ix c = SysCreateAccount f t n ow \<longrightarrow> env_invoke env c l = Ok l' \<longrightarrow>
        ((\<exists>ai\<in>set (cpi_infos c). ai_key ai = t \<and> ai_is_signer ai) \<or>
         (\<exists>seeds\<in>set (cpi_seeds c). env_create_pda env seeds ow = Some t)) \<and>
        l' = l(t := \<lparr>acc_owner = ow, acc_data = RawData (replicate n 0)\<rparr>))"

text \<open>
  Creating the whitelist: whoever signs as the payer names the first authority, which need
  not sign and is not checked in any way. The account at the whitelist address was empty and
  afterwards stores the empty whitelist of that authority; and since the handler leaves the bump out
  of the seeds it signs with, the call only succeeds when the seeds alone derive the address or
  the whitelist account is passed as a signer.
\<close>

theorem initialize_whitelist_effect:
  assumes "process_initialize_hook_whitelist env pid accs authority w = Ok w'" "creates_accounts env"
  shows "ai_is_signer (accs ! 1) \<and> data_len (data_of w (accs ! 0)) = 0 \<and>
    stores env pid w' (whitelist_new authority) \<and>
    (env_create_pda env [ascii ''hook_whitelist''] pid = Some (fst (find_whitelist_pda env pid)) \<or>
     (\<exists>ai\<in>{accs ! 0, accs ! 1, accs ! 2}. ai_key ai = fst (find_whitelist_pda env pid) \<and> ai_is_signer ai))"
proof -
  let ?pda = "fst (find_whitelist_pda env pid)"
  have three: "take 3 accs = [accs ! 0, accs ! 1, accs ! 2]" if "\<not> length accs < 3"
    using that by (cases accs; cases "tl accs"; cases "tl (tl accs)") (auto simp: numeral_3_eq_3 numeral_2_eq_2)
  from assms(1) obtain w1 where r: "ai_is_signer (accs ! 1)" "ai_key (accs ! 0) = ?pda"
      "data_len (data_of w (accs ! 0)) = 0"
    and c: "invoke_signed env (SysCreateAccount (ai_key (accs ! 1)) (ai_key (accs ! 0)) HOOK_WHITELIST_LEN pid)
       [accs ! 1, accs ! 0, accs ! 2] [[ascii ''hook_whitelist'']] w = Ok w1"
    and i: "copy_into (accs ! 0) (whitelist_pack (whitelist_new authority)) w1 = Ok w'"
    by (auto simp: process_initialize_hook_whitelist_def next_accounts_def outcome Let_def data_is_empty_def
        borrow_data_def split: if_splits)
  have "stores env pid w' (whitelist_new authority)"
    using copy_into_Ok [OF i] r(2) by (simp add: stores_def wl_inv_new)
  moreover from c obtain cp l where "env_invoke env cp (accts w) = Ok l"
      "cpi_ix cp = SysCreateAccount (ai_key (accs ! 1)) ?pda HOOK_WHITELIST_LEN pid"
      "cpi_infos cp = [accs ! 1, accs ! 0, accs ! 2]" "cpi_seeds cp = [[ascii ''hook_whitelist'']]"
    using r(2) by (auto simp: invoke_signed_def outcome Let_def)
  moreover from this assms(2) have "(\<exists>ai\<in>set (cpi_infos cp). ai_key ai = ?pda \<and> ai_is_signer ai) \<or>
      (\<exists>seeds\<in>set (cpi_seeds cp). env_create_pda env seeds pid = Some ?pda)"
    unfolding creates_accounts_def by blast
  ultimately show ?thesis using r by auto
qed

section \<open>Examples\<close>

definition demo_whitelist_world :: world where
  "demo_whitelist_world = demo_world\<lparr>accts := (accts demo_world)
     (40 := \<lparr>acc_owner = 5, acc_data = RawData (whitelist_pack (whitelist_new 23))\<rparr>)\<rparr>"

lemma demo_pda: "fst (find_whitelist_pda demo_env 5) = 40"
  by (simp add: find_whitelist_pda_def demo_env_def)

lemma demo_stores: "stores demo_env 5 demo_whitelist_world (whitelist_new 23)"
  by (simp add: stores_def demo_pda demo_whitelist_world_def wl_inv_new)

lemma demo_whitelist_free: "fst (find_whitelist_pda demo_env 5) \<notin> set (borrowed demo_whitelist_world)"
  by (simp add: demo_whitelist_world_def demo_world_def)

theorem whitelist_steps_enabled_witness:
  "\<exists>w' wl'. stores demo_env 5 w' wl' \<and> wl_abs wl' = (23, {99})"
proof -
  have "wl_step (wl_authority (whitelist_new 23)) (wl_abs (whitelist_new 23)) (23, {99})"
    by (simp add: wl_step_signer wl_abs_def whitelist_new_def wl_set_def active_def MAX_HOOKS_def)
  from whitelist_steps_enabled [OF demo_stores _ demo_whitelist_free this] show ?thesis
    by (auto simp: whitelist_new_def)
qed

theorem whitelist_handlers_refine_witness:
  "\<exists>w' wl'. process_update_hook_whitelist demo_env 5 (whitelist_accounts demo_env 5 23)
      \<lparr>uw_hook_program_id = 99, uw_action = HookAdd\<rparr> demo_whitelist_world = Ok w' \<and>
    stores demo_env 5 w' wl' \<and> wl_step 23 (23, {}) (wl_abs wl')"
proof -
  have a: "wl_authority (whitelist_new 23) = 23" "wl_abs (whitelist_new 23) = (23, {})"
    by (simp_all add: whitelist_new_def wl_abs_def wl_set_def active_def)
  have "99 \<notin> wl_set (whitelist_new 23)" "card (wl_set (whitelist_new 23)) < MAX_HOOKS"
    by (simp_all add: whitelist_new_def wl_set_def active_def MAX_HOOKS_def)
  then obtain wl' where "add_hook 99 (whitelist_new 23) = Ok wl'" "wl_inv wl'"
    using wl.ins_new [OF wl_inv_new, of 99 23] by blast
  then obtain w' where w: "process_update_hook_whitelist demo_env 5 (whitelist_accounts demo_env 5 23)
      \<lparr>uw_hook_program_id = 99, uw_action = HookAdd\<rparr> demo_whitelist_world = Ok w'"
    using update_runs [OF demo_stores _ demo_whitelist_free, where a = HookAdd and h = 99 and wl' = wl'] a(1) by auto
  show ?thesis using whitelist_handlers_refine [OF demo_stores disjI1 [OF w]] w a
    by (auto simp: whitelist_accounts_def signer_def)
qed

theorem initialize_whitelist_effect_witness:
  "\<exists>w'. process_initialize_hook_whitelist demo_env 5 [signer 40, signer 99, ro 0] 23 demo_world = Ok w' \<and>
     stores demo_env 5 w' (whitelist_new 23)"
proof -
  have "creates_accounts demo_env"
    by (auto simp: creates_accounts_def demo_env_def demo_invoke_def list_ex_iff split: if_splits)
  moreover have "\<exists>w'. process_initialize_hook_whitelist demo_env 5 [signer 40, signer 99, ro 0] 23 demo_world = Ok w'"
    using length_whitelist_pack [OF wl_inv_new [of 23]]
    by (simp add: process_initialize_hook_whitelist_def next_accounts_def Let_def find_whitelist_pda_def data_is_empty_def
        borrow_data_def is_borrowed_def invoke_signed_def copy_into_def try_borrow_data_def data_of_def account_of_def
        demo_env_def demo_world_def demo_invoke_def signer_def ro_def)
  ultimately show ?thesis using initialize_whitelist_effect by blast
qed

end
