(* ===== verification/Token2022.thy ===== *)
theory Token2022
  imports WhitelistHandlers
begin

text \<open>
  \<^verbatim>\<open>process/token2022.rs\<close>: creating a Token-2022 mint with its extensions, and the list of extra
  accounts of a transfer hook.
\<close>

section \<open>Creating a mint\<close>

text \<open>Whether a name, a symbol or a uri was given.\<close>

definition has_metadata :: "create_mint_instruction \<Rightarrow> bool" where
  "has_metadata i \<longleftrightarrow> cm_name i \<noteq> [] \<or> cm_symbol i \<noteq> [] \<or> cm_uri i \<noteq> []"

definition init_mint_extensions ::
  "env \<Rightarrow> account_info \<Rightarrow> account_info \<Rightarrow> account_info \<Rightarrow> create_mint_instruction \<Rightarrow> world \<Rightarrow> world res" where
  "init_mint_extensions env mint_ai authority_ai token_program i w =
     rbind (if has_metadata i
            then invoke env (T22InitMetadataPointer (ai_key mint_ai) (ai_key authority_ai) (ai_key mint_ai))
                   [mint_ai, token_program] w
            else Ok w) (\<lambda>w.
     case cm_transfer_hook_program_id i of
       Some h \<Rightarrow> invoke env (T22InitTransferHook (ai_key mint_ai) (ai_key authority_ai) h) [mint_ai, token_program] w
     | None \<Rightarrow> Ok w)"

text \<open>The mint authority is the passed account; the instruction's field of that name is not read.\<close>

definition process_create_token2022_mint ::
  "env \<Rightarrow> pubkey \<Rightarrow> account_info list \<Rightarrow> create_mint_instruction \<Rightarrow> world \<Rightarrow> world res" where
  "process_create_token2022_mint env program_id accounts i w =
     rbind (next_accounts 5 accounts) (\<lambda>a.
     let mint_ai = a ! 0; authority_ai = a ! 1; payer = a ! 2; system_program = a ! 3; token_program = a ! 4 in
     if \<not> ai_is_signer payer then AmmErr InvalidSignAccount
     else if ai_key token_program \<noteq> env_spl_token_2022 env then AmmErr InvalidSplTokenProgram
     else if \<not> ai_is_signer mint_ai then AmmErr InvalidSignAccount
     else
       rbind (ok_or PE_InvalidAccountData
                (env_mint22_space env (cm_transfer_hook_program_id i \<noteq> None) (has_metadata i))) (\<lambda>space.
       rbind (env_rent env) (\<lambda>_.
       rbind (invoke env (SysCreateAccount (ai_key payer) (ai_key mint_ai) space (env_spl_token_2022 env))
                [payer, mint_ai, system_program] w) (\<lambda>w.
       rbind (init_mint_extensions env mint_ai authority_ai token_program i w) (\<lambda>w.
       rbind (invoke env (T22InitMint (ai_key mint_ai) (ai_key authority_ai) (cm_freeze_authority i) (cm_decimals i))
                [mint_ai, token_program] w) (\<lambda>w.
       if has_metadata i
       then invoke env (T22InitMetadata (ai_key mint_ai) (ai_key authority_ai) (ai_key mint_ai) (ai_key authority_ai)
                          (cm_name i) (cm_symbol i) (cm_uri i)) [mint_ai, authority_ai, token_program] w
       else Ok w))))))"

section \<open>The whitelist and the extra accounts\<close>

text \<open>\<^verbatim>\<open>token2022::process_update_hook_whitelist\<close> delegates to the whitelist.\<close>

definition t22_update_hook_whitelist ::
  "env \<Rightarrow> pubkey \<Rightarrow> account_info list \<Rightarrow> update_whitelist_instruction \<Rightarrow> world \<Rightarrow> world res" where
  "t22_update_hook_whitelist env program_id accounts instruction w =
     process_update_hook_whitelist env program_id accounts instruction w"

definition process_initialize_extra_account_meta_list ::
  "env \<Rightarrow> pubkey \<Rightarrow> account_info list \<Rightarrow> extra_meta list \<Rightarrow> world \<Rightarrow> world res" where
  "process_initialize_extra_account_meta_list env program_id accounts metas w =
     rbind (next_accounts 4 accounts) (\<lambda>a.
     let list_ai = a ! 0; mint_ai = a ! 1; authority = a ! 2; system_program = a ! 3 in
     if \<not> ai_is_signer authority then AmmErr InvalidSignAccount
     else if ai_key system_program \<noteq> env_system_program env then AmmErr InvalidSystemProgram
     else
       rbind (env_meta_list_size env (length metas)) (\<lambda>space.
       rbind (env_rent env) (\<lambda>_.
       rbind (invoke env (SysCreateAccount (ai_key authority) (ai_key list_ai) space program_id)
                [authority, list_ai, system_program] w) (\<lambda>w.
       invoke env (HookInitExtraMetas program_id (ai_key list_ai) (ai_key mint_ai) (ai_key authority) metas)
         [list_ai, mint_ai, authority, system_program] w))))"

section \<open>Properties\<close>

lemma invoke_calls: "invoke env i infos w = Ok w' \<Longrightarrow>
    calls w' = calls w @ [\<lparr>cpi_ix = i, cpi_infos = infos, cpi_seeds = []\<rparr>]"
  by (auto simp: invoke_def dest!: invoke_signed_Ok)

text \<open>The order the token program asks for: account, extensions, mint, metadata.\<close>

definition mint_script ::
  "nat \<Rightarrow> pubkey \<Rightarrow> pubkey \<Rightarrow> pubkey \<Rightarrow> pubkey \<Rightarrow> create_mint_instruction \<Rightarrow> ix list" where
  "mint_script space mint authority payer t22 i =
     [SysCreateAccount payer mint space t22] @
     (if has_metadata i then [T22InitMetadataPointer mint authority mint] else []) @
     (case cm_transfer_hook_program_id i of Some h \<Rightarrow> [T22InitTransferHook mint authority h] | None \<Rightarrow> []) @
     [T22InitMint mint authority (cm_freeze_authority i) (cm_decimals i)] @
     (if has_metadata i then [T22InitMetadata mint authority mint authority (cm_name i) (cm_symbol i) (cm_uri i)] else [])"

lemma init_mint_extensions_calls:
  "init_mint_extensions env m a t i w = Ok w' \<Longrightarrow>
     map cpi_ix (calls w') = map cpi_ix (calls w) @
       (if has_metadata i then [T22InitMetadataPointer (ai_key m) (ai_key a) (ai_key m)] else []) @
       (case cm_transfer_hook_program_id i of Some h \<Rightarrow> [T22InitTransferHook (ai_key m) (ai_key a) h] | None \<Rightarrow> [])"
  by (auto simp: init_mint_extensions_def outcome dest!: invoke_calls split: option.splits if_splits)

text \<open>
  C37. Creating a mint: the payer and the mint account sign, and the calls are exactly those of the
  script, in its order: the account is created with the space the chosen extensions take, each
  extension is initialized before the mint and the metadata after it. The authority is the second
  account, whatever the instruction's own field says.
\<close>

theorem create_mint_follows_script:
  assumes "process_create_token2022_mint env pid accs i w = Ok w'"
  shows "ai_is_signer (accs ! 0) \<and> ai_is_signer (accs ! 2) \<and>
    (\<exists>space. env_mint22_space env (cm_transfer_hook_program_id i \<noteq> None) (has_metadata i) = Some space \<and>
      map cpi_ix (new_calls w w') =
        mint_script space (ai_key (accs ! 0)) (ai_key (accs ! 1)) (ai_key (accs ! 2)) (env_spl_token_2022 env) i)"
proof -
  let ?m = "accs ! 0" and ?a = "accs ! 1" and ?p = "accs ! 2" and ?t = "accs ! 4"
  from assms obtain space w1 w2 w3 where g: "ai_is_signer ?m" "ai_is_signer ?p"
      "env_mint22_space env (cm_transfer_hook_program_id i \<noteq> None) (has_metadata i) = Some space"
    and c1: "invoke env (SysCreateAccount (ai_key ?p) (ai_key ?m) space (env_spl_token_2022 env))
        [?p, ?m, accs ! 3] w = Ok w1"
    and c2: "init_mint_extensions env ?m ?a ?t i w1 = Ok w2"
    and c3: "invoke env (T22InitMint (ai_key ?m) (ai_key ?a) (cm_freeze_authority i) (cm_decimals i)) [?m, ?t] w2 = Ok w3"
    and c4: "(if has_metadata i then invoke env (T22InitMetadata (ai_key ?m) (ai_key ?a) (ai_key ?m) (ai_key ?a)
        (cm_name i) (cm_symbol i) (cm_uri i)) [?m, ?a, ?t] w3 else Ok w3) = Ok w'"
    by (auto simp: process_create_token2022_mint_def next_accounts_def outcome Let_def split: if_splits)
  have "map cpi_ix (calls w') = map cpi_ix (calls w) @
      mint_script space (ai_key ?m) (ai_key ?a) (ai_key ?p) (env_spl_token_2022 env) i"
    using invoke_calls [OF c1] init_mint_extensions_calls [OF c2] invoke_calls [OF c3] c4
    by (auto simp: mint_script_def dest!: invoke_calls split: if_splits option.split)
  then have "map cpi_ix (new_calls w w') =
      mint_script space (ai_key ?m) (ai_key ?a) (ai_key ?p) (env_spl_token_2022 env) i"
    by (metis append_eq_conv_conj drop_map length_map new_calls_def)
  then show ?thesis using g by blast
qed

definition demo_mint_request :: create_mint_instruction where
  "demo_mint_request = \<lparr>cm_decimals = 6, cm_mint_authority = 77, cm_freeze_authority = None,
     cm_transfer_hook_program_id = Some 99, cm_name = [65], cm_symbol = [], cm_uri = []\<rparr>"

theorem create_mint_follows_script_witness:
  "\<exists>w'. process_create_token2022_mint demo_env 5 [signer 70, ro 71, signer 72, ro 0, ro 2] demo_mint_request demo_world = Ok w' \<and>
     map cpi_ix (new_calls demo_world w') =
       [SysCreateAccount 72 70 82 2, T22InitMetadataPointer 70 71 70, T22InitTransferHook 70 71 99,
        T22InitMint 70 71 None 6, T22InitMetadata 70 71 70 71 [65] [] []]"
proof -
  have "\<exists>w'. process_create_token2022_mint demo_env 5 [signer 70, ro 71, signer 72, ro 0, ro 2] demo_mint_request
      demo_world = Ok w'"
    by (simp add: process_create_token2022_mint_def next_accounts_def init_mint_extensions_def invoke_def runtime_eval
        has_metadata_def demo_mint_request_def demo_defs)
  then obtain w' where w: "process_create_token2022_mint demo_env 5 [signer 70, ro 71, signer 72, ro 0, ro 2]
      demo_mint_request demo_world = Ok w'" by blast
  show ?thesis using create_mint_follows_script [OF w] w
    by (auto simp: mint_script_def has_metadata_def demo_mint_request_def demo_env_def signer_def ro_def)
qed

end
