(* ===== verification/HookGate.thy ===== *)
theory HookGate
  imports WhitelistHandlers
begin

text \<open>
  The whitelist and the execution of transfer hooks together (\<^verbatim>\<open>process/whitelist.rs\<close> and
  \<^verbatim>\<open>invokers.rs: execute_transfer_hook\<close>): which program a transfer can reach.
\<close>

section \<open>What running a hook calls\<close>

lemma try_set_transferring_calls: "try_set_transferring env b ai w = Ok w' \<Longrightarrow> calls w' = calls w"
  by (auto simp: try_set_transferring_def outcome split: option.splits)

lemma resolve_metas_extends:
  "resolve_metas env d h rest ms acc = Ok acc' \<Longrightarrow>
     \<exists>bs. fst acc' = fst acc @ bs \<and> length bs = length ms \<and> length ms \<le> length rest"
  by (induction env d h rest ms acc rule: resolve_metas.induct) (fastforce split: list.splits option.splits)+

lemma auto_initialize_never: "auto_initialize_meta_list env hook meta_list w \<noteq> Ok w'"
  by (simp add: auto_initialize_meta_list_def is_hook_supported_for_auto_init_def supported_hooks_def)

lemma invoke_then_clear:
  assumes "rbind (invoke env i infos w) (try_set_transferring env False source) = Ok w'"
  shows "calls w' = calls w @ [\<lparr>cpi_ix = i, cpi_infos = infos, cpi_seeds = []\<rparr>]"
  using assms by (auto simp: outcome invoke_def dest!: invoke_signed_Ok try_set_transferring_calls)

lemma run_transfer_hook_shape:
  assumes "run_transfer_hook env hook source mint destination authority amount meta_list extra w = Ok w'"
  shows "is_meta_list_valid env meta_list w = Ok True \<and>
    (\<exists>ams infos. rbind (invoke env
        (RawIx hook (hook_base_metas source mint destination authority (ai_key meta_list) @ ams)
          (env_hook_data env amount)) infos w) (try_set_transferring env False source) = Ok w')"
proof -
  let ?base = "hook_base_metas source mint destination authority (ai_key meta_list)"
  let ?infos = "[source, mint, destination, authority, meta_list]"
  let ?data = "env_hook_data env amount"
  from assms have v: "is_meta_list_valid env meta_list w = Ok True"
    by (auto simp: run_transfer_hook_def Let_def outcome auto_initialize_never split: if_splits)
  with assms obtain d where d: "(case env_tlv env d of
        TlvBad \<Rightarrow> Err PE_InvalidAccountData
      | TlvNoList \<Rightarrow> rbind (invoke env (RawIx hook ?base ?data) ?infos w) (try_set_transferring env False source)
      | TlvList ms \<Rightarrow> rbind (resolve_metas env ?data hook extra ms (?base, ?infos)) (\<lambda>(ams, infos).
          rbind (invoke env (RawIx hook ams ?data) infos w) (try_set_transferring env False source))) = Ok w'"
    by (auto simp: run_transfer_hook_def Let_def rbind_Ok_iff map_err_Ok_iff)
  have "\<exists>ams infos. rbind (invoke env (RawIx hook (?base @ ams) ?data) infos w)
      (try_set_transferring env False source) = Ok w'"
  proof (cases "env_tlv env d")
    case TlvNoList
    then show ?thesis using d by (intro exI [of _ "[]"] exI [of _ ?infos]) simp
  next
    case (TlvList ms)
    then obtain ams infos where r: "resolve_metas env ?data hook extra ms (?base, ?infos) = Ok (ams, infos)"
      and "rbind (invoke env (RawIx hook ams ?data) infos w) (try_set_transferring env False source) = Ok w'"
      using d by (auto simp: rbind_Ok_iff)
    moreover obtain bs where "ams = ?base @ bs" using resolve_metas_extends [OF r] by auto
    ultimately show ?thesis by blast
  qed (use d in simp)
  with v show ?thesis by blast
qed

lemma run_transfer_hook_calls:
  assumes "run_transfer_hook env hook source mint destination authority amount meta_list extra w = Ok w'"
  shows "\<exists>ams infos. calls w' = calls w @
      [\<lparr>cpi_ix = RawIx hook (hook_base_metas source mint destination authority (ai_key meta_list) @ ams)
          (env_hook_data env amount), cpi_infos = infos, cpi_seeds = []\<rparr>]"
  using run_transfer_hook_shape [OF assms] invoke_then_clear by blast

section \<open>The gate\<close>

lemma whitelisted_stored:
  assumes "stores env pid w wl" "is_hook_whitelisted env pid ai h w = Ok True"
  shows "h \<in> wl_set wl"
proof -
  have i: "wl_inv wl" using assms(1) by (simp add: stores_def)
  have "data_of w ai = RawData (whitelist_pack wl)"
    using assms by (simp add: is_hook_whitelisted_def stores_def data_of_def account_of_def split: if_splits)
  moreover have "(contains_hook wl h :: bool res) = Ok (h \<in> wl_set wl)" by (rule contains_hook_spec [OF i])
  ultimately show ?thesis using assms(2) whitelist_unpack_packed [OF i]
    by (auto simp: is_hook_whitelisted_def outcome data_is_empty_def borrow_data_def try_borrow_data_def
        whitelist_of_data_def split: if_splits)
qed

lemma execute_transfer_hook_Ok:
  assumes "execute_transfer_hook env pid source mint destination authority amount remaining w = Ok w'"
    and "env_mint_hook env (data_of w mint) = Some hook"
  shows "2 \<le> length remaining \<and> is_hook_whitelisted env pid (remaining ! 0) hook w = Ok True \<and>
    ai_key (remaining ! 1) = fst (env_find_pda env [ascii ''extra-account-metas'', pubkey_bytes (ai_key mint)] hook) \<and>
    (\<exists>ams infos. new_calls w w' = [\<lparr>cpi_ix =
        RawIx hook (hook_base_metas source mint destination authority (ai_key (remaining ! 1)) @ ams)
          (env_hook_data env amount), cpi_infos = infos, cpi_seeds = []\<rparr>])"
proof -
  from assms obtain w1 where g: "2 \<le> length remaining" "is_hook_whitelisted env pid (remaining ! 0) hook w = Ok True"
      "ai_key (remaining ! 1) = fst (env_find_pda env [ascii ''extra-account-metas'', pubkey_bytes (ai_key mint)] hook)"
    and s: "try_set_transferring env True source w = Ok w1"
    and r: "run_transfer_hook env hook source mint destination authority amount (remaining ! 1) (drop 2 remaining) w1 = Ok w'"
    by (auto simp: execute_transfer_hook_def get_transfer_hook_program_id_def borrow_data_def outcome split: if_splits)
  have "calls w1 = calls w" by (rule try_set_transferring_calls [OF s])
  then show ?thesis using g run_transfer_hook_calls [OF r] by (auto simp: new_calls_def)
qed

text \<open>
  The other ways out, which the tests of the source (\<^verbatim>\<open>src/tests.rs\<close>) also look at: nothing is done for a mint without
  a hook, both accounts are needed for one with a hook, and a hook that is not listed is refused by name.
\<close>

lemma hook_refusals:
  assumes "\<not> is_borrowed w mint"
  shows "env_mint_hook env (data_of w mint) = None \<Longrightarrow>
      execute_transfer_hook env pid source mint destination authority amount remaining w = Ok w"
    and "env_mint_hook env (data_of w mint) = Some hook \<Longrightarrow> length remaining < 2 \<Longrightarrow>
      execute_transfer_hook env pid source mint destination authority amount remaining w = Err PE_NotEnoughAccountKeys"
    and "env_mint_hook env (data_of w mint) = Some hook \<Longrightarrow> 2 \<le> length remaining \<Longrightarrow> stores env pid w wl \<Longrightarrow>
      wl_authority wl \<noteq> 0 \<Longrightarrow> ai_key (remaining ! 0) = fst (find_whitelist_pda env pid) \<Longrightarrow>
      \<not> is_borrowed w (remaining ! 0) \<Longrightarrow> hook \<notin> wl_set wl \<Longrightarrow>
      execute_transfer_hook env pid source mint destination authority amount remaining w = AmmErr TransferHookNotWhitelisted"
proof -
  show "env_mint_hook env (data_of w mint) = None \<Longrightarrow>
      execute_transfer_hook env pid source mint destination authority amount remaining w = Ok w"
    and "env_mint_hook env (data_of w mint) = Some hook \<Longrightarrow> length remaining < 2 \<Longrightarrow>
      execute_transfer_hook env pid source mint destination authority amount remaining w = Err PE_NotEnoughAccountKeys"
    using assms by (simp_all add: execute_transfer_hook_def get_transfer_hook_program_id_def borrow_data_def)
next
  assume h: "env_mint_hook env (data_of w mint) = Some hook" "2 \<le> length remaining" "hook \<notin> wl_set wl"
    and wl: "stores env pid w wl" "wl_authority wl \<noteq> 0" "ai_key (remaining ! 0) = fst (find_whitelist_pda env pid)"
      "\<not> is_borrowed w (remaining ! 0)"
  have i: "wl_inv wl" using wl(1) by (simp add: stores_def)
  have "data_of w (remaining ! 0) = RawData (whitelist_pack wl)"
    using wl(1,3) by (simp add: stores_def data_of_def account_of_def)
  moreover have "(whitelist_unpack (whitelist_pack wl) :: hook_whitelist res) = Ok wl"
    using whitelist_unpack_pack [OF i] wl(2) by simp
  moreover have "(contains_hook wl hook :: bool res) = Ok False" using h(3) by (simp add: contains_hook_spec [OF i])
  ultimately have "is_hook_whitelisted env pid (remaining ! 0) hook w = Ok False"
    using wl(3,4) length_whitelist_pack [OF i]
    by (simp add: is_hook_whitelisted_def data_is_empty_def borrow_data_def try_borrow_data_def whitelist_of_data_def
        HOOK_WHITELIST_LEN_def MAX_HOOKS_def)
  then show "execute_transfer_hook env pid source mint destination authority amount remaining w = AmmErr TransferHookNotWhitelisted"
    using h(1,2) assms by (simp add: execute_transfer_hook_def get_transfer_hook_program_id_def borrow_data_def)
qed

text \<open>
  C14. A transfer reaches a hook only through the whitelist. If the execution succeeds for a mint
  with a hook, the hook is a member of the whitelist the program's account stores, its own list
  of extra accounts was passed, and exactly one call was made: to that hook, for the amount being
  transferred, with source, mint, destination and authority as its first accounts, none of
  them signing. A mint without a hook calls nothing.
\<close>

theorem hook_gate:
  assumes "execute_transfer_hook env pid source mint destination authority amount remaining w = Ok w'"
    and "stores env pid w wl"
  shows "case env_mint_hook env (data_of w mint) of
      None \<Rightarrow> w' = w
    | Some hook \<Rightarrow> hook \<in> wl_set wl \<and>
        ai_key (remaining ! 1) = fst (env_find_pda env [ascii ''extra-account-metas'', pubkey_bytes (ai_key mint)] hook) \<and>
        (\<exists>c ams. new_calls w w' = [c] \<and> cpi_seeds c = [] \<and>
          cpi_ix c = RawIx hook (hook_base_metas source mint destination authority (ai_key (remaining ! 1)) @ ams)
            (env_hook_data env amount) \<and>
          list_all (\<lambda>m. \<not> am_is_signer m) (hook_base_metas source mint destination authority (ai_key (remaining ! 1))))"
proof (cases "env_mint_hook env (data_of w mint)")
  case None
  then show ?thesis using assms(1)
    by (auto simp: execute_transfer_hook_def get_transfer_hook_program_id_def borrow_data_def outcome split: if_splits)
next
  case (Some hook)
  note e = execute_transfer_hook_Ok [OF assms(1) Some]
  then have "hook \<in> wl_set wl" using whitelisted_stored [OF assms(2)] by blast
  moreover from e obtain c ams where "new_calls w w' = [c]" "cpi_seeds c = []"
      "cpi_ix c = RawIx hook (hook_base_metas source mint destination authority (ai_key (remaining ! 1)) @ ams)
        (env_hook_data env amount)" by auto
  ultimately show ?thesis using e Some by (simp add: hook_base_metas_def)
qed

text \<open>
  Removing a hook takes effect at once: after a successful removal, no transfer of a mint with
  that hook can be executed, whatever accounts are passed along.
\<close>

theorem removed_hook_is_blocked:
  assumes "stores env pid w wl"
    and "process_update_hook_whitelist env pid accs \<lparr>uw_hook_program_id = h, uw_action = HookRemove\<rparr> w = Ok w1"
    and "env_mint_hook env (data_of w1 mint) = Some h"
  shows "\<not> is_ok (execute_transfer_hook env pid source mint destination authority amount remaining w1)"
proof
  let ?c = "take 2 accs"
  from assms(2) obtain wl0 wl' where l: "load_whitelist_for env pid (?c ! 0) (?c ! 1) w = Ok wl0"
    and r: "remove_hook h wl0 = Ok wl'" and c: "copy_into (?c ! 0) (whitelist_pack wl') w = Ok w1"
    by (auto simp: process_update_hook_whitelist_def outcome next_accounts_def simp del: nth_take split: if_splits)
  note e = load_whitelist_for_Ok [OF l assms(1)]
  have i: "wl_inv wl0" using assms(1) e by (simp add: stores_def)
  from wl.del_Ok [OF i r] have "wl_inv wl'" "h \<notin> wl_set wl'" by auto
  moreover from this(1) have "stores env pid w1 wl'" using copy_into_Ok [OF c] e by (simp add: stores_def)
  moreover assume "is_ok (execute_transfer_hook env pid source mint destination authority amount remaining w1)"
  then obtain w2 where "execute_transfer_hook env pid source mint destination authority amount remaining w1 = Ok w2"
    by (auto simp: is_ok_iff)
  from execute_transfer_hook_Ok [OF this assms(3)] have "is_hook_whitelisted env pid (remaining ! 0) h w1 = Ok True"
    by blast
  ultimately show False using whitelisted_stored by blast
qed

section \<open>An example\<close>

text \<open>
  The mint 30 with the hook 99, whose list of extra accounts at 41 is empty; the whitelist at 40,
  changed by 23, holds the hook.
\<close>

definition demo_hook_env :: env where
  "demo_hook_env = demo_env\<lparr>env_mint_hook := \<lambda>_. Some 99, env_tlv := \<lambda>_. TlvList [],
     env_find_pda := \<lambda>seeds _. (if length seeds = 1 then 40 else 41, 255)\<rparr>"

definition demo_hook_world :: "hook_whitelist \<Rightarrow> world" where
  "demo_hook_world wl = demo_world\<lparr>accts := (accts demo_world)
     (40 := \<lparr>acc_owner = 5, acc_data = RawData (whitelist_pack wl)\<rparr>, 41 := \<lparr>acc_owner = 99, acc_data = RawData [1]\<rparr>)\<rparr>"

lemma demo_listed: "\<exists>wl. wl_inv wl \<and> 99 \<in> wl_set wl \<and> wl_authority wl = 23"
proof -
  have "99 \<notin> wl_set (whitelist_new 23)" "unat (hook_count (whitelist_new 23)) < MAX_HOOKS" "wl_authority (whitelist_new 23) = 23"
    by (simp_all add: whitelist_new_def wl_set_def active_def MAX_HOOKS_def)
  with add_hook_spec [OF wl_inv_new, of 99 23] show ?thesis by (fastforce simp: wl_set_def)
qed

lemma demo_hook_pda: "fst (find_whitelist_pda demo_hook_env 5) = 40"
  by (simp add: find_whitelist_pda_def demo_hook_env_def)

lemma demo_hook_stores: "wl_inv wl \<Longrightarrow> stores demo_hook_env 5 (demo_hook_world wl) wl"
  by (simp add: stores_def demo_hook_pda demo_hook_world_def)

lemma demo_hook_runs:
  assumes "wl_inv wl" "99 \<in> wl_set wl" "wl_authority wl = 23"
  shows "\<exists>w'. execute_transfer_hook demo_hook_env 5 (rw 20) (ro 30) (rw 11) (ro 23) 100 [ro 40, ro 41] (demo_hook_world wl) = Ok w'"
proof -
  let ?w = "demo_hook_world wl"
  have contains: "(contains_hook wl 99 :: bool res) = Ok (99 \<in> wl_set wl)" by (rule contains_hook_spec [OF assms(1)])
  have "data_of ?w (ro 40) = RawData (whitelist_pack wl)" "data_of ?w (ro 41) = RawData [1]" "borrowed ?w = []"
    by (simp_all add: data_of_def account_of_def demo_hook_world_def ro_def demo_world_def)
  moreover from this have "is_hook_whitelisted demo_hook_env 5 (ro 40) 99 ?w = Ok True"
    using assms contains length_whitelist_pack [OF assms(1)]
    by (simp add: is_hook_whitelisted_def demo_hook_pda data_is_empty_def borrow_data_def try_borrow_data_def
        whitelist_of_data_def is_borrowed_def HOOK_WHITELIST_LEN_def ro_def)
  moreover have "env_mint_hook demo_hook_env d = Some 99" "env_set_transferring demo_hook_env f d = None"
      "env_tlv demo_hook_env d = TlvList []" "env_build demo_hook_env i = Ok ()" "env_hook_data demo_hook_env n = []"
      "env_invoke demo_hook_env = demo_invoke"
      "env_find_pda demo_hook_env seeds p = (if length seeds = 1 then 40 else 41, 255)" for d f i n seeds p
    by (simp_all add: demo_hook_env_def demo_env_def)
  moreover have "ai_key (ro 41) = 41" "ai_key (ro 40) = 40" by (simp_all add: ro_def)
  ultimately show ?thesis
    by (simp add: execute_transfer_hook_def get_transfer_hook_program_id_def borrow_data_def try_borrow_data_def is_borrowed_def
        try_set_transferring_def run_transfer_hook_def is_meta_list_valid_def invoke_def invoke_signed_def
        demo_invoke_def Let_def numeral_2_eq_2 list_ex_iff)
qed

theorem hook_gate_witness:
  "\<exists>wl w' c. execute_transfer_hook demo_hook_env 5 (rw 20) (ro 30) (rw 11) (ro 23) 100 [ro 40, ro 41] (demo_hook_world wl) = Ok w' \<and>
     99 \<in> wl_set wl \<and> new_calls (demo_hook_world wl) w' = [c]"
proof -
  obtain wl where l: "wl_inv wl" "99 \<in> wl_set wl" "wl_authority wl = 23" using demo_listed by blast
  then obtain w' where w: "execute_transfer_hook demo_hook_env 5 (rw 20) (ro 30) (rw 11) (ro 23) 100 [ro 40, ro 41]
      (demo_hook_world wl) = Ok w'" using demo_hook_runs by blast
  have h: "env_mint_hook demo_hook_env (data_of (demo_hook_world wl) (ro 30)) = Some 99" by (simp add: demo_hook_env_def)
  show ?thesis using hook_gate [OF w demo_hook_stores [OF l(1)]] w by (auto simp: h)
qed

theorem removed_hook_is_blocked_witness:
  "\<exists>wl w1. process_update_hook_whitelist demo_hook_env 5 (whitelist_accounts demo_hook_env 5 23)
      \<lparr>uw_hook_program_id = 99, uw_action = HookRemove\<rparr> (demo_hook_world wl) = Ok w1 \<and>
    is_ok (execute_transfer_hook demo_hook_env 5 (rw 20) (ro 30) (rw 11) (ro 23) 100 [ro 40, ro 41] (demo_hook_world wl)) \<and>
    \<not> is_ok (execute_transfer_hook demo_hook_env 5 (rw 20) (ro 30) (rw 11) (ro 23) 100 [ro 40, ro 41] w1)"
proof -
  obtain wl where l: "wl_inv wl" "99 \<in> wl_set wl" "wl_authority wl = 23" using demo_listed by blast
  from wl.del_old [OF l(1,2)] obtain wl' where r: "remove_hook 99 wl = Ok wl'" "wl_inv wl'" by blast
  have "fst (find_whitelist_pda demo_hook_env 5) \<notin> set (borrowed (demo_hook_world wl))"
    by (simp add: demo_hook_world_def demo_world_def)
  then obtain w1 where u: "process_update_hook_whitelist demo_hook_env 5 (whitelist_accounts demo_hook_env 5 23)
      \<lparr>uw_hook_program_id = 99, uw_action = HookRemove\<rparr> (demo_hook_world wl) = Ok w1"
    using update_runs [OF demo_hook_stores [OF l(1)], where a = HookRemove and h = 99 and wl' = wl'] r l(3) by auto
  have "env_mint_hook demo_hook_env (data_of w1 (ro 30)) = Some 99" by (simp add: demo_hook_env_def)
  from removed_hook_is_blocked [OF demo_hook_stores [OF l(1)] u this] show ?thesis
    using u demo_hook_runs [OF l] unfolding is_ok_iff by blast
qed

end
