(* ===== verification/Entry.thy ===== *)
theory Entry
  imports Swap Withdraw Deposit Pnl Params Orders Initialize Simulate Token2022 HookGate
begin

text \<open>
  \<^verbatim>\<open>lib.rs\<close>: the entry point. An instruction is decoded and handed to its handler; the handler's
  borrows end with it.
\<close>

section \<open>Dispatch\<close>

definition dispatch ::
  "env \<Rightarrow> pubkey \<Rightarrow> account_info list \<Rightarrow> amm_instruction \<Rightarrow> world \<Rightarrow> world res" where
  "dispatch env program_id accounts instruction w =
     (case instruction of
        PreInitialize _ \<Rightarrow> Panic
      | Initialize _ \<Rightarrow> Panic
      | Initialize2 i \<Rightarrow> process_initialize2 env program_id accounts i w
      | MonitorStep m \<Rightarrow> process_monitor_step env program_id accounts m w
      | Deposit d \<Rightarrow> process_deposit env program_id accounts d w
      | Withdraw d \<Rightarrow> process_withdraw env program_id accounts d w
      | MigrateToOpenBook \<Rightarrow> process_migrate_to_openbook env program_id accounts w
      | SetParams s \<Rightarrow> process_set_params env program_id accounts s w
      | WithdrawPnl \<Rightarrow> process_withdrawpnl env program_id accounts w
      | WithdrawSrm n \<Rightarrow> process_withdraw_srm env program_id accounts n w
      | SwapBaseIn s \<Rightarrow> process_swap_base_in env program_id accounts s w
      | SwapBaseOut s \<Rightarrow> process_swap_base_out env program_id accounts s w
      | SimulateInfo s \<Rightarrow> process_simulate_info env program_id accounts s w
      | AdminCancelOrders n \<Rightarrow> process_admin_cancel_orders env program_id accounts n w
      | CreateConfigAccount \<Rightarrow> process_create_config env program_id accounts w
      | UpdateConfigAccount a \<Rightarrow> process_update_config env program_id accounts a w
      | CreateToken2022Mint i \<Rightarrow> process_create_token2022_mint env program_id accounts i w
      | UpdateHookWhitelist u \<Rightarrow> process_update_hook_whitelist env program_id accounts u w
      | InitializeExtraAccountMetaList ms \<Rightarrow> process_initialize_extra_account_meta_list env program_id accounts ms w
      | InitializeHookWhitelist a \<Rightarrow> process_initialize_hook_whitelist env program_id accounts a w
      | UpdateWhitelistAuthority a \<Rightarrow> process_update_whitelist_authority env program_id accounts a w)"

definition process_instruction ::
  "codec_env \<Rightarrow> env \<Rightarrow> pubkey \<Rightarrow> account_info list \<Rightarrow> bytes \<Rightarrow> world \<Rightarrow> world res" where
  "process_instruction cenv env program_id accounts input w =
     rbind (unpack cenv input) (\<lambda>instruction.
     rbind (dispatch env program_id accounts instruction w) (\<lambda>w. Ok (w\<lparr>borrowed := []\<rparr>)))"

section \<open>Properties\<close>

text \<open>
  C29. No pool can be created: an input with the tag of \<^verbatim>\<open>Initialize\<close> (0), \<^verbatim>\<open>Initialize2\<close> (1) or
  \<^verbatim>\<open>PreInitialize\<close> (10) never succeeds, whatever follows the tag and whatever accounts are
  passed; and an empty input or one with a tag above 20 is \<open>InvalidInstructionData\<close>.
\<close>

theorem no_pool_is_created:
  "\<not> is_ok (process_instruction cenv env pid accs (0 # r) w) \<and>
   \<not> is_ok (process_instruction cenv env pid accs (1 # r) w) \<and>
   \<not> is_ok (process_instruction cenv env pid accs (10 # r) w) \<and>
   process_instruction cenv env pid accs [] w = Err PE_InvalidInstructionData \<and>
   (if tag > 20 then process_instruction cenv env pid accs (tag # r) w = Err PE_InvalidInstructionData else True)"
proof -
  have "\<not> is_ok (process_instruction cenv env pid accs (0 # r) w)"
    by (auto simp: process_instruction_def unpack_def unpack_initialize_def dispatch_def is_ok_iff outcome)
  moreover have "\<not> is_ok (process_instruction cenv env pid accs (1 # r) w)"
    by (auto simp: process_instruction_def unpack_def unpack_initialize2_def dispatch_def is_ok_iff outcome
        process_initialize2_fails)
  moreover have "\<not> is_ok (process_instruction cenv env pid accs (10 # r) w)"
    by (auto simp: process_instruction_def unpack_def dispatch_def is_ok_iff outcome)
  moreover have "tag > 20 \<Longrightarrow> process_instruction cenv env pid accs (tag # r) w = Err PE_InvalidInstructionData"
    by (auto simp: process_instruction_def unpack_def)
  ultimately show ?thesis by (simp add: process_instruction_def unpack_def)
qed

text \<open>
  The first eight bytes of the interface's instruction that initializes the extra accounts of a
  hook, and what calling this program with it does: its entry point runs on that input, with the
  accounts of the call.
\<close>

definition extra_metas_discriminator :: bytes where
  "extra_metas_discriminator = [43, 34, 13, 49, 167, 88, 235, 235]"

definition calls_itself :: "codec_env \<Rightarrow> env \<Rightarrow> pubkey \<Rightarrow> bool" where
  "calls_itself cenv env pid \<longleftrightarrow>
     (\<forall>c l l' ml m a metas. cpi_ix c = HookInitExtraMetas pid ml m a metas \<longrightarrow> env_invoke env c l = Ok l' \<longrightarrow>
        (\<exists>rest v. process_instruction cenv env pid (cpi_infos c) (extra_metas_discriminator @ rest)
           \<lparr>accts = l, borrowed = [], calls = []\<rparr> = Ok v))"

text \<open>
  The extra accounts of a hook can never be initialized: the handler sends the request to this
  program itself, whose decoder knows no tag 43.
\<close>

theorem extra_metas_never_initialized:
  assumes "calls_itself cenv env pid"
  shows "\<not> is_ok (process_initialize_extra_account_meta_list env pid accs metas w)"
proof
  assume "is_ok (process_initialize_extra_account_meta_list env pid accs metas w)"
  then obtain c l l' ml m a where "cpi_ix c = HookInitExtraMetas pid ml m a metas" "env_invoke env c l = Ok l'"
    by (auto simp: is_ok_iff process_initialize_extra_account_meta_list_def Let_def outcome invoke_def invoke_signed_def
        split: if_splits) (metis cpi.select_convs(1))
  with assms obtain rest v where "process_instruction cenv env pid (cpi_infos c) (extra_metas_discriminator @ rest)
      \<lparr>accts = l, borrowed = [], calls = []\<rparr> = Ok v"
    unfolding calls_itself_def by blast
  then show False by (simp add: process_instruction_def unpack_def extra_metas_discriminator_def)
qed

definition demo_self_env :: env where
  "demo_self_env = demo_env\<lparr>env_invoke := \<lambda>c l. case cpi_ix c of
      HookInitExtraMetas _ _ _ _ _ \<Rightarrow> Err PE_InvalidInstructionData | _ \<Rightarrow> demo_invoke c l\<rparr>"

theorem extra_metas_never_initialized_witness:
  "\<not> is_ok (process_initialize_extra_account_meta_list demo_self_env 5 [signer 41, ro 30, signer 23, ro 0] [] demo_world)"
proof -
  have "calls_itself \<lparr>ce_meta_size = 35, ce_lossy = id\<rparr> demo_self_env 5"
    by (simp add: calls_itself_def demo_self_env_def)
  then show ?thesis by (rule extra_metas_never_initialized)
qed

end
