(* ===== verification/Builders.thy ===== *)
theory Builders
  imports Entry
begin

text \<open>
  The instruction builders of \<^verbatim>\<open>src/instruction.rs\<close>, which clients link to call the program: each
  packs a request and lists the accounts for it. Composed with the entry point they show how
  well the two sides of the interface fit.
\<close>

section \<open>Instructions\<close>

record instruction =
  in_program :: pubkey
  in_accounts :: "account_meta list"
  in_data :: bytes

text \<open>\<^verbatim>\<open>AccountMeta::new_readonly\<close> and \<^verbatim>\<open>AccountMeta::new\<close>.\<close>

definition ro_meta :: "pubkey \<Rightarrow> bool \<Rightarrow> account_meta" where
  "ro_meta k s = \<lparr>am_key = k, am_is_signer = s, am_is_writable = False\<rparr>"

definition rw_meta :: "pubkey \<Rightarrow> bool \<Rightarrow> account_meta" where
  "rw_meta k s = \<lparr>am_key = k, am_is_signer = s, am_is_writable = True\<rparr>"

text \<open>\<^verbatim>\<open>if let Some(key) = .. { accounts.push(..) }\<close>\<close>

definition opt_meta :: "(pubkey \<Rightarrow> bool \<Rightarrow> account_meta) \<Rightarrow> pubkey option \<Rightarrow> account_meta list" where
  "opt_meta f ko = (case ko of Some k \<Rightarrow> [f k False] | None \<Rightarrow> [])"

section \<open>The builders\<close>

definition initialize2 ::
  "env \<Rightarrow> pubkey \<Rightarrow> pubkey \<Rightarrow> pubkey \<Rightarrow>
   pubkey \<Rightarrow> pubkey \<Rightarrow> pubkey \<Rightarrow> pubkey \<Rightarrow>
   pubkey \<Rightarrow> pubkey \<Rightarrow> pubkey \<Rightarrow> pubkey \<Rightarrow>
   pubkey \<Rightarrow> pubkey \<Rightarrow> pubkey \<Rightarrow> pubkey \<Rightarrow>
   pubkey \<Rightarrow> pubkey \<Rightarrow> pubkey \<Rightarrow> pubkey \<Rightarrow>
   u8 \<Rightarrow> u64 \<Rightarrow> u64 \<Rightarrow> u64 \<Rightarrow>
   instruction res" where
  "initialize2 env ata_program amm_program amm_pool amm_authority amm_open_orders amm_lp_mint amm_coin_mint
     amm_pc_mint amm_coin_vault amm_pc_vault amm_target_orders amm_config create_fee_destination
     mkt_program mkt user_wallet user_token_coin user_token_pc user_token_lp nonce' open_time
     init_pc_amount init_coin_amount =
     rbind (pack (Initialize2 \<lparr>i2_nonce = nonce', i2_open_time = open_time, i2_init_pc_amount = init_pc_amount, i2_init_coin_amount = init_coin_amount\<rparr>)) (\<lambda>data.
     Ok \<lparr>in_program = amm_program, in_accounts =
       [ro_meta (env_spl_token env) False, ro_meta ata_program False,
        ro_meta (env_system_program env) False, ro_meta (env_rent_sysvar env) False,
        rw_meta amm_pool False, ro_meta amm_authority False, rw_meta amm_open_orders False,
        rw_meta amm_lp_mint False, ro_meta amm_coin_mint False, ro_meta amm_pc_mint False,
        rw_meta amm_coin_vault False, rw_meta amm_pc_vault False, rw_meta amm_target_orders False,
        ro_meta amm_config False, rw_meta create_fee_destination False, ro_meta mkt_program False,
        ro_meta mkt False, rw_meta user_wallet True, rw_meta user_token_coin False,
        rw_meta user_token_pc False, rw_meta user_token_lp False], in_data = data\<rparr>)"

definition deposit ::
  "env \<Rightarrow> pubkey \<Rightarrow> pubkey \<Rightarrow> pubkey \<Rightarrow>
   pubkey \<Rightarrow> pubkey \<Rightarrow> pubkey \<Rightarrow> pubkey \<Rightarrow>
   pubkey \<Rightarrow> pubkey \<Rightarrow> pubkey \<Rightarrow> pubkey \<Rightarrow>
   pubkey \<Rightarrow> pubkey \<Rightarrow> pubkey \<Rightarrow> u64 \<Rightarrow> u64 \<Rightarrow>
   u64 \<Rightarrow> u64 option \<Rightarrow>
   instruction res" where
  "deposit env amm_program amm_pool amm_authority amm_open_orders amm_target_orders amm_lp_mint amm_coin_vault
     amm_pc_vault mkt market_event_queue user_token_coin user_token_pc user_token_lp user_owner
     max_coin_amount' max_pc_amount' base_side' other_amount_min' =
     rbind (pack (Deposit \<lparr>max_coin_amount = max_coin_amount', max_pc_amount = max_pc_amount', base_side = base_side', other_amount_min = other_amount_min'\<rparr>)) (\<lambda>data.
     Ok \<lparr>in_program = amm_program, in_accounts =
       [ro_meta (env_spl_token env) False, rw_meta amm_pool False, ro_meta amm_authority False,
        ro_meta amm_open_orders False, rw_meta amm_target_orders False, rw_meta amm_lp_mint False,
        rw_meta amm_coin_vault False, rw_meta amm_pc_vault False, ro_meta mkt False,
        rw_meta user_token_coin False, rw_meta user_token_pc False, rw_meta user_token_lp False,
        ro_meta user_owner True, ro_meta market_event_queue False], in_data = data\<rparr>)"

definition withdraw ::
  "env \<Rightarrow> pubkey \<Rightarrow> pubkey \<Rightarrow> pubkey \<Rightarrow>
   pubkey \<Rightarrow> pubkey \<Rightarrow> pubkey \<Rightarrow> pubkey \<Rightarrow>
   pubkey \<Rightarrow> pubkey \<Rightarrow> pubkey \<Rightarrow> pubkey \<Rightarrow>
   pubkey \<Rightarrow> pubkey \<Rightarrow> pubkey \<Rightarrow> pubkey \<Rightarrow>
   pubkey \<Rightarrow> pubkey \<Rightarrow> pubkey \<Rightarrow> pubkey \<Rightarrow>
   pubkey \<Rightarrow> pubkey \<Rightarrow> pubkey \<Rightarrow> pubkey option \<Rightarrow>
   u64 \<Rightarrow> u64 option \<Rightarrow> u64 option \<Rightarrow>
   instruction res" where
  "withdraw env amm_program amm_pool amm_authority amm_open_orders amm_target_orders amm_lp_mint amm_coin_vault
     amm_pc_vault amm_coin_mint amm_pc_mint mkt_program mkt market_coin_vault market_pc_vault
     market_vault_signer user_token_lp user_token_coin user_token_pc user_owner market_event_queue
     market_bids market_asks referrer_pc_account amount min_coin_amount' min_pc_amount' =
     rbind (pack (Withdraw \<lparr>w_amount = amount, min_coin_amount = min_coin_amount', min_pc_amount = min_pc_amount'\<rparr>)) (\<lambda>data.
     Ok \<lparr>in_program = amm_program, in_accounts =
       [ro_meta (env_spl_token env) False, rw_meta amm_pool False, ro_meta amm_authority False,
        rw_meta amm_open_orders False, rw_meta amm_target_orders False, rw_meta amm_lp_mint False,
        rw_meta amm_coin_vault False, rw_meta amm_pc_vault False, ro_meta amm_coin_mint False,
        ro_meta amm_pc_mint False, ro_meta mkt_program False, rw_meta mkt False,
        rw_meta market_coin_vault False, rw_meta market_pc_vault False,
        ro_meta market_vault_signer False, rw_meta user_token_lp False, rw_meta user_token_coin False,
        rw_meta user_token_pc False, ro_meta user_owner True, rw_meta market_event_queue False,
        rw_meta market_bids False, rw_meta market_asks False]
       @ opt_meta rw_meta referrer_pc_account, in_data = data\<rparr>)"

definition swap_base_in ::
  "env \<Rightarrow> pubkey \<Rightarrow> pubkey \<Rightarrow> pubkey \<Rightarrow>
   pubkey \<Rightarrow> pubkey \<Rightarrow> pubkey \<Rightarrow> pubkey \<Rightarrow>
   pubkey \<Rightarrow> pubkey \<Rightarrow> pubkey \<Rightarrow> pubkey \<Rightarrow>
   pubkey \<Rightarrow> pubkey \<Rightarrow> pubkey \<Rightarrow> pubkey \<Rightarrow>
   pubkey \<Rightarrow> pubkey \<Rightarrow> u64 \<Rightarrow> u64 \<Rightarrow>
   instruction res" where
  "swap_base_in env amm_program amm_pool amm_authority amm_open_orders amm_coin_vault amm_pc_vault mkt_program mkt
     market_bids market_asks market_event_queue market_coin_vault market_pc_vault market_vault_signer
     user_token_source user_token_destination user_source_owner amount_in' minimum_amount_out' =
     rbind (pack (SwapBaseIn \<lparr>amount_in = amount_in', minimum_amount_out = minimum_amount_out'\<rparr>)) (\<lambda>data.
     Ok \<lparr>in_program = amm_program, in_accounts =
       [ro_meta (env_spl_token env) False, rw_meta amm_pool False, ro_meta amm_authority False,
        rw_meta amm_open_orders False, rw_meta amm_coin_vault False, rw_meta amm_pc_vault False,
        ro_meta mkt_program False, rw_meta mkt False, rw_meta market_bids False,
        rw_meta market_asks False, rw_meta market_event_queue False, rw_meta market_coin_vault False,
        rw_meta market_pc_vault False, ro_meta market_vault_signer False,
        rw_meta user_token_source False, rw_meta user_token_destination False,
        ro_meta user_source_owner True], in_data = data\<rparr>)"

definition swap_base_out ::
  "env \<Rightarrow> pubkey \<Rightarrow> pubkey \<Rightarrow> pubkey \<Rightarrow>
   pubkey \<Rightarrow> pubkey \<Rightarrow> pubkey \<Rightarrow> pubkey \<Rightarrow>
   pubkey \<Rightarrow> pubkey \<Rightarrow> pubkey \<Rightarrow> pubkey \<Rightarrow>
   pubkey \<Rightarrow> pubkey \<Rightarrow> pubkey \<Rightarrow> pubkey \<Rightarrow>
   pubkey \<Rightarrow> pubkey \<Rightarrow> u64 \<Rightarrow> u64 \<Rightarrow>
   instruction res" where
  "swap_base_out env amm_program amm_pool amm_authority amm_open_orders amm_coin_vault amm_pc_vault mkt_program mkt
     market_bids market_asks market_event_queue market_coin_vault market_pc_vault market_vault_signer
     user_token_source user_token_destination user_source_owner max_amount_in' amount_out' =
     rbind (pack (SwapBaseOut \<lparr>max_amount_in = max_amount_in', amount_out = amount_out'\<rparr>)) (\<lambda>data.
     Ok \<lparr>in_program = amm_program, in_accounts =
       [ro_meta (env_spl_token env) False, rw_meta amm_pool False, ro_meta amm_authority False,
        rw_meta amm_open_orders False, rw_meta amm_coin_vault False, rw_meta amm_pc_vault False,
        ro_meta mkt_program False, rw_meta mkt False, rw_meta market_bids False,
        rw_meta market_asks False, rw_meta market_event_queue False, rw_meta market_coin_vault False,
        rw_meta market_pc_vault False, ro_meta market_vault_signer False,
        rw_meta user_token_source False, rw_meta user_token_destination False,
        ro_meta user_source_owner True], in_data = data\<rparr>)"

definition migrate_to_openbook ::
  "env \<Rightarrow> pubkey \<Rightarrow> pubkey \<Rightarrow> pubkey \<Rightarrow>
   pubkey \<Rightarrow> pubkey \<Rightarrow> pubkey \<Rightarrow> pubkey \<Rightarrow>
   pubkey \<Rightarrow> pubkey \<Rightarrow> pubkey \<Rightarrow> pubkey \<Rightarrow>
   pubkey \<Rightarrow> pubkey \<Rightarrow> pubkey \<Rightarrow> pubkey \<Rightarrow>
   pubkey \<Rightarrow> pubkey \<Rightarrow> pubkey \<Rightarrow> pubkey \<Rightarrow>
   instruction res" where
  "migrate_to_openbook env amm_program amm_pool amm_authority amm_open_orders amm_coin_vault amm_pc_vault
     amm_target_orders mkt_program mkt market_bids market_asks market_event_queue market_coin_vault
     market_pc_vault market_vault_signer new_amm_open_orders new_market_program new_market admin =
     rbind (pack MigrateToOpenBook) (\<lambda>data.
     Ok \<lparr>in_program = amm_program, in_accounts =
       [ro_meta (env_spl_token env) False, ro_meta (env_system_program env) False,
        ro_meta (env_rent_sysvar env) False, rw_meta amm_pool False, ro_meta amm_authority False,
        rw_meta amm_open_orders False, rw_meta amm_coin_vault False, rw_meta amm_pc_vault False,
        rw_meta amm_target_orders False, ro_meta mkt_program False, rw_meta mkt False,
        rw_meta market_bids False, rw_meta market_asks False, rw_meta market_event_queue False,
        rw_meta market_coin_vault False, rw_meta market_pc_vault False,
        ro_meta market_vault_signer False, rw_meta new_amm_open_orders False,
        ro_meta new_market_program False, ro_meta new_market False, rw_meta admin True], in_data = data\<rparr>)"

definition withdrawpnl ::
  "env \<Rightarrow> pubkey \<Rightarrow> pubkey \<Rightarrow> pubkey \<Rightarrow>
   pubkey \<Rightarrow> pubkey \<Rightarrow> pubkey \<Rightarrow> pubkey \<Rightarrow>
   pubkey \<Rightarrow> pubkey \<Rightarrow> pubkey \<Rightarrow> pubkey \<Rightarrow>
   pubkey \<Rightarrow> pubkey \<Rightarrow> pubkey \<Rightarrow> pubkey \<Rightarrow>
   pubkey \<Rightarrow> pubkey \<Rightarrow>
   instruction res" where
  "withdrawpnl env amm_program amm_pool amm_config amm_authority amm_open_orders amm_coin_vault amm_pc_vault
     user_token_coin user_token_pc user_owner amm_target_orders mkt_program mkt market_event_queue
     market_coin_vault market_pc_vault market_vault_signer =
     rbind (pack WithdrawPnl) (\<lambda>data.
     Ok \<lparr>in_program = amm_program, in_accounts =
       [ro_meta (env_spl_token env) False, rw_meta amm_pool False, ro_meta amm_config False,
        ro_meta amm_authority False, rw_meta amm_open_orders False, rw_meta amm_coin_vault False,
        rw_meta amm_pc_vault False, rw_meta user_token_coin False, rw_meta user_token_pc False,
        ro_meta user_owner True, rw_meta amm_target_orders False, ro_meta mkt_program False,
        rw_meta mkt False, ro_meta market_event_queue False, rw_meta market_coin_vault False,
        rw_meta market_pc_vault False, ro_meta market_vault_signer False], in_data = data\<rparr>)"

definition set_params ::
  "env \<Rightarrow> pubkey \<Rightarrow> pubkey \<Rightarrow> pubkey \<Rightarrow>
   pubkey \<Rightarrow> u8 \<Rightarrow> u64 option \<Rightarrow> pubkey option \<Rightarrow>
   pubkey \<Rightarrow> pubkey \<Rightarrow> pubkey \<Rightarrow> pubkey \<Rightarrow>
   pubkey \<Rightarrow> pubkey \<Rightarrow> pubkey \<Rightarrow> pubkey \<Rightarrow>
   pubkey \<Rightarrow> pubkey \<Rightarrow> pubkey \<Rightarrow> pubkey \<Rightarrow>
   pubkey option \<Rightarrow> fees option \<Rightarrow> last_order_distance option \<Rightarrow>
   instruction res" where
  "set_params env amm_program amm_pool amm_authority admin param value new_pubkey amm_target_orders
     amm_coin_vault amm_pc_vault amm_open_orders mkt_program mkt market_coin_vault market_pc_vault
     market_vault_signer market_event_queue market_bids market_asks new_amm_open_orders fees'
     last_order_distance =
     rbind (pack (SetParams \<lparr>sp_param = param, sp_value = value, sp_new_pubkey = new_pubkey, sp_fees = fees', sp_last_order_distance = last_order_distance\<rparr>)) (\<lambda>data.
     rbind (if param = ucast (amm_params_into_u64 PUpdateOpenOrder)
            then rbind (unwrap new_amm_open_orders) (\<lambda>k. Ok [ro_meta k False]) else Ok []) (\<lambda>extra.
     Ok \<lparr>in_program = amm_program, in_accounts =
       [ro_meta (env_spl_token env) False, rw_meta amm_pool False, ro_meta amm_authority False,
        rw_meta amm_open_orders False, rw_meta amm_target_orders False, rw_meta amm_coin_vault False,
        rw_meta amm_pc_vault False, ro_meta mkt_program False, rw_meta mkt False,
        rw_meta market_coin_vault False, rw_meta market_pc_vault False,
        ro_meta market_vault_signer False, rw_meta market_event_queue False, rw_meta market_bids False,
        rw_meta market_asks False, ro_meta admin True]
       @ extra, in_data = data\<rparr>))"

definition monitor_step ::
  "env \<Rightarrow> pubkey \<Rightarrow> pubkey \<Rightarrow> pubkey \<Rightarrow>
   pubkey \<Rightarrow> pubkey \<Rightarrow> pubkey \<Rightarrow> pubkey \<Rightarrow>
   pubkey option \<Rightarrow> pubkey \<Rightarrow> pubkey \<Rightarrow> pubkey \<Rightarrow>
   pubkey \<Rightarrow> pubkey \<Rightarrow> pubkey \<Rightarrow> pubkey \<Rightarrow>
   pubkey \<Rightarrow> pubkey \<Rightarrow> pubkey option \<Rightarrow> u16 \<Rightarrow>
   u16 \<Rightarrow> u16 \<Rightarrow>
   instruction res" where
  "monitor_step env amm_program amm_pool amm_authority amm_open_orders amm_target_orders amm_coin_vault
     amm_pc_vault amm_token_srm mkt_program mkt market_coin_vault market_pc_vault market_vault_signer
     market_request_queue market_event_queue market_bids market_asks referrer_token_pc plan_order_limit'
     place_order_limit' cancel_order_limit' =
     rbind (pack (MonitorStep \<lparr>plan_order_limit = plan_order_limit', place_order_limit = place_order_limit', cancel_order_limit = cancel_order_limit'\<rparr>)) (\<lambda>data.
     Ok \<lparr>in_program = amm_program, in_accounts =
       [ro_meta (env_spl_token env) False, ro_meta (env_rent_sysvar env) False,
        ro_meta (env_clock_sysvar env) False, rw_meta amm_pool False, ro_meta amm_authority False,
        rw_meta amm_open_orders False, rw_meta amm_target_orders False, rw_meta amm_coin_vault False,
        rw_meta amm_pc_vault False, ro_meta mkt_program False, rw_meta mkt False,
        rw_meta market_coin_vault False, rw_meta market_pc_vault False,
        ro_meta market_vault_signer False, rw_meta market_request_queue False,
        rw_meta market_event_queue False, rw_meta market_bids False, rw_meta market_asks False]
       @ (if amm_token_srm = None then [] else opt_meta rw_meta amm_token_srm @ opt_meta rw_meta referrer_token_pc), in_data = data\<rparr>)"

definition withdrawsrm ::
  "env \<Rightarrow> pubkey \<Rightarrow> pubkey \<Rightarrow> pubkey \<Rightarrow>
   pubkey \<Rightarrow> pubkey \<Rightarrow> pubkey \<Rightarrow> u64 \<Rightarrow>
   instruction res" where
  "withdrawsrm env amm_program amm_pool amm_authority admin token_srm dest_token_srm amount =
     rbind (pack (WithdrawSrm amount)) (\<lambda>data.
     Ok \<lparr>in_program = amm_program, in_accounts =
       [ro_meta (env_spl_token env) False, ro_meta amm_pool False, ro_meta admin True,
        ro_meta amm_authority False, rw_meta token_srm False, rw_meta dest_token_srm False], in_data = data\<rparr>)"

definition simulate_get_pool_info ::
  "env \<Rightarrow> pubkey \<Rightarrow> pubkey \<Rightarrow> pubkey \<Rightarrow>
   pubkey \<Rightarrow> pubkey \<Rightarrow> pubkey \<Rightarrow> pubkey \<Rightarrow>
   pubkey \<Rightarrow> pubkey \<Rightarrow> pubkey option \<Rightarrow>
   instruction res" where
  "simulate_get_pool_info env amm_program amm_pool amm_authority amm_open_orders amm_coin_vault amm_pc_vault amm_lp_mint mkt
     market_event_queue amm_target_orders =
     rbind (pack (SimulateInfo \<lparr>sim_param = 0, swap_base_in_value = None, swap_base_out_value = None\<rparr>)) (\<lambda>data.
     Ok \<lparr>in_program = amm_program, in_accounts =
       [ro_meta amm_pool False, ro_meta amm_authority False, ro_meta amm_open_orders False,
        ro_meta amm_coin_vault False, ro_meta amm_pc_vault False, ro_meta amm_lp_mint False,
        ro_meta mkt False, ro_meta market_event_queue False]
       @ opt_meta ro_meta amm_target_orders, in_data = data\<rparr>)"

definition build_simulate_swap_base_in ::
  "env \<Rightarrow> pubkey \<Rightarrow> pubkey \<Rightarrow> pubkey \<Rightarrow>
   pubkey \<Rightarrow> pubkey \<Rightarrow> pubkey \<Rightarrow> pubkey \<Rightarrow>
   pubkey \<Rightarrow> pubkey \<Rightarrow> pubkey \<Rightarrow> pubkey \<Rightarrow>
   pubkey \<Rightarrow> pubkey \<Rightarrow> pubkey \<Rightarrow> u64 \<Rightarrow>
   instruction res" where
  "build_simulate_swap_base_in env amm_program amm_pool amm_authority amm_open_orders amm_target_orders amm_coin_vault
     amm_pc_vault amm_lp_mint mkt_program mkt market_event_queue user_token_source
     user_token_destination user_source_owner amount_in' =
     rbind (pack (SimulateInfo \<lparr>sim_param = 1, swap_base_in_value = Some \<lparr>amount_in = amount_in', minimum_amount_out = 0\<rparr>, swap_base_out_value = None\<rparr>)) (\<lambda>data.
     Ok \<lparr>in_program = amm_program, in_accounts =
       [ro_meta amm_pool False, ro_meta amm_authority False, ro_meta amm_open_orders False,
        ro_meta amm_target_orders False, ro_meta amm_coin_vault False, ro_meta amm_pc_vault False,
        ro_meta amm_lp_mint False, ro_meta mkt_program False, ro_meta mkt False,
        ro_meta market_event_queue False, ro_meta user_token_source False,
        ro_meta user_token_destination False, ro_meta user_source_owner True], in_data = data\<rparr>)"

definition build_simulate_swap_base_out ::
  "env \<Rightarrow> pubkey \<Rightarrow> pubkey \<Rightarrow> pubkey \<Rightarrow>
   pubkey \<Rightarrow> pubkey \<Rightarrow> pubkey \<Rightarrow> pubkey \<Rightarrow>
   pubkey \<Rightarrow> pubkey \<Rightarrow> pubkey \<Rightarrow> pubkey \<Rightarrow>
   pubkey \<Rightarrow> pubkey \<Rightarrow> pubkey \<Rightarrow> u64 \<Rightarrow>
   instruction res" where
  "build_simulate_swap_base_out env amm_program amm_pool amm_authority amm_open_orders amm_target_orders amm_coin_vault
     amm_pc_vault amm_lp_mint mkt_program mkt market_event_queue user_token_source
     user_token_destination user_source_owner amount_out' =
     rbind (pack (SimulateInfo \<lparr>sim_param = 2, swap_base_in_value = None, swap_base_out_value = Some \<lparr>max_amount_in = 0, amount_out = amount_out'\<rparr>\<rparr>)) (\<lambda>data.
     Ok \<lparr>in_program = amm_program, in_accounts =
       [ro_meta amm_pool False, ro_meta amm_authority False, ro_meta amm_open_orders False,
        ro_meta amm_target_orders False, ro_meta amm_coin_vault False, ro_meta amm_pc_vault False,
        ro_meta amm_lp_mint False, ro_meta mkt_program False, ro_meta mkt False,
        ro_meta market_event_queue False, ro_meta user_token_source False,
        ro_meta user_token_destination False, ro_meta user_source_owner True], in_data = data\<rparr>)"

definition build_simulate_run_crank ::
  "env \<Rightarrow> pubkey \<Rightarrow> pubkey \<Rightarrow> pubkey \<Rightarrow>
   pubkey \<Rightarrow> pubkey \<Rightarrow> pubkey \<Rightarrow> pubkey \<Rightarrow>
   pubkey \<Rightarrow> pubkey \<Rightarrow> pubkey \<Rightarrow> pubkey \<Rightarrow> pubkey \<Rightarrow>
   instruction res" where
  "build_simulate_run_crank env amm_program amm_pool amm_authority amm_open_orders amm_target_orders amm_coin_vault
     amm_pc_vault mkt_program mkt market_bids market_asks market_event_queue =
     rbind (pack (SimulateInfo \<lparr>sim_param = 3, swap_base_in_value = None, swap_base_out_value = None\<rparr>)) (\<lambda>data.
     Ok \<lparr>in_program = amm_program, in_accounts =
       [ro_meta (env_spl_token env) False, ro_meta (env_clock_sysvar env) False,
        ro_meta amm_pool False, ro_meta amm_authority False, ro_meta amm_open_orders False,
        ro_meta amm_target_orders False, ro_meta amm_coin_vault False, ro_meta amm_pc_vault False,
        ro_meta mkt_program False, ro_meta mkt False, ro_meta market_bids False,
        ro_meta market_asks False, ro_meta market_event_queue False], in_data = data\<rparr>)"

definition admin_cancel_orders ::
  "env \<Rightarrow> pubkey \<Rightarrow> pubkey \<Rightarrow> pubkey \<Rightarrow>
   pubkey \<Rightarrow> pubkey \<Rightarrow> pubkey \<Rightarrow> pubkey \<Rightarrow>
   pubkey \<Rightarrow> pubkey \<Rightarrow> pubkey \<Rightarrow> pubkey \<Rightarrow>
   pubkey \<Rightarrow> pubkey \<Rightarrow> pubkey \<Rightarrow> pubkey \<Rightarrow>
   pubkey \<Rightarrow> pubkey \<Rightarrow> pubkey option \<Rightarrow> pubkey option \<Rightarrow>
   u16 \<Rightarrow>
   instruction res" where
  "admin_cancel_orders env amm_program amm_pool amm_authority amm_open_orders amm_target_orders amm_coin_vault
     amm_pc_vault amm_cancel_owner amm_config mkt_program mkt market_coin_vault market_pc_vault
     market_vault_signer market_event_queue market_bids market_asks amm_token_srm referrer_token_pc
     cancel_order_limit' =
     rbind (pack (AdminCancelOrders cancel_order_limit')) (\<lambda>data.
     Ok \<lparr>in_program = amm_program, in_accounts =
       [ro_meta (env_spl_token env) False, ro_meta amm_pool False, ro_meta amm_authority False,
        rw_meta amm_open_orders False, rw_meta amm_target_orders False, rw_meta amm_coin_vault False,
        rw_meta amm_pc_vault False, ro_meta amm_cancel_owner True, rw_meta amm_config False,
        ro_meta mkt_program False, rw_meta mkt False, rw_meta market_coin_vault False,
        rw_meta market_pc_vault False, ro_meta market_vault_signer False,
        rw_meta market_event_queue False, rw_meta market_bids False, rw_meta market_asks False]
       @ (if amm_token_srm = None then [] else opt_meta rw_meta amm_token_srm @ opt_meta rw_meta referrer_token_pc), in_data = data\<rparr>)"

definition create_config_account ::
  "env \<Rightarrow> pubkey \<Rightarrow> pubkey \<Rightarrow> pubkey \<Rightarrow> pubkey \<Rightarrow>
   instruction res" where
  "create_config_account env amm_program admin amm_config pnl_owner' =
     rbind (pack CreateConfigAccount) (\<lambda>data.
     Ok \<lparr>in_program = amm_program, in_accounts =
       [rw_meta admin True, rw_meta amm_config False, ro_meta pnl_owner' False,
        ro_meta (env_system_program env) False, ro_meta (env_rent_sysvar env) False], in_data = data\<rparr>)"

definition update_config_account ::
  "env \<Rightarrow> pubkey \<Rightarrow> pubkey \<Rightarrow> pubkey \<Rightarrow> config_args \<Rightarrow>
   instruction res" where
  "update_config_account env amm_program admin amm_config args =
     rbind (pack (UpdateConfigAccount args)) (\<lambda>data.
     Ok \<lparr>in_program = amm_program, in_accounts =
       [ro_meta admin True, rw_meta amm_config False], in_data = data\<rparr>)"

section \<open>What is built\<close>

text \<open>The instructions clients can build, with the request each carries.\<close>

inductive client_built :: "env \<Rightarrow> amm_instruction \<Rightarrow> instruction \<Rightarrow> bool" for env where
  by_initialize2: "initialize2 env ata_program amm_program amm_pool amm_authority amm_open_orders amm_lp_mint amm_coin_mint
     amm_pc_mint amm_coin_vault amm_pc_vault amm_target_orders amm_config create_fee_destination
     mkt_program mkt user_wallet user_token_coin user_token_pc user_token_lp nonce' open_time
     init_pc_amount init_coin_amount = Ok i \<Longrightarrow>
     client_built env (Initialize2 \<lparr>i2_nonce = nonce', i2_open_time = open_time, i2_init_pc_amount = init_pc_amount, i2_init_coin_amount = init_coin_amount\<rparr>) i"
| by_deposit: "deposit env amm_program amm_pool amm_authority amm_open_orders amm_target_orders amm_lp_mint amm_coin_vault
     amm_pc_vault mkt market_event_queue user_token_coin user_token_pc user_token_lp user_owner
     max_coin_amount' max_pc_amount' base_side' other_amount_min' = Ok i \<Longrightarrow>
     client_built env (Deposit \<lparr>max_coin_amount = max_coin_amount', max_pc_amount = max_pc_amount', base_side = base_side', other_amount_min = other_amount_min'\<rparr>) i"
| by_withdraw: "withdraw env amm_program amm_pool amm_authority amm_open_orders amm_target_orders amm_lp_mint amm_coin_vault
     amm_pc_vault amm_coin_mint amm_pc_mint mkt_program mkt market_coin_vault market_pc_vault
     market_vault_signer user_token_lp user_token_coin user_token_pc user_owner market_event_queue
     market_bids market_asks referrer_pc_account amount min_coin_amount' min_pc_amount' = Ok i \<Longrightarrow>
     client_built env (Withdraw \<lparr>w_amount = amount, min_coin_amount = min_coin_amount', min_pc_amount = min_pc_amount'\<rparr>) i"
| by_swap_base_in: "swap_base_in env amm_program amm_pool amm_authority amm_open_orders amm_coin_vault amm_pc_vault mkt_program mkt
     market_bids market_asks market_event_queue market_coin_vault market_pc_vault market_vault_signer
     user_token_source user_token_destination user_source_owner amount_in' minimum_amount_out' = Ok i \<Longrightarrow>
     client_built env (SwapBaseIn \<lparr>amount_in = amount_in', minimum_amount_out = minimum_amount_out'\<rparr>) i"
| by_swap_base_out: "swap_base_out env amm_program amm_pool amm_authority amm_open_orders amm_coin_vault amm_pc_vault mkt_program mkt
     market_bids market_asks market_event_queue market_coin_vault market_pc_vault market_vault_signer
     user_token_source user_token_destination user_source_owner max_amount_in' amount_out' = Ok i \<Longrightarrow>
     client_built env (SwapBaseOut \<lparr>max_amount_in = max_amount_in', amount_out = amount_out'\<rparr>) i"
| by_migrate_to_openbook: "migrate_to_openbook env amm_program amm_pool amm_authority amm_open_orders amm_coin_vault amm_pc_vault
     amm_target_orders mkt_program mkt market_bids market_asks market_event_queue market_coin_vault
     market_pc_vault market_vault_signer new_amm_open_orders new_market_program new_market admin = Ok i \<Longrightarrow>
     client_built env (MigrateToOpenBook) i"
| by_withdrawpnl: "withdrawpnl env amm_program amm_pool amm_config amm_authority amm_open_orders amm_coin_vault amm_pc_vault
     user_token_coin user_token_pc user_owner amm_target_orders mkt_program mkt market_event_queue
     market_coin_vault market_pc_vault market_vault_signer = Ok i \<Longrightarrow>
     client_built env (WithdrawPnl) i"
| by_set_params: "set_params env amm_program amm_pool amm_authority admin param value new_pubkey amm_target_orders
     amm_coin_vault amm_pc_vault amm_open_orders mkt_program mkt market_coin_vault market_pc_vault
     market_vault_signer market_event_queue market_bids market_asks new_amm_open_orders fees'
     last_order_distance = Ok i \<Longrightarrow>
     client_built env (SetParams \<lparr>sp_param = param, sp_value = value, sp_new_pubkey = new_pubkey, sp_fees = fees', sp_last_order_distance = last_order_distance\<rparr>) i"
| by_monitor_step: "monitor_step env amm_program amm_pool amm_authority amm_open_orders amm_target_orders amm_coin_vault
     amm_pc_vault amm_token_srm mkt_program mkt market_coin_vault market_pc_vault market_vault_signer
     market_request_queue market_event_queue market_bids market_asks referrer_token_pc plan_order_limit'
     place_order_limit' cancel_order_limit' = Ok i \<Longrightarrow>
     client_built env (MonitorStep \<lparr>plan_order_limit = plan_order_limit', place_order_limit = place_order_limit', cancel_order_limit = cancel_order_limit'\<rparr>) i"
| by_withdrawsrm: "withdrawsrm env amm_program amm_pool amm_authority admin token_srm dest_token_srm amount = Ok i \<Longrightarrow>
     client_built env (WithdrawSrm amount) i"
| by_simulate_get_pool_info: "simulate_get_pool_info env amm_program amm_pool amm_authority amm_open_orders amm_coin_vault amm_pc_vault amm_lp_mint mkt
     market_event_queue amm_target_orders = Ok i \<Longrightarrow>
     client_built env (SimulateInfo \<lparr>sim_param = 0, swap_base_in_value = None, swap_base_out_value = None\<rparr>) i"
| by_simulate_swap_base_in: "build_simulate_swap_base_in env amm_program amm_pool amm_authority amm_open_orders amm_target_orders amm_coin_vault
     amm_pc_vault amm_lp_mint mkt_program mkt market_event_queue user_token_source
     user_token_destination user_source_owner amount_in' = Ok i \<Longrightarrow>
     client_built env (SimulateInfo \<lparr>sim_param = 1, swap_base_in_value = Some \<lparr>amount_in = amount_in', minimum_amount_out = 0\<rparr>, swap_base_out_value = None\<rparr>) i"
| by_simulate_swap_base_out: "build_simulate_swap_base_out env amm_program amm_pool amm_authority amm_open_orders amm_target_orders amm_coin_vault
     amm_pc_vault amm_lp_mint mkt_program mkt market_event_queue user_token_source
     user_token_destination user_source_owner amount_out' = Ok i \<Longrightarrow>
     client_built env (SimulateInfo \<lparr>sim_param = 2, swap_base_in_value = None, swap_base_out_value = Some \<lparr>max_amount_in = 0, amount_out = amount_out'\<rparr>\<rparr>) i"
| by_simulate_run_crank: "build_simulate_run_crank env amm_program amm_pool amm_authority amm_open_orders amm_target_orders amm_coin_vault
     amm_pc_vault mkt_program mkt market_bids market_asks market_event_queue = Ok i \<Longrightarrow>
     client_built env (SimulateInfo \<lparr>sim_param = 3, swap_base_in_value = None, swap_base_out_value = None\<rparr>) i"
| by_admin_cancel_orders: "admin_cancel_orders env amm_program amm_pool amm_authority amm_open_orders amm_target_orders amm_coin_vault
     amm_pc_vault amm_cancel_owner amm_config mkt_program mkt market_coin_vault market_pc_vault
     market_vault_signer market_event_queue market_bids market_asks amm_token_srm referrer_token_pc
     cancel_order_limit' = Ok i \<Longrightarrow>
     client_built env (AdminCancelOrders cancel_order_limit') i"
| by_create_config_account: "create_config_account env amm_program admin amm_config pnl_owner' = Ok i \<Longrightarrow>
     client_built env (CreateConfigAccount) i"
| by_update_config_account: "update_config_account env amm_program admin amm_config args = Ok i \<Longrightarrow>
     client_built env (UpdateConfigAccount args) i"

lemmas builder_defs = initialize2_def deposit_def withdraw_def swap_base_in_def swap_base_out_def
  migrate_to_openbook_def withdrawpnl_def set_params_def monitor_step_def withdrawsrm_def
  simulate_get_pool_info_def build_simulate_swap_base_in_def build_simulate_swap_base_out_def
  build_simulate_run_crank_def admin_cancel_orders_def create_config_account_def
  update_config_account_def

lemma built_data: "client_built env ix i \<Longrightarrow> pack ix = Ok (in_data i)"
  by (cases rule: client_built.cases, assumption) (auto simp: builder_defs outcome split: if_splits)

text \<open>The accounts as the runtime hands them over: keys and flags of the metas (distinct keys, so no flags are merged).\<close>

definition infos_of :: "instruction \<Rightarrow> account_info list" where
  "infos_of i = map (\<lambda>m. \<lparr>ai_key = am_key m, ai_is_signer = am_is_signer m, ai_is_writable = am_is_writable m\<rparr>)
     (in_accounts i)"

text \<open>
  The runtime knows signing and writing by key, for the whole transaction: an account that is listed
  twice has the flags of both places. The transaction consists of the one instruction.
\<close>

definition runtime_infos :: "instruction \<Rightarrow> account_info list" where
  "runtime_infos i = map (\<lambda>m.
     \<lparr>ai_key = am_key m,
      ai_is_signer = list_ex (\<lambda>m'. am_key m' = am_key m \<and> am_is_signer m') (in_accounts i),
      ai_is_writable = list_ex (\<lambda>m'. am_key m' = am_key m \<and> am_is_writable m') (in_accounts i)\<rparr>) (in_accounts i)"

lemma runtime_infos_distinct: "distinct (map am_key (in_accounts i)) \<Longrightarrow> runtime_infos i = infos_of i"
  by (auto simp: runtime_infos_def infos_of_def list_ex_iff distinct_map dest: inj_onD)

section \<open>What the program does with it\<close>

lemma built_served:
  assumes "client_built env ix i" "canonical cenv ix"
  shows "process_instruction cenv env pid accs (in_data i) w =
    rbind (dispatch env pid accs ix w) (\<lambda>w. Ok (w\<lparr>borrowed := []\<rparr>))"
  using instruction_unpack_pack [OF assms(2)] built_data [OF assms(1)]
  by (auto simp: process_instruction_def)

text \<open>The handlers look for the wallet, and where they look no builder puts a signer.\<close>

lemma wallet_must_sign:
  "length accs \<ge> 16 \<Longrightarrow> \<not> ai_is_signer (accs ! 15) \<Longrightarrow> \<not> is_ok (process_monitor_step env pid accs m w)"
  "length accs \<ge> 13 \<Longrightarrow> \<not> ai_is_signer (accs ! 12) \<Longrightarrow> \<not> is_ok (process_migrate_to_openbook env pid accs w)"
  "length accs \<ge> 13 \<Longrightarrow> \<not> ai_is_signer (accs ! 12) \<Longrightarrow> \<not> is_ok (process_admin_cancel_orders env pid accs l w)"
  "length accs \<ge> 8 \<Longrightarrow> \<not> ai_is_signer (accs ! 7) \<Longrightarrow> \<not> is_ok (process_withdrawpnl env pid accs w)"
  "length accs \<ge> 6 \<Longrightarrow> \<not> ai_is_signer (accs ! 5) \<Longrightarrow> \<not> is_ok (process_withdraw_srm env pid accs n w)"
  "length accs \<ge> 3 \<Longrightarrow> \<not> ai_is_signer (accs ! 2) \<Longrightarrow> \<not> is_ok (process_set_params env pid accs s w)"
  "length accs \<ge> 4 \<Longrightarrow> \<not> ai_is_signer (accs ! 1) \<Longrightarrow> \<not> is_ok (process_create_config env pid accs w)"
  "length accs \<ge> 2 \<Longrightarrow> \<not> ai_is_signer (accs ! 1) \<Longrightarrow> \<not> is_ok (process_update_config env pid accs c w)"
  by (simp_all add: process_monitor_step_def process_migrate_to_openbook_def process_admin_cancel_orders_def
      process_withdrawpnl_def process_withdraw_srm_def process_set_params_def process_create_config_def
      process_update_config_def next_accounts_def Let_def monitor_accounts_of_def order_handler_accounts_of_def
      pnl_accounts_of_def srm_accounts_of_def is_ok_iff)

lemma too_few_accounts:
  "length accs < 28 \<Longrightarrow> \<not> is_ok (process_initialize2 env pid accs init w)"
  "length accs < 16 \<Longrightarrow> \<not> is_ok (process_deposit env pid accs d w)"
  "length accs < 19 \<Longrightarrow> \<not> is_ok (process_swap_base_in env pid accs s w)"
  "length accs < 19 \<Longrightarrow> \<not> is_ok (process_swap_base_out env pid accs t w)"
  by (simp_all add: process_initialize2_def next_accounts_def process_deposit_def deposit_prepare_def
      DEPOSIT_ACCOUNT_LEN_def process_swap_base_in_def process_swap_base_out_def swap_prepare_def
      SWAP_ACCOUNT_LEN_def is_ok_iff)

lemma run_crank_reads_the_pool_first:
  "length accs \<ge> 11 \<Longrightarrow> owner_of w (accs ! 0) \<noteq> pid \<Longrightarrow> \<not> is_ok (simulate_run_crank env pid accs w)"
  by (simp add: simulate_run_crank_def next_accounts_def amm_load_checked_def is_ok_iff)

text \<open>
  What a built request is decoded to: itself, except that a withdrawal may lose a minimum and that
  parameters lose the fields their kind does not carry.
\<close>

definition decoded_as :: "amm_instruction \<Rightarrow> amm_instruction \<Rightarrow> bool" where
  "decoded_as ix ix' = (case ix of
      Withdraw _ \<Rightarrow> \<exists>v. ix' = Withdraw v
    | SetParams _ \<Rightarrow> \<exists>v. ix' = SetParams v
    | UpdateConfigAccount _ \<Rightarrow> \<exists>v. ix' = UpdateConfigAccount v
    | _ \<Rightarrow> ix' = ix)"

lemma unpack_kind:
  "unpack cenv (4 # r) = Ok ix \<Longrightarrow> \<exists>v. ix = Withdraw v"
  "unpack cenv (6 # r) = Ok ix \<Longrightarrow> \<exists>v. ix = SetParams v"
  "unpack cenv (15 # r) = Ok ix \<Longrightarrow> \<exists>v. ix = UpdateConfigAccount v"
  by (auto simp: unpack_def unpack_withdraw_def unpack_set_params_def unpack_update_config_def outcome split: if_splits)

lemma packed_kind:
  "pack (Withdraw v) = Ok bs \<Longrightarrow> \<exists>r. bs = 4 # r"
  "pack (SetParams s) = Ok bs \<Longrightarrow> \<exists>r. bs = 6 # r"
  "pack (UpdateConfigAccount c) = Ok bs \<Longrightarrow> \<exists>r. bs = 15 # r"
  by (auto simp: outcome)

lemma built_decoded:
  assumes "client_built env ix i" "unpack cenv (in_data i) = Ok ix'"
  shows "decoded_as ix ix'"
proof (cases "canonical cenv ix")
  case True
  then have "ix' = ix" using instruction_unpack_pack built_data [OF assms(1)] assms(2) by fastforce
  then show ?thesis by (simp add: decoded_as_def split: amm_instruction.split)
next
  case False
  have "(\<exists>v. ix = Withdraw v) \<or> (\<exists>s. ix = SetParams s) \<or> (\<exists>c. ix = UpdateConfigAccount c)"
    using assms(1) by cases (use False in \<open>auto simp: canonical_simulate_def\<close>)
  then show ?thesis using packed_kind built_data [OF assms(1)] assms(2) unpack_kind
    by (auto simp: decoded_as_def) metis+
qed

lemma dispatched_rejected:
  assumes "client_built env ix i" "decoded_as ix ix'"
    and "acc_owner (accts w (env_spl_token env)) \<noteq> pid"
    and "\<forall>d. env_unpack_token env d = None \<or> env_unpack_mint env d = None"
    and "ix \<noteq> SimulateInfo \<lparr>sim_param = 0, swap_base_in_value = None, swap_base_out_value = None\<rparr>"
  shows "\<not> is_ok (dispatch env pid (infos_of i) ix' w)"
  using assms(1)
proof cases
  case by_simulate_swap_base_in
  then show ?thesis using swap_simulations_never_succeed [OF assms(4)] assms(2)
    by (auto simp: decoded_as_def dispatch_def process_simulate_info_def simulate_params_from_u64_def is_ok_iff outcome)
next
  case by_simulate_swap_base_out
  then show ?thesis using swap_simulations_never_succeed [OF assms(4)] assms(2)
    by (auto simp: decoded_as_def dispatch_def process_simulate_info_def simulate_params_from_u64_def is_ok_iff outcome)
next
  case by_simulate_run_crank
  then have "length (infos_of i) \<ge> 11" "owner_of w (infos_of i ! 0) \<noteq> pid"
    using assms(3) by (auto simp: builder_defs outcome infos_of_def ro_meta_def owner_of_def account_of_def)
  from run_crank_reads_the_pool_first [OF this] by_simulate_run_crank(1) assms(2) show ?thesis
    by (auto simp: decoded_as_def dispatch_def process_simulate_info_def simulate_params_from_u64_def is_ok_iff outcome)
next
  case by_withdraw
  then show ?thesis using assms(2) by (auto simp: decoded_as_def dispatch_def withdraw_accounts_short is_ok_iff split: if_splits)
next
  case by_simulate_get_pool_info
  with assms(5) show ?thesis by simp
qed (use assms(2) in \<open>auto simp: decoded_as_def dispatch_def builder_defs outcome infos_of_def ro_meta_def rw_meta_def
    opt_meta_def nth_append wallet_must_sign too_few_accounts split: if_splits option.splits\<close>)

section \<open>Properties\<close>

text \<open>
  C38. The builders and the handlers do not fit together: with the accounts a builder lists, in their
  order and with their flags, the program accepts one request only, the query for the pool's data, and
  that changes nothing. All others fail, because the handler wants other accounts, another number of
  them, or its signer at another position. The accounts are all different, the SPL token program's own
  account does not belong to the program, and no data is both a token account and a mint.
\<close>

theorem only_pool_info_runs:
  assumes "client_built env ix i" "distinct (map am_key (in_accounts i))"
    and "acc_owner (accts w (env_spl_token env)) \<noteq> pid"
    and "\<forall>d. env_unpack_token env d = None \<or> env_unpack_mint env d = None"
    and "process_instruction cenv env pid (runtime_infos i) (in_data i) w = Ok w'"
  shows "ix = SimulateInfo \<lparr>sim_param = 0, swap_base_in_value = None, swap_base_out_value = None\<rparr> \<and>
    accts w' = accts w \<and> calls w' = calls w"
proof -
  obtain ix' w1 where u: "unpack cenv (in_data i) = Ok ix'"
    and w1: "dispatch env pid (infos_of i) ix' w = Ok w1" "w' = w1\<lparr>borrowed := []\<rparr>"
    using assms(5) by (auto simp: process_instruction_def runtime_infos_distinct [OF assms(2)] outcome)
  note d = built_decoded [OF assms(1) u]
  have ix: "ix = SimulateInfo \<lparr>sim_param = 0, swap_base_in_value = None, swap_base_out_value = None\<rparr>"
    using dispatched_rejected [OF assms(1) d assms(3,4)] w1 by (fastforce simp: is_ok_iff)
  with w1(1) d have "w1 = w" by (auto simp: decoded_as_def dispatch_def dest: simulate_world)
  with w1 ix show ?thesis by simp
qed

theorem only_pool_info_runs_witness:
  "\<exists>i w'. simulate_get_pool_info demo_env 5 10 3 15 11 12 13 50 52 (Some 14) = Ok i \<and>
     process_instruction \<lparr>ce_meta_size = 35, ce_lossy = id\<rparr> demo_env 5 (runtime_infos i) (in_data i) demo_world = Ok w' \<and>
     accts w' = accts demo_world \<and> calls w' = []"
proof -
  let ?ix = "SimulateInfo \<lparr>sim_param = 0, swap_base_in_value = None, swap_base_out_value = None\<rparr>"
  let ?ce = "\<lparr>ce_meta_size = 35, ce_lossy = id\<rparr>"
  obtain i where i: "simulate_get_pool_info demo_env 5 10 3 15 11 12 13 50 52 (Some 14) = Ok i"
    by (simp add: simulate_get_pool_info_def pack_simulate_def simulate_params_from_u64_def)
  then have b: "client_built demo_env ?ix i" by (rule by_simulate_get_pool_info)
  have can: "canonical ?ce ?ix" by (simp add: canonical_simulate_def)
  have own: "acc_owner (accts demo_world (env_spl_token demo_env)) \<noteq> 5" by (simp add: demo_defs)
  have excl: "\<forall>d. env_unpack_token demo_env d = None \<or> env_unpack_mint demo_env d = None"
    by (auto simp: demo_env_def demo_unpack_token_def demo_unpack_mint_def split: account_data.split list.split)
  have infos: "infos_of i = [ro 10, ro 3, ro 15, ro 11, ro 12, ro 13, ro 50, ro 52, ro 14]"
    and keys: "distinct (map am_key (in_accounts i))"
    using i by (auto simp: simulate_get_pool_info_def outcome infos_of_def ro_meta_def opt_meta_def ro_def)
  have "is_ok (dispatch demo_env 5 (infos_of i) ?ix demo_world)"
    unfolding infos
    by (simp add: dispatch_def process_simulate_info_def simulate_params_from_u64_def simulate_pool_info_def
        next_accounts_def runtime_eval demo_defs into_res_def amm_status_into_u64_def zero_amm_info_def)
  then obtain w1 where "process_instruction ?ce demo_env 5 (runtime_infos i) (in_data i) demo_world = Ok w1"
    unfolding built_served [OF b can] runtime_infos_distinct [OF keys] by (auto simp: is_ok_iff)
  moreover from only_pool_info_runs [OF b keys own excl this]
  have "accts w1 = accts demo_world" "calls w1 = calls demo_world" by blast+
  ultimately show ?thesis using i by (auto simp: demo_world_def)
qed

end
