(* ===== verification/Custody.thy ===== *)
theory Custody
  imports Entry
begin

text \<open>
  What no transaction can do to the program's records. The theory gives the records of a ledger
  (the pools, the target orders, the configuration and the whitelist) as a machine whose steps name
  the signature each change takes, shows that every transaction moves every account of the
  program by one step of it, and follows the pools through any sequence of transactions: the vaults,
  mints, market and nonce of a pool stay what they were, and its owner changes only with the
  owner's signature.
\<close>

section \<open>Pools and their identity\<close>

definition pools :: "pubkey \<Rightarrow> (pubkey \<Rightarrow> account) \<Rightarrow> pubkey \<Rightarrow> amm_info option" where
  "pools pid l k =
     (if acc_owner (l k) = pid then case acc_data (l k) of AmmData a \<Rightarrow> Some a | _ \<Rightarrow> None else None)"

definition identity :: "amm_info \<Rightarrow> pubkey list \<times> u64 list" where
  "identity a =
     ([coin_vault a, pc_vault a, coin_vault_mint a, pc_vault_mint a, lp_mint a, open_orders a, market a, target_orders a],
      [nonce a, sys_decimal_value a, coin_decimals a, pc_decimals a])"

text \<open>
  What the runtime and the token program guarantee: a call to another program changes no
  account of this program (a call back into this program fails, as it cannot decode what the
  calls of the source would send it), and a Token-2022 transfer takes an account of the
  Token-2022 program as its source.
\<close>

definition protects :: "env \<Rightarrow> pubkey \<Rightarrow> bool" where
  "protects env pid \<longleftrightarrow> env_spl_token_2022 env \<noteq> pid \<and>
     (\<forall>c l l' k. env_invoke env c l = Ok l' \<longrightarrow> acc_owner (l k) = pid \<longrightarrow> l' k = l k) \<and>
     (\<forall>c l l' tp s m d a n dec. env_invoke env c l = Ok l' \<longrightarrow>
        cpi_ix c = Spl22TransferChecked tp s m d a n dec \<longrightarrow> acc_owner (l s) = tp)"

text \<open>
  How a pool may change in a transaction signed by \<open>S\<close>; a pool of status 0 (\<open>Uninitialized\<close>)
  not at all, and the status of the others only to an encoded one, or by the owner.
\<close>

definition becomes :: "pubkey set \<Rightarrow> amm_info \<Rightarrow> amm_info \<Rightarrow> bool" where
  "becomes S a b \<longleftrightarrow> identity b = identity a \<and> (amm_owner b = amm_owner a \<or> amm_owner a \<in> S) \<and>
     (status a = 0 \<longrightarrow> b = a) \<and> (status b = status a \<or> status b \<le> 7 \<or> amm_owner a \<in> S)"

lemma becomes_refl [simp]: "becomes S a a"
  by (simp add: becomes_def)

lemma becomes_trans: "becomes S a b \<Longrightarrow> becomes T b c \<Longrightarrow> becomes (S \<union> T) a c"
  by (auto simp: becomes_def)

section \<open>The machine of the records\<close>

text \<open>The target orders without the profit base and the reserves it was taken from.\<close>

definition plan :: "target_orders_data \<Rightarrow> target_orders_data" where
  "plan t = t\<lparr>calc_pnl_x := 0, calc_pnl_y := 0, target_x := 0, target_y := 0\<rparr>"

text \<open>
  One step of the data of an account of the program, in a transaction signed by \<open>S\<close>: nothing, a
  change of a pool that is not uninitialized, a new profit base, a configuration made by a signer or
  changed with the signature of its owner, a new whitelist, or a change of one with the
  signature of its authority.
\<close>

inductive record_step :: "pubkey set \<Rightarrow> account_data \<Rightarrow> account_data \<Rightarrow> bool" for S :: "pubkey set" where
  idle: "record_step S d d"
| pool: "data_len d = amm_info_size \<Longrightarrow> status (amm_view d) \<noteq> 0 \<Longrightarrow> becomes S (amm_view d) a \<Longrightarrow>
    record_step S d (AmmData a)"
| profit: "data_len d = target_orders_size \<Longrightarrow> plan t = plan (target_view d) \<Longrightarrow> record_step S d (TargetData t)"
| config_new: "data_len d = amm_config_size \<Longrightarrow> k \<in> S \<Longrightarrow>
    record_step S d (ConfigData (zero_amm_config\<lparr>pnl_owner := k\<rparr>))"
| config_change: "data_len d = amm_config_size \<Longrightarrow> pnl_owner (config_view d) \<in> S \<Longrightarrow>
    record_step S d (ConfigData ((config_view d)\<lparr>pnl_owner := k, create_pool_fee := f\<rparr>))"
| whitelist_new: "data_len d = 0 \<Longrightarrow> record_step S d (RawData (whitelist_pack (whitelist_new k)))"
| whitelist_change: "whitelist_of_data d = Ok wl \<Longrightarrow> wl_authority wl \<in> S \<Longrightarrow>
    (case u of HookAdd \<Rightarrow> add_hook h wl | HookRemove \<Rightarrow> remove_hook h wl) = Ok wl' \<Longrightarrow>
    record_step S d (RawData (whitelist_pack wl'))"
| whitelist_transfer: "whitelist_of_data d = Ok wl \<Longrightarrow> wl_authority wl \<in> S \<Longrightarrow>
    record_step S d (RawData (whitelist_pack (wl\<lparr>wl_authority := k\<rparr>)))"

inductive_cases record_stepE: "record_step S d d'"

text \<open>Every account of the program makes one step.\<close>

definition evolves :: "pubkey set \<Rightarrow> pubkey \<Rightarrow> (pubkey \<Rightarrow> account) \<Rightarrow> (pubkey \<Rightarrow> account) \<Rightarrow> bool" where
  "evolves S pid l l' \<longleftrightarrow> (\<forall>k. acc_owner (l k) = pid \<longrightarrow>
     acc_owner (l' k) = pid \<and> record_step S (acc_data (l k)) (acc_data (l' k)))"

abbreviation evolving :: "pubkey set \<Rightarrow> pubkey \<Rightarrow> world \<Rightarrow> world \<Rightarrow> bool" where
  "evolving S pid w w' \<equiv> evolves S pid (accts w) (accts w')"

lemma data_lens [simp]: "target_orders_size \<noteq> amm_info_size" "amm_config_size \<noteq> amm_info_size" "0 \<noteq> amm_info_size"
  "amm_info_size \<noteq> target_orders_size" "amm_info_size \<noteq> amm_config_size" "amm_info_size \<noteq> 0"
  by (simp_all add: target_orders_size_def amm_info_size_def amm_config_size_def fees_size_def state_data_size_def
      MAX_ORDER_LIMIT_def)

lemma amm_view_AmmData [simp]: "amm_view (AmmData a) = a"
  by (simp add: amm_view_def)

lemma whitelist_of_AmmData [simp]: "whitelist_of_data (AmmData a) = Err PE_InvalidAccountData"
  by (simp add: whitelist_of_data_def)

lemma record_step_pool: "record_step S (AmmData a) d \<Longrightarrow> \<exists>b. d = AmmData b \<and> becomes S a b"
  by (erule record_stepE) auto

lemma pools_Some: "pools pid l k = Some a \<longleftrightarrow> acc_owner (l k) = pid \<and> acc_data (l k) = AmmData a"
  by (auto simp: pools_def split: account_data.splits)

lemma evolves_pool: "evolves S pid l l' \<Longrightarrow> pools pid l k = Some a \<Longrightarrow> \<exists>b. pools pid l' k = Some b \<and> becomes S a b"
  unfolding evolves_def pools_Some by (metis record_step_pool)

section \<open>Calls change no account of the program\<close>

definition keeps :: "pubkey \<Rightarrow> world \<Rightarrow> world \<Rightarrow> bool" where
  "keeps pid w w' \<longleftrightarrow> (\<forall>k. acc_owner (accts w k) = pid \<longrightarrow> accts w' k = accts w k)"

lemma keeps_refl [simp]: "keeps pid w w"
  by (simp add: keeps_def)

lemma keeps_trans: "keeps pid u v \<Longrightarrow> keeps pid v w \<Longrightarrow> keeps pid u w"
  by (simp add: keeps_def)

lemma accts_hold [simp]: "accts (hold ai w) = accts w"
  by (simp add: hold_def)

lemma keeps_hold [simp]: "keeps pid (hold ai w) w' = keeps pid w w'" "keeps pid w (hold ai w') = keeps pid w w'"
  by (simp_all add: keeps_def)

lemma evolving_keeps: "keeps pid w w' \<Longrightarrow> evolving S pid w w'"
  by (simp add: keeps_def evolves_def record_step.idle)

lemma evolving_set_data:
  "evolving S pid w w1 \<Longrightarrow> record_step S (data_of w ai) d \<Longrightarrow> evolving S pid w (set_data ai d w1)"
  by (auto simp: evolves_def set_data_def data_of_def account_of_def)

lemma keeps_invoke_signed:
  assumes "invoke_signed env i infos seeds w = Ok w'" "protects env pid"
  shows "keeps pid w w'"
proof -
  from assms(1) obtain c where "env_invoke env c (accts w) = Ok (accts w')"
    by (auto simp: invoke_signed_def outcome Let_def split: if_splits)
  then show ?thesis using assms(2) unfolding protects_def keeps_def by blast
qed

lemma keeps_invoke: "invoke env i infos w = Ok w' \<Longrightarrow> protects env pid \<Longrightarrow> keeps pid w w'"
  unfolding invoke_def by (rule keeps_invoke_signed)

text \<open>The execution of a hook marks the source, whoever owns it, and changes no owner.\<close>

definition keeps_but :: "account_info \<Rightarrow> pubkey \<Rightarrow> world \<Rightarrow> world \<Rightarrow> bool" where
  "keeps_but src pid w w' \<longleftrightarrow> (\<forall>k. acc_owner (accts w k) = pid \<longrightarrow>
     acc_owner (accts w' k) = pid \<and> (k = ai_key src \<or> accts w' k = accts w k))"

lemma keeps_but_keeps: "keeps pid w w' \<Longrightarrow> keeps_but src pid w w'"
  by (simp add: keeps_def keeps_but_def)

lemma keeps_but_trans: "keeps_but src pid u v \<Longrightarrow> keeps_but src pid v w \<Longrightarrow> keeps_but src pid u w"
  unfolding keeps_but_def by metis

lemma keeps_but_set_transferring:
  "try_set_transferring env f src w = Ok w' \<Longrightarrow> keeps_but src pid w w'"
  by (auto simp: try_set_transferring_def outcome keeps_but_def set_data_def account_of_def split: option.splits if_splits)

lemma keeps_but_run_hook:
  assumes "run_transfer_hook env hook src mint dst auth n ml extra w = Ok w'" "protects env pid"
  shows "keeps_but src pid w w'"
proof -
  obtain i infos where "rbind (invoke env i infos w) (try_set_transferring env False src) = Ok w'"
    using run_transfer_hook_shape [OF assms(1)] by blast
  then obtain v where v: "invoke env i infos w = Ok v" "try_set_transferring env False src v = Ok w'"
    by (auto simp: outcome)
  from keeps_but_keeps [OF keeps_invoke [OF v(1) assms(2)]] keeps_but_set_transferring [OF v(2)]
  show ?thesis by (rule keeps_but_trans)
qed

lemma keeps_but_hook:
  assumes "execute_transfer_hook env pid' src mint dst auth n rem w = Ok w'" "protects env pid"
  shows "keeps_but src pid w w'"
proof (cases "env_mint_hook env (data_of w mint)")
  case None
  then show ?thesis using assms(1) keeps_but_keeps [OF keeps_refl]
    by (auto simp: execute_transfer_hook_def get_transfer_hook_program_id_def borrow_data_def outcome split: if_splits)
next
  case (Some h)
  then obtain v where v: "try_set_transferring env True src w = Ok v"
      "run_transfer_hook env h src mint dst auth n (rem ! 1) (drop 2 rem) v = Ok w'"
    using assms(1)
    by (auto simp: execute_transfer_hook_def get_transfer_hook_program_id_def borrow_data_def outcome split: if_splits)
  from keeps_but_set_transferring [OF v(1)] keeps_but_run_hook [OF v(2) assms(2)] show ?thesis by (rule keeps_but_trans)
qed

text \<open>
  As the transfer after the hook fails on a source of another program, a transfer that succeeds has
  not marked an account of this program.
\<close>

lemma keeps_transfer_signed:
  assumes "token_transfer_signed env pid' tp src dst auth seeds n mint rem w = Ok w'" "protects env pid"
  shows "keeps pid w w'"
proof (cases "ai_key tp = env_spl_token_2022 env")
  case True
  then obtain v dec where h: "execute_transfer_hook env pid' src mint dst auth n rem w = Ok v"
    and i: "invoke_signed env (Spl22TransferChecked (ai_key tp) (ai_key src) (ai_key mint) (ai_key dst) (ai_key auth) n dec)
      [src, mint, dst, auth, tp] seeds v = Ok w'"
    using assms(1) by (auto simp: token_transfer_signed_def outcome)
  note b = keeps_but_hook [OF h assms(2)]
  from i obtain c where "env_invoke env c (accts v) = Ok (accts w')"
      "cpi_ix c = Spl22TransferChecked (ai_key tp) (ai_key src) (ai_key mint) (ai_key dst) (ai_key auth) n dec"
    by (auto simp: invoke_signed_def outcome Let_def split: if_splits)
  then have "acc_owner (accts v (ai_key src)) \<noteq> pid" using assms(2) True unfolding protects_def by metis
  with b have "keeps pid w v" by (auto simp: keeps_but_def keeps_def)
  from this keeps_invoke_signed [OF i assms(2)] show ?thesis by (rule keeps_trans)
next
  case False
  then show ?thesis using assms(1) keeps_invoke_signed [OF _ assms(2)] by (auto simp: token_transfer_signed_def)
qed

lemma keeps_transfers:
  assumes "protects env pid"
  shows "token_transfer env pid' tp src dst auth n mint rem w = Ok w' \<Longrightarrow> keeps pid w w'"
    and "token_transfer_with_authority env pid' tp src dst auth s k n mint rem w = Ok w' \<Longrightarrow> keeps pid w w'"
    and "token_mint_to env tp m dst auth s k n w = Ok w' \<Longrightarrow> keeps pid w w'"
    and "invoke_dex_settle_funds env dp mkt oo ow cv pv cw pw vs tp r s k w = Ok w' \<Longrightarrow> keeps pid w w'"
  using keeps_transfer_signed [OF _ assms] keeps_invoke_signed [OF _ assms]
  by (auto simp: token_transfer_def token_transfer_with_authority_def token_mint_to_def invoke_dex_settle_funds_def)

lemma keeps_cancel_groups:
  assumes "protects env pid"
  shows "cancel_groups env ma n groups w = Ok w' \<Longrightarrow> keeps pid w w'"
proof (induction groups arbitrary: w)
  case (Cons g gs)
  then obtain v where v: "invoke_dex_cancel_orders_by_client_order_ids env (ma_program ma) (ma_market ma)
       (ma_bids ma) (ma_asks ma) (ma_open_orders ma) (ma_authority ma) (ma_event_q ma)
       AUTHORITY_AMM n g w = Ok v" "cancel_groups env ma n gs v = Ok w'"
    by (auto simp: cancel_groups_def outcome)
  from v(1) have "keeps pid w v" using keeps_invoke_signed [OF _ assms]
    by (auto simp: invoke_dex_cancel_orders_by_client_order_ids_def Let_def)
  from this Cons.IH [OF v(2)] show ?case by (rule keeps_trans)
qed (simp add: cancel_groups_def)

lemma keeps_cancel_orders:
  "cancel_orders env ma n orders w = Ok w' \<Longrightarrow> protects env pid \<Longrightarrow> keeps pid w w'"
  using keeps_cancel_groups by (auto simp: cancel_orders_def outcome split: if_splits)

section \<open>Storing a record\<close>

text \<open>A handler stores the pool it loaded, changed, after calls that keep every account.\<close>

definition loadable :: "world \<Rightarrow> account_info \<Rightarrow> bool" where
  "loadable w ai \<longleftrightarrow> data_len (data_of w ai) = amm_info_size \<and> status (amm_view (data_of w ai)) \<noteq> 0"

lemma amm_load_loadable: "amm_load_mut_checked env pid ai w = Ok (amm, w') \<Longrightarrow>
    loadable w ai \<and> amm = amm_view (data_of w ai) \<and> w' = hold ai w"
  by (auto simp: amm_load_mut_Ok loadable_def)

lemma evolving_store_amm:
  "keeps pid w w1 \<Longrightarrow> becomes S (amm_view (data_of w ai)) amm \<Longrightarrow> loadable w ai \<Longrightarrow>
    evolving S pid w (store_amm ai amm w1)"
  unfolding store_amm_def loadable_def
  by (intro evolving_set_data evolving_keeps record_step.pool) simp_all

definition same_pool :: "amm_info \<Rightarrow> amm_info \<Rightarrow> bool" where
  "same_pool b a \<longleftrightarrow> identity b = identity a \<and> amm_owner b = amm_owner a \<and> (status b = status a \<or> status b \<le> 7)"

lemma same_pool_refl [simp]: "same_pool a a"
  by (simp add: same_pool_def)

lemma same_pool_update [simp]:
  "same_pool (b\<lparr>amm_state_data := sd\<rparr>) a = same_pool b a" "same_pool (b\<lparr>recent_epoch := e\<rparr>) a = same_pool b a"
  "same_pool (b\<lparr>lp_amount := l\<rparr>) a = same_pool b a"
  "same_pool (b\<lparr>market_program := mp\<rparr>) a = same_pool b a"
  by (simp_all add: same_pool_def identity_def)

lemma evolving_store:
  "keeps pid w w1 \<Longrightarrow> same_pool amm (amm_view (data_of w ai)) \<Longrightarrow> loadable w ai \<Longrightarrow>
    evolving S pid w (store_amm ai amm w1)"
  by (rule evolving_store_amm) (auto simp: same_pool_def becomes_def loadable_def)

lemma evolving_store_target:
  "evolving S pid w w1 \<Longrightarrow> data_len (data_of w ai) = target_orders_size \<Longrightarrow>
    plan t = plan (target_view (data_of w ai)) \<Longrightarrow>
    evolving S pid w (store_target ai t w1)"
  unfolding store_target_def by (auto intro: evolving_set_data record_step.profit)

lemma data_of_hold [simp]: "data_of (hold ai w) bi = data_of w bi"
  by (simp add: data_of_def account_of_def)

section \<open>The handlers\<close>

subsection \<open>Swaps\<close>

lemma keeps_swap_steps:
  assumes "protects env pid"
  shows "swap_free_funds env c orders ns mcv w = Ok w' \<Longrightarrow> keeps pid w w'"
    and "swap_deposit env pid' c v m n w = Ok w' \<Longrightarrow> keeps pid w w'"
    and "swap_withdraw env pid' c v m n w = Ok w' \<Longrightarrow> keeps pid w w'"
proof -
  assume "swap_free_funds env c orders ns mcv w = Ok w'"
  then show "keeps pid w w'"
    by (auto simp: swap_free_funds_def Let_def outcome split: if_splits
        dest!: keeps_transfers(4) [OF assms] keeps_cancel_orders [OF _ assms] intro: keeps_trans)
qed (use keeps_transfers [OF assms] in \<open>auto simp: swap_deposit_def swap_withdraw_def Let_def\<close>)

lemma keeps_swap_run:
  assumes "protects env pid"
    and "rbind (swap_free_funds env c orders ns mcv w) (\<lambda>w.
      rbind (swap_deposit env pid' c v m n w) (\<lambda>w. rbind (swap_withdraw env pid' c v' m' n' w) f)) = Ok r"
  shows "\<exists>w'. keeps pid w w' \<and> f w' = Ok r"
proof -
  from assms(2) obtain w1 w2 w3 where s: "swap_free_funds env c orders ns mcv w = Ok w1"
      "swap_deposit env pid' c v m n w1 = Ok w2" "swap_withdraw env pid' c v' m' n' w2 = Ok w3" "f w3 = Ok r"
    by (auto simp: outcome)
  have "keeps pid w w3"
    using keeps_trans [OF keeps_trans [OF keeps_swap_steps(1) [OF assms(1) s(1)] keeps_swap_steps(2) [OF assms(1) s(2)]]
      keeps_swap_steps(3) [OF assms(1) s(3)]] .
  with s(4) show ?thesis by blast
qed

lemma keeps_swap_legs:
  assumes "protects env pid"
  shows "swap_base_in_coin2pc env pid' c a out fee w = Ok (amm, w') \<Longrightarrow> keeps pid w w' \<and> same_pool amm (sc_amm c)"
    and "swap_base_in_pc2coin env pid' c a out fee w = Ok (amm, w') \<Longrightarrow> keeps pid w w' \<and> same_pool amm (sc_amm c)"
    and "swap_base_out_coin2pc env pid' c a out f w = Ok (amm, w') \<Longrightarrow> keeps pid w w' \<and> same_pool amm (sc_amm c)"
    and "swap_base_out_pc2coin env pid' c a out f w = Ok (amm, w') \<Longrightarrow> keeps pid w w' \<and> same_pool amm (sc_amm c)"
  by (auto simp: swap_base_in_coin2pc_def swap_base_in_pc2coin_def swap_base_out_coin2pc_def swap_base_out_pc2coin_def
      Let_def if_Err_Ok_iff dest!: keeps_swap_run [OF assms])
    (auto simp: outcome)

lemma swap_status_same: "swap_status env a = Ok b \<Longrightarrow> same_pool b a"
  by (auto simp: swap_status_def outcome same_pool_def identity_def split: if_splits)

lemma swap_prepare_pool:
  assumes "swap_prepare env pid accs w = Ok (c, w1)"
  shows "accts w1 = accts w \<and> same_pool (sc_amm c) (amm_view (data_of w (sa_amm (sc_accounts c)))) \<and>
    loadable w (sa_amm (sc_accounts c))"
proof -
  let ?a = "amm_view (data_of w (sa_amm (sc_accounts c)))"
  from assms have "loadable w (sa_amm (sc_accounts c))"
    by (auto simp: swap_prepare_def Let_def outcome amm_load_mut_Ok loadable_def split: if_splits prod.splits)
  moreover
  have "swap_status env ?a = Ok (sc_amm c)" using swap_prepare_Ok [OF assms] by blast
  then have "same_pool (sc_amm c) ?a" by (rule swap_status_same)
  ultimately show ?thesis using swap_prepare_Ok [OF assms] by simp
qed

lemma evolving_swap_in:
  assumes "process_swap_base_in env pid accs s w = Ok w'" "protects env pid"
  shows "evolving S pid w w'"
proof -
  from assms(1) obtain c w1 a fee out amm w2 clk where p: "swap_prepare env pid accs w = Ok (c, w1)"
    and r: "(case sc_direction c of Coin2PC \<Rightarrow> swap_base_in_coin2pc env pid c a out fee w1
       | PC2Coin \<Rightarrow> swap_base_in_pc2coin env pid c a out fee w1) = Ok (amm, w2)"
    and w': "env_clock env = Ok clk" "w' = store_amm (sa_amm (sc_accounts c)) (amm\<lparr>recent_epoch := clock_epoch clk\<rparr>) w2"
    by (auto simp: process_swap_base_in_def outcome split: if_splits prod.splits)
  have "keeps pid w1 w2 \<and> same_pool amm (sc_amm c)" using r keeps_swap_legs [OF assms(2)] by (cases "sc_direction c") auto
  with swap_prepare_pool [OF p] have "keeps pid w w2"
      "same_pool (amm\<lparr>recent_epoch := clock_epoch clk\<rparr>) (amm_view (data_of w (sa_amm (sc_accounts c))))"
      "loadable w (sa_amm (sc_accounts c))"
    by (auto simp: keeps_def same_pool_def identity_def)
  then show ?thesis unfolding w'(2) by (rule evolving_store)
qed

lemma evolving_swap_out:
  assumes "process_swap_base_out env pid accs s w = Ok w'" "protects env pid"
  shows "evolving S pid w w'"
proof -
  from assms(1) obtain c w1 a fee out amm w2 clk where p: "swap_prepare env pid accs w = Ok (c, w1)"
    and r: "(case sc_direction c of Coin2PC \<Rightarrow> swap_base_out_coin2pc env pid c a out fee w1
       | PC2Coin \<Rightarrow> swap_base_out_pc2coin env pid c a out fee w1) = Ok (amm, w2)"
    and w': "env_clock env = Ok clk" "w' = store_amm (sa_amm (sc_accounts c)) (amm\<lparr>recent_epoch := clock_epoch clk\<rparr>) w2"
    by (auto simp: process_swap_base_out_def outcome split: if_splits prod.splits)
  have "keeps pid w1 w2 \<and> same_pool amm (sc_amm c)" using r keeps_swap_legs [OF assms(2)] by (cases "sc_direction c") auto
  with swap_prepare_pool [OF p] have "keeps pid w w2"
      "same_pool (amm\<lparr>recent_epoch := clock_epoch clk\<rparr>) (amm_view (data_of w (sa_amm (sc_accounts c))))"
      "loadable w (sa_amm (sc_accounts c))"
    by (auto simp: keeps_def same_pool_def identity_def)
  then show ?thesis unfolding w'(2) by (rule evolving_store)
qed

subsection \<open>Liquidity and profit\<close>

lemma keeps_deposit_move:
  assumes "deposit_move env pid' c pc coin lp w = Ok w'" "protects env pid"
  shows "keeps pid w w'"
  using assms(1) by (auto simp: deposit_move_def Let_def outcome dest!: keeps_transfers [OF assms(2)] intro: keeps_trans)

lemma evolving_deposit:
  assumes "process_deposit env pid accs d w = Ok w'" "protects env pid"
  shows "evolving S pid w w'"
proof -
  from assms(1) obtain c w1 pc coin lp w2 amm target clk where p: "deposit_prepare env pid accs d w = Ok (c, w1)"
    and m: "deposit_move env pid c pc coin lp w1 = Ok w2" and u: "deposit_update c pc coin lp = Ok (amm, target)"
    and w': "env_clock env = Ok clk" "w' = store_target (da_target_orders (dc_accounts c)) target
        (store_amm (da_amm (dc_accounts c)) (amm\<lparr>recent_epoch := clock_epoch clk\<rparr>) w2)"
    by (auto simp: process_deposit_def outcome split: if_splits prod.splits)
  let ?view = "amm_view (data_of w (da_amm (dc_accounts c)))"
  from p have a: "accts w1 = accts w" "data_len (data_of w (da_target_orders (dc_accounts c))) = target_orders_size"
      "loadable w (da_amm (dc_accounts c))"
    by (auto simp: deposit_prepare_def calc_take_pnl_def Let_def outcome amm_load_mut_Ok target_load_mut_Ok loadable_def
        split: if_splits)
  have q: "same_pool (dc_amm c) ?view" "dc_target c = target_view (data_of w (da_target_orders (dc_accounts c)))"
    using deposit_prepare_Ok [OF p] by (auto simp: calc_take_pnl_eq)
  from u have t: "plan target = plan (dc_target c)"
    by (auto simp: deposit_update_def Let_def outcome plan_def)
  from q(1) have "same_pool (amm\<lparr>recent_epoch := clock_epoch clk\<rparr>) ?view" using u by (auto simp: deposit_update_def Let_def outcome)
  moreover have "keeps pid w w2" using keeps_deposit_move [OF m assms(2)] a(1) by (simp add: keeps_def)
  ultimately show ?thesis unfolding w'(2) using a(2,3) t q(2) by (intro evolving_store_target evolving_store) auto
qed

lemma keeps_pnl_pay:
  "pnl_pay env pid' pa amm v d n w = Ok w' \<Longrightarrow> protects env pid \<Longrightarrow> keeps pid w w'"
  by (auto simp: pnl_pay_def dest: keeps_transfers split: if_splits)

lemma evolving_withdrawpnl:
  assumes "process_withdrawpnl env pid accs w = Ok w'" "protects env pid"
  shows "evolving S pid w w'"
proof -
  from assms(1) obtain pa amm w1 w2 n m sd where l: "amm_load_mut_checked env pid (pa_amm pa) w = Ok (amm, hold (pa_amm pa) w)"
    and p: "pnl_pay env pid pa amm (pa_coin_vault pa) (pa_dest_coin pa) n (hold (pa_amm pa) w) = Ok w1"
      "pnl_pay env pid pa amm (pa_pc_vault pa) (pa_dest_pc pa) m w1 = Ok w2"
    and w': "w' = store_amm (pa_amm pa) (amm\<lparr>amm_state_data := sd\<rparr>) w2"
    by (auto simp: process_withdrawpnl_def Let_def outcome amm_load_mut_Ok split: if_splits)
  have "keeps pid (hold (pa_amm pa) w) w2"
    using keeps_trans [OF keeps_pnl_pay [OF p(1) assms(2)] keeps_pnl_pay [OF p(2) assms(2)]] .
  then have "keeps pid w w2" by simp
  then show ?thesis unfolding w' using amm_load_loadable [OF l] by (intro evolving_store) auto
qed

lemma evolving_withdraw_srm:
  assumes "process_withdraw_srm env pid accs n w = Ok w'" "protects env pid"
  shows "evolving S pid w w'"
proof (rule evolving_keeps)
  show "keeps pid w w'" using assms(1)
    by (auto simp: process_withdraw_srm_def Let_def outcome amm_load_mut_Ok
        dest!: keeps_transfers(2) [OF assms(2)] split: if_splits)
qed

subsection \<open>Orders\<close>

lemma keeps_cancel_all:
  assumes "cancel_all_and_settle env ma tp n bids asks w = Ok w'" "protects env pid"
  shows "keeps pid w w'"
  using assms(1) by (auto simp: cancel_all_and_settle_def outcome
      dest!: keeps_transfers(4) [OF assms(2)] keeps_cancel_orders [OF _ assms(2)] intro: keeps_trans)

lemma keeps_cancel_both:
  assumes "cancel_amm_orders_and_settle env ma cv pv tp r bids asks n w = Ok w'" "protects env pid"
  shows "keeps pid w w'"
  using assms(1) by (auto simp: cancel_amm_orders_and_settle_def outcome
      dest!: keeps_transfers(4) [OF assms(2)] keeps_cancel_groups [OF assms(2)] intro: keeps_trans)

lemma evolving_admin:
  assumes "process_admin_cancel_orders env pid accs n w = Ok w'" "protects env pid"
  shows "evolving S pid w w'"
proof (rule evolving_keeps)
  from assms(1) obtain ha ma tp k bids asks where "cancel_all_and_settle env ma tp k bids asks (hold ha w) = Ok w'"
    by (auto simp: process_admin_cancel_orders_def Let_def outcome amm_load_mut_Ok split: if_splits prod.splits)
  from keeps_cancel_all [OF this assms(2)] show "keeps pid w w'" by simp
qed

lemma evolving_migrate:
  assumes "process_migrate_to_openbook env pid accs w = Ok w'" "protects env pid"
  shows "evolving S pid w w'"
proof -
  from assms(1) obtain ai ma tp k bids asks w1 where c: "cancel_all_and_settle env ma tp k bids asks (hold ai w) = Ok w1"
    and w': "w' = store_amm ai ((amm_view (data_of w ai))\<lparr>market_program := migration_program_id\<rparr>) w1"
      "loadable w ai"
    by (auto simp: process_migrate_to_openbook_def Let_def outcome amm_load_mut_Ok loadable_def split: if_splits prod.splits)
  have "keeps pid w w1" using keeps_cancel_all [OF c assms(2)] by simp
  then show ?thesis unfolding w'(1) using w'(2) by (intro evolving_store) auto
qed

lemma evolving_monitor:
  assumes "process_monitor_step env pid accs m w = Ok w'" "protects env pid"
  shows "evolving S pid w w'"
proof -
  from assms(1) obtain mo t amm target bids asks tpc tcoin w2 where
      t: "data_len (data_of w (mo_target_orders mo)) = target_orders_size" "loadable w (mo_amm mo)"
      "t = target_view (data_of w (mo_target_orders mo))"
    and k: "amm = fst (monitor_take_pnl t (amm_view (data_of w (mo_amm mo))) tpc tcoin)"
      "target = snd (monitor_take_pnl t (amm_view (data_of w (mo_amm mo))) tpc tcoin)"
    and c: "monitor_cancel env mo bids asks (ucast (nonce amm)) (hold (mo_target_orders mo) (hold (mo_amm mo) w)) = Ok w2"
    and w': "w' = store_target (mo_target_orders mo) target (store_amm (mo_amm mo) amm w2)"
    by (auto simp: process_monitor_step_def Let_def outcome amm_load_mut_Ok target_load_mut_Ok loadable_def split_beta
        split: if_splits)
  have "keeps pid w w2"
    using c by (auto simp: monitor_cancel_def split: if_splits dest!: keeps_cancel_both [OF _ assms(2)])
  moreover have "same_pool amm (amm_view (data_of w (mo_amm mo)))"
    by (simp add: k monitor_take_pnl_def calc_take_pnl_def Let_def)
  moreover have "plan target = plan t"
    by (simp add: k monitor_take_pnl_def calc_take_pnl_def update_target_orders_pnl_def plan_def Let_def)
  ultimately show ?thesis unfolding w' using t by (auto intro!: evolving_store_target evolving_store)
qed

subsection \<open>Parameters, configuration and whitelist\<close>

text \<open>Who signed, of the first accounts.\<close>

definition signers :: "account_info list \<Rightarrow> pubkey set" where
  "signers accs = ai_key ` set (filter ai_is_signer accs)"

lemma signer_among: "i < length accs \<Longrightarrow> ai_is_signer (accs ! i) \<Longrightarrow> ai_key (accs ! i) \<in> signers accs"
  by (auto simp: signers_def)

lemma evolving_set_params:
  assumes "process_set_params env pid accs s w = Ok w'"
  shows "evolving (signers accs) pid w w'"
proof -
  let ?a = "amm_view (data_of w (accs ! 0))"
  have n: "2 < length accs" "loadable w (accs ! 0)" using assms
    by (auto simp: process_set_params_def next_accounts_def outcome Let_def amm_load_mut_Ok loadable_def split: if_splits)
  have s: "amm_owner ?a \<in> signers accs" using set_params_Ok [OF assms] signer_among [OF n(1)] by auto
  obtain p where w': "w' = store_amm (accs ! 0) (apply_param p s ?a) (hold (accs ! 0) w)"
    using set_params_Ok [OF assms] by blast
  have "identity (apply_param p s ?a) = identity ?a"
    by (auto simp: apply_param_def set_value_def identity_def split: amm_params.split option.split)
  then show ?thesis unfolding w' using s n(2)
    by (intro evolving_store_amm) (auto simp: becomes_def loadable_def)
qed

lemma evolving_create_config:
  assumes "process_create_config env pid accs w = Ok w'"
  shows "evolving (signers accs) pid w w'"
proof -
  from assms have c: "3 < length accs" "ai_is_signer (accs ! 1)" "data_len (data_of w (accs ! 0)) = amm_config_size"
      "w' = store_config (accs ! 0) (zero_amm_config\<lparr>pnl_owner := ai_key (accs ! 1)\<rparr>) w"
    by (auto simp: process_create_config_def next_accounts_def Let_def outcome try_borrow_data_def split: if_splits)
  show ?thesis using signer_among [of 1 accs] c(1-3)
    unfolding c(4) store_config_def
    by (intro evolving_set_data evolving_keeps record_step.config_new) simp_all
qed

lemma config_updated: "(let c = (case ko of Some k \<Rightarrow> c\<lparr>pnl_owner := k\<rparr> | None \<Rightarrow> c) in
    case fo of Some f \<Rightarrow> c\<lparr>create_pool_fee := f\<rparr> | None \<Rightarrow> c) =
   c\<lparr>pnl_owner := (case ko of Some k \<Rightarrow> k | None \<Rightarrow> pnl_owner c),
     create_pool_fee := (case fo of Some f \<Rightarrow> f | None \<Rightarrow> create_pool_fee c)\<rparr>"
  by (cases c; cases ko; cases fo) simp_all

lemma evolving_update_config:
  assumes "process_update_config env pid accs args w = Ok w'"
  shows "evolving (signers accs) pid w w'"
proof -
  from assms obtain a where a: "next_accounts 2 accs = Ok a"
    and c: "ai_is_signer (a ! 1)" "data_len (data_of w (a ! 0)) = amm_config_size"
      "ai_key (a ! 1) = pnl_owner (config_view (data_of w (a ! 0)))"
    and w': "w' = store_config (a ! 0) (let c = (case ca_owner args of
          Some k \<Rightarrow> (config_view (data_of w (a ! 0)))\<lparr>pnl_owner := k\<rparr> | None \<Rightarrow> config_view (data_of w (a ! 0))) in
        case ca_create_pool_fee args of Some f \<Rightarrow> c\<lparr>create_pool_fee := f\<rparr> | None \<Rightarrow> c) (hold (a ! 0) w)"
    by (auto simp: process_update_config_def Let_def outcome config_load_mut_Ok split: if_splits)
  from a have n: "1 < length accs" "a ! 1 = accs ! 1" by (auto simp: next_accounts_def split: if_splits)
  have "pnl_owner (config_view (data_of w (a ! 0))) \<in> signers accs"
    using signer_among [OF n(1)] c(1,3) n(2) by simp
  then show ?thesis unfolding w' config_updated store_config_def using c(2)
    by (intro evolving_set_data evolving_keeps record_step.config_change) simp_all
qed

lemma copy_into_shape: "copy_into ai bs w = Ok w' \<Longrightarrow> w' = set_data ai (RawData bs) w"
  by (auto simp: copy_into_def outcome split: if_splits)

lemma load_whitelist_signed:
  assumes "load_whitelist_for env pid (accs ! 0) (accs ! 1) w = Ok wl" "1 < length accs"
  shows "whitelist_of_data (data_of w (accs ! 0)) = Ok wl \<and> wl_authority wl \<in> signers accs"
  using assms(1) signer_among [OF assms(2)]
  by (auto simp: load_whitelist_for_def outcome try_borrow_data_def split: if_splits)

lemma evolving_update_whitelist:
  assumes "process_update_hook_whitelist env pid accs u w = Ok w'"
  shows "evolving (signers accs) pid w w'"
proof -
  let ?do = "\<lambda>wl. case uw_action u of HookAdd \<Rightarrow> add_hook (uw_hook_program_id u) wl | HookRemove \<Rightarrow> remove_hook (uw_hook_program_id u) wl"
  from assms obtain wl wl' where n: "1 < length accs" and l: "load_whitelist_for env pid (accs ! 0) (accs ! 1) w = Ok wl"
    and d: "?do wl = Ok wl'" and c: "copy_into (accs ! 0) (whitelist_pack wl') w = Ok w'"
    by (auto simp: process_update_hook_whitelist_def next_accounts_def outcome split: if_splits)
  show ?thesis unfolding copy_into_shape [OF c]
    using load_whitelist_signed [OF l n] d
    by (intro evolving_set_data evolving_keeps record_step.whitelist_change) auto
qed

lemma evolving_update_authority:
  assumes "process_update_whitelist_authority env pid accs k w = Ok w'"
  shows "evolving (signers accs) pid w w'"
proof -
  from assms obtain wl where n: "1 < length accs" and l: "load_whitelist_for env pid (accs ! 0) (accs ! 1) w = Ok wl"
    and c: "copy_into (accs ! 0) (whitelist_pack (wl\<lparr>wl_authority := k\<rparr>)) w = Ok w'"
    by (auto simp: process_update_whitelist_authority_def next_accounts_def outcome split: if_splits)
  show ?thesis unfolding copy_into_shape [OF c]
    using load_whitelist_signed [OF l n]
    by (intro evolving_set_data evolving_keeps record_step.whitelist_transfer) auto
qed

lemma evolving_initialize_whitelist:
  assumes "process_initialize_hook_whitelist env pid accs au w = Ok w'" "protects env pid"
  shows "evolving S pid w w'"
proof -
  from assms(1) obtain ai i infos seeds w1 where z: "data_len (data_of w ai) = 0"
    and c: "invoke_signed env i infos seeds w = Ok w1" and w': "copy_into ai (whitelist_pack (whitelist_new au)) w1 = Ok w'"
    by (auto simp: process_initialize_hook_whitelist_def Let_def outcome data_is_empty_def borrow_data_def split: if_splits)
  show ?thesis unfolding copy_into_shape [OF w'] using keeps_invoke_signed [OF c assms(2)] z
    by (intro evolving_set_data evolving_keeps record_step.whitelist_new) auto
qed

lemma keeps_mint_extensions:
  assumes "init_mint_extensions env m a t i w = Ok w'" "protects env pid"
  shows "keeps pid w w'"
  using assms(1) by (auto simp: init_mint_extensions_def outcome dest!: keeps_invoke [OF _ assms(2)]
      intro: keeps_trans split: if_splits option.splits)

lemma evolving_token2022:
  assumes "protects env pid"
  shows "process_create_token2022_mint env pid accs i w = Ok w' \<Longrightarrow> evolving S pid w w'"
    and "process_initialize_extra_account_meta_list env pid accs ms w = Ok w' \<Longrightarrow> evolving S pid w w'"
proof -
  assume "process_create_token2022_mint env pid accs i w = Ok w'"
  then obtain w1 w2 w3 where "keeps pid w w1" "keeps pid w1 w2" "keeps pid w2 w3" "keeps pid w3 w'"
    by (auto simp: process_create_token2022_mint_def Let_def outcome split: if_splits
        dest!: keeps_invoke [OF _ assms] keeps_mint_extensions [OF _ assms])
  then show "evolving S pid w w'" by (metis keeps_trans evolving_keeps)
next
  assume "process_initialize_extra_account_meta_list env pid accs ms w = Ok w'"
  then obtain w1 where "keeps pid w w1" "keeps pid w1 w'"
    by (auto simp: process_initialize_extra_account_meta_list_def Let_def outcome split: if_splits
        dest!: keeps_invoke [OF _ assms])
  then show "evolving S pid w w'" by (metis keeps_trans evolving_keeps)
qed

section \<open>Transactions\<close>

lemma evolving_dispatch:
  assumes "dispatch env pid accs i w = Ok w'" "protects env pid"
  shows "evolving (signers accs) pid w w'"
proof (cases i)
  case (Withdraw d)
  then show ?thesis using assms(1) by (auto simp: dispatch_def withdraw_accounts_short split: if_splits)
qed (use assms in \<open>auto simp: dispatch_def process_initialize2_fails
      dest!: simulate_world intro: evolving_swap_in evolving_swap_out evolving_deposit evolving_withdrawpnl
        evolving_withdraw_srm evolving_admin evolving_migrate evolving_monitor evolving_set_params
        evolving_create_config evolving_update_config evolving_update_whitelist evolving_update_authority
        evolving_initialize_whitelist evolving_token2022 evolving_keeps\<close>)

lemma evolving_instruction:
  "process_instruction cenv env pid accs input w = Ok w' \<Longrightarrow> protects env pid \<Longrightarrow>
    evolving (signers accs) pid w w'"
  by (auto simp: process_instruction_def outcome dest: evolving_dispatch)

text \<open>
  A ledger after a sequence of successful transactions, each on fresh borrows and labelled with the
  keys that signed it.
\<close>

definition transact ::
  "codec_env \<Rightarrow> env \<Rightarrow> pubkey \<Rightarrow> account_info list \<Rightarrow> bytes \<Rightarrow> (pubkey \<Rightarrow> account) \<Rightarrow> (pubkey \<Rightarrow> account) res" where
  "transact cenv env pid accs input l =
     rbind (process_instruction cenv env pid accs input \<lparr>accts = l, borrowed = [], calls = []\<rparr>) (\<lambda>w. Ok (accts w))"

inductive history ::
  "codec_env \<Rightarrow> env \<Rightarrow> pubkey \<Rightarrow> (pubkey \<Rightarrow> account) \<Rightarrow> pubkey set list \<Rightarrow> (pubkey \<Rightarrow> account) \<Rightarrow> bool"
  for cenv :: codec_env and env :: env and pid :: pubkey where
  start: "history cenv env pid l [] l"
| transaction: "history cenv env pid l ss l1 \<Longrightarrow> transact cenv env pid accs input l1 = Ok l2 \<Longrightarrow>
    history cenv env pid l (ss @ [signers accs]) l2"

lemma transact_evolves:
  "transact cenv env pid accs input l = Ok l' \<Longrightarrow> protects env pid \<Longrightarrow> evolves (signers accs) pid l l'"
  by (auto simp: transact_def outcome dest!: evolving_instruction)

lemma history_pool:
  "history cenv env pid l ss l' \<Longrightarrow> protects env pid \<Longrightarrow> pools pid l k = Some a \<Longrightarrow>
    \<exists>b. pools pid l' k = Some b \<and> becomes (\<Union> (set ss)) a b"
proof (induction rule: history.induct)
  case (transaction l ss l1 accs input l2)
  then obtain b where b: "pools pid l1 k = Some b" "becomes (\<Union> (set ss)) a b" by blast
  with evolves_pool [OF transact_evolves [OF transaction.hyps(2) transaction.prems(1)]]
  obtain c where c: "pools pid l2 k = Some c" "becomes (signers accs) b c" by blast
  from c(1) becomes_trans [OF b(2) c(2)] show ?case by (simp add: Un_commute)
qed (simp add: becomes_def)

text \<open>
  C1. Every transaction is a step of the machine of records: whatever the accounts and the input,
  if the program succeeds then every account it owned it still owns, and the data of each made one
  step of the machine with the signatures of the transaction. So a pool changes within what its
  record allows and never out of status 0, a configuration is changed with the signature of its
  owner, the target orders only in the profit base, and a whitelist with the signature of its
  authority; an account of any other size does not change at all.
\<close>

theorem transaction_steps_records:
  assumes "transact cenv env pid accs input l = Ok l'" "protects env pid" "acc_owner (l k) = pid"
  shows "acc_owner (l' k) = pid \<and> record_step (signers accs) (acc_data (l k)) (acc_data (l' k))"
  using transact_evolves [OF assms(1,2)] assms(3) unfolding evolves_def by blast

text \<open>
  C2. Over any sequence of transactions a pool stays the pool it is: its vaults, mints, LP mint,
  open orders, market, target orders, nonce, decimals and price unit never change, and its owner
  changes only if the owner signed one of the transactions.
\<close>

theorem pool_custody_invariant:
  assumes "history cenv env pid l ss l'" "protects env pid" "pools pid l k = Some a"
  shows "\<exists>b. pools pid l' k = Some b \<and> identity b = identity a \<and>
    (amm_owner b = amm_owner a \<or> (\<exists>S. S \<in> set ss \<and> amm_owner a \<in> S))"
  using history_pool [OF assms(1-3)] unfolding becomes_def by blast

text \<open>
  C24. The stored status stays of its type: a pool whose status encodes an \<^verbatim>\<open>AmmStatus\<close> has such a
  status after any sequence of transactions its owner does not sign, so that no handler panics
  when it decodes it.
\<close>

theorem pool_status_typed:
  assumes "history cenv env pid l ss l'" "protects env pid" "pools pid l k = Some a"
    and "status a \<le> 7" "amm_owner a \<notin> \<Union> (set ss)"
  shows "\<exists>b. pools pid l' k = Some b \<and> (\<exists>st. amm_status_from_u64 (status b) = (Ok st :: amm_status res))"
proof -
  obtain b where b: "pools pid l' k = Some b" "becomes (\<Union> (set ss)) a b"
    using history_pool [OF assms(1-3)] by blast
  from b(2) assms(4,5) have "status b \<le> 7" unfolding becomes_def by metis
  then have "\<exists>st. amm_status_from_u64 (status b) = (Ok st :: amm_status res)"
    by (auto simp: u64_le_7 amm_status_from_u64_def)
  with b(1) show ?thesis by blast
qed

text \<open>
  C23. The owner can freeze a pool for good: after it has set the status to 0, no sequence of
  transactions changes the pool's record in any way, neither one signed by the owner nor one that
  would set another status.
\<close>

theorem status_zero_freezes:
  assumes "process_set_params env pid accs s w = Ok w'" "sp_param s = 0" "sp_value s = Some 0"
    and "pools pid (accts w) (ai_key (accs ! 0)) = Some a"
    and "history cenv env pid (accts w') ss l" "protects env pid"
  shows "pools pid l (ai_key (accs ! 0)) = Some (a\<lparr>status := 0\<rparr>)"
proof -
  have "amm_view (data_of w (accs ! 0)) = a" using assms(4) by (simp add: pools_Some data_of_def account_of_def)
  moreover have "(amm_params_from_u64 0 :: amm_params res) = Ok PStatus" by (simp add: amm_params_from_u64_def)
  ultimately have w': "w' = store_amm (accs ! 0) (a\<lparr>status := 0\<rparr>) (hold (accs ! 0) w)"
    using set_params_Ok [OF assms(1)] assms(2,3) by (auto simp: apply_param_def set_value_def)
  have "owner_of w (accs ! 0) = pid" using set_params_Ok [OF assms(1)] by blast
  then have "pools pid (accts w') (ai_key (accs ! 0)) = Some (a\<lparr>status := 0\<rparr>)"
    by (simp add: w' pools_Some store_amm_def set_data_def owner_of_def account_of_def)
  from history_pool [OF assms(5,6) this] show ?thesis by (auto simp: becomes_def)
qed

text \<open>The example: a swap on the pool 10, signed by 23.\<close>

definition demo_codec :: codec_env where
  "demo_codec = \<lparr>ce_meta_size = 35, ce_lossy = id\<rparr>"

definition demo_swap_input :: bytes where
  "demo_swap_input = [9, 100, 0, 0, 0, 0, 0, 0, 0, 124, 1, 0, 0, 0, 0, 0, 0]"

lemma demo_swap_decodes:
  "unpack demo_codec demo_swap_input = Ok (SwapBaseIn \<lparr>amount_in = 100, minimum_amount_out = 380\<rparr>)"
  by (simp add: unpack_def demo_swap_input_def unpack_swap_in_def unpack_u64_def from_le_bytes_def)

lemma demo_protected: "protects demo_env 5"
proof -
  have "l' k = l k" if "demo_invoke c l = Ok l'" "acc_owner (l k) = 5" for c l l' k
    using that by (auto simp: demo_invoke_def demo_transfer_def demo_set_amount_def Let_def
        split: ix.splits if_splits account_data.splits)
  moreover have "acc_owner (l s) = tp" if "demo_invoke c l = Ok l'" "cpi_ix c = Spl22TransferChecked tp s m d a n dec"
    for c l l' tp s m d a n dec
    using that by (simp add: demo_invoke_def split: if_splits)
  ultimately show ?thesis by (simp add: protects_def demo_env_def)
qed

lemma demo_swap_transacts:
  "\<exists>l. transact demo_codec demo_env 5 (demo_swap 20 21) demo_swap_input (accts demo_world) = Ok l"
proof -
  have "\<lparr>accts = accts demo_world, borrowed = [], calls = []\<rparr> = demo_world" by (simp add: demo_world_def)
  then show ?thesis using demo_base_in_runs
    by (auto simp: transact_def process_instruction_def demo_swap_decodes dispatch_def)
qed

theorem pool_custody_invariant_witness:
  "\<exists>l b. history demo_codec demo_env 5 (accts demo_world) [{23}] l \<and> pools 5 l 10 = Some b \<and>
     identity b = identity demo_amm"
proof -
  have "signers (demo_swap 20 21) = {23}"
    by (simp add: signers_def demo_swap_def rw_def ro_def signer_def)
  then obtain l where h: "history demo_codec demo_env 5 (accts demo_world) [{23}] l"
    using history.transaction [OF history.start] demo_swap_transacts by (metis append_Nil)
  have "pools 5 (accts demo_world) 10 = Some demo_amm"
    by (simp add: pools_def demo_world_def)
  from pool_custody_invariant [OF h demo_protected this] h show ?thesis by blast
qed

definition demo_freeze :: set_params_instruction where
  "demo_freeze = \<lparr>sp_param = 0, sp_value = Some 0, sp_new_pubkey = None, sp_fees = None, sp_last_order_distance = None\<rparr>"

theorem status_zero_freezes_witness:
  "\<exists>w'. process_set_params demo_env 5 [rw 10, ro 3, signer 23] demo_freeze demo_world = Ok w' \<and>
     pools 5 (accts w') 10 = Some (demo_amm\<lparr>status := 0\<rparr>)"
proof -
  have "\<exists>w'. process_set_params demo_env 5 [rw 10, ro 3, signer 23] demo_freeze demo_world = Ok w'"
    by (simp add: process_set_params_def next_accounts_def demo_freeze_def amm_params_from_u64_def
        runtime_eval demo_defs pool_eval amm_status_into_u64_def)
  then obtain w' where w: "process_set_params demo_env 5 [rw 10, ro 3, signer 23] demo_freeze demo_world = Ok w'" by blast
  have "pools 5 (accts demo_world) (ai_key ([rw 10, ro 3, signer 23] ! 0)) = Some demo_amm"
    by (simp add: pools_def demo_world_def rw_def)
  from status_zero_freezes [OF w _ _ this history.start demo_protected] w show ?thesis
    by (auto simp: demo_freeze_def rw_def)
qed

text \<open>A call signed by a stranger: the whitelist of hooks is created by 99 at an address that signs.\<close>

definition demo_stranger_input :: bytes where
  "demo_stranger_input = 19 # replicate 32 7"

lemma demo_stranger_transacts:
  "\<exists>l. transact demo_codec demo_env 5 [signer 40, signer 99, ro 0] demo_stranger_input (accts demo_world) = Ok l"
proof -
  have w: "\<lparr>accts = accts demo_world, borrowed = [], calls = []\<rparr> = demo_world" by (simp add: demo_world_def)
  have "\<exists>w'. process_initialize_hook_whitelist demo_env 5 [signer 40, signer 99, ro 0] a demo_world = Ok w'" for a
    using length_whitelist_pack [OF wl_inv_new [of a]]
    by (simp add: process_initialize_hook_whitelist_def next_accounts_def Let_def find_whitelist_pda_def data_is_empty_def
        borrow_data_def is_borrowed_def invoke_signed_def copy_into_def try_borrow_data_def data_of_def account_of_def
        demo_env_def demo_world_def demo_invoke_def signer_def ro_def)
  moreover obtain k where "unpack demo_codec demo_stranger_input = Ok (InitializeHookWhitelist k)"
    by (simp add: demo_stranger_input_def unpack_def unpack_address_def array_ref_def)
  moreover from calculation obtain w' where
      "process_initialize_hook_whitelist demo_env 5 [signer 40, signer 99, ro 0] k demo_world = Ok w'" by blast
  ultimately show ?thesis by (simp add: w transact_def process_instruction_def dispatch_def)
qed

theorem pool_status_typed_witness:
  "\<exists>l b. history demo_codec demo_env 5 (accts demo_world) [{40, 99}] l \<and> pools 5 l 10 = Some b \<and>
     (\<exists>st. amm_status_from_u64 (status b) = (Ok st :: amm_status res))"
proof -
  have "signers [signer 40, signer 99, ro 0] = {40, 99}"
    by (simp add: signers_def ro_def signer_def)
  then obtain l where h: "history demo_codec demo_env 5 (accts demo_world) [{40, 99}] l"
    using history.transaction [OF history.start] demo_stranger_transacts by (metis append_Nil)
  have "pools 5 (accts demo_world) 10 = Some demo_amm" "status demo_amm \<le> 7" "amm_owner demo_amm \<notin> \<Union> (set [{40, 99}])"
    by (simp_all add: pools_def demo_world_def demo_amm_def)
  from pool_status_typed [OF h demo_protected this] h show ?thesis by blast
qed

theorem transaction_steps_records_witness:
  "\<exists>l. transact demo_codec demo_env 5 (demo_swap 20 21) demo_swap_input (accts demo_world) = Ok l \<and>
     record_step {23} (AmmData demo_amm) (acc_data (l 10))"
proof -
  obtain l where t: "transact demo_codec demo_env 5 (demo_swap 20 21) demo_swap_input (accts demo_world) = Ok l"
    using demo_swap_transacts by blast
  have "signers (demo_swap 20 21) = {23}"
    by (simp add: signers_def demo_swap_def rw_def ro_def signer_def)
  moreover have "acc_owner (accts demo_world 10) = 5" "acc_data (accts demo_world 10) = AmmData demo_amm"
    by (simp_all add: demo_world_def)
  ultimately show ?thesis using transaction_steps_records [OF t demo_protected] t by metis
qed

end
