(* ===== verification/Governance.thy ===== *)
theory Governance
  imports Custody
begin

text \<open>
  The whitelist of transfer hooks over the life of the ledger: the machine of records, restricted to
  the account that stores a whitelist, refines the abstract whitelist, so that its content is a
  history of steps each signed by the authority of the moment; and the gate of the transfers
  lets through only what such a history has listed.
\<close>

section \<open>Whitelists of a ledger\<close>

definition holds_whitelist :: "pubkey \<Rightarrow> (pubkey \<Rightarrow> account) \<Rightarrow> pubkey \<Rightarrow> hook_whitelist \<Rightarrow> bool" where
  "holds_whitelist pid l k wl \<longleftrightarrow>
     acc_owner (l k) = pid \<and> acc_data (l k) = RawData (whitelist_pack wl) \<and> wl_inv wl"

lemma whitelist_sizes [simp]:
  "HOOK_WHITELIST_LEN \<noteq> amm_info_size" "HOOK_WHITELIST_LEN \<noteq> target_orders_size"
  "HOOK_WHITELIST_LEN \<noteq> amm_config_size" "HOOK_WHITELIST_LEN \<noteq> 0"
  by (simp_all add: HOOK_WHITELIST_LEN_def MAX_HOOKS_def target_orders_size_def amm_info_size_def amm_config_size_def
      fees_size_def state_data_size_def MAX_ORDER_LIMIT_def)

lemma set_authority_inv: "wl_inv wl \<Longrightarrow> wl_inv (wl\<lparr>wl_authority := k\<rparr>)"
  by (simp add: wl_inv_def active_def)

lemma set_authority_step: "wl_step (wl_authority wl) (wl_abs wl) (wl_abs (wl\<lparr>wl_authority := k\<rparr>))"
  using wl_step.transfer [of "wl_authority wl" "wl_set wl" k] by (simp add: wl_abs_def wl_set_def active_def)

lemma whitelist_of_packed: "wl_inv wl \<Longrightarrow> whitelist_of_data (RawData (whitelist_pack wl)) = Ok wl' \<Longrightarrow> wl' = wl"
  by (simp add: whitelist_of_data_def whitelist_unpack_packed)

text \<open>A step of the machine of records on a whitelist is none, or a step of the abstract one.\<close>

lemma record_step_whitelist:
  assumes "record_step S (RawData (whitelist_pack wl)) d" "wl_inv wl"
  shows "\<exists>wl'. d = RawData (whitelist_pack wl') \<and> wl_inv wl' \<and>
    (wl' = wl \<or> wl_authority wl \<in> S \<and> wl_step (wl_authority wl) (wl_abs wl) (wl_abs wl'))"
  using assms(1)
proof (cases rule: record_step.cases)
  case idle
  then show ?thesis using assms(2) by auto
next
  case (whitelist_change wl0 u h wl')
  then have "wl0 = wl" using whitelist_of_packed [OF assms(2)] by simp
  with whitelist_change change_hook_Ok [OF assms(2)] show ?thesis by auto
next
  case (whitelist_transfer wl0 k)
  then have "wl0 = wl" using whitelist_of_packed [OF assms(2)] by simp
  with whitelist_transfer set_authority_inv [OF assms(2)] set_authority_step show ?thesis by auto
qed (use length_whitelist_pack [OF assms(2)] in simp_all)

lemma transact_whitelist:
  assumes "transact cenv env pid accs input l = Ok l'" "protects env pid" "holds_whitelist pid l k wl"
  shows "\<exists>wl'. holds_whitelist pid l' k wl' \<and>
    (wl' = wl \<or> wl_authority wl \<in> signers accs \<and> wl_step (wl_authority wl) (wl_abs wl) (wl_abs wl'))"
  using transact_evolves [OF assms(1,2)] assms(3) record_step_whitelist
  unfolding evolves_def holds_whitelist_def by metis

text \<open>Steps taken one per transaction at most, each by a signer of its transaction.\<close>

inductive signed_in :: "pubkey list \<Rightarrow> pubkey set list \<Rightarrow> bool" where
  none: "signed_in [] []"
| skip: "signed_in ks ss \<Longrightarrow> signed_in ks (ss @ [S])"
| sign: "signed_in ks ss \<Longrightarrow> k \<in> S \<Longrightarrow> signed_in (ks @ [k]) (ss @ [S])"

lemma signed_in_set: "signed_in ks ss \<Longrightarrow> set ks \<subseteq> \<Union> (set ss)"
  by (induction rule: signed_in.induct) auto

lemma history_whitelist:
  "history cenv env pid l ss l' \<Longrightarrow> protects env pid \<Longrightarrow> holds_whitelist pid l k wl \<Longrightarrow>
    \<exists>wl' ks. holds_whitelist pid l' k wl' \<and> wl_history (wl_abs wl) ks (wl_abs wl') \<and> signed_in ks ss"
proof (induction rule: history.induct)
  case (start l)
  then show ?case by (intro exI [of _ wl] exI [of _ "[]"]) (simp add: wl_history.start signed_in.none)
next
  case (transaction l ss l1 accs input l2)
  then obtain wl1 ks where h: "holds_whitelist pid l1 k wl1" "wl_history (wl_abs wl) ks (wl_abs wl1)" "signed_in ks ss"
    by blast
  from transact_whitelist [OF transaction.hyps(2) transaction.prems(1) h(1)]
  obtain wl2 where t: "holds_whitelist pid l2 k wl2" "wl2 = wl1 \<or> wl_authority wl1 \<in> signers accs \<and>
      wl_step (wl_authority wl1) (wl_abs wl1) (wl_abs wl2)" by blast
  from t(2) show ?case
  proof
    assume "wl2 = wl1"
    then show ?thesis using t(1) h signed_in.skip by blast
  next
    assume "wl_authority wl1 \<in> signers accs \<and> wl_step (wl_authority wl1) (wl_abs wl1) (wl_abs wl2)"
    then show ?thesis using t(1) wl_history.more [OF h(2)] signed_in.sign [OF h(3)] by blast
  qed
qed

lemma history_unsigned_whitelist:
  assumes "history cenv env pid l ss l'" "protects env pid" "holds_whitelist pid l k wl"
    and "wl_authority wl \<notin> \<Union> (set ss)"
  shows "\<exists>wl'. holds_whitelist pid l' k wl' \<and> wl_abs wl' = wl_abs wl"
proof -
  from history_whitelist [OF assms(1-3)] obtain wl' ks where
    "holds_whitelist pid l' k wl'" "wl_history (wl_abs wl) ks (wl_abs wl')" "signed_in ks ss" by blast
  moreover from this assms(4) have "fst (wl_abs wl) \<notin> set ks" using signed_in_set by (fastforce simp: wl_abs_def)
  ultimately show ?thesis using wl_history_needs_authority by blast
qed

section \<open>What governs the hooks\<close>

text \<open>
  C15. The whitelist is governed. However many transactions are made, by whomever, an account that
  holds a well-formed whitelist still holds one, and it is the result of a history of the abstract
  whitelist: at most one step per transaction (a new hook below the bound, a member removed, or the
  authority replaced), each in a transaction that the authority of that moment signed. In
  particular no deposit, swap, order handler, hook or re-initialisation changes it.
\<close>

theorem whitelist_governed:
  assumes "history cenv env pid l ss l'" "protects env pid" "holds_whitelist pid l k wl"
  shows "\<exists>wl' ks. holds_whitelist pid l' k wl' \<and> wl_history (wl_abs wl) ks (wl_abs wl') \<and> signed_in ks ss"
  using assms by (rule history_whitelist)

text \<open>
  C16. A hook that is not listed stays out. If the authority signs none of a sequence of
  transactions, then in every state after it the execution of a transfer hook fails for each mint
  whose hook was not in the whitelist before, whatever accounts are passed along and whatever the
  other transactions did.
\<close>

theorem unlisted_hook_stays_blocked:
  assumes "history cenv env pid l ss (accts w)" "protects env pid"
    and "holds_whitelist pid l (fst (find_whitelist_pda env pid)) wl" "wl_authority wl \<notin> \<Union> (set ss)"
    and "env_mint_hook env (data_of w mint) = Some h" "h \<notin> wl_set wl"
  shows "\<not> is_ok (execute_transfer_hook env pid source mint destination authority amount remaining w)"
proof
  assume "is_ok (execute_transfer_hook env pid source mint destination authority amount remaining w)"
  then obtain w' where "execute_transfer_hook env pid source mint destination authority amount remaining w = Ok w'"
    by (auto simp: is_ok_iff)
  from execute_transfer_hook_Ok [OF this assms(5)] have g: "is_hook_whitelisted env pid (remaining ! 0) h w = Ok True"
    by blast
  obtain wl' where wl': "holds_whitelist pid (accts w) (fst (find_whitelist_pda env pid)) wl'" "wl_abs wl' = wl_abs wl"
    using history_unsigned_whitelist [OF assms(1-4)] by blast
  then have "stores env pid w wl'" by (simp add: holds_whitelist_def stores_def)
  from whitelisted_stored [OF this g] wl'(2) assms(6) show False by (simp add: wl_abs_def)
qed

section \<open>Examples\<close>

text \<open>The whitelist at 40 of the authority 23, which lists the hook 99.\<close>

lemma demo_listing_transacts:
  "\<exists>input l. transact demo_codec demo_env 5 (whitelist_accounts demo_env 5 23) input (accts demo_whitelist_world) = Ok l"
proof -
  let ?u = "\<lparr>uw_hook_program_id = 99, uw_action = HookAdd\<rparr>"
  have w: "\<lparr>accts = accts demo_whitelist_world, borrowed = [], calls = []\<rparr> = demo_whitelist_world"
    by (simp add: demo_whitelist_world_def demo_world_def)
  have a: "wl_authority (whitelist_new 23) = 23" "99 \<notin> wl_set (whitelist_new 23)" "card (wl_set (whitelist_new 23)) < MAX_HOOKS"
    by (simp_all add: whitelist_new_def wl_set_def active_def MAX_HOOKS_def)
  then obtain wl' where "add_hook 99 (whitelist_new 23) = Ok wl'" "wl_inv wl'"
    using wl.ins_new [OF wl_inv_new, of 99 23] by blast
  then obtain w' where u: "process_update_hook_whitelist demo_env 5 (whitelist_accounts demo_env 5 23) ?u
      demo_whitelist_world = Ok w'"
    using update_runs [OF demo_stores _ demo_whitelist_free, where a = HookAdd and h = 99 and wl' = wl'] a(1) by auto
  obtain input where "unpack demo_codec input = Ok (UpdateHookWhitelist ?u)"
    using instruction_unpack_pack [of demo_codec "UpdateHookWhitelist ?u"] by auto
  then have "transact demo_codec demo_env 5 (whitelist_accounts demo_env 5 23) input (accts demo_whitelist_world) = Ok (accts w')"
    using u by (simp add: w transact_def process_instruction_def dispatch_def)
  then show ?thesis by blast
qed

lemma demo_whitelist_signers: "signers (whitelist_accounts demo_env 5 23) = {23}"
  by (simp add: signers_def whitelist_accounts_def rw_def signer_def)

lemma demo_holds: "holds_whitelist 5 (accts demo_whitelist_world) 40 (whitelist_new 23)"
  by (simp add: holds_whitelist_def demo_whitelist_world_def wl_inv_new)

theorem whitelist_governed_witness:
  "\<exists>l wl' ks. history demo_codec demo_env 5 (accts demo_whitelist_world) [{23}] l \<and>
     holds_whitelist 5 l 40 wl' \<and> wl_history (23, {}) ks (wl_abs wl') \<and> set ks \<subseteq> {23}"
proof -
  obtain l where h: "history demo_codec demo_env 5 (accts demo_whitelist_world) [{23}] l"
    using demo_listing_transacts history.transaction [OF history.start] demo_whitelist_signers by (metis append_Nil)
  have "wl_abs (whitelist_new 23) = (23, {})" by (simp add: wl_abs_def whitelist_new_def wl_set_def active_def)
  with whitelist_governed [OF h demo_protected demo_holds] h show ?thesis using signed_in_set by fastforce
qed

text \<open>
  The mint 30 with the hook 99, an empty whitelist of the authority 77, and a pool whose owner 23 has
  changed its status.
\<close>

lemma demo_hook_protected: "protects demo_hook_env 5"
  using demo_protected by (simp add: protects_def demo_hook_env_def demo_env_def)

definition demo_status :: set_params_instruction where
  "demo_status = \<lparr>sp_param = 0, sp_value = Some 5, sp_new_pubkey = None, sp_fees = None, sp_last_order_distance = None\<rparr>"

lemma demo_status_transacts:
  "\<exists>input l. transact demo_codec demo_hook_env 5 [rw 10, ro 3, signer 23] input (accts (demo_hook_world (whitelist_new 77))) = Ok l"
proof -
  have w: "\<lparr>accts = accts (demo_hook_world (whitelist_new 77)), borrowed = [], calls = []\<rparr> = demo_hook_world (whitelist_new 77)"
    by (simp add: demo_hook_world_def demo_world_def)
  have "\<exists>w'. process_set_params demo_hook_env 5 [rw 10, ro 3, signer 23] demo_status (demo_hook_world (whitelist_new 77)) = Ok w'"
    by (simp add: process_set_params_def next_accounts_def demo_status_def amm_params_from_u64_def demo_hook_env_def
        demo_hook_world_def runtime_eval demo_defs pool_eval amm_status_into_u64_def)
  then obtain w' where "process_set_params demo_hook_env 5 [rw 10, ro 3, signer 23] demo_status (demo_hook_world (whitelist_new 77)) = Ok w'"
    by blast
  moreover obtain input where "unpack demo_codec input = Ok (SetParams demo_status)"
    using instruction_unpack_pack [of demo_codec "SetParams demo_status"]
    by (auto simp: canonical_set_params_def demo_status_def)
  ultimately have "transact demo_codec demo_hook_env 5 [rw 10, ro 3, signer 23] input (accts (demo_hook_world (whitelist_new 77))) =
      Ok (accts w')"
    by (simp add: w transact_def process_instruction_def dispatch_def)
  then show ?thesis by blast
qed

theorem unlisted_hook_stays_blocked_witness:
  "\<exists>w. history demo_codec demo_hook_env 5 (accts (demo_hook_world (whitelist_new 77))) [{23}] (accts w) \<and>
     \<not> is_ok (execute_transfer_hook demo_hook_env 5 (rw 20) (ro 30) (rw 11) (ro 23) 100 [ro 40, ro 41] w)"
proof -
  have "signers [rw 10, ro 3, signer 23] = {23}" by (simp add: signers_def rw_def ro_def signer_def)
  then obtain l where h: "history demo_codec demo_hook_env 5 (accts (demo_hook_world (whitelist_new 77))) [{23}] l"
    using demo_status_transacts history.transaction [OF history.start] by (metis append_Nil)
  let ?w = "\<lparr>accts = l, borrowed = [], calls = []\<rparr>"
  have "history demo_codec demo_hook_env 5 (accts (demo_hook_world (whitelist_new 77))) [{23}] (accts ?w)" using h by simp
  moreover have "holds_whitelist 5 (accts (demo_hook_world (whitelist_new 77)))
      (fst (find_whitelist_pda demo_hook_env 5)) (whitelist_new 77)"
    by (simp add: holds_whitelist_def demo_hook_pda demo_hook_world_def wl_inv_new)
  moreover have "wl_authority (whitelist_new 77) \<notin> \<Union> (set [{23}])" "99 \<notin> wl_set (whitelist_new 77)"
    by (simp_all add: whitelist_new_def wl_set_def active_def)
  moreover have "env_mint_hook demo_hook_env (data_of ?w (ro 30)) = Some 99" by (simp add: demo_hook_env_def)
  ultimately show ?thesis using unlisted_hook_stays_blocked [OF _ demo_hook_protected] by blast
qed

end
