(* ===== verification/Cli.thy ===== *)
theory Cli
  imports Builders Governance
begin

text \<open>
  The command-line client (\<^verbatim>\<open>cli/src/main.rs\<close>): each command builds a transaction and sends it. The
  node, the wallet files, the token addresses, the SDK's signing of transactions and the builders
  of instructions for other programs come from outside and are the record \<open>client\<close>; the keypairs a
  command generates are its fields too. A command gives the transaction it has sent. Messages
  are not modelled. Composed with the program it shows which commands can work.
\<close>

section \<open>The client's environment\<close>

text \<open>Text is a list of code points; a keypair is its public key.\<close>

type_synonym chars = "nat list"

datatype client_ix =
    Own instruction
      \<comment> \<open>for this program or a hook, written out by the client\<close>
  | Lib ix
      \<comment> \<open>a builder of another crate\<close>

record transaction =
  tx_payer :: pubkey
  tx_instructions :: "client_ix list"
  tx_signers :: "pubkey list"

record pool_keys =
  pk_amm_pool :: pubkey
  pk_amm_authority :: pubkey
  pk_open_orders :: pubkey
  pk_target_orders :: pubkey
  pk_coin_vault :: pubkey
  pk_pc_vault :: pubkey
  pk_lp_mint :: pubkey
  pk_pool_withdraw_queue :: pubkey
  pk_lp_withdraw_queue :: pubkey

datatype cli_error = BadKeypair | BadAddress | NodeError | BuildError

type_synonym 'a cli = "(cli_error, 'a) outcome"

record client =
  \<comment> \<open>the node\<close>
  cl_balance :: "pubkey \<Rightarrow> u64 option"
  cl_airdrop :: "pubkey \<Rightarrow> u64 \<Rightarrow> unit option"
  cl_confirm :: "unit option"
  cl_rent :: "nat \<Rightarrow> unit option"
  cl_blockhash :: "unit option"
  cl_account :: "pubkey \<Rightarrow> account option"
  cl_send :: "transaction \<Rightarrow> unit option"
  \<comment> \<open>files and text\<close>
  cl_tilde :: "chars \<Rightarrow> chars"
  cl_read_file :: "chars \<Rightarrow> chars option"
  cl_json_array :: "chars \<Rightarrow> bytes option"
  cl_json_object :: "chars \<Rightarrow> bytes option"
  cl_bs58 :: "chars \<Rightarrow> bytes option"
  cl_keypair :: "bytes \<Rightarrow> pubkey option"
  cl_address :: "chars \<Rightarrow> pubkey option"
  \<comment> \<open>the SDK and the token libraries\<close>
  cl_sign :: "pubkey set \<Rightarrow> pubkey list \<Rightarrow> bool"
  cl_ix_signers :: "ix \<Rightarrow> pubkey set"
  cl_ix_ok :: "ix \<Rightarrow> bool"
  cl_ata :: "pubkey \<Rightarrow> pubkey \<Rightarrow> pubkey \<Rightarrow> pubkey"
  cl_ata_program :: pubkey
  cl_mint_decimals :: "account_data \<Rightarrow> u8 option"
  cl_seeds_meta :: "bytes list \<Rightarrow> bool \<Rightarrow> bool \<Rightarrow> extra_meta option"
  \<comment> \<open>the keypairs a command generates\<close>
  cl_pool_keys :: pool_keys
  cl_new_mint :: pubkey

definition signer_metas :: "instruction \<Rightarrow> pubkey set" where
  "signer_metas i = am_key ` set (filter am_is_signer (in_accounts i))"

definition required_signers :: "client \<Rightarrow> pubkey \<Rightarrow> client_ix list \<Rightarrow> pubkey set" where
  "required_signers cl payer ixs =
     insert payer (\<Union>i\<in>set ixs. case i of Own j \<Rightarrow> signer_metas j | Lib j \<Rightarrow> cl_ix_signers cl j)"

text \<open>
  \<^verbatim>\<open>get_latest_blockhash()?\<close>, \<^verbatim>\<open>Transaction::new_signed_with_payer\<close> or \<^verbatim>\<open>sign\<close>, which panic when the
  keypairs are not the signers the message requires, and \<^verbatim>\<open>send_and_confirm_transaction\<close>.
\<close>

definition sign_transaction :: "client \<Rightarrow> client_ix list \<Rightarrow> pubkey \<Rightarrow> pubkey list \<Rightarrow> transaction cli" where
  "sign_transaction cl ixs payer keypairs =
     rbind (ok_or NodeError (cl_blockhash cl)) (\<lambda>_.
       if cl_sign cl (required_signers cl payer ixs) keypairs
       then Ok \<lparr>tx_payer = payer, tx_instructions = ixs, tx_signers = keypairs\<rparr> else Panic)"

definition send_transaction :: "client \<Rightarrow> client_ix list \<Rightarrow> pubkey \<Rightarrow> pubkey list \<Rightarrow> transaction cli" where
  "send_transaction cl ixs payer keypairs =
     rbind (sign_transaction cl ixs payer keypairs) (\<lambda>tx.
     rbind (ok_or NodeError (cl_send cl tx)) (\<lambda>_. Ok tx))"

definition from_str :: "client \<Rightarrow> chars \<Rightarrow> pubkey cli" where
  "from_str cl s = ok_or BadAddress (cl_address cl s)"

definition lib_ix :: "client \<Rightarrow> ix \<Rightarrow> client_ix cli" where
  "lib_ix cl i = (if cl_ix_ok cl i then Ok (Lib i) else Err BuildError)"

section \<open>Instructions the client writes out\<close>

definition packed :: "pubkey \<Rightarrow> account_meta list \<Rightarrow> amm_instruction \<Rightarrow> instruction cli" where
  "packed program_id metas ix =
     rbind (map_err (\<lambda>_. BuildError) (pack ix)) (\<lambda>data.
     Ok \<lparr>in_program = program_id, in_accounts = metas, in_data = data\<rparr>)"

definition create_initialize_extra_account_meta_list_instruction ::
  "env \<Rightarrow> pubkey \<Rightarrow> pubkey \<Rightarrow> pubkey \<Rightarrow> pubkey \<Rightarrow> extra_meta list \<Rightarrow> instruction cli" where
  "create_initialize_extra_account_meta_list_instruction env program_id meta_list_pda mint authority metas =
     packed program_id
       [rw_meta meta_list_pda False, ro_meta mint False, ro_meta authority True, ro_meta (env_system_program env) False]
       (InitializeExtraAccountMetaList metas)"

text \<open>The next two are for a hook program, with tags of its own.\<close>

definition create_initialize_hook_whitelist_instruction ::
  "env \<Rightarrow> pubkey \<Rightarrow> pubkey \<Rightarrow> pubkey \<Rightarrow> instruction" where
  "create_initialize_hook_whitelist_instruction env program_id authority whitelist_pda =
     \<lparr>in_program = program_id,
      in_accounts = [rw_meta whitelist_pda False, ro_meta authority True, ro_meta (env_system_program env) False],
      in_data = 0 # pubkey_bytes authority\<rparr>"

definition create_update_hook_whitelist_instruction ::
  "pubkey \<Rightarrow> pubkey \<Rightarrow> pubkey \<Rightarrow> pubkey \<Rightarrow> bool \<Rightarrow> instruction" where
  "create_update_hook_whitelist_instruction program_id authority whitelist_pda user add =
     \<lparr>in_program = program_id, in_accounts = [rw_meta whitelist_pda False, ro_meta authority True],
      in_data = (if add then 1 else 2) # pubkey_bytes user\<rparr>"

definition create_initialize_whitelist_instruction ::
  "env \<Rightarrow> pubkey \<Rightarrow> pubkey \<Rightarrow> pubkey \<Rightarrow> instruction cli" where
  "create_initialize_whitelist_instruction env program_id authority whitelist_pda =
     packed program_id
       [rw_meta whitelist_pda False, ro_meta authority True, ro_meta (env_system_program env) False]
       (InitializeHookWhitelist authority)"

definition create_update_whitelist_instruction ::
  "pubkey \<Rightarrow> pubkey \<Rightarrow> pubkey \<Rightarrow> pubkey \<Rightarrow> bool \<Rightarrow> instruction cli" where
  "create_update_whitelist_instruction program_id authority whitelist_pda hook_program_id add =
     packed program_id [rw_meta whitelist_pda False, ro_meta authority True]
       (UpdateHookWhitelist \<lparr>uw_hook_program_id = hook_program_id, uw_action = (if add then HookAdd else HookRemove)\<rparr>)"

section \<open>The commands\<close>

text \<open>The size the client gives the pool's account, and that of the whitelist's.\<close>

definition amm_account_size :: nat where "amm_account_size = 752"

definition whitelist_size :: nat where "whitelist_size = 32 + 4 + 32 * 32"

definition init_amm_pool ::
  "env \<Rightarrow> client \<Rightarrow> chars \<Rightarrow> chars \<Rightarrow> chars \<Rightarrow> u64 \<Rightarrow> u64 \<Rightarrow> u8 \<Rightarrow> u64 \<Rightarrow> pubkey \<Rightarrow> transaction cli" where
  "init_amm_pool env cl amm_program_id coin_mint pc_mint init_coin_amount init_pc_amount nonce' open_time payer =
     (let k = cl_pool_keys cl; spl = env_spl_token env in
      rbind (from_str cl amm_program_id) (\<lambda>program.
      rbind (from_str cl coin_mint) (\<lambda>coin.
      rbind (from_str cl pc_mint) (\<lambda>pc.
      rbind (ok_or NodeError (cl_balance cl payer)) (\<lambda>balance.
      rbind (if balance < 2000000000 then
               rbind (ok_or NodeError (cl_airdrop cl payer 2000000000)) (\<lambda>_. ok_or NodeError (cl_confirm cl))
             else Ok ()) (\<lambda>_.
      rbind (ok_or NodeError (cl_rent cl amm_account_size)) (\<lambda>_.
      rbind (map_err (\<lambda>_. BuildError)
        (initialize2 env (cl_ata_program cl) program (pk_amm_pool k) (pk_amm_authority k) (pk_open_orders k)
           (pk_lp_mint k) coin pc (cl_ata cl (pk_coin_vault k) coin spl) (cl_ata cl (pk_pc_vault k) pc spl)
           (pk_target_orders k) default_pubkey default_pubkey default_pubkey default_pubkey payer
           (cl_ata cl payer coin spl) (cl_ata cl payer pc spl) (cl_ata cl payer (pk_lp_mint k) spl)
           nonce' open_time init_pc_amount init_coin_amount)) (\<lambda>init.
      send_transaction cl
        [Lib (AtaCreate payer payer coin spl), Lib (AtaCreate payer payer pc spl),
         Lib (AtaCreate payer payer (pk_lp_mint k) spl),
         Lib (SysCreateAccount payer (pk_amm_pool k) amm_account_size program), Own init]
        payer
        [payer, pk_amm_pool k, pk_amm_authority k, pk_open_orders k, pk_target_orders k, pk_coin_vault k,
         pk_pc_vault k, pk_lp_mint k, pk_pool_withdraw_queue k, pk_lp_withdraw_queue k]))))))))"

definition init_whitelist :: "env \<Rightarrow> client \<Rightarrow> chars \<Rightarrow> pubkey \<Rightarrow> transaction cli" where
  "init_whitelist env cl amm_program_id payer =
     rbind (from_str cl amm_program_id) (\<lambda>program.
     let whitelist_pda = fst (env_find_pda env [ascii ''hook_whitelist''] program) in
     rbind (ok_or NodeError (cl_rent cl whitelist_size)) (\<lambda>_.
     rbind (create_initialize_whitelist_instruction env program payer whitelist_pda) (\<lambda>init.
     send_transaction cl [Lib (SysCreateAccount payer whitelist_pda whitelist_size program), Own init]
       payer [payer])))"

definition add_hook_to_whitelist :: "env \<Rightarrow> client \<Rightarrow> chars \<Rightarrow> chars \<Rightarrow> pubkey \<Rightarrow> transaction cli" where
  "add_hook_to_whitelist env cl amm_program_id hook_program_id payer =
     rbind (from_str cl amm_program_id) (\<lambda>program.
     rbind (from_str cl hook_program_id) (\<lambda>hook.
     let whitelist_pda = fst (env_find_pda env [ascii ''hook_whitelist''] program) in
     rbind (create_update_whitelist_instruction program payer whitelist_pda hook True) (\<lambda>i.
     send_transaction cl [Own i] payer [payer])))"

definition remove_hook_from_whitelist :: "env \<Rightarrow> client \<Rightarrow> chars \<Rightarrow> chars \<Rightarrow> pubkey \<Rightarrow> transaction cli" where
  "remove_hook_from_whitelist env cl amm_program_id hook_program_id payer =
     rbind (from_str cl amm_program_id) (\<lambda>program.
     rbind (from_str cl hook_program_id) (\<lambda>hook.
     let whitelist_pda = fst (env_find_pda env [ascii ''hook_whitelist''] program) in
     rbind (create_update_whitelist_instruction program payer whitelist_pda hook False) (\<lambda>i.
     send_transaction cl [Own i] payer [payer])))"

text \<open>What the query prints.\<close>

datatype whitelist_info = WhitelistMissing | WhitelistEmpty | WhitelistInitialized nat

definition get_whitelist_info :: "env \<Rightarrow> client \<Rightarrow> chars \<Rightarrow> whitelist_info cli" where
  "get_whitelist_info env cl amm_program_id =
     rbind (from_str cl amm_program_id) (\<lambda>program.
     let whitelist_pda = fst (env_find_pda env [ascii ''hook_whitelist''] program) in
     Ok (case cl_account cl whitelist_pda of
           Some a \<Rightarrow> if data_len (acc_data a) \<noteq> 0 then WhitelistInitialized (data_len (acc_data a)) else WhitelistEmpty
         | None \<Rightarrow> WhitelistMissing))"

definition create_hook_mint :: "env \<Rightarrow> client \<Rightarrow> chars \<Rightarrow> u8 \<Rightarrow> u64 \<Rightarrow> pubkey \<Rightarrow> transaction cli" where
  "create_hook_mint env cl hook_program_id decimals initial_supply payer =
     (let mint = cl_new_mint cl; t22 = env_spl_token_2022 env; payer_ata = cl_ata cl payer mint t22 in
      rbind (from_str cl hook_program_id) (\<lambda>hook.
      rbind (ok_or NodeError (cl_rent cl 82)) (\<lambda>_.
      rbind (lib_ix cl (T22InitTransferHook mint payer hook)) (\<lambda>init_hook.
      rbind (lib_ix cl (T22InitMint mint payer (Some payer) decimals)) (\<lambda>init_mint.
      rbind (lib_ix cl (SplMintTo t22 mint payer_ata payer initial_supply)) (\<lambda>mint_to.
      send_transaction cl
        [Lib (SysCreateAccount payer mint 82 t22), init_hook, init_mint, Lib (AtaCreate payer payer mint t22), mint_to]
        payer [payer, mint]))))))"

text \<open>The address of the program is the constant of the source, read by the same parser.\<close>

definition DEVNET_PROGRAM :: chars where
  "DEVNET_PROGRAM = map of_char ''HWy1jotHpo6UqeQxx49dpYYdQB8wj9Qk9MdxwjLvDHB8''"

definition init_hook_meta_list :: "env \<Rightarrow> client \<Rightarrow> chars \<Rightarrow> chars \<Rightarrow> pubkey \<Rightarrow> transaction cli" where
  "init_hook_meta_list env cl hook_program_id mint payer =
     rbind (from_str cl hook_program_id) (\<lambda>hook.
     rbind (from_str cl mint) (\<lambda>mint.
     let meta_list_pda = fst (env_find_pda env [ascii ''extra-account-metas'', pubkey_bytes mint] hook) in
     rbind (ok_or BuildError (cl_seeds_meta cl [ascii ''whitelist''] False False)) (\<lambda>meta.
     rbind (from_str cl DEVNET_PROGRAM) (\<lambda>program.
     rbind (create_initialize_extra_account_meta_list_instruction env program meta_list_pda mint payer [meta]) (\<lambda>i.
     send_transaction cl [Own i] payer [payer])))))"

definition init_hook_whitelist :: "env \<Rightarrow> client \<Rightarrow> chars \<Rightarrow> pubkey \<Rightarrow> transaction cli" where
  "init_hook_whitelist env cl hook_program_id payer =
     rbind (from_str cl hook_program_id) (\<lambda>hook.
     let whitelist_pda = fst (env_find_pda env [ascii ''whitelist''] hook) in
     send_transaction cl [Own (create_initialize_hook_whitelist_instruction env hook payer whitelist_pda)] payer [payer])"

definition add_to_hook_whitelist :: "env \<Rightarrow> client \<Rightarrow> chars \<Rightarrow> chars \<Rightarrow> pubkey \<Rightarrow> transaction cli" where
  "add_to_hook_whitelist env cl hook_program_id user payer =
     rbind (from_str cl hook_program_id) (\<lambda>hook.
     rbind (from_str cl user) (\<lambda>user.
     let whitelist_pda = fst (env_find_pda env [ascii ''whitelist''] hook) in
     send_transaction cl [Own (create_update_hook_whitelist_instruction hook payer whitelist_pda user True)] payer [payer]))"

text \<open>
  The decimals of a mint that cannot be unpacked are taken to be 9. That the transfer fails is an
  outcome of the test, not an error; the result says whether it was confirmed.
\<close>

definition test_hook_transfer ::
  "env \<Rightarrow> client \<Rightarrow> chars \<Rightarrow> chars \<Rightarrow> chars \<Rightarrow> u64 \<Rightarrow> pubkey \<Rightarrow> (transaction \<times> bool) cli" where
  "test_hook_transfer env cl mint source destination amount owner =
     rbind (from_str cl mint) (\<lambda>mint.
     rbind (from_str cl source) (\<lambda>source.
     rbind (from_str cl destination) (\<lambda>destination.
     rbind (ok_or NodeError (cl_account cl mint)) (\<lambda>mint_account.
     let decimals = (case cl_mint_decimals cl (acc_data mint_account) of Some d \<Rightarrow> d | None \<Rightarrow> 9) in
     rbind (lib_ix cl (Spl22TransferChecked (env_spl_token_2022 env) source mint destination owner amount decimals)) (\<lambda>i.
     rbind (sign_transaction cl [i] owner [owner]) (\<lambda>tx.
     Ok (tx, cl_send cl tx \<noteq> None)))))))"

section \<open>Keypair files and the command line\<close>

text \<open>\<^verbatim>\<open>str::trim\<close> and \<^verbatim>\<open>trim_matches\<close>, by code point.\<close>

definition is_whitespace :: "nat \<Rightarrow> bool" where
  "is_whitespace c \<longleftrightarrow> 9 \<le> c \<and> c \<le> 13 \<or> 8192 \<le> c \<and> c \<le> 8202 \<or>
     c \<in> {32, 133, 160, 5760, 8232, 8233, 8239, 8287, 12288}"

definition trim_by :: "(nat \<Rightarrow> bool) \<Rightarrow> chars \<Rightarrow> chars" where
  "trim_by p s = rev (dropWhile p (rev (dropWhile p s)))"

definition starts_with :: "nat \<Rightarrow> chars \<Rightarrow> bool" where
  "starts_with c s = (case s of [] \<Rightarrow> False | d # _ \<Rightarrow> d = c)"

definition load_keypair :: "client \<Rightarrow> chars \<Rightarrow> pubkey cli" where
  "load_keypair cl path =
     rbind (ok_or BadKeypair (cl_read_file cl (cl_tilde cl path))) (\<lambda>file.
     rbind (if starts_with 91 (trim_by is_whitespace file) then ok_or BadKeypair (cl_json_array cl file)
            else if starts_with 34 (trim_by is_whitespace file) then ok_or BadKeypair (cl_bs58 cl (trim_by (\<lambda>c. c = 34) file))
            else ok_or BadKeypair (cl_json_object cl file)) (\<lambda>bytes'.
     rbind (ok_or BadKeypair (cl_keypair cl bytes')) (\<lambda>keypair.
     if keypair = default_pubkey then Err BadKeypair else Ok keypair)))"

datatype commands =
    InitPool chars chars chars u64 u64 u8 u64 chars
      \<comment> \<open>program, coin mint, pc mint, coin amount, pc amount, nonce, open time, payer\<close>
  | InitWhitelist chars chars
      \<comment> \<open>program, payer\<close>
  | AddHookToWhitelist chars chars chars
      \<comment> \<open>program, hook program, payer\<close>
  | RemoveHookFromWhitelist chars chars chars
      \<comment> \<open>program, hook program, payer\<close>
  | GetWhitelistInfo chars
      \<comment> \<open>program\<close>
  | CreateHookMint chars u8 u64 chars
      \<comment> \<open>hook program, decimals, initial supply, payer\<close>
  | InitHookMetaList chars chars chars
      \<comment> \<open>hook program, mint, payer\<close>
  | InitHookWhitelist chars chars
      \<comment> \<open>hook program, payer\<close>
  | AddToHookWhitelist chars chars chars
      \<comment> \<open>hook program, user, payer\<close>
  | TestHookTransfer chars chars chars u64 chars
      \<comment> \<open>mint, source, destination, amount, owner\<close>

datatype command_result =
    Sent transaction
  | Info whitelist_info
  | Tested transaction bool

definition sent :: "transaction cli \<Rightarrow> command_result cli" where
  "sent r = rbind r (\<lambda>tx. Ok (Sent tx))"

definition run_command :: "env \<Rightarrow> client \<Rightarrow> commands \<Rightarrow> command_result cli" where
  "run_command env cl command =
     (case command of
        InitPool program coin pc coin_amount pc_amount n open_time payer \<Rightarrow>
          rbind (load_keypair cl payer) (\<lambda>k. sent (init_amm_pool env cl program coin pc coin_amount pc_amount n open_time k))
      | InitWhitelist program payer \<Rightarrow> rbind (load_keypair cl payer) (\<lambda>k. sent (init_whitelist env cl program k))
      | AddHookToWhitelist program hook payer \<Rightarrow>
          rbind (load_keypair cl payer) (\<lambda>k. sent (add_hook_to_whitelist env cl program hook k))
      | RemoveHookFromWhitelist program hook payer \<Rightarrow>
          rbind (load_keypair cl payer) (\<lambda>k. sent (remove_hook_from_whitelist env cl program hook k))
      | GetWhitelistInfo program \<Rightarrow> rbind (get_whitelist_info env cl program) (\<lambda>i. Ok (Info i))
      | CreateHookMint hook decimals supply payer \<Rightarrow>
          rbind (load_keypair cl payer) (\<lambda>k. sent (create_hook_mint env cl hook decimals supply k))
      | InitHookMetaList hook mint payer \<Rightarrow>
          rbind (load_keypair cl payer) (\<lambda>k. sent (init_hook_meta_list env cl hook mint k))
      | InitHookWhitelist hook payer \<Rightarrow> rbind (load_keypair cl payer) (\<lambda>k. sent (init_hook_whitelist env cl hook k))
      | AddToHookWhitelist hook user payer \<Rightarrow>
          rbind (load_keypair cl payer) (\<lambda>k. sent (add_to_hook_whitelist env cl hook user k))
      | TestHookTransfer mint source destination amount owner \<Rightarrow>
          rbind (load_keypair cl owner) (\<lambda>k.
          rbind (test_hook_transfer env cl mint source destination amount k) (\<lambda>(tx, ok). Ok (Tested tx ok))))"

section \<open>The commands and the program\<close>

text \<open>
  What the SDK documents: signing panics unless the keypairs are exactly the required signers, a new
  account and its payer sign its creation, and only the payer that of a token account.
\<close>

definition sdk_signs :: "client \<Rightarrow> bool" where
  "sdk_signs cl \<longleftrightarrow> (\<forall>required keypairs. cl_sign cl required keypairs \<longleftrightarrow> set keypairs = required) \<and>
     (\<forall>f t n ow. cl_ix_signers cl (SysCreateAccount f t n ow) = {f, t}) \<and>
     (\<forall>f wl m t. cl_ix_signers cl (AtaCreate f wl m t) = {f})"

lemma send_Ok: "send_transaction cl ixs payer keypairs = Ok tx \<Longrightarrow>
    cl_sign cl (required_signers cl payer ixs) keypairs \<and>
    tx = \<lparr>tx_payer = payer, tx_instructions = ixs, tx_signers = keypairs\<rparr>"
  by (auto simp: send_transaction_def sign_transaction_def outcome split: if_splits)

lemma initialize2_signer:
  "initialize2 env ata program pool authority oo lp coin pc cv pv target config fee mp mkt wallet uc up ul n ot a b = Ok i \<Longrightarrow>
    signer_metas i = {wallet}"
  by (auto simp: initialize2_def outcome ro_meta_def rw_meta_def) (simp_all add: signer_metas_def)

lemma create_whitelist_signer:
  "create_initialize_whitelist_instruction env program authority pda = Ok i \<Longrightarrow>
    signer_metas i = {authority} \<and> pack (InitializeHookWhitelist authority) = Ok (in_data i) \<and> in_program i = program \<and>
    infos_of i = [rw pda, (ro authority)\<lparr>ai_is_signer := True\<rparr>, ro (env_system_program env)]"
  by (auto simp: create_initialize_whitelist_instruction_def packed_def outcome ro_meta_def rw_meta_def
      infos_of_def ro_def rw_def) (simp_all add: signer_metas_def)

text \<open>An update of the whitelist, as the client writes it and as the program decodes it.\<close>

lemma update_whitelist_served:
  assumes "create_update_whitelist_instruction program authority pda h add = Ok i"
  shows "in_program i = program \<and> infos_of i = [rw pda, (ro authority)\<lparr>ai_is_signer := True\<rparr>] \<and>
    process_instruction cenv env pid (infos_of i) (in_data i) w =
      rbind (process_update_hook_whitelist env pid (infos_of i)
        \<lparr>uw_hook_program_id = h, uw_action = (if add then HookAdd else HookRemove)\<rparr> w) (\<lambda>w. Ok (w\<lparr>borrowed := []\<rparr>))"
proof -
  let ?u = "\<lparr>uw_hook_program_id = h, uw_action = (if add then HookAdd else HookRemove)\<rparr>"
  have i: "pack (UpdateHookWhitelist ?u) = Ok (in_data i)" "in_program i = program"
      "infos_of i = [rw pda, (ro authority)\<lparr>ai_is_signer := True\<rparr>]"
    using assms by (auto simp: create_update_whitelist_instruction_def packed_def outcome infos_of_def ro_meta_def rw_meta_def
        ro_def rw_def)
  have "unpack cenv (in_data i) = Ok (UpdateHookWhitelist ?u)"
    using instruction_unpack_pack [of cenv "UpdateHookWhitelist ?u"] i(1) by auto
  then show ?thesis using i by (simp add: process_instruction_def dispatch_def)
qed

text \<open>What the program makes of an update by a signer, on an account that stores a whitelist.\<close>

lemma update_whitelist_outcome:
  assumes "stores env pid w wl" "wl_authority wl \<noteq> 0" "fst (find_whitelist_pda env pid) \<notin> set (borrowed w)"
    and "ai_key ai = fst (find_whitelist_pda env pid)" "ai_is_signer au"
  shows "process_update_hook_whitelist env pid [ai, au] \<lparr>uw_hook_program_id = h, uw_action = a\<rparr> w =
    (if ai_key au \<noteq> wl_authority wl then Err PE_InvalidAccountOwner
     else rbind (into_res (case a of HookAdd \<Rightarrow> add_hook h wl | HookRemove \<Rightarrow> remove_hook h wl))
       (\<lambda>wl. copy_into ai (whitelist_pack wl) w))"
proof -
  have d: "data_of w ai = RawData (whitelist_pack wl)" and i: "wl_inv wl"
    using assms(1,4) by (simp_all add: stores_def data_of_def account_of_def)
  have "load_whitelist_for env pid ai au w =
      (if ai_key au \<noteq> wl_authority wl then Err PE_InvalidAccountOwner else Ok wl)"
    using d assms length_whitelist_pack [OF i] whitelist_unpack_pack [OF i assms(2)]
    by (auto simp: load_whitelist_for_def data_is_empty_def borrow_data_def try_borrow_data_def is_borrowed_def
        whitelist_of_data_def HOOK_WHITELIST_LEN_def)
  then show ?thesis by (cases a) (simp_all add: process_update_hook_whitelist_def next_accounts_def)
qed

lemma copy_whitelist_runs:
  assumes "stores env pid w wl" "wl_inv wl'" "fst (find_whitelist_pda env pid) \<notin> set (borrowed w)"
    and "ai_key ai = fst (find_whitelist_pda env pid)" "wl_abs wl' = t"
  shows "case rbind (copy_into ai (whitelist_pack wl') w) (\<lambda>w. Ok (w\<lparr>borrowed := []\<rparr>)) of
      Ok w' \<Rightarrow> \<exists>wl'. stores env pid w' wl' \<and> wl_abs wl' = t | Err e \<Rightarrow> False | Panic \<Rightarrow> False"
proof -
  obtain w' where "copy_into ai (whitelist_pack wl') w = Ok w'" "stores env pid w' wl'"
    using copy_whitelist [OF assms(1-4)] by blast
  then show ?thesis using assms(2,5) by (auto simp: stores_def)
qed

text \<open>An update by a payer who signs, as a transaction of the program: it succeeds or is refused, without a panic.\<close>

lemma update_transaction:
  assumes "create_update_whitelist_instruction pid payer (fst (find_whitelist_pda env pid)) h add = Ok i"
    and "stores env pid w wl" "wl_authority wl \<noteq> 0" "fst (find_whitelist_pda env pid) \<notin> set (borrowed w)"
  shows "process_instruction cenv env pid (infos_of i) (in_data i) w =
     (if payer \<noteq> wl_authority wl then Err PE_InvalidAccountOwner
      else rbind (into_res (if add then add_hook h wl else remove_hook h wl)) (\<lambda>wl.
        rbind (copy_into (rw (fst (find_whitelist_pda env pid))) (whitelist_pack wl) w) (\<lambda>w. Ok (w\<lparr>borrowed := []\<rparr>))))"
proof -
  let ?pda = "fst (find_whitelist_pda env pid)" and ?a = "if add then HookAdd else HookRemove"
  let ?au = "(ro payer)\<lparr>ai_is_signer := True\<rparr>"
  have keys: "ai_key (rw ?pda) = ?pda" "ai_is_signer ?au" "ai_key ?au = payer" by (simp_all add: rw_def ro_def)
  note o = update_whitelist_outcome [OF assms(2-4) keys(1,2), of h ?a, unfolded keys(3)]
  have shape: "infos_of i = [rw ?pda, ?au]"
    and served: "process_instruction cenv env pid (infos_of i) (in_data i) w =
      rbind (process_update_hook_whitelist env pid (infos_of i) \<lparr>uw_hook_program_id = h, uw_action = ?a\<rparr> w)
        (\<lambda>w. Ok (w\<lparr>borrowed := []\<rparr>))"
    using update_whitelist_served [OF assms(1), of cenv env pid w] by blast+
  show ?thesis unfolding served unfolding shape o
    by (cases add; cases "payer = wl_authority wl") (simp_all add: rbind_assoc)
qed

lemma update_transaction_effect:
  assumes "create_update_whitelist_instruction pid payer (fst (find_whitelist_pda env pid)) h add = Ok i"
    and "stores env pid w wl" "wl_authority wl \<noteq> 0" "fst (find_whitelist_pda env pid) \<notin> set (borrowed w)"
  shows "if payer = wl_authority wl \<and> (if add then h \<notin> wl_set wl \<and> card (wl_set wl) < MAX_HOOKS else h \<in> wl_set wl)
    then (case process_instruction cenv env pid (infos_of i) (in_data i) w of
        Ok w' \<Rightarrow> \<exists>wl'. stores env pid w' wl' \<and>
          wl_abs wl' = (payer, if add then insert h (wl_set wl) else wl_set wl - {h})
      | Err e \<Rightarrow> False | Panic \<Rightarrow> False)
    else \<exists>e. process_instruction cenv env pid (infos_of i) (in_data i) w = Err e" (is "if ?ok then ?done else ?refused")
proof -
  let ?a = "if add then HookAdd else HookRemove" and ?do = "if add then add_hook h wl else remove_hook h wl"
  note r = update_transaction [OF assms, of cenv]
  have i: "wl_inv wl" using assms(2) by (simp add: stores_def)
  have key: "ai_key (rw (fst (find_whitelist_pda env pid))) = fst (find_whitelist_pda env pid)" by (simp add: rw_def)
  show ?thesis
  proof (cases ?ok)
    case True
    then obtain wl' where d: "?do = Ok wl'" "wl_inv wl'" "wl_set wl' = (if add then insert h (wl_set wl) else wl_set wl - {h})"
      using wl.ins_new [OF i, of h] wl.del_old [OF i, of h] by (cases add) auto
    have "wl_step (wl_authority wl) (wl_abs wl) (wl_abs wl')"
      using change_hook_Ok [OF i, where u = ?a and h = h and wl' = wl'] d(1) by (cases add) simp_all
    then have "wl_abs wl' = (payer, if add then insert h (wl_set wl) else wl_set wl - {h})"
      using d(3) True by (cases add) (auto simp: wl_abs_def wl_step_signer)
    from copy_whitelist_runs [OF assms(2) d(2) assms(4) key this] True d(1) show ?thesis by (simp add: r into_res_def)
  next
    case False
    then show ?thesis
      using wl.ins_old [OF i, of h] wl.ins_full [OF i, of h] wl.del_new [OF i, of h] wl.finite_abs [OF i]
      by (cases "payer = wl_authority wl"; cases add; cases "h \<in> wl_set wl") (auto simp: r into_res_def)
  qed
qed

text \<open>
  C17. The whitelist commands do what they say. The transaction that \<^verbatim>\<open>add-hook-to-whitelist\<close> or
  \<^verbatim>\<open>remove-hook-from-whitelist\<close> sends is one instruction for the program, signed by the payer alone, and
  on an account that stores a whitelist the program never panics on it: it succeeds exactly when
  the payer is the authority and the hook is new and there is room for it (or, for a removal, it
  is listed), and the stored whitelist is then the old one with the hook added or removed.
\<close>

theorem whitelist_commands_end_to_end:
  assumes "(if add then add_hook_to_whitelist else remove_hook_from_whitelist) env cl program hook payer = Ok tx"
    and "cl_address cl program = Some pid" "cl_address cl hook = Some h"
    and "stores env pid w wl" "wl_authority wl \<noteq> 0" "fst (find_whitelist_pda env pid) \<notin> set (borrowed w)"
  shows "tx_payer tx = payer \<and> tx_signers tx = [payer] \<and> (\<exists>i. tx_instructions tx = [Own i] \<and> in_program i = pid \<and>
    (if payer = wl_authority wl \<and> (if add then h \<notin> wl_set wl \<and> card (wl_set wl) < MAX_HOOKS else h \<in> wl_set wl) then
       (case process_instruction cenv env pid (infos_of i) (in_data i) w of
          Ok w' \<Rightarrow> \<exists>wl'. stores env pid w' wl' \<and>
            wl_abs wl' = (payer, if add then insert h (wl_set wl) else wl_set wl - {h})
        | Err e \<Rightarrow> False | Panic \<Rightarrow> False)
     else \<exists>e. process_instruction cenv env pid (infos_of i) (in_data i) w = Err e))"
proof -
  obtain i where c: "create_update_whitelist_instruction pid payer (fst (find_whitelist_pda env pid)) h add = Ok i"
    and s: "send_transaction cl [Own i] payer [payer] = Ok tx"
    using assms(1-3) by (cases add) (auto simp: add_hook_to_whitelist_def remove_hook_from_whitelist_def from_str_def
        find_whitelist_pda_def Let_def outcome)
  show ?thesis
    using update_transaction_effect [OF c assms(4-6), of cenv] update_whitelist_served [OF c, of cenv env pid w] send_Ok [OF s]
    by auto
qed

text \<open>Why the commands that set up a pool and a whitelist fail.\<close>

lemma init_amm_pool_unsigned:
  assumes "sdk_signs cl" "pk_coin_vault (cl_pool_keys cl) \<notin> {payer, pk_amm_pool (cl_pool_keys cl)}"
  shows "\<not> is_ok (init_amm_pool env cl program coin_mint pc_mint coin pc n open_time payer)"
proof
  let ?k = "cl_pool_keys cl"
  assume "is_ok (init_amm_pool env cl program coin_mint pc_mint coin pc n open_time payer)"
  then obtain p c q i tx where "signer_metas i = {payer}" and "send_transaction cl
      [Lib (AtaCreate payer payer c (env_spl_token env)), Lib (AtaCreate payer payer q (env_spl_token env)),
       Lib (AtaCreate payer payer (pk_lp_mint ?k) (env_spl_token env)),
       Lib (SysCreateAccount payer (pk_amm_pool ?k) amm_account_size p), Own i] payer
      [payer, pk_amm_pool ?k, pk_amm_authority ?k, pk_open_orders ?k, pk_target_orders ?k, pk_coin_vault ?k,
       pk_pc_vault ?k, pk_lp_mint ?k, pk_pool_withdraw_queue ?k, pk_lp_withdraw_queue ?k] = Ok tx"
    by (auto simp: is_ok_iff init_amm_pool_def Let_def outcome dest!: initialize2_signer)
  from send_Ok [OF this(2)] this(1) assms(1) have "pk_coin_vault ?k \<in> {payer, pk_amm_pool ?k}"
    by (auto simp: sdk_signs_def required_signers_def)
  with assms(2) show False by simp
qed

lemma init_whitelist_unsigned:
  assumes "sdk_signs cl" "\<forall>p. fst (env_find_pda env [ascii ''hook_whitelist''] p) \<noteq> payer"
  shows "\<not> is_ok (init_whitelist env cl program payer)"
proof
  assume "is_ok (init_whitelist env cl program payer)"
  then obtain p i tx where "send_transaction cl [Lib (SysCreateAccount payer
      (fst (env_find_pda env [ascii ''hook_whitelist''] p)) whitelist_size p), Own i] payer [payer] = Ok tx"
    by (auto simp: is_ok_iff init_whitelist_def Let_def outcome)
  from send_Ok [OF this] assms show False
    by (auto simp: sdk_signs_def required_signers_def)
qed

lemma created_whitelist_refused:
  assumes "create_initialize_whitelist_instruction env p payer pda = Ok i" "pda = fst (env_find_pda env [ascii ''hook_whitelist''] p)"
    and "data_len (acc_data (accts w pda)) = whitelist_size" "borrowed w = []"
  shows "process_instruction cenv env p (infos_of i) (in_data i) w = Err PE_AccountAlreadyInitialized"
proof -
  note c = create_whitelist_signer [OF assms(1)]
  have "unpack cenv (in_data i) = Ok (InitializeHookWhitelist payer)"
    using instruction_unpack_pack [of cenv "InitializeHookWhitelist payer"] c by auto
  moreover have "infos_of i = [rw pda, (ro payer)\<lparr>ai_is_signer := True\<rparr>, ro (env_system_program env)]" using c by blast
  ultimately show ?thesis
    using assms(2-4) by (simp add: process_instruction_def dispatch_def process_initialize_hook_whitelist_def next_accounts_def
        Let_def find_whitelist_pda_def data_is_empty_def borrow_data_def is_borrowed_def data_of_def account_of_def rw_def ro_def
        whitelist_size_def)
qed

text \<open>
  C39. The set-up commands never get a transaction out. The SDK panics when it signs for
  \<^verbatim>\<open>init-pool\<close>, which passes keypairs (the vaults', the queues') that sign nothing, and for
  \<^verbatim>\<open>init-whitelist\<close>, which creates the account at the derived address with nobody to sign for it. Nor
  would the second transaction help: the instruction after the creation requires the account to
  be empty and the program refuses it.
\<close>

theorem setup_commands_fail:
  assumes "sdk_signs cl"
    and "pk_coin_vault (cl_pool_keys cl) \<notin> {payer, pk_amm_pool (cl_pool_keys cl)}"
    and "\<forall>p. fst (env_find_pda env [ascii ''hook_whitelist''] p) \<noteq> payer"
  shows "\<not> is_ok (init_amm_pool env cl program coin_mint pc_mint coin pc n open_time payer) \<and>
    \<not> is_ok (init_whitelist env cl program payer) \<and>
    (\<forall>i p. create_initialize_whitelist_instruction env p payer (fst (env_find_pda env [ascii ''hook_whitelist''] p)) = Ok i \<longrightarrow>
      data_len (acc_data (accts w (fst (env_find_pda env [ascii ''hook_whitelist''] p)))) = whitelist_size \<longrightarrow>
      borrowed w = [] \<longrightarrow> process_instruction cenv env p (infos_of i) (in_data i) w = Err PE_AccountAlreadyInitialized)"
  using init_amm_pool_unsigned [OF assms(1,2)] init_whitelist_unsigned [OF assms(1,3)] created_whitelist_refused [where cenv = cenv]
  by blast

text \<open>
  The list of a hook's extra accounts cannot be initialized from the command line either: what
  \<^verbatim>\<open>init-hook-meta-list\<close> sends is refused by the program.
\<close>

theorem hook_meta_list_refused:
  assumes "init_hook_meta_list env cl hook mint payer = Ok tx" "calls_itself cenv env pid"
    and "\<forall>seeds meta. cl_seeds_meta cl seeds False False = Some meta \<longrightarrow> length meta = 34" "ce_meta_size cenv = 34"
  shows "\<exists>i. tx_instructions tx = [Own i] \<and> \<not> is_ok (process_instruction cenv env pid (infos_of i) (in_data i) w)"
proof -
  from assms(1) obtain meta i pda m p where meta: "cl_seeds_meta cl [ascii ''whitelist''] False False = Some meta"
    and i: "create_initialize_extra_account_meta_list_instruction env p pda m payer [meta] = Ok i"
    and s: "send_transaction cl [Own i] payer [payer] = Ok tx"
    by (auto simp: init_hook_meta_list_def Let_def outcome)
  have "canonical cenv (InitializeExtraAccountMetaList [meta])"
    using assms(3,4) meta by (simp add: canonical_metas_def)
  then have "unpack cenv (in_data i) = Ok (InitializeExtraAccountMetaList [meta])"
    using instruction_unpack_pack i
    by (fastforce simp: create_initialize_extra_account_meta_list_instruction_def packed_def outcome)
  then have "\<not> is_ok (process_instruction cenv env pid (infos_of i) (in_data i) w)"
    using extra_metas_never_initialized [OF assms(2)] by (auto simp: process_instruction_def dispatch_def is_ok_iff outcome)
  then show ?thesis using send_Ok [OF s] by auto
qed

text \<open>
  A keypair file in base 58 is accepted only without a line end: the quotes are taken off the text as
  it is, not off the trimmed one, so that a quote is left in what is decoded.
\<close>

theorem quoted_keypair_with_newline_refused:
  assumes "cl_read_file cl (cl_tilde cl path) = Some (34 # a # key @ [34, 10])" "a \<noteq> 34"
    and "\<forall>s. 34 \<in> set s \<longrightarrow> cl_bs58 cl s = None"
  shows "load_keypair cl path = Err BadKeypair"
proof -
  have "trim_by (\<lambda>c. c = 34) (34 # a # key @ [34, 10]) = a # key @ [34, 10]"
    using assms(2) by (simp add: trim_by_def)
  moreover have "34 \<in> set (a # key @ [34, 10])" by simp
  moreover have "starts_with 34 (trim_by is_whitespace (34 # a # key @ [34, 10]))"
      "\<not> starts_with 91 (trim_by is_whitespace (34 # a # key @ [34, 10]))"
    by (simp_all add: trim_by_def is_whitespace_def starts_with_def)
  ultimately show ?thesis using assms(1,3) by (simp add: load_keypair_def)
qed

section \<open>Examples\<close>

text \<open>A client whose node accepts everything; its addresses are written as single code points.\<close>

definition demo_client :: client where
  "demo_client =
     \<lparr>cl_balance = \<lambda>_. Some 5, cl_airdrop = \<lambda>_ _. Some (), cl_confirm = Some (), cl_rent = \<lambda>_. Some (),
      cl_blockhash = Some (), cl_account = \<lambda>_. None, cl_send = \<lambda>_. Some (),
      cl_tilde = id, cl_read_file = \<lambda>_. None, cl_json_array = \<lambda>_. None, cl_json_object = \<lambda>_. None, cl_bs58 = \<lambda>_. None,
      cl_keypair = \<lambda>_. None, cl_address = \<lambda>s. case s of [c] \<Rightarrow> Some (of_nat c) | _ \<Rightarrow> None,
      cl_sign = \<lambda>required keypairs. set keypairs = required,
      cl_ix_signers = \<lambda>i. case i of SysCreateAccount f t _ _ \<Rightarrow> {f, t} | AtaCreate f _ _ _ \<Rightarrow> {f} | _ \<Rightarrow> {},
      cl_ix_ok = \<lambda>_. True, cl_ata = \<lambda>wl m t. wl + m, cl_ata_program = 60, cl_mint_decimals = \<lambda>_. Some 6,
      cl_seeds_meta = \<lambda>_ _ _. None,
      cl_pool_keys = \<lparr>pk_amm_pool = 101, pk_amm_authority = 102, pk_open_orders = 103, pk_target_orders = 104,
        pk_coin_vault = 105, pk_pc_vault = 106, pk_lp_mint = 107, pk_pool_withdraw_queue = 108, pk_lp_withdraw_queue = 109\<rparr>,
      cl_new_mint = 110\<rparr>"

lemma demo_client_signs: "sdk_signs demo_client"
  by (simp add: sdk_signs_def demo_client_def)

lemma demo_add_hook: "\<exists>tx. add_hook_to_whitelist demo_env demo_client [5] [99] 23 = Ok tx"
proof -
  obtain i where i: "create_update_whitelist_instruction 5 23 40 99 True = Ok i"
    using instruction_unpack_pack [of demo_codec "UpdateHookWhitelist \<lparr>uw_hook_program_id = 99, uw_action = HookAdd\<rparr>"]
    by (auto simp: create_update_whitelist_instruction_def packed_def)
  then have "signer_metas i = {23}"
    by (auto simp: create_update_whitelist_instruction_def packed_def outcome ro_meta_def rw_meta_def)
      (simp_all add: signer_metas_def)
  then have "cl_sign demo_client (required_signers demo_client 23 [Own i]) [23]"
    by (simp add: demo_client_def required_signers_def)
  with i show ?thesis
    by (simp add: add_hook_to_whitelist_def from_str_def Let_def send_transaction_def sign_transaction_def demo_env_def)
      (simp add: demo_client_def)
qed

theorem whitelist_commands_end_to_end_witness:
  "\<exists>tx i w'. add_hook_to_whitelist demo_env demo_client [5] [99] 23 = Ok tx \<and> tx_instructions tx = [Own i] \<and>
     process_instruction demo_codec demo_env 5 (infos_of i) (in_data i) demo_whitelist_world = Ok w'"
proof -
  obtain tx where tx: "add_hook_to_whitelist demo_env demo_client [5] [99] 23 = Ok tx" using demo_add_hook by blast
  then have c: "(if True then add_hook_to_whitelist else remove_hook_from_whitelist) demo_env demo_client [5] [99] 23 = Ok tx"
    by simp
  have a: "wl_authority (whitelist_new 23) = 23" "99 \<notin> wl_set (whitelist_new 23)" "card (wl_set (whitelist_new 23)) < MAX_HOOKS"
    by (simp_all add: whitelist_new_def wl_set_def active_def MAX_HOOKS_def)
  have "cl_address demo_client [5] = Some 5" "cl_address demo_client [99] = Some 99" by (simp_all add: demo_client_def)
  note addresses = this
  have authority: "wl_authority (whitelist_new 23) \<noteq> 0" using a(1) by simp
  have possible: "23 = wl_authority (whitelist_new 23) \<and> (if True then 99 \<notin> wl_set (whitelist_new 23) \<and>
      card (wl_set (whitelist_new 23)) < MAX_HOOKS else 99 \<in> wl_set (whitelist_new 23))" using a by simp
  note e = whitelist_commands_end_to_end [OF c addresses demo_stores authority demo_whitelist_free, of demo_codec,
      unfolded if_P [OF possible]]
  then obtain i where i: "tx_instructions tx = [Own i]" and r:
    "case process_instruction demo_codec demo_env 5 (infos_of i) (in_data i) demo_whitelist_world of
        Ok w' \<Rightarrow> \<exists>wl'. stores demo_env 5 w' wl' \<and> wl_abs wl' = (23, if True then insert 99 (wl_set (whitelist_new 23))
          else wl_set (whitelist_new 23) - {99})
      | Err e \<Rightarrow> False | Panic \<Rightarrow> False"
    by blast
  from r have "is_ok (process_instruction demo_codec demo_env 5 (infos_of i) (in_data i) demo_whitelist_world)"
    by (cases "process_instruction demo_codec demo_env 5 (infos_of i) (in_data i) demo_whitelist_world") simp_all
  with tx i show ?thesis by (auto simp: is_ok_iff)
qed

theorem setup_commands_fail_witness:
  "\<not> is_ok (init_amm_pool demo_env demo_client [5] [30] [31] 10 10 254 0 23) \<and>
   \<not> is_ok (init_whitelist demo_env demo_client [5] 23)"
proof -
  have "pk_coin_vault (cl_pool_keys demo_client) \<notin> {23, pk_amm_pool (cl_pool_keys demo_client)}"
      "\<forall>p. fst (env_find_pda demo_env [ascii ''hook_whitelist''] p) \<noteq> 23"
    by (simp_all add: demo_client_def demo_env_def)
  from setup_commands_fail [OF demo_client_signs this] show ?thesis by blast
qed

end
