(* ===== verification/Logs.thy ===== *)
theory Logs
  imports Prelude
begin

text \<open>
  The event logs of \<^verbatim>\<open>src/log.rs\<close> and \<^verbatim>\<open>process/args.rs\<close>: the records the handlers log, how they
  become messages, and the decoder of the messages. The two files number the kinds of log
  differently. \<^verbatim>\<open>bincode\<close> and \<^verbatim>\<open>base64\<close> are parameters (the record \<open>log_codec\<close>), with what
  they document as the predicate \<open>log_codec_ok\<close>. No handler reads a message back.
\<close>

section \<open>The records\<close>

record init_log =
  il_log_type :: u8
  il_time :: u64
  il_pc_decimals :: u8
  il_coin_decimals :: u8
  il_pc_lot_size :: u64
  il_coin_lot_size :: u64
  il_pc_amount :: u64
  il_coin_amount :: u64
  il_market :: pubkey

record deposit_log =
  dl_log_type :: u8
  dl_max_coin :: u64
  dl_max_pc :: u64
  dl_base :: u64
  dl_pool_coin :: u64
  dl_pool_pc :: u64
  dl_pool_lp :: u64
  dl_calc_pnl_x :: u128
  dl_calc_pnl_y :: u128
  dl_deduct_coin :: u64
  dl_deduct_pc :: u64
  dl_mint_lp :: u64

record withdraw_log =
  wg_log_type :: u8
  wg_withdraw_lp :: u64
  wg_user_lp :: u64
  wg_pool_coin :: u64
  wg_pool_pc :: u64
  wg_pool_lp :: u64
  wg_calc_pnl_x :: u128
  wg_calc_pnl_y :: u128
  wg_out_coin :: u64
  wg_out_pc :: u64

record swap_base_in_log =
  bi_log_type :: u8
  bi_amount_in :: u64
  bi_minimum_out :: u64
  bi_direction :: u64
  bi_user_source :: u64
  bi_pool_coin :: u64
  bi_pool_pc :: u64
  bi_out_amount :: u64

record swap_base_out_log =
  bo_log_type :: u8
  bo_max_in :: u64
  bo_amount_out :: u64
  bo_direction :: u64
  bo_user_source :: u64
  bo_pool_coin :: u64
  bo_pool_pc :: u64
  bo_deduct_in :: u64

datatype ray_log =
    RayInit init_log
  | RayDeposit deposit_log
  | RayWithdraw withdraw_log
  | RaySwapBaseIn swap_base_in_log
  | RaySwapBaseOut swap_base_out_log

section \<open>The kinds\<close>

text \<open>The kinds the handlers write (\<^verbatim>\<open>args.rs\<close>) and those the decoder knows (\<^verbatim>\<open>log.rs\<close>).\<close>

datatype args_log_type = ArgsDeposit | ArgsWithdraw | ArgsSwapBaseIn | ArgsSwapBaseOut

primrec args_log_type_into_u8 :: "args_log_type \<Rightarrow> u8" where
  "args_log_type_into_u8 ArgsDeposit = 0"
| "args_log_type_into_u8 ArgsWithdraw = 1"
| "args_log_type_into_u8 ArgsSwapBaseIn = 2"
| "args_log_type_into_u8 ArgsSwapBaseOut = 3"

datatype log_type = LogInit | LogDeposit | LogWithdraw | LogSwapBaseIn | LogSwapBaseOut

definition log_type_from_u8 :: "u8 \<Rightarrow> ('e, log_type) outcome" where
  "log_type_from_u8 n =
     (if n = 0 then Ok LogInit
      else if n = 1 then Ok LogDeposit
      else if n = 2 then Ok LogWithdraw
      else if n = 3 then Ok LogSwapBaseIn
      else if n = 4 then Ok LogSwapBaseOut
      else Panic)"

primrec log_type_into_u8 :: "log_type \<Rightarrow> u8" where
  "log_type_into_u8 LogInit = 0"
| "log_type_into_u8 LogDeposit = 1"
| "log_type_into_u8 LogWithdraw = 2"
| "log_type_into_u8 LogSwapBaseIn = 3"
| "log_type_into_u8 LogSwapBaseOut = 4"

section \<open>Messages\<close>

record log_codec =
  lc_serialize :: "ray_log \<Rightarrow> bytes"
  lc_deserialize :: "log_type \<Rightarrow> bytes \<Rightarrow> ray_log option"
  lc_base64 :: "bytes \<Rightarrow> bytes"
  lc_base64_decode :: "bytes \<Rightarrow> bytes option"

definition LOG_SIZE :: nat where "LOG_SIZE = 256"

text \<open>\<^verbatim>\<open>arrform!\<close> panics when the text does not fit; \<open>''ray_log: ''\<close> takes nine bytes of it.\<close>

definition ray_log_message :: "bytes \<Rightarrow> ('e, bytes) outcome" where
  "ray_log_message text64 = (if 9 + length text64 \<le> LOG_SIZE then Ok text64 else Panic)"

definition encode_ray_log :: "log_codec \<Rightarrow> ray_log \<Rightarrow> ('e, bytes) outcome" where
  "encode_ray_log lc log =
     (let bytes' = lc_serialize lc log;
          buffer = length bytes' * 4 div 3 + 4;
          text64 = lc_base64 lc bytes'
      in if length text64 > buffer then Panic else ray_log_message text64)"

definition decode_ray_log :: "log_codec \<Rightarrow> bytes \<Rightarrow> ('e, ray_log) outcome" where
  "decode_ray_log lc log =
     (case lc_base64_decode lc log of
        None \<Rightarrow> Panic
      | Some bytes' \<Rightarrow>
          if bytes' = [] then Panic
          else rbind (log_type_from_u8 (hd bytes')) (\<lambda>t.
            case lc_deserialize lc t bytes' of Some l \<Rightarrow> Ok l | None \<Rightarrow> Panic))"

section \<open>What the two sides make of each other\<close>

text \<open>
  \<^verbatim>\<open>bincode\<close> writes the fields in order at their widths; reading a record takes at least its width.
  \<^verbatim>\<open>base64\<close> makes four characters of three bytes, padded, and decodes what it encodes.
\<close>

fun log_width :: "ray_log \<Rightarrow> nat" where
  "log_width (RayInit _) = 75"
| "log_width (RayDeposit _) = 105"
| "log_width (RayWithdraw _) = 89"
| "log_width (RaySwapBaseIn _) = 57"
| "log_width (RaySwapBaseOut _) = 57"

fun log_tag :: "ray_log \<Rightarrow> u8" where
  "log_tag (RayInit l) = il_log_type l"
| "log_tag (RayDeposit l) = dl_log_type l"
| "log_tag (RayWithdraw l) = wg_log_type l"
| "log_tag (RaySwapBaseIn l) = bi_log_type l"
| "log_tag (RaySwapBaseOut l) = bo_log_type l"

fun log_kind :: "ray_log \<Rightarrow> log_type" where
  "log_kind (RayInit _) = LogInit"
| "log_kind (RayDeposit _) = LogDeposit"
| "log_kind (RayWithdraw _) = LogWithdraw"
| "log_kind (RaySwapBaseIn _) = LogSwapBaseIn"
| "log_kind (RaySwapBaseOut _) = LogSwapBaseOut"

definition log_codec_ok :: "log_codec \<Rightarrow> bool" where
  "log_codec_ok lc \<longleftrightarrow>
     (\<forall>l. length (lc_serialize lc l) = log_width l \<and> hd (lc_serialize lc l) = log_tag l) \<and>
     (\<forall>l. lc_deserialize lc (log_kind l) (lc_serialize lc l) = Some l) \<and>
     (\<forall>t bs l. lc_deserialize lc t bs = Some l \<longrightarrow> log_kind l = t \<and> log_width l \<le> length bs) \<and>
     (\<forall>bs. length (lc_base64 lc bs) = (length bs + 2) div 3 * 4 \<and> lc_base64_decode lc (lc_base64 lc bs) = Some bs)"

lemma log_width_bounds: "0 < log_width l \<and> log_width l \<le> 105"
  by (cases l) simp_all

lemma log_type_round_trip [simp]: "log_type_from_u8 (log_type_into_u8 t) = Ok t"
  by (cases t) (simp_all add: log_type_from_u8_def)

text \<open>No record a handler logs overflows either buffer.\<close>

lemma encode_ray_log_returns:
  assumes "log_codec_ok lc"
  shows "encode_ray_log lc l = (Ok (lc_base64 lc (lc_serialize lc l)) :: ('e, bytes) outcome)"
proof -
  let ?n = "length (lc_serialize lc l)"
  have n: "?n \<le> 105" and b: "length (lc_base64 lc (lc_serialize lc l)) = (?n + 2) div 3 * 4"
    using assms log_width_bounds [of l] by (simp_all add: log_codec_ok_def)
  have "(?n + 2) div 3 * 4 \<le> ?n * 4 div 3 + 4" "9 + (?n + 2) div 3 * 4 \<le> LOG_SIZE"
    using n by (auto simp: LOG_SIZE_def)
  then show ?thesis using b by (simp add: encode_ray_log_def ray_log_message_def Let_def)
qed

lemma decode_message:
  assumes "log_codec_ok lc"
  shows "decode_ray_log lc (lc_base64 lc (lc_serialize lc l)) =
    rbind (log_type_from_u8 (log_tag l)) (\<lambda>t.
      case lc_deserialize lc t (lc_serialize lc l) of Some l' \<Rightarrow> Ok l' | None \<Rightarrow> Panic)"
proof -
  have "lc_serialize lc l \<noteq> []" "hd (lc_serialize lc l) = log_tag l"
      "lc_base64_decode lc (lc_base64 lc (lc_serialize lc l)) = Some (lc_serialize lc l)"
    using assms log_width_bounds [of l] unfolding log_codec_ok_def by (metis length_0_conv less_irrefl, blast+)
  then show ?thesis by (simp add: decode_ray_log_def)
qed

text \<open>With the numbers of \<^verbatim>\<open>log.rs\<close> a message would be read back as the record it is.\<close>

theorem tagged_log_round_trip:
  assumes "log_codec_ok lc" "log_tag l = log_type_into_u8 (log_kind l)"
  shows "rbind (encode_ray_log lc l) (decode_ray_log lc) = (Ok l :: ('e, ray_log) outcome)"
  using assms(1) by (simp add: encode_ray_log_returns [OF assms(1)] decode_message [OF assms(1)] assms(2) log_codec_ok_def)

text \<open>
  With the numbers of \<^verbatim>\<open>args.rs\<close>, which the handlers use, no message is: each is taken for the kind
  before it, so that a deposit reads as an initialization and a base-out swap as a base-in one; a
  withdrawal and a base-in swap, which are shorter than the kind before them, make the decoder panic.
\<close>

primrec args_kind :: "args_log_type \<Rightarrow> log_type" where
  "args_kind ArgsDeposit = LogDeposit"
| "args_kind ArgsWithdraw = LogWithdraw"
| "args_kind ArgsSwapBaseIn = LogSwapBaseIn"
| "args_kind ArgsSwapBaseOut = LogSwapBaseOut"

theorem handler_log_misread:
  assumes "log_codec_ok lc" "log_kind l = args_kind t" "log_tag l = args_log_type_into_u8 t"
    and "rbind (encode_ray_log lc l) (decode_ray_log lc) = (Ok l' :: ('e, ray_log) outcome)"
  shows "t = ArgsDeposit \<and> log_kind l' = LogInit \<or> t = ArgsSwapBaseOut \<and> log_kind l' = LogSwapBaseIn"
proof -
  let ?k = "case t of ArgsDeposit \<Rightarrow> LogInit | ArgsWithdraw \<Rightarrow> LogDeposit | ArgsSwapBaseIn \<Rightarrow> LogWithdraw | ArgsSwapBaseOut \<Rightarrow> LogSwapBaseIn"
  have "log_type_from_u8 (log_tag l) = (Ok ?k :: ('e, log_type) outcome)"
    using assms(3) by (cases t) (simp_all add: log_type_from_u8_def)
  then have "lc_deserialize lc ?k (lc_serialize lc l) = Some l'"
    using assms(4) by (simp add: encode_ray_log_returns [OF assms(1)] decode_message [OF assms(1)] split: option.splits)
  then have k: "log_kind l' = ?k" "log_width l' \<le> log_width l"
    using assms(1) unfolding log_codec_ok_def by metis+
  then show ?thesis using assms(2) by (cases t; cases l; cases l') simp_all
qed

end
