(* ===== verification/MarketUtils.thy ===== *)
theory MarketUtils
  imports Runtime
begin

text \<open>
  \<^verbatim>\<open>program/src/market_utils.rs\<close>: the client-side creation of a dex market, in three transactions, one
  for each vault and one for the market. The file is not in the module tree of the crate. A step
  keeps the keypairs generated so far and the transactions sent so far whether it returns or not,
  because a failure does not undo what was sent before it. The node, the signing of the SDK, the
  builders of the token and dex crates and the derivation of the vault signer are the record
  \<open>node\<close>; a keypair is its public key.
\<close>

section \<open>Steps\<close>

record init_market =
  im_market :: pubkey
  im_program :: pubkey
  im_coin_mint :: pubkey
  im_pc_mint :: pubkey
  im_coin_vault :: pubkey
  im_pc_vault :: pubkey
  im_bids :: pubkey
  im_asks :: pubkey
  im_req_q :: pubkey
  im_event_q :: pubkey
  im_coin_lot_size :: u64
  im_pc_lot_size :: u64
  im_vault_signer_nonce :: u64
  im_fee_bps :: u64

datatype market_ix =
    CreateAccount pubkey pubkey nat pubkey
      \<comment> \<open>payer, new account, space, owner; the lamports are the rent for the space\<close>
  | InitializeAccount pubkey pubkey pubkey pubkey
      \<comment> \<open>token program, account, mint, owner\<close>
  | InitializeMarket init_market
      \<comment> \<open>without an msrm mint and the two authorities\<close>

record market_tx =
  mt_payer :: pubkey
  mt_instructions :: "market_ix list"
  mt_signers :: "pubkey list"

datatype market_error = RpcError | BuilderError

record node =
  n_account_owner :: "pubkey \<Rightarrow> pubkey option"
  n_rent :: "nat \<Rightarrow> unit option"
  n_blockhash :: "unit option"
  n_send :: "market_tx list \<Rightarrow> market_tx \<Rightarrow> unit option"
  n_sign :: "pubkey set \<Rightarrow> pubkey list \<Rightarrow> bool"
  n_ix_signers :: "market_ix \<Rightarrow> pubkey set"
  n_build :: "market_ix \<Rightarrow> unit option"
  n_keypair :: "nat \<Rightarrow> pubkey"
  n_spl_token :: pubkey
  n_spl_token_2022 :: pubkey
  n_spl_account_len :: nat
  n_spl22_account_len :: nat
  n_vault_signer :: "u64 \<Rightarrow> pubkey \<Rightarrow> pubkey \<Rightarrow> pubkey option"

record progress =
  generated :: nat
  sent_txs :: "market_tx list"

type_synonym 'a step = "progress \<Rightarrow> (market_error, 'a) outcome \<times> progress"

definition sbind :: "'a step \<Rightarrow> ('a \<Rightarrow> 'b step) \<Rightarrow> 'b step" where
  "sbind m f s = (case m s of (Ok x, s) \<Rightarrow> f x s | (Err e, s) \<Rightarrow> (Err e, s) | (Panic, s) \<Rightarrow> (Panic, s))"

definition lift :: "(market_error, 'a) outcome \<Rightarrow> 'a step" where
  "lift r s = (r, s)"

text \<open>\<^verbatim>\<open>Keypair::new()\<close>\<close>

definition new_keypair :: "node \<Rightarrow> pubkey step" where
  "new_keypair n s = (Ok (n_keypair n (generated s)), s\<lparr>generated := Suc (generated s)\<rparr>)"

text \<open>
  \<^verbatim>\<open>get_latest_blockhash()?\<close>, \<^verbatim>\<open>Transaction::new_signed_with_payer\<close>, which panics unless the keypairs are
  the required signers, and \<^verbatim>\<open>send_and_confirm_transaction\<close>.
\<close>

definition transact_step :: "node \<Rightarrow> market_ix list \<Rightarrow> pubkey \<Rightarrow> pubkey list \<Rightarrow> unit step" where
  "transact_step n ixs payer keypairs =
     sbind (lift (ok_or RpcError (n_blockhash n))) (\<lambda>_ s.
       let tx = \<lparr>mt_payer = payer, mt_instructions = ixs, mt_signers = keypairs\<rparr> in
       if \<not> n_sign n (insert payer (\<Union> (n_ix_signers n ` set ixs))) keypairs then (Panic, s)
       else (ok_or RpcError (n_send n (sent_txs s) tx), s\<lparr>sent_txs := sent_txs s @ [tx]\<rparr>))"

section \<open>Token accounts\<close>

text \<open>An account that cannot be read counts as one of the older program.\<close>

definition is_token2022_mint :: "node \<Rightarrow> pubkey \<Rightarrow> bool" where
  "is_token2022_mint n mint =
     (case n_account_owner n mint of Some owner \<Rightarrow> owner = n_spl_token_2022 n | None \<Rightarrow> False)"

definition token_program_of :: "node \<Rightarrow> pubkey \<Rightarrow> pubkey" where
  "token_program_of n mint = (if is_token2022_mint n mint then n_spl_token_2022 n else n_spl_token n)"

definition account_len_of :: "node \<Rightarrow> pubkey \<Rightarrow> nat" where
  "account_len_of n mint = (if is_token2022_mint n mint then n_spl22_account_len n else n_spl_account_len n)"

definition create_token_account :: "node \<Rightarrow> pubkey \<Rightarrow> pubkey \<Rightarrow> pubkey \<Rightarrow> pubkey step" where
  "create_token_account n mint owner payer =
     sbind (new_keypair n) (\<lambda>spl_account.
     let program = token_program_of n mint; len = account_len_of n mint;
         init = InitializeAccount program spl_account mint owner in
     sbind (lift (ok_or RpcError (n_rent n len))) (\<lambda>_.
     sbind (lift (ok_or BuilderError (n_build n init))) (\<lambda>_.
     sbind (transact_step n [CreateAccount payer spl_account len program, init] payer [payer, spl_account]) (\<lambda>_.
     lift (Ok spl_account)))))"

section \<open>The market's accounts\<close>

definition create_dex_account :: "node \<Rightarrow> pubkey \<Rightarrow> pubkey \<Rightarrow> nat \<Rightarrow> (pubkey \<times> market_ix) step" where
  "create_dex_account n program payer unpadded_len =
     (let len = unpadded_len + 12 in
      sbind (new_keypair n) (\<lambda>key.
      sbind (lift (ok_or RpcError (n_rent n len))) (\<lambda>_.
      lift (Ok (key, CreateAccount payer key len program)))))"

text \<open>\<^verbatim>\<open>loop { assert!(i < 100); if let Ok(pk) = gen_vault_signer_key(i, ..) { break (i, pk) } i += 1; }\<close>\<close>

function vault_signer_loop :: "(u64 \<Rightarrow> pubkey option) \<Rightarrow> u64 \<Rightarrow> ('e, u64 \<times> pubkey) outcome" where
  "vault_signer_loop gen i =
     (if i < 100 then (case gen i of Some pk \<Rightarrow> Ok (i, pk) | None \<Rightarrow> vault_signer_loop gen (i + 1)) else Panic)"
  by pat_completeness auto
termination
proof (relation "measure (\<lambda>(g, i). 100 - unat i)", goal_cases)
  case (2 gen i)
  then have "unat i < 100" by (simp add: word_less_nat_alt)
  then have "unat (i + 1) = unat i + 1" by (simp add: unat_word_ariths)
  then show ?case using \<open>unat i < 100\<close> by simp
qed simp

declare vault_signer_loop.simps [simp del]

record listing_keys =
  lk_market :: pubkey
  lk_req_q :: pubkey
  lk_event_q :: pubkey
  lk_bids :: pubkey
  lk_asks :: pubkey
  lk_vault_signer :: pubkey
  lk_vault_signer_nonce :: u64

definition gen_listing_params :: "node \<Rightarrow> pubkey \<Rightarrow> pubkey \<Rightarrow> (listing_keys \<times> market_ix list) step" where
  "gen_listing_params n program payer =
     sbind (create_dex_account n program payer 376) (\<lambda>(market, create_market).
     sbind (create_dex_account n program payer 640) (\<lambda>(req_q, create_req_q).
     sbind (create_dex_account n program payer (2 ^ 20)) (\<lambda>(event_q, create_event_q).
     sbind (create_dex_account n program payer (2 ^ 16)) (\<lambda>(bids, create_bids).
     sbind (create_dex_account n program payer (2 ^ 16)) (\<lambda>(asks, create_asks).
     sbind (lift (vault_signer_loop (\<lambda>i. n_vault_signer n i market program) 0)) (\<lambda>(signer_nonce, signer).
     lift (Ok (\<lparr>lk_market = market, lk_req_q = req_q, lk_event_q = event_q, lk_bids = bids, lk_asks = asks,
         lk_vault_signer = signer, lk_vault_signer_nonce = signer_nonce\<rparr>,
       [create_market, create_req_q, create_event_q, create_bids, create_asks]))))))))"

section \<open>The market\<close>

record market_pubkeys =
  mp_market :: pubkey
  mp_req_q :: pubkey
  mp_event_q :: pubkey
  mp_bids :: pubkey
  mp_asks :: pubkey
  mp_coin_vault :: pubkey
  mp_pc_vault :: pubkey
  mp_vault_signer_key :: pubkey

definition create_openbook_market ::
  "node \<Rightarrow> pubkey \<Rightarrow> pubkey \<Rightarrow> pubkey \<Rightarrow> pubkey \<Rightarrow> u64 \<Rightarrow> u64 \<Rightarrow> market_pubkeys step" where
  "create_openbook_market n program payer coin_mint pc_mint coin_lot pc_lot =
     sbind (gen_listing_params n program payer) (\<lambda>(k, instructions).
     sbind (create_token_account n coin_mint (lk_vault_signer k) payer) (\<lambda>coin_vault.
     sbind (create_token_account n pc_mint (lk_vault_signer k) payer) (\<lambda>pc_vault.
     let init = InitializeMarket
           \<lparr>im_market = lk_market k, im_program = program, im_coin_mint = coin_mint, im_pc_mint = pc_mint,
            im_coin_vault = coin_vault, im_pc_vault = pc_vault, im_bids = lk_bids k, im_asks = lk_asks k,
            im_req_q = lk_req_q k, im_event_q = lk_event_q k, im_coin_lot_size = coin_lot, im_pc_lot_size = pc_lot,
            im_vault_signer_nonce = lk_vault_signer_nonce k, im_fee_bps = 100\<rparr> in
     sbind (lift (ok_or BuilderError (n_build n init))) (\<lambda>_.
     sbind (transact_step n (instructions @ [init]) payer
       [payer, lk_market k, lk_req_q k, lk_event_q k, lk_bids k, lk_asks k]) (\<lambda>_.
     lift (Ok \<lparr>mp_market = lk_market k, mp_req_q = lk_req_q k, mp_event_q = lk_event_q k, mp_bids = lk_bids k,
       mp_asks = lk_asks k, mp_coin_vault = coin_vault, mp_pc_vault = pc_vault,
       mp_vault_signer_key = lk_vault_signer k\<rparr>))))))"

section \<open>The search for the vault signer\<close>

definition first_signer :: "(u64 \<Rightarrow> pubkey option) \<Rightarrow> u64 \<Rightarrow> pubkey \<Rightarrow> bool" where
  "first_signer gen j pk \<longleftrightarrow> j < 100 \<and> gen j = Some pk \<and> (\<forall>k<j. gen k = None)"

lemma vault_signer_from:
  "\<forall>k<i. gen k = None \<Longrightarrow>
   (case vault_signer_loop gen i of Ok (j, pk) \<Rightarrow> first_signer gen j pk | Err e \<Rightarrow> False | Panic \<Rightarrow> \<forall>k<100. gen k = None)"
proof (induction gen i rule: vault_signer_loop.induct)
  case (1 gen i)
  show ?case
  proof (cases "i < 100 \<and> gen i = None")
    case True
    then have "unat (i + 1) = unat i + 1" by (simp add: unat_word_ariths word_less_nat_alt)
    then have "k < i + 1 \<longleftrightarrow> k < i \<or> k = i" for k
      by (auto simp: word_less_nat_alt word_unat_eq_iff)
    then have "\<forall>k<i + 1. gen k = None" using 1(2) True by auto
    then show ?thesis using 1(1) True by (simp add: vault_signer_loop.simps [of gen i])
  next
    case False
    show ?thesis
    proof (cases "i < 100")
      case True
      with False obtain pk where "gen i = Some pk" by auto
      with True 1(2) show ?thesis by (simp add: vault_signer_loop.simps [of gen i] first_signer_def)
    next
      case False
      then have "k < 100 \<Longrightarrow> k < i" for k by simp
      with False 1(2) show ?thesis by (simp add: vault_signer_loop.simps [of gen i])
    qed
  qed
qed

section \<open>The three transactions\<close>

definition node_signs :: "node \<Rightarrow> bool" where
  "node_signs n \<longleftrightarrow> (\<forall>required keypairs. n_sign n required keypairs \<longleftrightarrow> set keypairs = required) \<and>
     (\<forall>f t l p. n_ix_signers n (CreateAccount f t l p) = {f, t}) \<and>
     (\<forall>p a m w. n_ix_signers n (InitializeAccount p a m w) = {}) \<and> (\<forall>i. n_ix_signers n (InitializeMarket i) = {})"

definition vault_tx :: "node \<Rightarrow> pubkey \<Rightarrow> pubkey \<Rightarrow> pubkey \<Rightarrow> pubkey \<Rightarrow> market_tx" where
  "vault_tx n payer mint owner vault =
     \<lparr>mt_payer = payer, mt_instructions =
       [CreateAccount payer vault (account_len_of n mint) (token_program_of n mint),
        InitializeAccount (token_program_of n mint) vault mint owner], mt_signers = [payer, vault]\<rparr>"

text \<open>What creating a market sends, the keypairs being numbered in the order they are generated.\<close>

definition create_market_tx ::
  "node \<Rightarrow> pubkey \<Rightarrow> pubkey \<Rightarrow> pubkey \<Rightarrow> pubkey \<Rightarrow> u64 \<Rightarrow> u64 \<Rightarrow> u64 \<Rightarrow> market_tx" where
  "create_market_tx n program payer coin_mint pc_mint coin_lot pc_lot signer_nonce =
     (let k = n_keypair n in
      \<lparr>mt_payer = payer, mt_instructions =
         [CreateAccount payer (k 0) 388 program, CreateAccount payer (k 1) 652 program,
          CreateAccount payer (k 2) 1048588 program, CreateAccount payer (k 3) 65548 program,
          CreateAccount payer (k 4) 65548 program,
          InitializeMarket
            \<lparr>im_market = k 0, im_program = program, im_coin_mint = coin_mint, im_pc_mint = pc_mint,
             im_coin_vault = k 5, im_pc_vault = k 6, im_bids = k 3, im_asks = k 4, im_req_q = k 1, im_event_q = k 2,
             im_coin_lot_size = coin_lot, im_pc_lot_size = pc_lot, im_vault_signer_nonce = signer_nonce,
             im_fee_bps = 100\<rparr>],
        mt_signers = [payer, k 0, k 1, k 2, k 3, k 4]\<rparr>)"

definition market_script ::
  "node \<Rightarrow> pubkey \<Rightarrow> pubkey \<Rightarrow> pubkey \<Rightarrow> pubkey \<Rightarrow> u64 \<Rightarrow> u64 \<Rightarrow> u64 \<Rightarrow> pubkey \<Rightarrow> market_tx list" where
  "market_script n program payer coin_mint pc_mint coin_lot pc_lot signer_nonce signer =
     [vault_tx n payer coin_mint signer (n_keypair n 5), vault_tx n payer pc_mint signer (n_keypair n 6),
      create_market_tx n program payer coin_mint pc_mint coin_lot pc_lot signer_nonce]"

text \<open>The transaction at a position of the script is confirmed when those before it have been sent.\<close>

definition confirmed :: "node \<Rightarrow> market_tx list \<Rightarrow> nat \<Rightarrow> bool" where
  "confirmed n txs k \<longleftrightarrow> n_send n (take k txs) (txs ! k) = Some ()"

text \<open>Of a script of three, the first \<open>m\<close> were sent and all but perhaps the last were confirmed, but not all three.\<close>

definition stopped_at :: "node \<Rightarrow> market_tx list \<Rightarrow> nat \<Rightarrow> bool" where
  "stopped_at n txs m \<longleftrightarrow> m \<le> 3 \<and> (\<forall>k. Suc k < m \<longrightarrow> confirmed n txs k) \<and> (m = 3 \<longrightarrow> \<not> confirmed n txs 2)"

definition start :: progress where "start = \<lparr>generated = 0, sent_txs = []\<rparr>"

lemmas step_defs = sbind_def lift_def new_keypair_def ok_or_def

lemma create_dex_account_run:
  "create_dex_account n program payer l s =
     (case n_rent n (l + 12) of
        Some _ \<Rightarrow> (Ok (n_keypair n (generated s), CreateAccount payer (n_keypair n (generated s)) (l + 12) program),
          s\<lparr>generated := Suc (generated s)\<rparr>)
      | None \<Rightarrow> (Err RpcError, s\<lparr>generated := Suc (generated s)\<rparr>))"
  by (simp add: create_dex_account_def step_defs split: option.split)

lemma create_token_account_run:
  assumes "node_signs n" "create_token_account n mint owner payer s = (r, s')"
  shows "case r of
      Ok a \<Rightarrow> a = n_keypair n (generated s) \<and> generated s' = Suc (generated s) \<and>
        sent_txs s' = sent_txs s @ [vault_tx n payer mint owner a] \<and>
        n_send n (sent_txs s) (vault_tx n payer mint owner a) = Some ()
    | Err e \<Rightarrow> sent_txs s' = sent_txs s \<or> sent_txs s' = sent_txs s @ [vault_tx n payer mint owner (n_keypair n (generated s))]
    | Panic \<Rightarrow> False"
proof -
  let ?k = "n_keypair n (generated s)" and ?p = "token_program_of n mint" and ?l = "account_len_of n mint"
  have "n_sign n (insert payer (\<Union> (n_ix_signers n ` set [CreateAccount payer ?k ?l ?p, InitializeAccount ?p ?k mint owner])))
      [payer, ?k]"
    using assms(1) by (auto simp: node_signs_def)
  then show ?thesis
    using assms(2) by (cases "n_rent n ?l"; cases "n_build n (InitializeAccount ?p ?k mint owner)"; cases "n_blockhash n";
        cases "n_send n (sent_txs s) (vault_tx n payer mint owner ?k)")
      (auto simp: create_token_account_def transact_step_def vault_tx_def step_defs Let_def)
qed

text \<open>The keys of the listing, from the search for the signer.\<close>

definition listing_of :: "node \<Rightarrow> u64 \<Rightarrow> pubkey \<Rightarrow> listing_keys" where
  "listing_of n signer_nonce signer =
     \<lparr>lk_market = n_keypair n 0, lk_req_q = n_keypair n 1, lk_event_q = n_keypair n 2, lk_bids = n_keypair n 3,
      lk_asks = n_keypair n 4, lk_vault_signer = signer, lk_vault_signer_nonce = signer_nonce\<rparr>"

lemma gen_listing_params_run:
  assumes "gen_listing_params n program payer start = (r, s)"
  shows "sent_txs s = [] \<and> (case r of
      Ok (k, ixs) \<Rightarrow> generated s = 5 \<and> (\<exists>j signer. first_signer (\<lambda>i. n_vault_signer n i (n_keypair n 0) program) j signer \<and>
        k = listing_of n j signer) \<and>
        ixs = [CreateAccount payer (n_keypair n 0) 388 program, CreateAccount payer (n_keypair n 1) 652 program,
          CreateAccount payer (n_keypair n 2) 1048588 program, CreateAccount payer (n_keypair n 3) 65548 program,
          CreateAccount payer (n_keypair n 4) 65548 program]
    | Err e \<Rightarrow> True
    | Panic \<Rightarrow> \<forall>i<100. n_vault_signer n i (n_keypair n 0) program = None)"
proof -
  let ?g = "\<lambda>i. n_vault_signer n i (n_keypair n 0) program"
  let ?v = "vault_signer_loop ?g 0 :: (market_error, u64 \<times> pubkey) outcome"
  have v: "case ?v of Ok (j, pk) \<Rightarrow> first_signer ?g j pk | Err e \<Rightarrow> False | Panic \<Rightarrow> \<forall>k<100. ?g k = None"
    by (rule vault_signer_from) simp
  show ?thesis
    using assms v by (cases "n_rent n 388"; cases "n_rent n 652"; cases "n_rent n 1048588"; cases "n_rent n 65548"; cases ?v)
      (auto simp: gen_listing_params_def start_def create_dex_account_run sbind_def lift_def listing_of_def
        numeral_2_eq_2 [symmetric])
qed

lemma market_script_stops:
  fixes n program payer coin pc cl pl j signer
  defines "script \<equiv> market_script n program payer coin pc cl pl j signer"
    and "c \<equiv> vault_tx n payer coin signer (n_keypair n 5)" and "p \<equiv> vault_tx n payer pc signer (n_keypair n 6)"
    and "m \<equiv> create_market_tx n program payer coin pc cl pl j"
  shows "\<exists>i. [] = take i script \<and> stopped_at n script i"
    "\<exists>i. [c] = take i script \<and> stopped_at n script i"
    "n_send n [] c = Some () \<Longrightarrow> \<exists>i. [c, p] = take i script \<and> stopped_at n script i"
    "n_send n [] c = Some () \<Longrightarrow> n_send n [c] p = Some () \<Longrightarrow> n_send n [c, p] m = None \<Longrightarrow>
      \<exists>i. [c, p, m] = take i script \<and> stopped_at n script i"
    "n_send n [] c = Some () \<Longrightarrow> n_send n [c] p = Some () \<Longrightarrow> n_send n [c, p] m = Some () \<Longrightarrow>
      [c, p, m] = script \<and> (\<forall>k<3. confirmed n script k)"
proof -
  have s: "script = [c, p, m]" by (simp add: script_def market_script_def c_def p_def m_def)
  have less: "Suc k < 2 \<longleftrightarrow> k = 0" "Suc k < 3 \<longleftrightarrow> k = 0 \<or> k = 1" "k < 3 \<longleftrightarrow> k = 0 \<or> k = 1 \<or> k = 2" for k by auto
  note defs = s stopped_at_def confirmed_def less
  show "\<exists>i. [] = take i script \<and> stopped_at n script i" by (rule exI [of _ 0]) (simp add: defs)
  show "\<exists>i. [c] = take i script \<and> stopped_at n script i" by (rule exI [of _ 1]) (simp add: defs)
  show "n_send n [] c = Some () \<Longrightarrow> \<exists>i. [c, p] = take i script \<and> stopped_at n script i"
    by (rule exI [of _ 2]) (simp add: defs)
  show "n_send n [] c = Some () \<Longrightarrow> n_send n [c] p = Some () \<Longrightarrow> n_send n [c, p] m = None \<Longrightarrow>
      \<exists>i. [c, p, m] = take i script \<and> stopped_at n script i"
    by (rule exI [of _ 3]) (auto simp: defs)
  show "n_send n [] c = Some () \<Longrightarrow> n_send n [c] p = Some () \<Longrightarrow> n_send n [c, p] m = Some () \<Longrightarrow>
      [c, p, m] = script \<and> (\<forall>k<3. confirmed n script k)"
    by (auto simp: defs)
qed

lemma create_market_tx_signed:
  "node_signs n \<Longrightarrow> n_sign n (insert payer (\<Union> (n_ix_signers n ` set
      (mt_instructions (create_market_tx n program payer coin pc cl pl j)))))
    [payer, n_keypair n 0, n_keypair n 1, n_keypair n 2, n_keypair n 3, n_keypair n 4]"
  by (auto simp: node_signs_def create_market_tx_def Let_def)

lemma create_market_after_listing:
  assumes "node_signs n" "gen_listing_params n program payer start = (Ok (listing_of n j signer, ixs), s0)"
    and "create_openbook_market n program payer coin pc cl pl start = (r, s)"
  shows "case r of
      Ok p \<Rightarrow> sent_txs s = market_script n program payer coin pc cl pl j signer \<and>
        (\<forall>k<3. confirmed n (market_script n program payer coin pc cl pl j signer) k) \<and>
        p = \<lparr>mp_market = n_keypair n 0, mp_req_q = n_keypair n 1, mp_event_q = n_keypair n 2, mp_bids = n_keypair n 3,
          mp_asks = n_keypair n 4, mp_coin_vault = n_keypair n 5, mp_pc_vault = n_keypair n 6,
          mp_vault_signer_key = signer\<rparr>
    | Err e \<Rightarrow> \<exists>m. sent_txs s = take m (market_script n program payer coin pc cl pl j signer) \<and>
        stopped_at n (market_script n program payer coin pc cl pl j signer) m
    | Panic \<Rightarrow> False"
proof -
  let ?tx = "create_market_tx n program payer coin pc cl pl j"
  have l: "sent_txs s0 = []" "generated s0 = 5" using gen_listing_params_run [OF assms(2)] by simp_all
  obtain r1 s1 where c: "create_token_account n coin signer payer s0 = (r1, s1)" by fastforce
  obtain r2 s2 where d: "create_token_account n pc signer payer s1 = (r2, s2)" by fastforce
  note cr = create_token_account_run [OF assms(1) c] and dr = create_token_account_run [OF assms(1) d]
  let ?i = "last (mt_instructions ?tx)"
  have tx: "ixs @ [?i] = mt_instructions ?tx"
      "\<lparr>mt_payer = payer, mt_instructions = mt_instructions ?tx, mt_signers =
         [payer, n_keypair n 0, n_keypair n 1, n_keypair n 2, n_keypair n 3, n_keypair n 4]\<rparr> = ?tx"
    using gen_listing_params_run [OF assms(2)] by (simp_all add: create_market_tx_def Let_def)
  note stops = market_script_stops [where n = n and program = program and payer = payer and coin = coin and pc = pc
      and cl = cl and pl = pl and j = j and signer = signer]
  note signed = create_market_tx_signed [OF assms(1), of payer program coin pc cl pl j]
  show ?thesis
  proof (cases "is_ok r1 \<and> is_ok r2")
    case False
    then show ?thesis
      using assms(2,3) c d cr dr l stops
      by (cases r1; cases r2) (auto simp: create_openbook_market_def sbind_def listing_of_def)
  next
    case True
    have last': "last (mt_instructions ?tx) = InitializeMarket
        \<lparr>im_market = n_keypair n 0, im_program = program, im_coin_mint = coin, im_pc_mint = pc,
         im_coin_vault = n_keypair n 5, im_pc_vault = n_keypair n 6, im_bids = n_keypair n 3, im_asks = n_keypair n 4,
         im_req_q = n_keypair n 1, im_event_q = n_keypair n 2, im_coin_lot_size = cl, im_pc_lot_size = pl,
         im_vault_signer_nonce = j, im_fee_bps = 100\<rparr>"
      by (simp add: create_market_tx_def Let_def)
    let ?t = "transact_step n (ixs @ [?i]) payer [payer, n_keypair n 0, n_keypair n 1, n_keypair n 2, n_keypair n 3, n_keypair n 4] s2"
    have t: "?t = (if n_blockhash n = None then (Err RpcError, s2)
        else (ok_or RpcError (n_send n (sent_txs s2) ?tx), s2\<lparr>sent_txs := sent_txs s2 @ [?tx]\<rparr>))"
      using signed tx(2) unfolding tx(1)
      by (cases "n_blockhash n") (simp_all add: transact_step_def step_defs Let_def)
    from True have vaults: "r1 = Ok (n_keypair n 5)" "r2 = Ok (n_keypair n 6)" "generated s2 = 7"
        "sent_txs s2 = [vault_tx n payer coin signer (n_keypair n 5), vault_tx n payer pc signer (n_keypair n 6)]"
      and sent: "n_send n [] (vault_tx n payer coin signer (n_keypair n 5)) = Some ()"
        "n_send n [vault_tx n payer coin signer (n_keypair n 5)] (vault_tx n payer pc signer (n_keypair n 6)) = Some ()"
      using cr dr l by (auto simp: is_ok_iff)
    let ?p = "\<lparr>mp_market = n_keypair n 0, mp_req_q = n_keypair n 1, mp_event_q = n_keypair n 2, mp_bids = n_keypair n 3,
          mp_asks = n_keypair n 4, mp_coin_vault = n_keypair n 5, mp_pc_vault = n_keypair n 6,
          mp_vault_signer_key = signer\<rparr>"
    have last_step: "(r, s) = (if n_build n ?i = None then (Err BuilderError, s2) else if n_blockhash n = None then (Err RpcError, s2)
        else case n_send n (sent_txs s2) ?tx of None \<Rightarrow> (Err RpcError, s2\<lparr>sent_txs := sent_txs s2 @ [?tx]\<rparr>)
          | Some _ \<Rightarrow> (Ok ?p, s2\<lparr>sent_txs := sent_txs s2 @ [?tx]\<rparr>))"
      using assms(2,3) c d t [unfolded last'] vaults
      by (cases "n_blockhash n"; cases "n_build n (last (mt_instructions ?tx))"; cases "n_send n (sent_txs s2) ?tx")
        (auto simp: create_openbook_market_def sbind_def listing_of_def lift_def ok_or_def last')
    show ?thesis
    proof (cases "n_build n ?i = None \<or> n_blockhash n = None")
      case True
      then have "(r, s) = (Err BuilderError, s2) \<or> (r, s) = (Err RpcError, s2)" using last_step by (auto split: if_split_asm)
      then show ?thesis using stops(3) [OF sent(1)] vaults(4) by auto
    next
      case False
      then show ?thesis using last_step stops(4,5) [OF sent] vaults(4)
        by (cases "n_send n (sent_txs s2) ?tx") simp_all
    qed
  qed
qed

text \<open>
  C40. Creating a market always comes to an end and sends, whatever happens, a beginning of one script of
  three transactions: the coin vault and the pc vault, token accounts of the program that owns their
  mint and in the hands of the vault signer, and then the five accounts of the dex, each twelve bytes
  larger than its contents, with the market's initialization. Each is sent only after the one before is
  confirmed, and it returns the keys exactly when all three are: an error means that fewer were
  sent or that the third was not confirmed. The vault signer is that of the first nonce below 100 that has one; if
  there is none it panics before anything is sent. Nothing else panics: every transaction is signed
  by exactly the keypairs it needs. A failure on the way leaves the vaults that were created.
\<close>

theorem market_creation_script:
  assumes "node_signs n"
  shows "case create_openbook_market n program payer coin pc cl pl start of
      (Ok p, s) \<Rightarrow> \<exists>j signer. first_signer (\<lambda>i. n_vault_signer n i (n_keypair n 0) program) j signer \<and>
        sent_txs s = market_script n program payer coin pc cl pl j signer \<and>
        (\<forall>k<3. confirmed n (market_script n program payer coin pc cl pl j signer) k) \<and>
        p = \<lparr>mp_market = n_keypair n 0, mp_req_q = n_keypair n 1, mp_event_q = n_keypair n 2, mp_bids = n_keypair n 3,
          mp_asks = n_keypair n 4, mp_coin_vault = n_keypair n 5, mp_pc_vault = n_keypair n 6,
          mp_vault_signer_key = signer\<rparr>
    | (Err e, s) \<Rightarrow> sent_txs s = [] \<or>
        (\<exists>j signer m. first_signer (\<lambda>i. n_vault_signer n i (n_keypair n 0) program) j signer \<and>
          sent_txs s = take m (market_script n program payer coin pc cl pl j signer) \<and>
          stopped_at n (market_script n program payer coin pc cl pl j signer) m)
    | (Panic, s) \<Rightarrow> sent_txs s = [] \<and> (\<forall>i<100. n_vault_signer n i (n_keypair n 0) program = None)"
proof -
  obtain r0 s0 where g: "gen_listing_params n program payer start = (r0, s0)" by fastforce
  obtain r s where c: "create_openbook_market n program payer coin pc cl pl start = (r, s)" by fastforce
  note run = gen_listing_params_run [OF g]
  show ?thesis
  proof (cases r0)
    case (Ok k_ixs)
    then obtain j signer ixs where k: "k_ixs = (listing_of n j signer, ixs)"
      and j: "first_signer (\<lambda>i. n_vault_signer n i (n_keypair n 0) program) j signer"
      using run by (cases k_ixs) auto
    from create_market_after_listing [OF assms g [unfolded Ok k] c] j c show ?thesis
      by (cases r) auto
  qed (use run g c in \<open>auto simp: create_openbook_market_def sbind_def\<close>)
qed

text \<open>A node for which the signers of the nonces 0 and 1 do not exist and whose third confirmation is lost.\<close>

definition demo_node :: node where
  "demo_node =
     \<lparr>n_account_owner = \<lambda>m. if m = 31 then Some 52 else None, n_rent = \<lambda>_. Some (), n_blockhash = Some (),
      n_send = \<lambda>earlier _. if length earlier = 2 then None else Some (),
      n_sign = \<lambda>required keypairs. set keypairs = required,
      n_ix_signers = \<lambda>i. case i of CreateAccount f t _ _ \<Rightarrow> {f, t} | _ \<Rightarrow> {},
      n_build = \<lambda>_. Some (), n_keypair = \<lambda>i. of_nat (100 + i), n_spl_token = 50, n_spl_token_2022 = 52,
      n_spl_account_len = 165, n_spl22_account_len = 165,
      n_vault_signer = \<lambda>i m p. if i < 2 then None else Some (ucast i + m)\<rparr>"

lemma demo_node_simps:
  "n_rent demo_node l = Some ()" "n_blockhash demo_node = Some ()" "n_build demo_node i = Some ()"
  "n_keypair demo_node a = of_nat (100 + a)" "n_sign demo_node required keypairs = (set keypairs = required)"
  "n_ix_signers demo_node (CreateAccount f t b c) = {f, t}" "n_ix_signers demo_node (InitializeAccount f t c d) = {}"
  "n_ix_signers demo_node (InitializeMarket m) = {}"
  "n_send demo_node earlier tx = (if length earlier = 2 then None else Some ())"
  by (simp_all add: demo_node_def)

lemma demo_vault_signer: "vault_signer_loop (\<lambda>i. n_vault_signer demo_node i m p) 0 = Ok (2, 2 + m)"
  by (simp add: vault_signer_loop.simps demo_node_def)

theorem market_creation_script_witness:
  "\<exists>e s. create_openbook_market demo_node 9 23 30 31 1 1 start = (Err e, s) \<and> length (sent_txs s) = 3 \<and>
     (\<exists>j signer m. first_signer (\<lambda>i. n_vault_signer demo_node i (n_keypair demo_node 0) 9) j signer \<and>
       sent_txs s = take m (market_script demo_node 9 23 30 31 1 1 j signer) \<and>
       stopped_at demo_node (market_script demo_node 9 23 30 31 1 1 j signer) m)"
proof -
  have "node_signs demo_node" by (simp add: node_signs_def demo_node_def)
  note t = market_creation_script [OF this, of 9 23 30 31 1 1]
  have "\<exists>s. create_openbook_market demo_node 9 23 30 31 1 1 start = (Err RpcError, s) \<and> length (sent_txs s) = 3"
    by (simp add: create_openbook_market_def gen_listing_params_def create_dex_account_def create_token_account_def
        transact_step_def step_defs start_def demo_vault_signer demo_node_simps Let_def insert_commute)
  with t show ?thesis by auto
qed

end
