(* ===== verification/LayoutTests.thy ===== *)
theory LayoutTests
  imports Layout
begin

text \<open>
  The two tests of \<^verbatim>\<open>src/state.rs\<close> (\<^verbatim>\<open>test_amm_info_layout\<close>, \<^verbatim>\<open>test_target_info_layout\<close>). Each writes the
  fields of a record one after another into a buffer with a writer of its own, casts the buffer and
  compares every field. The writer is independent of the record's declaration, so that the tests are
  a second source for the memory in theory \<open>Layout\<close>: they pass for the values they are written with,
  and would for all others.
\<close>

section \<open>The writer\<close>

text \<open>\<^verbatim>\<open>data[offset..offset + n].copy_from_slice(&field); offset += n\<close>; out of range panics.\<close>

definition copy_next :: "bytes \<Rightarrow> nat \<times> bytes \<Rightarrow> ('e, nat \<times> bytes) outcome" where
  "copy_next src = (\<lambda>(offset, data).
     if offset + length src \<le> length data
     then Ok (offset + length src, take offset data @ src @ drop (offset + length src) data) else Panic)"

definition assert_that :: "bool \<Rightarrow> ('e, unit) outcome" where
  "assert_that b = (if b then Ok () else Panic)"

section \<open>The pool\<close>

definition amm_test_info :: "(nat \<Rightarrow> pubkey) \<Rightarrow> amm_info" where
  "amm_test_info new_unique =
     \<lparr>status = 0x123456789abcdef0, nonce = 0x123456789abcde0f, order_num = 0x123456789abcd0ef,
      depth = 0x123456789abc0def, coin_decimals = 0x123456789ab0cdef, pc_decimals = 0x123456789a0bcdef,
      state = 0x1234567890abcdef, reset_flag = 0x1234567809abcdef, min_size = 0x1234567089abcdef,
      vol_max_cut_ratio = 0x1234560789abcdef, amount_wave = 0x1234506789abcdef, coin_lot_size = 0x1234056789abcdef,
      pc_lot_size = 0x1230456789abcdef, min_price_multiplier = 0x1203456789abcdef, max_price_multiplier = 0x1023456789abcdef,
      sys_decimal_value = 0x123456789abcdfe0,
      amm_fees = \<lparr>min_separate_numerator = 0x123456789abcfde0, min_separate_denominator = 0x123456789abfcde0,
        trade_fee_numerator = 0x123456789afbcde0, trade_fee_denominator = 0x123456789fabcde0,
        pnl_numerator = 0x12345678f9abcde0, pnl_denominator = 0x1234567f89abcde0,
        swap_fee_numerator = 0x123456f789abcde0, swap_fee_denominator = 0x12345f6789abcde0\<rparr>,
      amm_state_data = \<lparr>need_take_pnl_coin = 0x1234f56789abcde0, need_take_pnl_pc = 0x123f456789abcde0,
        total_pnl_pc = 0x12f3456789abcde0, total_pnl_coin = 0x1f23456789abcde0,
        pool_open_time = 0x123456789abcedf0,
        sd_padding = [0x123456789abecdf0, 0x123456789aebcdf0],
        orderbook_to_init_time = 0x123456789eabcdf0, swap_coin_in_amount = 0x11002233445566778899aabbccddeeff,
        swap_pc_out_amount = 0x11220033445566778899aabbccddeeff, swap_acc_pc_fee = 0x12345678e9abcdf0,
        swap_pc_in_amount = 0x11223300445566778899aabbccddeeff, swap_coin_out_amount = 0x11223344005566778899aabbccddeeff,
        swap_acc_coin_fee = 0x1234567e89abcdf0\<rparr>,
      coin_vault = new_unique 0, pc_vault = new_unique 1, coin_vault_mint = new_unique 2, pc_vault_mint = new_unique 3,
      lp_mint = new_unique 4, open_orders = new_unique 5, market = new_unique 6, market_program = new_unique 7, target_orders = new_unique 8,
      amm_padding1 = map (\<lambda>i. - 1 - of_nat i) [0..<8], amm_owner = new_unique 9,
      lp_amount = 0x123456e789abcdf0, client_order_id = 0x12345e6789abcdf0, recent_epoch = 0x1234e56789abcdf0,
      amm_padding2 = 0x123e456789abcdf0\<rparr>"

definition amm_test_fields :: "amm_info \<Rightarrow> bytes list" where
  "amm_test_fields a =
     (let f = amm_fees a; s = amm_state_data a in
     [le_bytes 8 (status a), le_bytes 8 (nonce a), le_bytes 8 (order_num a), le_bytes 8 (depth a),
      le_bytes 8 (coin_decimals a), le_bytes 8 (pc_decimals a), le_bytes 8 (state a),
      le_bytes 8 (reset_flag a), le_bytes 8 (min_size a), le_bytes 8 (vol_max_cut_ratio a),
      le_bytes 8 (amount_wave a), le_bytes 8 (coin_lot_size a), le_bytes 8 (pc_lot_size a),
      le_bytes 8 (min_price_multiplier a), le_bytes 8 (max_price_multiplier a),
      le_bytes 8 (sys_decimal_value a), le_bytes 8 (min_separate_numerator f),
      le_bytes 8 (min_separate_denominator f), le_bytes 8 (trade_fee_numerator f),
      le_bytes 8 (trade_fee_denominator f), le_bytes 8 (pnl_numerator f), le_bytes 8 (pnl_denominator f),
      le_bytes 8 (swap_fee_numerator f), le_bytes 8 (swap_fee_denominator f),
      le_bytes 8 (need_take_pnl_coin s), le_bytes 8 (need_take_pnl_pc s), le_bytes 8 (total_pnl_pc s),
      le_bytes 8 (total_pnl_coin s), le_bytes 8 (pool_open_time s), le_bytes 8 (sd_padding s ! 0),
      le_bytes 8 (sd_padding s ! 1), le_bytes 8 (orderbook_to_init_time s),
      le_bytes 16 (swap_coin_in_amount s), le_bytes 16 (swap_pc_out_amount s), le_bytes 8 (swap_acc_pc_fee s),
      le_bytes 16 (swap_pc_in_amount s), le_bytes 16 (swap_coin_out_amount s),
      le_bytes 8 (swap_acc_coin_fee s), pubkey_bytes (coin_vault a), pubkey_bytes (pc_vault a),
      pubkey_bytes (coin_vault_mint a), pubkey_bytes (pc_vault_mint a), pubkey_bytes (lp_mint a),
      pubkey_bytes (open_orders a), pubkey_bytes (market a), pubkey_bytes (market_program a),
      pubkey_bytes (target_orders a), concat (map (\<lambda>i. le_bytes 8 (amm_padding1 a ! i)) [0..<8]),
      pubkey_bytes (amm_owner a), le_bytes 8 (lp_amount a), le_bytes 8 (client_order_id a),
      le_bytes 8 (recent_epoch a), le_bytes 8 (amm_padding2 a)])"

definition amm_test_data :: "amm_info \<Rightarrow> ('e, nat \<times> bytes) outcome" where
  "amm_test_data a = fold_outcome copy_next (amm_test_fields a) (0, replicate 752 0)"

text \<open>Comparing every field is comparing the records.\<close>

definition test_amm_info_layout :: "amm_info \<Rightarrow> ('e, unit) outcome" where
  "test_amm_info_layout a =
     rbind (amm_test_data a) (\<lambda>(offset, pool_data).
     rbind (assert_that (offset = length pool_data)) (\<lambda>_.
     rbind (assert_that (length pool_data = amm_info_size)) (\<lambda>_.
     assert_that (a = amm_info_of_bytes (take amm_info_size pool_data)))))"

section \<open>The target orders\<close>

definition target_test_owner :: "u64 list" where
  "target_test_owner = [0x123456789abcedf0, 0x123456789abced0f, 0x123456789abce0df, 0x123456789abc0edf]"

definition owner_of_words :: "u64 list \<Rightarrow> pubkey" where
  "owner_of_words ws = from_le_bytes (words_bytes 8 ws)"

definition target_test_info :: target_orders_data where
  "target_test_info =
     \<lparr>t_owner = owner_of_words target_test_owner,
      buy_orders = map (\<lambda>i. \<lparr>to_price = - 1 - of_nat i, to_vol = - 1 - 3 * of_nat i\<rparr>) [0..<50],
      t_padding1 = map (\<lambda>i. push_bit i 1) [0..<8],
      target_x = 0x11002233445566778899aabbccddeeff, target_y = 0x11220033445566778899aabbccddeeff,
      plan_x_buy = 0x11223300445566778899aabbccddeeff, plan_y_buy = 0x11223344005566778899aabbccddeeff,
      plan_x_sell = 0x11223344550066778899aabbccddeeff, plan_y_sell = 0x11223344556600778899aabbccddeeff,
      placed_x = 0x11223344556677008899aabbccddeeff, placed_y = 0x11223344556677880099aabbccddeeff,
      calc_pnl_x = 0x11223344556677889900aabbccddeeff, calc_pnl_y = 0x112233445566778899aa00bbccddeeff,
      sell_orders = map (\<lambda>i. \<lparr>to_price = - 1 - of_nat (i + 50), to_vol = - 1 - 3 * of_nat (i + 50)\<rparr>) [0..<50],
      t_padding2 = map (\<lambda>i. push_bit (i + 8) 1) [0..<6],
      replace_buy_client_id = map (\<lambda>i. push_bit (i + 8 + 6) 1) [0..<MAX_ORDER_LIMIT],
      replace_sell_client_id = map (\<lambda>i. push_bit (i + 8 + 6 + MAX_ORDER_LIMIT) 1) [0..<MAX_ORDER_LIMIT],
      last_order_numerator = 0x123456789ab0cedf, last_order_denominator = 0x123456789a0bcedf,
      plan_orders_cur = 0x1234567890abcedf, place_orders_cur = 0x1234567809abcedf,
      valid_buy_order_num = 0x1234567089abcedf, valid_sell_order_num = 0x1234560789abcedf,
      t_padding3 = map (\<lambda>i. push_bit (i + 8 + 6 + MAX_ORDER_LIMIT + MAX_ORDER_LIMIT) 1) [0..<10],
      free_slot_bits = 0x112233445566778899aabb00ccddeeff\<rparr>"

text \<open>A loop over an array copies its entries one by one.\<close>

definition entry_fields :: "nat \<Rightarrow> u64 list \<Rightarrow> bytes list" where
  "entry_fields n xs = map (\<lambda>i. le_bytes 8 (xs ! i)) [0..<n]"

definition order_fields :: "target_order list \<Rightarrow> bytes" where
  "order_fields os = concat (map (\<lambda>i. le_bytes 8 (to_price (os ! i)) @ le_bytes 8 (to_vol (os ! i))) [0..<50])"

definition target_test_fields :: "u64 list \<Rightarrow> target_orders_data \<Rightarrow> bytes list" where
  "target_test_fields owner t =
     entry_fields 4 owner @ [order_fields (buy_orders t)] @ entry_fields 8 (t_padding1 t) @
     [le_bytes 16 (target_x t), le_bytes 16 (target_y t), le_bytes 16 (plan_x_buy t),
      le_bytes 16 (plan_y_buy t), le_bytes 16 (plan_x_sell t), le_bytes 16 (plan_y_sell t),
      le_bytes 16 (placed_x t), le_bytes 16 (placed_y t), le_bytes 16 (calc_pnl_x t), le_bytes 16 (calc_pnl_y t)] @
     [order_fields (sell_orders t)] @ entry_fields 6 (t_padding2 t) @
     entry_fields MAX_ORDER_LIMIT (replace_buy_client_id t) @ entry_fields MAX_ORDER_LIMIT (replace_sell_client_id t) @
     [le_bytes 8 (last_order_numerator t), le_bytes 8 (last_order_denominator t),
      le_bytes 8 (plan_orders_cur t), le_bytes 8 (place_orders_cur t), le_bytes 8 (valid_buy_order_num t),
      le_bytes 8 (valid_sell_order_num t)] @
     entry_fields 10 (t_padding3 t) @ [le_bytes 16 (free_slot_bits t)]"

definition target_test_data :: "u64 list \<Rightarrow> target_orders_data \<Rightarrow> ('e, nat \<times> bytes) outcome" where
  "target_test_data owner t = fold_outcome copy_next (target_test_fields owner t) (0, replicate 2208 0)"

definition test_target_info_layout :: "u64 list \<Rightarrow> target_orders_data \<Rightarrow> ('e, unit) outcome" where
  "test_target_info_layout owner t =
     rbind (target_test_data owner t) (\<lambda>(offset, data).
     rbind (assert_that (offset = length data)) (\<lambda>_.
     rbind (assert_that (length data = target_orders_size)) (\<lambda>_.
     assert_that (t = target_orders_of_bytes (take target_orders_size data)))))"

section \<open>The tests pass\<close>

lemma copy_next_fits:
  "offset + length src \<le> length data \<Longrightarrow>
   copy_next src (offset, data) = Ok (offset + length src, take offset data @ src @ drop (offset + length src) data)"
  by (simp add: copy_next_def)

lemma copy_all:
  "offset + length (concat fs) \<le> length data \<Longrightarrow>
   (fold_outcome copy_next fs (offset, data) :: ('e, nat \<times> bytes) outcome) =
     Ok (offset + length (concat fs), take offset data @ concat fs @ drop (offset + length (concat fs)) data)"
proof (induction fs arbitrary: offset data)
  case (Cons src fs)
  let ?data = "take offset data @ src @ drop (offset + length src) data"
  have fits: "offset + length src \<le> length data" "offset + length src + length (concat fs) \<le> length data"
    using Cons(2) by simp_all
  then have "length ?data = length data" by simp
  with fits have "(fold_outcome copy_next fs (offset + length src, ?data) :: ('e, nat \<times> bytes) outcome) =
      Ok (offset + length src + length (concat fs), take (offset + length src) ?data @ concat fs @
        drop (offset + length src + length (concat fs)) ?data)"
    using Cons(1) [of "offset + length src" ?data] by simp
  moreover have "take (offset + length src) ?data = take offset data @ src" using fits by simp
  moreover have "drop (offset + length src + length (concat fs)) ?data = drop (offset + length (concat (src # fs))) data"
    using fits by (simp add: ac_simps)
  ultimately show ?case using fits by (simp add: copy_next_fits add.assoc)
qed simp

lemma copy_whole:
  "concat fs = bs \<Longrightarrow> length bs = n \<Longrightarrow> (fold_outcome copy_next fs (0, replicate n 0) :: ('e, nat \<times> bytes) outcome) = Ok (n, bs)"
  using copy_all [of 0 fs "replicate n 0"] by simp

lemma map_entries: "length xs = n \<Longrightarrow> map (\<lambda>i. f (xs ! i)) [0..<n] = map f xs"
  by (auto simp: list_eq_iff_nth_eq)

lemma amm_test_fields_bytes:
  assumes "amm_info_wf a"
  shows "concat (amm_test_fields a) = amm_info_bytes a"
proof -
  obtain p q where "sd_padding (amm_state_data a) = [p, q]"
    using assms by (auto simp: amm_info_wf_def state_data_wf_def eval_nat_numeral length_Suc_conv)
  moreover have "map (\<lambda>i. le_bytes 8 (amm_padding1 a ! i)) [0..<8] = map (le_bytes 8) (amm_padding1 a)"
    using assms by (intro map_entries) (simp add: amm_info_wf_def)
  ultimately show ?thesis
    by (simp only: amm_test_fields_def amm_info_bytes_def fees_pack_words state_data_bytes_def words_bytes_def pubkey_bytes_def
        Let_def) simp
qed

lemma owner_words: "length owner = 4 \<Longrightarrow> le_bytes 32 (owner_of_words owner) = words_bytes 8 owner"
  by (simp add: owner_of_words_def le_bytes_inverse)

lemma order_fields_bytes: "length os = 50 \<Longrightarrow> order_fields os = orders_bytes os"
  using map_entries [of os 50 "\<lambda>x. le_bytes 8 (to_price x) @ le_bytes 8 (to_vol x)"]
  by (simp add: order_fields_def orders_bytes_def words_bytes_def)

lemma entry_fields_bytes: "length xs = n \<Longrightarrow> concat (entry_fields n xs) = words_bytes 8 xs"
  using map_entries [of xs n "le_bytes 8"] by (simp add: entry_fields_def words_bytes_def)

lemma target_test_fields_bytes:
  assumes "target_orders_wf t" "length owner = 4" "t_owner t = owner_of_words owner"
  shows "concat (target_test_fields owner t) = target_orders_bytes t"
  using assms
  by (simp add: target_test_fields_def target_orders_wf_def entry_fields_bytes order_fields_bytes target_orders_bytes_def
      owner_words words_bytes_def [of 8 "[_, _, _, _, _, _]"] words_bytes_def [of 16])

text \<open>
  The two layout tests hold for every record, and for the values they are written with. The
  writer of the tests, which copies field after field to the next offset, fills its buffer exactly
  and produces the memory of the record; the cast of that memory gives every field back.
\<close>

theorem layout_tests_pass:
  "(\<forall>a. amm_info_wf a \<longrightarrow> amm_test_data a = (Ok (752, amm_info_bytes a) :: ('e, nat \<times> bytes) outcome) \<and>
      test_amm_info_layout a = (Ok () :: ('e, unit) outcome)) \<and>
   (\<forall>t owner. target_orders_wf t \<longrightarrow> length owner = 4 \<longrightarrow> t_owner t = owner_of_words owner \<longrightarrow>
      target_test_data owner t = (Ok (2208, target_orders_bytes t) :: ('e, nat \<times> bytes) outcome) \<and>
      test_target_info_layout owner t = (Ok () :: ('e, unit) outcome)) \<and>
   test_amm_info_layout (amm_test_info new_unique) = (Ok () :: ('e, unit) outcome) \<and>
   test_target_info_layout target_test_owner target_test_info = (Ok () :: ('e, unit) outcome)"
proof -
  have size: "amm_info_size = 752" "target_orders_size = 2208"
    by (simp_all add: amm_info_size_def fees_size_def state_data_size_def target_orders_size_def MAX_ORDER_LIMIT_def)
  note al = amm_info_layout.length_to [unfolded size] and tl = target_orders_layout.length_to [unfolded size]
  have a: "amm_test_data a = (Ok (752, amm_info_bytes a) :: ('e, nat \<times> bytes) outcome)"
      "test_amm_info_layout a = (Ok () :: ('e, unit) outcome)" if "amm_info_wf a" for a
    using copy_whole [where 'e = 'e, OF amm_test_fields_bytes [OF that] al [OF that]] al [OF that] amm_info_layout.of_to [OF that]
    by (simp_all add: amm_test_data_def test_amm_info_layout_def assert_that_def size)
  have t: "target_test_data owner t = (Ok (2208, target_orders_bytes t) :: ('e, nat \<times> bytes) outcome)"
      "test_target_info_layout owner t = (Ok () :: ('e, unit) outcome)"
    if "target_orders_wf t" "length owner = 4" "t_owner t = owner_of_words owner" for owner t
    using copy_whole [where 'e = 'e, OF target_test_fields_bytes [OF that] tl [OF that(1)]] tl [OF that(1)] target_orders_layout.of_to [OF that(1)]
    by (simp_all add: target_test_data_def test_target_info_layout_def assert_that_def size)
  have "amm_info_wf (amm_test_info new_unique)"
    by (simp add: amm_info_wf_def state_data_wf_def amm_test_info_def)
  moreover have "target_orders_wf target_test_info" by (simp add: target_orders_wf_def target_test_info_def)
  moreover have "length target_test_owner = 4" by (simp add: target_test_owner_def)
  moreover have "t_owner target_test_info = owner_of_words target_test_owner" by (simp add: target_test_info_def)
  ultimately show ?thesis using a t by blast
qed

theorem layout_tests_pass_witness:
  "amm_test_data (amm_test_info of_nat) = (Ok (752, amm_info_bytes (amm_test_info of_nat)) :: (unit, nat \<times> bytes) outcome) \<and>
   test_amm_info_layout (amm_test_info of_nat) = (Ok () :: (unit, unit) outcome)"
proof -
  have "amm_info_wf (amm_test_info of_nat)" by (simp add: amm_info_wf_def state_data_wf_def amm_test_info_def)
  then show ?thesis using layout_tests_pass by blast
qed

end
