(* ===== verification/Ledger.thy ===== *)
theory Ledger
  imports Custody
begin

text \<open>
  Swaps and the balances of the ledger. The properties of theory \<open>Swap\<close> speak of the transfers a swap
  issues; here the token program's part is added, that a transfer moves its amount between two
  accounts. For a pool that trades without an order book the totals are then the balances of its vaults
  less the booked profit, and the theory follows their product through sequences of swaps.
\<close>

section \<open>Balances\<close>

type_synonym ledger = "pubkey \<Rightarrow> account"

definition held :: "env \<Rightarrow> ledger \<Rightarrow> pubkey \<Rightarrow> nat" where
  "held env l k = (case env_unpack_token env (acc_data (l k)) of Some t \<Rightarrow> unat (ta_amount t) | None \<Rightarrow> 0)"

text \<open>A transfer of the token program moves its amount and touches nothing but its two accounts.\<close>

definition pays :: "env \<Rightarrow> pubkey \<Rightarrow> pubkey \<Rightarrow> u64 \<Rightarrow> ledger \<Rightarrow> ledger \<Rightarrow> bool" where
  "pays env s d n l l' \<longleftrightarrow>
     (s \<noteq> d \<longrightarrow> held env l' s + unat n = held env l s \<and> held env l' d = held env l d + unat n) \<and>
     (\<forall>k. k \<notin> {s, d} \<longrightarrow> l' k = l k)"

definition spl_transfers :: "env \<Rightarrow> bool" where
  "spl_transfers env \<longleftrightarrow> (\<forall>c l l' s d au n. cpi_ix c = SplTransfer (env_spl_token env) s d au n \<longrightarrow>
     env_invoke env c l = Ok l' \<longrightarrow> pays env s d n l l')"

lemma transfer_pays:
  assumes "token_transfer_signed env pid tp s d au seeds n m rem w = Ok w'" "spl_transfers env"
    and "ai_key tp = env_spl_token env" "env_spl_token env \<noteq> env_spl_token_2022 env"
  shows "pays env (ai_key s) (ai_key d) n (accts w) (accts w')"
proof -
  let ?c = "\<lparr>cpi_ix = SplTransfer (env_spl_token env) (ai_key s) (ai_key d) (ai_key au) n,
      cpi_infos = [s, d, au, tp], cpi_seeds = seeds\<rparr>"
  have "env_invoke env ?c (accts w) = Ok (accts w')"
    using assms(1,3,4) by (auto simp: token_transfer_signed_def invoke_signed_def outcome Let_def split: if_splits)
  moreover have "cpi_ix ?c = SplTransfer (env_spl_token env) (ai_key s) (ai_key d) (ai_key au) n" by simp
  ultimately show ?thesis using assms(2) unfolding spl_transfers_def by blast
qed

text \<open>The payment into one vault and the payout from the other.\<close>

lemma pays_both:
  assumes "pays env src v pay l l1" "pays env v' dst out l1 l2" "src \<notin> {v, v'}" "dst \<notin> {v, v'}" "v \<noteq> v'"
  shows "held env l2 v = held env l v + unat pay \<and> held env l2 v' + unat out = held env l v'"
proof -
  have "held env l1 v = held env l v + unat pay" "l1 v' = l v'" using assms by (auto simp: pays_def)
  moreover have "held env l2 v' + unat out = held env l1 v'" "l2 v = l1 v" using assms by (auto simp: pays_def)
  ultimately show ?thesis by (simp add: held_def)
qed

section \<open>A swap without the order book\<close>

text \<open>The pool of an account, its totals and their product.\<close>

definition pool_of :: "ledger \<Rightarrow> pubkey \<Rightarrow> amm_info" where
  "pool_of l k = amm_view (acc_data (l k))"

definition total_pc :: "env \<Rightarrow> ledger \<Rightarrow> pubkey \<Rightarrow> nat" where
  "total_pc env l k = held env l (pc_vault (pool_of l k)) - unat (need_take_pnl_pc (amm_state_data (pool_of l k)))"

definition total_coin :: "env \<Rightarrow> ledger \<Rightarrow> pubkey \<Rightarrow> nat" where
  "total_coin env l k = held env l (coin_vault (pool_of l k)) - unat (need_take_pnl_coin (amm_state_data (pool_of l k)))"

lemma swap_prepare_ledger:
  assumes "swap_prepare env pid accs w = Ok (c, w1)" "status (amm_view (data_of w (sa_amm (swap_accounts_of accs)))) \<in> {6, 7}"
  shows "\<not> sc_orderbook c \<and> status (sc_amm c) = 6 \<and>
    unat (sc_total_pc c) + unat (need_take_pnl_pc (amm_state_data (sc_amm c))) = held env (accts w) (pc_vault (sc_amm c)) \<and>
    unat (sc_total_coin c) + unat (need_take_pnl_coin (amm_state_data (sc_amm c))) = held env (accts w) (coin_vault (sc_amm c)) \<and>
    acc_owner (accts w (pc_vault (sc_amm c))) = env_spl_token env \<and>
    acc_owner (accts w (coin_vault (sc_amm c))) = env_spl_token env"
proof -
  let ?sa = "swap_accounts_of accs"
  let ?a = "amm_view (data_of w (sa_amm ?sa))"
  from assms(1) obtain amm st amm' bids asks pc coin cv pv src dst dir where
    l: "amm_load_mut_checked env pid (sa_amm ?sa) w = Ok (amm, w1)" "amm_status_from_u64 (status amm) = (Ok st :: amm_status res)"
    and k: "swap_check_keys env pid ?sa amm = Ok ()"
    and v: "unpack_token_account env (sa_coin_vault ?sa) (ai_key (sa_token_program ?sa)) w1 = Ok cv"
      "unpack_token_account env (sa_pc_vault ?sa) (ai_key (sa_token_program ?sa)) w1 = Ok pv"
    and s: "swap_status env amm = Ok amm'"
    and t: "swap_totals env ?sa amm' (orderbook_permission st) cv pv w1 = Ok (bids, asks, pc, coin)"
    and c: "c = \<lparr>sc_accounts = ?sa, sc_amm = amm', sc_coin_vault = cv, sc_pc_vault = pv, sc_source = src,
      sc_destination = dst, sc_orderbook = orderbook_permission st, sc_bids = bids, sc_asks = asks,
      sc_total_pc = pc, sc_total_coin = coin, sc_direction = dir\<rparr>"
    by (auto simp: swap_prepare_def outcome Let_def split: if_splits prod.splits)
  have amm: "amm = ?a" "accts w1 = accts w" using l(1) by (auto simp: amm_load_mut_Ok hold_def)
  have no: "\<not> orderbook_permission st" using l(2) assms(2) by (auto simp: amm amm_status_from_u64_def)
  have six: "status amm' = 6" using s assms(2) by (auto simp: swap_status_def amm amm_status_from_u64_def outcome amm_status_into_u64_def split: if_splits)
  have same: "coin_vault amm' = coin_vault amm" "pc_vault amm' = pc_vault amm"
    by (subst swap_status_keeps [OF s], simp)+
  have keys: "ai_key (sa_coin_vault ?sa) = coin_vault amm" "ai_key (sa_pc_vault ?sa) = pc_vault amm"
    "ai_key (sa_token_program ?sa) = env_spl_token env"
    using k by (simp_all add: swap_check_keys_Ok)
  have "acc_owner (accts w (coin_vault amm')) = env_spl_token env" "acc_owner (accts w (pc_vault amm')) = env_spl_token env"
    "unat (ta_amount cv) = held env (accts w) (coin_vault amm')" "unat (ta_amount pv) = held env (accts w) (pc_vault amm')"
    using v keys same amm(2)
    by (auto simp: unpack_token_account_def outcome owner_of_def borrow_data_def data_of_def account_of_def held_def
        split: if_splits option.splits)
  moreover have "unat pc + unat (need_take_pnl_pc (amm_state_data amm')) = unat (ta_amount pv)"
    "unat coin + unat (need_take_pnl_coin (amm_state_data amm')) = unat (ta_amount cv)"
    using t no by (auto simp: swap_totals_def calc_total_without_take_pnl_no_orderbook_def outcome into_res_def
        checked_sub_Some_iff split: outcome.splits)
  ultimately show ?thesis using no six by (simp add: c)
qed

text \<open>The two legs of a swap and the record it leaves, the booked profit being what it was.\<close>

definition traded :: "env \<Rightarrow> pubkey \<Rightarrow> swap_ctx \<Rightarrow> u64 \<Rightarrow> u64 \<Rightarrow> world \<Rightarrow> world \<Rightarrow> bool" where
  "traded env pid c pay out w w' \<longleftrightarrow>
     (\<exists>m m' w2 w3 sd e. let sa = sc_accounts c; d = sc_direction c in
        swap_deposit env pid c (reserve_in d (sa_pc_vault sa) (sa_coin_vault sa)) m pay w = Ok w2 \<and>
        swap_withdraw env pid c (reserve_out d (sa_pc_vault sa) (sa_coin_vault sa)) m' out w2 = Ok w3 \<and>
        w' = store_amm (sa_amm sa) ((sc_amm c)\<lparr>amm_state_data := sd, recent_epoch := e\<rparr>) w3 \<and>
        need_take_pnl_pc sd = need_take_pnl_pc (amm_state_data (sc_amm c)) \<and>
        need_take_pnl_coin sd = need_take_pnl_coin (amm_state_data (sc_amm c)))"

lemma tradedI:
  assumes "swap_deposit env pid c v m pay w = Ok w2" "swap_withdraw env pid c v' m' out w2 = Ok w3"
    and "v = reserve_in (sc_direction c) (sa_pc_vault (sc_accounts c)) (sa_coin_vault (sc_accounts c))"
    and "v' = reserve_out (sc_direction c) (sa_pc_vault (sc_accounts c)) (sa_coin_vault (sc_accounts c))"
    and "w' = store_amm (sa_amm (sc_accounts c)) ((sc_amm c)\<lparr>amm_state_data := sd, recent_epoch := e\<rparr>) w3"
    and "need_take_pnl_pc sd = need_take_pnl_pc (amm_state_data (sc_amm c))"
    and "need_take_pnl_coin sd = need_take_pnl_coin (amm_state_data (sc_amm c))"
  shows "traded env pid c pay out w w'"
  using assms unfolding traded_def Let_def by blast

lemma swap_legs:
  assumes "\<not> sc_orderbook c" "w' = store_amm (sa_amm (sc_accounts c)) (a\<lparr>recent_epoch := e\<rparr>) w2"
  shows "sc_direction c = Coin2PC \<Longrightarrow> swap_base_in_coin2pc env pid c pay out fee w = Ok (a, w2) \<Longrightarrow> traded env pid c pay out w w'"
    and "sc_direction c = Coin2PC \<Longrightarrow> swap_base_out_coin2pc env pid c out pay fee' w = Ok (a, w2) \<Longrightarrow> traded env pid c pay out w w'"
    and "sc_direction c = PC2Coin \<Longrightarrow> swap_base_out_pc2coin env pid c out pay fee' w = Ok (a, w2) \<Longrightarrow> traded env pid c pay out w w'"
  using assms by (auto simp: swap_base_in_coin2pc_def swap_base_out_coin2pc_def swap_base_out_pc2coin_def swap_free_funds_def
      outcome Let_def reserve_defs intro!: tradedI split: if_splits)

lemma base_in_traded:
  assumes "process_swap_base_in env pid accs s w = Ok w'" "swap_prepare env pid accs w = Ok (c, w1)" "\<not> sc_orderbook c"
    and "sc_direction c = Coin2PC"
  obtains fee out where "swap_base_in_amounts (amm_fees (sc_amm c)) (amount_in s) (sc_total_pc c) (sc_total_coin c)
      Coin2PC = Ok (fee, out)" "out < sc_total_pc c" "traded env pid c (amount_in s) out w1 w'"
proof -
  from assms(1,2,4) obtain fee out amm w2 clk where
    "env_clock env = Ok clk" and
    "swap_base_in_amounts (amm_fees (sc_amm c)) (amount_in s) (sc_total_pc c) (sc_total_coin c) Coin2PC = Ok (fee, out)"
    and r: "swap_base_in_coin2pc env pid c (amount_in s) out fee w1 = Ok (amm, w2)"
    and k: "w' = store_amm (sa_amm (sc_accounts c)) (amm\<lparr>recent_epoch := clock_epoch clk\<rparr>) w2"
    by (auto simp: process_swap_base_in_def outcome split: if_splits prod.splits)
  moreover have "out < sc_total_pc c" using r by (auto simp: swap_base_in_coin2pc_def Let_def outcome split: if_splits)
  moreover have "traded env pid c (amount_in s) out w1 w'" by (rule swap_legs(1) [OF assms(3) k assms(4) r])
  ultimately show ?thesis using that by blast
qed

lemma base_out_traded:
  assumes "process_swap_base_out env pid accs s w = Ok w'" "swap_prepare env pid accs w = Ok (c, w1)" "\<not> sc_orderbook c"
  obtains fee pay where "swap_base_out_amounts (amm_fees (sc_amm c)) (amount_out s) (sc_total_pc c) (sc_total_coin c)
      (sc_direction c) = Ok (pay, fee)" "pay \<noteq> 0" "traded env pid c pay (amount_out s) w1 w'"
proof -
  from assms(1,2) obtain fee pay amm w2 clk where
    "env_clock env = Ok clk" and
    "swap_base_out_amounts (amm_fees (sc_amm c)) (amount_out s) (sc_total_pc c) (sc_total_coin c) (sc_direction c)
       = Ok (pay, fee)" "pay \<noteq> 0"
    and r: "(case sc_direction c of Coin2PC \<Rightarrow> swap_base_out_coin2pc env pid c (amount_out s) pay fee w1
       | PC2Coin \<Rightarrow> swap_base_out_pc2coin env pid c (amount_out s) pay fee w1) = Ok (amm, w2)"
    and k: "w' = store_amm (sa_amm (sc_accounts c)) (amm\<lparr>recent_epoch := clock_epoch clk\<rparr>) w2"
    by (auto simp: process_swap_base_out_def outcome split: if_splits prod.splits)
  moreover have "traded env pid c pay (amount_out s) w1 w'"
    using r swap_legs(2,3) [OF assms(3) k] by (cases "sc_direction c") auto
  ultimately show ?thesis using that by blast
qed

text \<open>
  What a swap does to the ledger: the vault paid into gains the payment, the other loses the payout, and the
  pool of the account is the one that traded.
\<close>

lemma traded_ledger:
  assumes "traded env pid c pay out w1 w'" "swap_prepare env pid accs w = Ok (c, w1)"
    and "status (amm_view (data_of w (sa_amm (swap_accounts_of accs)))) \<in> {6, 7}" "coin_vault (sc_amm c) \<noteq> pc_vault (sc_amm c)"
    and env: "spl_transfers env" "env_spl_token env \<noteq> env_spl_token_2022 env" "env_spl_token env \<noteq> pid"
  defines "v \<equiv> reserve_in (sc_direction c) (pc_vault (sc_amm c)) (coin_vault (sc_amm c))"
    and "v' \<equiv> reserve_out (sc_direction c) (pc_vault (sc_amm c)) (coin_vault (sc_amm c))"
    and "k \<equiv> ai_key (sa_amm (swap_accounts_of accs))"
  shows "held env (accts w') v = held env (accts w) v + unat pay \<and> held env (accts w') v' + unat out = held env (accts w) v' \<and>
    (\<exists>sd e. pool_of (accts w') k = (sc_amm c)\<lparr>amm_state_data := sd, recent_epoch := e\<rparr> \<and>
      need_take_pnl_pc sd = need_take_pnl_pc (amm_state_data (sc_amm c)) \<and>
      need_take_pnl_coin sd = need_take_pnl_coin (amm_state_data (sc_amm c)))"
proof -
  let ?sa = "sc_accounts c" and ?d = "sc_direction c"
  note p = swap_prepare_Ok [OF assms(2)] and q = swap_prepare_ledger [OF assms(2,3)]
  have sa: "?sa = swap_accounts_of accs" "accts w1 = accts w" using p by (simp_all add: hold_def)
  have keys: "ai_key (sa_coin_vault ?sa) = coin_vault (sc_amm c)" "ai_key (sa_pc_vault ?sa) = pc_vault (sc_amm c)"
      "ai_key (sa_token_program ?sa) = env_spl_token env"
      "ai_key (sa_user_source ?sa) \<notin> {v, v'}" "ai_key (sa_user_destination ?sa) \<notin> {v, v'}"
    using p by (auto simp: swap_check_keys_Ok v_def v'_def reserve_defs split: swap_direction.splits)
  obtain m m' w2 w3 sd e where
    "swap_deposit env pid c (reserve_in ?d (sa_pc_vault ?sa) (sa_coin_vault ?sa)) m pay w1 = Ok w2"
    "swap_withdraw env pid c (reserve_out ?d (sa_pc_vault ?sa) (sa_coin_vault ?sa)) m' out w2 = Ok w3"
    and w': "w' = store_amm (sa_amm ?sa) ((sc_amm c)\<lparr>amm_state_data := sd, recent_epoch := e\<rparr>) w3"
    and sd: "need_take_pnl_pc sd = need_take_pnl_pc (amm_state_data (sc_amm c))"
      "need_take_pnl_coin sd = need_take_pnl_coin (amm_state_data (sc_amm c))"
    using assms(1) unfolding traded_def Let_def by blast
  then have "pays env (ai_key (sa_user_source ?sa)) v pay (accts w) (accts w2)"
    "pays env v' (ai_key (sa_user_destination ?sa)) out (accts w2) (accts w3)"
    using transfer_pays [OF _ env(1) keys(3) env(2)] keys(1,2) sa(2)
    by (cases ?d; fastforce simp: swap_deposit_def swap_withdraw_def token_transfer_def token_transfer_with_authority_def
        Let_def v_def v'_def reserve_defs)+
  moreover have "v \<noteq> v'" using assms(4) by (cases ?d) (auto simp: v_def v'_def reserve_defs)
  ultimately have b: "held env (accts w3) v = held env (accts w) v + unat pay"
      "held env (accts w3) v' + unat out = held env (accts w) v'"
    using pays_both keys(4,5) by blast+
  have "acc_owner (accts w k) = pid" using p by (auto simp: owner_of_def account_of_def k_def)
  then have "k \<noteq> v" "k \<noteq> v'" using q env(3) by (auto simp: v_def v'_def reserve_defs split: swap_direction.splits)
  then have "held env (accts w') v = held env (accts w3) v" "held env (accts w') v' = held env (accts w3) v'"
    by (simp_all add: w' sa(1) k_def store_amm_def set_data_def held_def)
  moreover have "pool_of (accts w') k = (sc_amm c)\<lparr>amm_state_data := sd, recent_epoch := e\<rparr>"
    by (simp add: w' sa(1) k_def store_amm_def set_data_def pool_of_def amm_view_def)
  ultimately show ?thesis using b sd by auto
qed

lemma trade_keeps_product:
  assumes "traded env pid c pay out w1 w'" "swap_prepare env pid accs w = Ok (c, w1)"
    and "status (amm_view (data_of w (sa_amm (swap_accounts_of accs)))) \<in> {6, 7}" "coin_vault (sc_amm c) \<noteq> pc_vault (sc_amm c)"
    and "spl_transfers env" "env_spl_token env \<noteq> env_spl_token_2022 env" "env_spl_token env \<noteq> pid"
    and "unat out < unat (reserve_out (sc_direction c) (sc_total_pc c) (sc_total_coin c))"
    and "unat (sc_total_pc c) * unat (sc_total_coin c) \<le>
      (unat (reserve_in (sc_direction c) (sc_total_pc c) (sc_total_coin c)) + unat pay) *
      (unat (reserve_out (sc_direction c) (sc_total_pc c) (sc_total_coin c)) - unat out)"
  defines "k \<equiv> ai_key (sa_amm (swap_accounts_of accs))"
  shows "total_pc env (accts w) k * total_coin env (accts w) k \<le> total_pc env (accts w') k * total_coin env (accts w') k \<and>
    status (pool_of (accts w') k) = 6 \<and> coin_vault (pool_of (accts w') k) = coin_vault (sc_amm c) \<and>
    pc_vault (pool_of (accts w') k) = pc_vault (sc_amm c)"
proof -
  note q = swap_prepare_ledger [OF assms(2,3)] and t = traded_ledger [OF assms(1-7)]
  let ?a = "pool_of (accts w) k" and ?b = "pool_of (accts w') k"
  have "swap_status env ?a = Ok (sc_amm c)"
    using swap_prepare_Ok [OF assms(2)] by (auto simp: pool_of_def k_def data_of_def account_of_def)
  then have a: "sc_amm c = ?a\<lparr>status := status (sc_amm c)\<rparr>" by (rule swap_status_keeps)
  have same: "coin_vault (sc_amm c) = coin_vault ?a" "pc_vault (sc_amm c) = pc_vault ?a"
      "amm_state_data (sc_amm c) = amm_state_data ?a"
    by (subst a, simp)+
  obtain sd e where b: "?b = (sc_amm c)\<lparr>amm_state_data := sd, recent_epoch := e\<rparr>"
      "need_take_pnl_pc sd = need_take_pnl_pc (amm_state_data (sc_amm c))"
      "need_take_pnl_coin sd = need_take_pnl_coin (amm_state_data (sc_amm c))"
    using t unfolding k_def by blast
  have now: "total_pc env (accts w) k = unat (sc_total_pc c)" "total_coin env (accts w) k = unat (sc_total_coin c)"
    using q by (auto simp: total_pc_def total_coin_def same)
  have "total_pc env (accts w') k = (case sc_direction c of PC2Coin \<Rightarrow> unat (sc_total_pc c) + unat pay | Coin2PC \<Rightarrow> unat (sc_total_pc c) - unat out)"
      "total_coin env (accts w') k = (case sc_direction c of PC2Coin \<Rightarrow> unat (sc_total_coin c) - unat out | Coin2PC \<Rightarrow> unat (sc_total_coin c) + unat pay)"
    using q t assms(8) b by (auto simp: total_pc_def total_coin_def reserve_defs split: swap_direction.splits)
  then show ?thesis using assms(9) now q b(1) by (cases "sc_direction c") (simp_all add: reserve_defs mult.commute)
qed

section \<open>Sequences of swaps\<close>

definition fresh :: "ledger \<Rightarrow> world" where
  "fresh l = \<lparr>accts = l, borrowed = [], calls = []\<rparr>"

text \<open>
  Any number of successful swaps of one pool, by whomever and with whatever accounts: all of those
  with a given amount out, and those with a given amount in that pay in coin.
\<close>

inductive swaps :: "env \<Rightarrow> pubkey \<Rightarrow> pubkey \<Rightarrow> ledger \<Rightarrow> ledger \<Rightarrow> bool"
  for env :: env and pid :: pubkey and pool :: pubkey where
  none: "swaps env pid pool l l"
| base_out: "swaps env pid pool l l1 \<Longrightarrow> process_swap_base_out env pid accs s (fresh l1) = Ok w \<Longrightarrow>
    ai_key (sa_amm (swap_accounts_of accs)) = pool \<Longrightarrow> swaps env pid pool l (accts w)"
| base_in: "swaps env pid pool l l1 \<Longrightarrow> process_swap_base_in env pid accs i (fresh l1) = Ok w \<Longrightarrow>
    swap_prepare env pid accs (fresh l1) = Ok (c, w1) \<Longrightarrow> sc_direction c = Coin2PC \<Longrightarrow>
    ai_key (sa_amm (swap_accounts_of accs)) = pool \<Longrightarrow> swaps env pid pool l (accts w)"

text \<open>Both kinds of swap are trades that keep the product.\<close>

lemma swap_step_keeps:
  assumes "(\<exists>s. process_swap_base_out env pid accs s w = Ok w') \<or>
      (\<exists>i. process_swap_base_in env pid accs i w = Ok w' \<and> sc_direction c = Coin2PC)"
    and prep: "swap_prepare env pid accs w = Ok (c, w1)" "status (pool_of (accts w) k) \<in> {6, 7}"
      "k = ai_key (sa_amm (swap_accounts_of accs))" "coin_vault (pool_of (accts w) k) \<noteq> pc_vault (pool_of (accts w) k)"
    and env: "spl_transfers env" "env_spl_token env \<noteq> env_spl_token_2022 env" "env_spl_token env \<noteq> pid"
  shows "total_pc env (accts w) k * total_coin env (accts w) k \<le> total_pc env (accts w') k * total_coin env (accts w') k \<and>
    status (pool_of (accts w') k) \<in> {6, 7} \<and> coin_vault (pool_of (accts w') k) \<noteq> pc_vault (pool_of (accts w') k)"
proof -
  have st: "status (amm_view (data_of w (sa_amm (swap_accounts_of accs)))) \<in> {6, 7}"
    using prep(2,3) by (simp add: pool_of_def data_of_def account_of_def)
  have "swap_status env (pool_of (accts w) k) = Ok (sc_amm c)"
    using swap_prepare_Ok [OF prep(1)] prep(3) by (auto simp: pool_of_def data_of_def account_of_def)
  then have "sc_amm c = (pool_of (accts w) k)\<lparr>status := status (sc_amm c)\<rparr>" by (rule swap_status_keeps)
  then have d: "coin_vault (sc_amm c) \<noteq> pc_vault (sc_amm c)" using prep(4) by (metis amm_info.select_convs amm_info.surjective amm_info.update_convs)
  note no = swap_prepare_ledger [OF prep(1) st, THEN conjunct1]
  from assms(1) obtain pay out where t: "traded env pid c pay out w1 w'"
    and v: "unat out < unat (reserve_out (sc_direction c) (sc_total_pc c) (sc_total_coin c))"
      "unat (sc_total_pc c) * unat (sc_total_coin c) \<le>
        (unat (reserve_in (sc_direction c) (sc_total_pc c) (sc_total_coin c)) + unat pay) *
        (unat (reserve_out (sc_direction c) (sc_total_pc c) (sc_total_coin c)) - unat out)"
  proof (elim disjE exE conjE)
    fix s assume s: "process_swap_base_out env pid accs s w = Ok w'"
    obtain fee pay where "swap_base_out_amounts (amm_fees (sc_amm c)) (amount_out s) (sc_total_pc c) (sc_total_coin c)
        (sc_direction c) = Ok (pay, fee)" "pay \<noteq> 0" "traded env pid c pay (amount_out s) w1 w'"
      using base_out_traded [OF s prep(1) no] by blast
    then show thesis using that swap_base_out_amounts_Ok by blast
  next
    fix i assume i: "process_swap_base_in env pid accs i w = Ok w'" "sc_direction c = Coin2PC"
    obtain fee out where a: "swap_base_in_amounts (amm_fees (sc_amm c)) (amount_in i) (sc_total_pc c) (sc_total_coin c)
        Coin2PC = Ok (fee, out)" and o: "out < sc_total_pc c" and t: "traded env pid c (amount_in i) out w1 w'"
      using base_in_traded [OF i(1) prep(1) no i(2)] by blast
    show thesis by (rule that [OF t, unfolded i(2)])
      (use o swap_base_in_amounts_Ok [OF a] in \<open>blast | simp add: reserve_defs word_less_nat_alt\<close>)+
  qed
  from trade_keeps_product [OF t prep(1) st d env v] d show ?thesis by (simp add: prep(3))
qed

text \<open>
  C5. However many such swaps are made, the product of the pool's totals on the ledger, which are the
  balances of its two vaults less the booked profit, never falls; nor does the pool leave the
  statuses without an order book. What is assumed of the token program is that a transfer moves its
  amount from its source to its destination.
\<close>

theorem swaps_keep_product:
  assumes "swaps env pid pool l l'" "spl_transfers env" "env_spl_token env \<noteq> env_spl_token_2022 env" "env_spl_token env \<noteq> pid"
    and "status (pool_of l pool) \<in> {6, 7}" "coin_vault (pool_of l pool) \<noteq> pc_vault (pool_of l pool)"
  shows "total_pc env l pool * total_coin env l pool \<le> total_pc env l' pool * total_coin env l' pool \<and>
    status (pool_of l' pool) \<in> {6, 7} \<and> coin_vault (pool_of l' pool) \<noteq> pc_vault (pool_of l' pool)"
  using assms
proof (induction rule: swaps.induct)
  case (base_out l l1 accs s w)
  then obtain c w1 where "swap_prepare env pid accs (fresh l1) = Ok (c, w1)"
    by (auto simp: process_swap_base_out_def outcome split: prod.splits)
  from swap_step_keeps [OF _ this _ base_out.hyps(3) [symmetric] _ assms(2-4)] base_out show ?case
    by (force simp: fresh_def)
next
  case (base_in l l1 accs i w c w1)
  from swap_step_keeps [OF _ base_in.hyps(3) _ base_in.hyps(5) [symmetric] _ assms(2-4)] base_in show ?case
    by (force simp: fresh_def)
qed simp

section \<open>An example\<close>

text \<open>The example pool with a token program that checks its accounts, the balance and the room for the amount.\<close>

definition is_demo_token :: "account_data \<Rightarrow> bool" where
  "is_demo_token d = (case d of RawData [_, _, _, _] \<Rightarrow> True | _ \<Rightarrow> False)"

definition ledger_invoke :: "cpi \<Rightarrow> ledger \<Rightarrow> ledger res" where
  "ledger_invoke c l = (case cpi_ix c of
      SplTransfer _ s d _ n \<Rightarrow>
        if s = d \<or> \<not> is_demo_token (acc_data (l s)) \<or> \<not> is_demo_token (acc_data (l d))
           \<or> 65536 \<le> demo_amount (acc_data (l d)) + unat n then Err (PE_Custom 4)
        else demo_transfer s d (unat n) l
    | _ \<Rightarrow> Err (PE_Custom 12))"

definition ledger_env :: env where
  "ledger_env = demo_env\<lparr>env_invoke := ledger_invoke\<rparr>"

lemma held_set_amount:
  assumes "is_demo_token (acc_data (l k))" "n < 65536"
  shows "held ledger_env (l(k := demo_set_amount n (l k))) k = n"
proof -
  obtain m ow lo hi where d: "acc_data (l k) = RawData [m, ow, lo, hi]"
    using assms(1) by (auto simp: is_demo_token_def split: account_data.splits list.splits)
  have "unat (of_nat (n mod 256) :: u8) = n mod 256" "unat (of_nat (n div 256) :: u8) = n div 256"
    using assms(2) by (simp_all add: unat_of_nat)
  moreover have "unat (of_nat n :: u64) = n" using assms(2) by (simp add: unat_of_nat)
  ultimately show ?thesis
    by (simp add: held_def ledger_env_def demo_env_def demo_unpack_token_def demo_set_amount_def d demo_amount_def)
qed

lemma demo_amount_lt: "is_demo_token d \<Longrightarrow> demo_amount d < 65536"
proof -
  assume "is_demo_token d"
  then obtain m ow lo hi where d: "d = RawData [m, ow, lo, hi]"
    by (auto simp: is_demo_token_def split: account_data.splits list.splits)
  have "unat lo < 256" "unat hi < 256" using unat_lt [of lo] unat_lt [of hi] by simp_all
  then show ?thesis by (simp add: d demo_amount_def)
qed

lemma held_demo: "is_demo_token (acc_data (l k)) \<Longrightarrow> held ledger_env l k = demo_amount (acc_data (l k))"
proof -
  assume t: "is_demo_token (acc_data (l k))"
  then obtain a where "demo_unpack_token (acc_data (l k)) = Some a" "ta_amount a = of_nat (demo_amount (acc_data (l k)))"
    by (auto simp: is_demo_token_def demo_unpack_token_def split: account_data.splits list.splits)
  moreover have "unat (of_nat (demo_amount (acc_data (l k))) :: u64) = demo_amount (acc_data (l k))"
    using demo_amount_lt [OF t] by (simp add: unat_of_nat)
  ultimately show ?thesis by (simp add: held_def ledger_env_def demo_env_def)
qed

lemma ledger_env_transfers: "spl_transfers ledger_env"
proof -
  have "pays ledger_env s d n l l'" if c: "cpi_ix c = SplTransfer tp s d au n" and r: "ledger_invoke c l = Ok l'" for c l l' tp s d au n
  proof -
    let ?s = "demo_amount (acc_data (l s))" and ?d = "demo_amount (acc_data (l d))"
    have g: "s \<noteq> d" "is_demo_token (acc_data (l s))" "is_demo_token (acc_data (l d))" "?d + unat n < 65536" "unat n \<le> ?s"
      and l': "l' = l(s := demo_set_amount (?s - unat n) (l s), d := demo_set_amount (?d + unat n) (l d))"
      using r by (auto simp: ledger_invoke_def c demo_transfer_def Let_def split: if_splits)
    have "?s < 65536" by (rule demo_amount_lt [OF g(2)])
    then have "held ledger_env l' s = ?s - unat n" "held ledger_env l' d = ?d + unat n"
      using held_set_amount [of l s, OF g(2), of "?s - unat n"] held_set_amount [of l d, OF g(3,4)] g(1)
      by (simp_all add: l' held_def)
    then show ?thesis using g held_demo [of l s, OF g(2)] held_demo [of l d, OF g(3)] by (auto simp: pays_def l')
  qed
  then show ?thesis by (simp add: spl_transfers_def ledger_env_def)
qed

lemma ledger_swap_runs:
  "\<exists>w'. process_swap_base_out ledger_env 5 (demo_swap 20 21) \<lparr>max_amount_in = 110, amount_out = 380\<rparr> (fresh (accts demo_world)) = Ok w'"
  by (simp add: ledger_env_def ledger_invoke_def is_demo_token_def fresh_def swap_prepare_eval swap_run_eval)

theorem swaps_keep_product_witness:
  "\<exists>s w l'. process_swap_base_out ledger_env 5 (demo_swap 20 21) s (fresh (accts demo_world)) = Ok w \<and>
     swaps ledger_env 5 10 (accts demo_world) l' \<and> l' = accts w \<and>
     16000000 \<le> total_pc ledger_env l' 10 * total_coin ledger_env l' 10"
proof -
  obtain w' where w: "process_swap_base_out ledger_env 5 (demo_swap 20 21) \<lparr>max_amount_in = 110, amount_out = 380\<rparr>
      (fresh (accts demo_world)) = Ok w'"
    using ledger_swap_runs by blast
  have "ai_key (sa_amm (swap_accounts_of (demo_swap 20 21))) = 10"
    by (simp add: swap_accounts_of_def demo_swap_def SWAP_ACCOUNT_LEN_def rw_def Let_def)
  with w have h: "swaps ledger_env 5 10 (accts demo_world) (accts w')"
    by (intro swaps.base_out [OF swaps.none])
  have pool: "pool_of (accts demo_world) 10 = demo_amm"
    by (simp add: pool_of_def demo_world_def amm_view_def demo_token_def demo_mint_def)
  have e: "env_spl_token ledger_env \<noteq> env_spl_token_2022 ledger_env" "env_spl_token ledger_env \<noteq> 5"
      "status (pool_of (accts demo_world) 10) \<in> {6, 7}"
      "coin_vault (pool_of (accts demo_world) 10) \<noteq> pc_vault (pool_of (accts demo_world) 10)"
    by (simp_all add: ledger_env_def demo_env_def pool demo_amm_def)
  have vaults: "coin_vault demo_amm = 11" "pc_vault demo_amm = 12"
      "accts demo_world 11 = demo_token 30 3 2000" "accts demo_world 12 = demo_token 31 3 8000"
    and booked: "need_take_pnl_pc (amm_state_data demo_amm) = 0" "need_take_pnl_coin (amm_state_data demo_amm) = 0"
    by (simp_all add: demo_amm_def demo_world_def zero_amm_info_def zero_state_data_def)
  have "held ledger_env (accts demo_world) 11 = 2000" "held ledger_env (accts demo_world) 12 = 8000"
    by (simp_all add: held_demo vaults demo_token_def is_demo_token_def demo_amount_def)
  then have "total_pc ledger_env (accts demo_world) 10 = 8000" "total_coin ledger_env (accts demo_world) 10 = 2000"
    by (simp_all add: total_pc_def total_coin_def pool vaults booked)
  with swaps_keep_product [OF h ledger_env_transfers e]
  have "16000000 \<le> total_pc ledger_env (accts w') 10 * total_coin ledger_env (accts w') 10" by simp
  with w h show ?thesis by blast
qed

end
