(* ===== verification/Spec2Isabelle.thy ===== *)
theory Spec2Isabelle
  imports Cli Logs MarketUtils LayoutTests Ledger
begin

text \<open>
  A verification of an automated market maker on Solana (\<^verbatim>\<open>raydium-amm\<close>): the on-chain program
  (\<^verbatim>\<open>program/src\<close>), whose pools swap two tokens along a constant product and whose token transfers may
  call transfer hooks from a whitelist, and its command-line client (\<^verbatim>\<open>cli/src/main.rs\<close>).

  \<^bold>\<open>How the program works.\<close> The runtime calls the entry point (\<^verbatim>\<open>lib.rs\<close>) with the accounts of a transaction
  and the bytes of an instruction. \<^verbatim>\<open>AmmInstruction::unpack\<close> decodes it and a handler of \<^verbatim>\<open>process/\<close> runs: it takes
  its accounts by position, loads the records of the program from their data, compares addresses,
  owners and signatures, computes amounts (\<^verbatim>\<open>math.rs\<close>), calls the token programs and the dex (\<^verbatim>\<open>invokers.rs\<close>)
  and writes the records back. The records are the pool (\<^verbatim>\<open>AmmInfo\<close>), the target orders (\<^verbatim>\<open>TargetOrders\<close>,
  with the profit base), the configuration (\<^verbatim>\<open>AmmConfig\<close>) and the whitelist of hooks. Handlers share
  no other state. An error or a panic undoes the whole transaction.

  \<^bold>\<open>How it is modelled.\<close> A computation has an \<open>outcome\<close>: \<open>Ok\<close>, \<open>Err\<close> (a returned error) or \<open>Panic\<close>
  (\<^verbatim>\<open>unwrap\<close>, an index out of range, an overflow, since the crate has overflow checks, a failed assertion);
  \<open>rbind\<close> is the question mark. Integers are words of their width, an address the 256-bit word of
  its bytes. A handler is a function of the environment, the program's id, the accounts passed,
  the decoded request and the \<open>world\<close>: the accounts of the ledger, the mutable borrows that are alive and the calls
  made to other programs, with their account infos and signer seeds.

  \<^bold>\<open>What comes from outside.\<close> Other programs and crates are parameters, arguments of the definitions that use
  them. \<open>env\<close> (Runtime) is the runtime and the programs that are called: address derivation, the
  unpacking of token accounts and mints, the readers of the dex, the instruction builders and what a
  call does to the ledger. \<open>codec_env\<close> (Instruction) is the size of an \<^verbatim>\<open>ExtraAccountMeta\<close> and UTF-8,
  \<open>log_codec\<close> (Logs) is bincode and base 64, \<open>client\<close> (Cli) and \<open>node\<close> (MarketUtils) are the node, the files and the SDK. What
  theorems rely on has a name: \<open>protects\<close> (a call to another program leaves the accounts of this one alone),
  \<open>creates_accounts\<close> (the system program creates an account only with its signature), \<open>calls_itself\<close> (a call to this
  program runs its entry point), \<open>sdk_signs\<close> and \<open>node_signs\<close> (signing needs exactly the
  required keypairs), \<open>spl_transfers\<close> (a token transfer moves its amount from its source to its destination) and \<open>log_codec_ok\<close>. Each holds for the concrete instances of the examples (theory \<open>Example\<close>
  and the \<open>demo\<close> definitions elsewhere), on which the witnesses evaluate the handlers.

  \<^bold>\<open>The theories\<close>, in the order of their imports:
  \<^item> \<open>Prelude\<close>: outcomes, checked and saturating arithmetic, little-endian bytes, and the collections
    \<open>outcome\<close> (inversion of successful computations), \<open>word_arith\<close> and \<open>codec\<close>.
  \<^item> \<open>Errors\<close> (\<^verbatim>\<open>error.rs\<close>): the error codes, which are injective; \<open>linorder\<close> by code.
  \<^item> \<open>Codec\<close> (the readers of \<^verbatim>\<open>instruction.rs\<close>): the locale \<open>codec\<close> of encoders and prefix decoders, interpreted on the
    four integer widths and on addresses.
  \<^item> \<open>Calculator\<close> (\<^verbatim>\<open>math.rs\<close>): prices, lots, the two swap formulas, LP shares, the ceiling division. The
    locale \<open>trade_curve\<close> proves once, for both formulas, that a trade does not lower the product.
  \<^item> \<open>AmmState\<close>, \<open>Layout\<close>, \<open>LayoutTests\<close> (\<^verbatim>\<open>state.rs\<close>): the enumerations (locale \<open>enum_codec\<close>, five
    interpretations), the records with their operations, and their memory. The locale \<open>layout\<close> says that records and
    memory of their size are in bijection; it is interpreted on the five packed structs. The two
    layout tests are modelled with their own writer and pass for every record.
  \<^item> \<open>PoolMath\<close> (\<^verbatim>\<open>math.rs\<close>, \<^verbatim>\<open>helpers.rs\<close>): balances at the dex, totals without the profit, and the loops that put order
    ids into groups of eight.
  \<^item> \<open>Whitelist\<close> (\<^verbatim>\<open>state.rs\<close>): the array of at most 32 hooks; the locale \<open>bounded_set\<close> is its contract.
  \<^item> \<open>Instruction\<close> (\<^verbatim>\<open>instruction.rs\<close>): requests, \<open>pack\<close> and \<open>unpack\<close>; round trip and the exact inputs that panic.
  \<^item> \<open>Runtime\<close>, \<open>Helpers\<close>, \<open>Invokers\<close> (\<^verbatim>\<open>state.rs\<close>, \<^verbatim>\<open>process/helpers.rs\<close>, \<^verbatim>\<open>process/whitelist.rs\<close>, \<^verbatim>\<open>invokers.rs\<close>): world and environment, checked
    loaders, shared checks, the calls. The locale \<open>logged_step\<close> adds up the calls of the loops that cancel orders,
    each a cancellation at the given market.
  \<^item> \<open>Swap\<close>, \<open>Withdraw\<close>, \<open>Deposit\<close>, \<open>Pnl\<close>, \<open>Params\<close>, \<open>Orders\<close>, \<open>Initialize\<close>, \<open>Simulate\<close>,
    \<open>WhitelistHandlers\<close>, \<open>Token2022\<close> (the files of \<^verbatim>\<open>process/\<close>): the handlers, guard by guard. Each has the lemmas that
    invert its success and the properties of its effect: which calls, what is written, what is required.
  \<^item> \<open>HookGate\<close>: the execution of transfer hooks against the whitelist.
  \<^item> \<open>Entry\<close> (\<^verbatim>\<open>lib.rs\<close>): decoding and dispatch. \<open>Builders\<close> (\<^verbatim>\<open>instruction.rs\<close>): the instructions clients build, composed
    with the decoder and the handlers, with the flags the runtime gives accounts that are listed more than once.
  \<^item> \<open>Custody\<close>, \<open>Governance\<close>: whole transactions and sequences of them. The inductive relation \<open>record_step\<close> is an abstract
    machine that names the signature every change of a record needs; each transaction is a step of it for each
    account of the program, and \<open>history\<close> is any sequence. Invariants of pools and of the whitelist follow by rule induction.
  \<^item> \<open>Ledger\<close>: the balances of the vaults over sequences of swaps, with transfers that move tokens.
  \<^item> \<open>Cli\<close> (\<^verbatim>\<open>cli/src/main.rs\<close>): the commands, composed with the program. \<open>MarketUtils\<close> (\<^verbatim>\<open>market_utils.rs\<close>): the creation of a
    dex market as three transactions. \<open>Logs\<close> (\<^verbatim>\<open>log.rs\<close>, \<^verbatim>\<open>process/args.rs\<close>): the event logs.

  \<^bold>\<open>What is shown.\<close> Custody: no sequence of transactions changes the vaults, mints or market of a pool,
  and the owner changes only by the owner's signature. Swaps charge, pay and count what the formulas say and do not lower the
  product of the totals, on the ledger and however many there are, but for one branch of the base-in swap, which undercharges. Deposits
  mint no more than their share, withdrawals would pay no more than theirs. A hook is called only if the stored whitelist has it,
  and the whitelist changes only by its authority. Decoding inverts encoding; memory and records
  are the same. The theorems also show what does not work: no pool and no list of extra accounts can be created,
  no withdrawal succeeds, the profit is paid to any wallet that signs, a deposit makes the pool the
  profit of the next one, a monitor step settles into whatever accounts are passed as vaults, no instruction the builders of the program
  list accounts for succeeds but one query, and two commands of the client cannot sign their transactions.

  \<^bold>\<open>Loops\<close> are structural recursions over lists or have a measure (the Newton iteration of \<open>Initialize\<close>, the search for the vault signer),
  so every function is total; no fuel is used. Bounds are those of the integer types.

  \<^bold>\<open>Not modelled.\<close> Lamports and rent (the rent sysvar is only consulted), compute budgets, and the checks the
  runtime makes after an instruction (account sizes, who may write): \<open>protects\<close> stands for what follows from them. Shared borrows
  are not counted, only the mutable ones that stay alive. Log messages and the JSON of the simulations; base-58 strings are the addresses they
  print. \<^verbatim>\<open>entrypoint.rs\<close> is not in the module tree and names an error that does not exist. The constants of
  \<^verbatim>\<open>process/constants.rs\<close> other than the seeds are not used by any handler. \<^verbatim>\<open>tests.rs\<close> is a test module; what it expects of the
  execution of hooks without a hook, with too few accounts and with an unlisted hook is lemma \<open>hook_refusals\<close> of \<open>HookGate\<close>.
  \<^verbatim>\<open>cli/examples\<close> uses a client library that is not in the repository.
\<close>

end
